(* ===== verification/PyBase.thy ===== *)
theory PyBase
  imports Main "HOL-Library.Sublist" "HOL-Library.AList"
begin

text \<open>
  The prelude of the development: the fragment of Python the services of CxOneFlow are
  written in.

  \<^item> exceptions as values (\<open>exc\<close>), with the class hierarchy the \<open>except\<close> clauses look at;
  \<^item> JSON documents and Python dictionaries (association lists in insertion order);
  \<^item> the string methods the sources call;
  \<^item> effectful code as a function from the trace of external calls made so far to an
    outcome and the extended trace, with the combinators \<open>ret\<close>, \<open>raise\<close>, \<open>bnd\<close>, \<open>catch\<close>;
  \<^item> a small logic for what such code may do: \<open>emits P m\<close> (every external call of \<open>m\<close>
    satisfies \<open>P\<close>) and \<open>yields Q m\<close> (every value \<open>m\<close> returns satisfies \<open>Q\<close>), with closure
    rules in the collections \<open>emits_rules\<close> and \<open>yields_rules\<close>.
\<close>

named_theorems py_simps "evaluation of Python values: dictionaries, JSON, strings"
named_theorems io_simps "evaluation of effectful code"
named_theorems emits_rules "introduction rules: which external calls code may make"
named_theorems yields_rules "introduction rules: which values code may return"
named_theorems ends_rules "introduction rules: how code ends and what it called by then"


section \<open>Exceptions\<close>

text \<open>
  One constructor per exception class raised or caught by the sources. \<open>LibException\<close> and
  \<open>LibBaseException\<close> stand for the exceptions that come out of libraries: subclasses of
  \<open>Exception\<close> and of \<open>BaseException\<close> only.
\<close>

datatype exc =
    KeyError string
  | IndexError
  | AttributeError string
  | TypeError
  | ValueError
  | NotImplementedError string
  | OrchestrationException
  | WorkflowException
  | CxOneException
  | CxOnePermissionException
  | CloneException
  | CloneAuthException
  | CalledProcessError int string string
  | RouteNotFoundException
  | ConfigurationException string
  | SCMAuthException
  | RetriesExhausted
  | ResponseException
  | AuthFactoryException
  | NotAuthorizedException
  | KickoffScanExistsException
  | TooManyRunningScansException
  | KickoffClientException
  | ResolverAgentException
  | LibException string
  | LibBaseException string
  | Diverges

text \<open>
  \<open>Diverges\<close> is no exception of the program: it is the outcome of a loop whose fuel ran out,
  and no \<open>except\<close> or \<open>finally\<close> clause sees it. Claims that code returns exclude it.

  Which exceptions an \<open>except Exception\<close> clause catches. The classes declared as
  \<open>class X(BaseException)\<close> in the sources are not among them.
\<close>

fun is_Exception :: "exc \<Rightarrow> bool" where
  "is_Exception OrchestrationException = False"
| "is_Exception WorkflowException = False"
| "is_Exception CloneException = False"
| "is_Exception CloneAuthException = False"
| "is_Exception AuthFactoryException = False"
| "is_Exception NotAuthorizedException = False"
| "is_Exception KickoffScanExistsException = False"
| "is_Exception TooManyRunningScansException = False"
| "is_Exception KickoffClientException = False"
| "is_Exception (LibBaseException _) = False"
| "is_Exception Diverges = False"
| "is_Exception _ = True"

text \<open>\<open>CxOnePermissionException\<close> is a subclass of \<open>CxOneException\<close>.\<close>

fun is_CxOneException :: "exc \<Rightarrow> bool" where
  "is_CxOneException CxOneException = True"
| "is_CxOneException CxOnePermissionException = True"
| "is_CxOneException _ = False"


section \<open>Dictionaries and JSON\<close>

text \<open>
  A Python dictionary keeps its insertion order: assigning to a present key replaces the
  value in place, a new key goes to the end. \<open>AList.update\<close> does exactly that.
\<close>

type_synonym 'v dict = "(string \<times> 'v) list"

abbreviation dget :: "'v dict \<Rightarrow> string \<Rightarrow> 'v option" where
  "dget \<equiv> map_of"

abbreviation dkeys :: "'v dict \<Rightarrow> string list" where
  "dkeys d \<equiv> map fst d"

abbreviation dset :: "string \<Rightarrow> 'v \<Rightarrow> 'v dict \<Rightarrow> 'v dict" where
  "dset \<equiv> AList.update"

abbreviation ddel :: "string \<Rightarrow> 'v dict \<Rightarrow> 'v dict" where
  "ddel \<equiv> AList.delete"

text \<open>\<open>d1 | d2\<close> and \<open>d1.update(d2)\<close>: the right operand wins.\<close>

fun dmerge :: "'v dict \<Rightarrow> 'v dict \<Rightarrow> 'v dict" where
  "dmerge d [] = d"
| "dmerge d ((k, v) # r) = dmerge (dset k v d) r"

lemma dget_dset [py_simps, simp]: "dget (dset k v d) j = (if j = k then Some v else dget d j)"
  by (simp add: update_conv')

lemma dget_dmerge_notin: "k \<notin> set (dkeys r) \<Longrightarrow> dget (dmerge d r) k = dget d k"
  by (induction d r rule: dmerge.induct) (auto split: if_splits)

lemma dget_dmerge_in:
  "dget r k = Some v \<Longrightarrow> distinct (dkeys r) \<Longrightarrow> dget (dmerge d r) k = Some v"
proof (induction d r rule: dmerge.induct)
  case (1 d)
  then show ?case by simp
next
  case (2 d k' v' r)
  show ?case
  proof (cases "k = k'")
    case True
    with "2.prems" have "k \<notin> set (dkeys r)" "v = v'" by auto
    then show ?thesis using True by (simp add: dget_dmerge_notin)
  next
    case False
    with "2.prems" show ?thesis using "2.IH" by auto
  qed
qed

lemma dget_dmerge:
  assumes "distinct (dkeys r)"
  shows "dget (dmerge d r) k = (case dget r k of Some v \<Rightarrow> Some v | None \<Rightarrow> dget d k)"
proof (cases "dget r k")
  case None
  then have "k \<notin> set (dkeys r)" by (simp add: map_of_eq_None_iff)
  with None show ?thesis by (simp add: dget_dmerge_notin)
next
  case (Some v)
  with assms show ?thesis by (simp add: dget_dmerge_in)
qed

lemma set_dkeys_dset [simp]: "set (dkeys (dset k v d)) = insert k (set (dkeys d))"
  by (induction d) auto

lemma set_dkeys_dmerge: "set (dkeys (dmerge d r)) = set (dkeys d) \<union> set (dkeys r)"
proof (induction d r rule: dmerge.induct)
  case (1 d)
  then show ?case by simp
next
  case (2 d k v r)
  then show ?case using set_dkeys_dset [of k v d] by auto
qed

lemma distinct_dkeys_dset: "distinct (dkeys d) \<Longrightarrow> distinct (dkeys (dset k v d))"
  by (rule distinct_update)

text \<open>The values \<open>json.loads\<close> and \<open>yaml.safe_load\<close> return (numbers as integers).\<close>

datatype json =
    JNull
  | JBool bool
  | JInt int
  | JStr string
  | JArr "json list"
  | JObj "json dict"

text \<open>Python truth value testing, as in \<open>bool(x)\<close> and \<open>if x\<close>.\<close>

fun truthy :: "json \<Rightarrow> bool" where
  "truthy JNull = False"
| "truthy (JBool b) = b"
| "truthy (JInt i) = (i \<noteq> 0)"
| "truthy (JStr s) = (s \<noteq> [])"
| "truthy (JArr xs) = (xs \<noteq> [])"
| "truthy (JObj d) = (d \<noteq> [])"

text \<open>
  Subscription \<open>x[k]\<close>, membership \<open>k in x.keys()\<close>, \<open>x.get(k)\<close>, \<open>x[0]\<close> and \<open>x.pop()\<close> on the last
  element, and the uses of a value as a string, list or dictionary, with the exceptions Python
  raises on the wrong kind of value.
\<close>

fun jget :: "json \<Rightarrow> string \<Rightarrow> exc + json" where
  "jget (JObj d) k = (case dget d k of Some v \<Rightarrow> Inr v | None \<Rightarrow> Inl (KeyError k))"
| "jget _ k = Inl TypeError"

fun as_dict :: "json \<Rightarrow> exc + json dict" where
  "as_dict (JObj d) = Inr d"
| "as_dict _ = Inl (AttributeError ''keys'')"

fun as_list :: "json \<Rightarrow> exc + json list" where
  "as_list (JArr xs) = Inr xs"
| "as_list _ = Inl TypeError"

fun as_str :: "json \<Rightarrow> exc + string" where
  "as_str (JStr s) = Inr s"
| "as_str _ = Inl (AttributeError ''str'')"

text \<open>\<open>k in x\<close> and \<open>x | y\<close> need a dictionary.\<close>

fun as_mapping :: "json \<Rightarrow> exc + json dict" where
  "as_mapping (JObj d) = Inr d"
| "as_mapping _ = Inl TypeError"

text \<open>What a \<open>for\<close> statement runs over.\<close>

fun py_iter :: "json \<Rightarrow> exc + json list" where
  "py_iter (JArr xs) = Inr xs"
| "py_iter (JObj d) = Inr (map (\<lambda>(k, _). JStr k) d)"
| "py_iter (JStr s) = Inr (map (\<lambda>c. JStr [c]) s)"
| "py_iter _ = Inl TypeError"

text \<open>An argument of a subprocess or a URL must be a string.\<close>

fun as_arg :: "json \<Rightarrow> exc + string" where
  "as_arg (JStr s) = Inr s"
| "as_arg _ = Inl TypeError"

fun as_int :: "json \<Rightarrow> exc + int" where
  "as_int (JInt i) = Inr i"
| "as_int (JBool b) = Inr (if b then 1 else 0)"
| "as_int _ = Inl TypeError"

definition dgetE :: "'v dict \<Rightarrow> string \<Rightarrow> exc + 'v" where
  "dgetE d k = (case dget d k of Some v \<Rightarrow> Inr v | None \<Rightarrow> Inl (KeyError k))"

fun first :: "'a list \<Rightarrow> exc + 'a" where
  "first [] = Inl IndexError"
| "first (x # xs) = Inr x"

definition popE :: "'a list \<Rightarrow> exc + 'a" where
  "popE xs = (if xs = [] then Inl IndexError else Inr (last xs))"

definition jopt :: "string option \<Rightarrow> json" where
  "jopt s = (case s of None \<Rightarrow> JNull | Some x \<Rightarrow> JStr x)"

lemma dgetE_simps [simp, py_simps]:
  "dget d k = Some v \<Longrightarrow> dgetE d k = Inr v"
  "dget d k = None \<Longrightarrow> dgetE d k = Inl (KeyError k)"
  by (simp_all add: dgetE_def)

lemma popE_snoc [simp, py_simps]: "popE (xs @ [x]) = Inr x" "popE [] = Inl IndexError"
  by (simp_all add: popE_def)


section \<open>Strings\<close>

text \<open>Decimal notation, as \<open>str\<close> and f-strings write integers.\<close>

fun dec_nat :: "nat \<Rightarrow> string" where
  "dec_nat n = (if n < 10 then [char_of (48 + n)] else dec_nat (n div 10) @ [char_of (48 + n mod 10)])"

declare dec_nat.simps [simp del]

definition dec :: "int \<Rightarrow> string" where
  "dec i = (if i < 0 then CHR ''-'' # dec_nat (nat (- i)) else dec_nat (nat i))"

text \<open>\<open>int(x)\<close> on a JSON value: a string must be a decimal number.\<close>

fun dec_digits :: "int \<Rightarrow> string \<Rightarrow> int" where
  "dec_digits acc [] = acc"
| "dec_digits acc (c # cs) = dec_digits (10 * acc + int (of_char c) - 48) cs"

definition is_digit :: "char \<Rightarrow> bool" where
  "is_digit c = (48 \<le> (of_char c :: nat) \<and> (of_char c :: nat) \<le> 57)"

fun py_int :: "json \<Rightarrow> exc + int" where
  "py_int (JInt i) = Inr i"
| "py_int (JBool b) = Inr (if b then 1 else 0)"
| "py_int (JStr s) =
     (case s of
        [] \<Rightarrow> Inl ValueError
      | c # cs \<Rightarrow>
          if c = CHR ''-'' \<and> cs \<noteq> [] \<and> list_all is_digit cs then Inr (- dec_digits 0 cs)
          else if list_all is_digit s then Inr (dec_digits 0 s) else Inl ValueError)"
| "py_int _ = Inl TypeError"

text \<open>Reading what \<open>str\<close> writes.\<close>

lemma dec_digits_append: "dec_digits acc (s @ [c]) = 10 * dec_digits acc s + int (of_char c) - 48"
  by (induction s arbitrary: acc) auto

lemma digit_char: "n < 10 \<Longrightarrow> is_digit (char_of (48 + n)) \<and> int (of_char (char_of (48 + n) :: char)) - 48 = int n" for n :: nat
  by (simp add: is_digit_def)

lemma dec_nat_digits: "dec_nat n \<noteq> [] \<and> list_all is_digit (dec_nat n) \<and> dec_digits 0 (dec_nat n) = int n"
proof (induction n rule: dec_nat.induct)
  case (1 n)
  show ?case
  proof (cases "n < 10")
    case True
    then show ?thesis using digit_char [of n] by (subst (1 2 3) dec_nat.simps) simp
  next
    case False
    with 1 digit_char [of "n mod 10"] show ?thesis
      by (subst (1 2 3) dec_nat.simps) (simp add: dec_digits_append zdiv_int zmod_int)
  qed
qed

lemma py_int_dec: "py_int (JStr (dec i)) = Inr i"
proof -
  have digit: "\<not> is_digit CHR ''-''" by (simp add: is_digit_def)
  show ?thesis
    using dec_nat_digits [of "nat i"] dec_nat_digits [of "nat (- i)"] digit
    by (auto simp: dec_def split: list.splits)
qed

text \<open>\<open>str(x)\<close>; the rendering of containers is left to \<open>rep\<close>.\<close>

fun py_str :: "(json \<Rightarrow> string) \<Rightarrow> json \<Rightarrow> string" where
  "py_str rep JNull = ''None''"
| "py_str rep (JBool b) = (if b then ''True'' else ''False'')"
| "py_str rep (JInt i) = dec i"
| "py_str rep (JStr s) = s"
| "py_str rep j = rep j"

definition lstrip :: "char \<Rightarrow> string \<Rightarrow> string" where
  "lstrip c s = dropWhile (\<lambda>x. x = c) s"

definition rstrip :: "char \<Rightarrow> string \<Rightarrow> string" where
  "rstrip c s = rev (lstrip c (rev s))"

abbreviation startswith :: "string \<Rightarrow> string \<Rightarrow> bool" where
  "startswith s p \<equiv> prefix p s"

text \<open>\<open>s.replace(old, new)\<close> for a non-empty \<open>old\<close>: leftmost, non-overlapping occurrences.\<close>

function py_replace :: "string \<Rightarrow> string \<Rightarrow> string \<Rightarrow> string" where
  "py_replace old new [] = []"
| "py_replace old new (c # cs) =
     (if old \<noteq> [] \<and> prefix old (c # cs)
      then new @ py_replace old new (drop (length old) (c # cs))
      else c # py_replace old new cs)"
  by pat_completeness auto
termination
  by (relation "measure (\<lambda>(old, new, s). length s)") (auto simp: neq_Nil_conv)

text \<open>\<open>s.split(sep)\<close> for a one-character separator: always at least one piece.\<close>

fun split_on :: "char \<Rightarrow> string \<Rightarrow> string list" where
  "split_on sep [] = [[]]"
| "split_on sep (c # cs) =
     (if c = sep then [] # split_on sep cs
      else (case split_on sep cs of [] \<Rightarrow> [[c]] | p # ps \<Rightarrow> (c # p) # ps))"

fun join :: "string \<Rightarrow> string list \<Rightarrow> string" where
  "join sep [] = []"
| "join sep [x] = x"
| "join sep (x # y # r) = x @ sep @ join sep (y # r)"

lemma split_on_ne [simp]: "split_on sep s \<noteq> []"
  by (induction s) (auto split: list.splits)

lemma join_Cons_Cons: "ps \<noteq> [] \<Longrightarrow> join sep (x # ps) = x @ sep @ join sep ps"
  by (cases ps) auto

lemma join_Cons_chr: "join sep ((c # p) # ps) = c # join sep (p # ps)"
  by (cases ps) auto

lemma join_split_on: "join [sep] (split_on sep s) = s"
proof (induction s)
  case Nil
  then show ?case by simp
next
  case (Cons c cs)
  then show ?case
    by (cases "split_on sep cs") (auto simp: join_Cons_Cons join_Cons_chr)
qed

lemma split_on_append:
  assumes "sep \<notin> set p"
  shows "split_on sep (p @ sep # s) = p # split_on sep s"
  using assms by (induction p) auto

lemma split_on_single: "sep \<notin> set p \<Longrightarrow> split_on sep p = [p]"
  by (induction p) auto

lemma split_on_no_sep: "p \<in> set (split_on sep s) \<Longrightarrow> sep \<notin> set p"
proof (induction s arbitrary: p)
  case Nil
  then show ?case by simp
next
  case (Cons c cs)
  then show ?case by (cases "split_on sep cs") (auto split: if_splits)
qed

lemma lstrip_idem [simp]: "lstrip c (lstrip c s) = lstrip c s"
  by (simp add: lstrip_def)

lemma rstrip_idem [simp]: "rstrip c (rstrip c s) = rstrip c s"
  by (simp add: rstrip_def)

lemma hd_lstrip: "lstrip c s = x # r \<Longrightarrow> x \<noteq> c"
  by (induction s) (auto simp: lstrip_def split: if_splits)


section \<open>Effectful code\<close>

text \<open>
  A coroutine that talks to the outside world is a function of the list of external calls
  made so far (of some type \<open>'e\<close> of events) and of the mutable state the process keeps
  between calls (of some type \<open>'m\<close>: caches of the service objects). It returns a value or an
  exception, the list extended by its own calls, and the new state. Replies come from
  functions of the environment that may look at the whole list, so any environment (even a
  changing or hostile one) is covered.
\<close>

type_synonym ('e, 'm, 'a) io = "'e list \<times> 'm \<Rightarrow> (exc + 'a) \<times> 'e list \<times> 'm"

definition ret :: "'a \<Rightarrow> ('e, 'm, 'a) io" where
  "ret x = (\<lambda>w. (Inr x, w))"

definition raise :: "exc \<Rightarrow> ('e, 'm, 'a) io" where
  "raise e = (\<lambda>w. (Inl e, w))"

definition bnd :: "('e, 'm, 'a) io \<Rightarrow> ('a \<Rightarrow> ('e, 'm, 'b) io) \<Rightarrow> ('e, 'm, 'b) io" where
  "bnd m k = (\<lambda>w. case m w of (Inl e, w') \<Rightarrow> (Inl e, w') | (Inr x, w') \<Rightarrow> k x w')"

text \<open>
  The outcome of \<open>m\<close> as a value: the basis of \<open>try\<close> statements. A diverging \<open>m\<close> has none.
\<close>

definition attempt :: "('e, 'm, 'a) io \<Rightarrow> ('e, 'm, exc + 'a) io" where
  "attempt m = (\<lambda>w. case m w of (r, w') \<Rightarrow> if r = Inl Diverges then (Inl Diverges, w') else (Inr r, w'))"

text \<open>\<open>try: m  except X: h\<close>: the handler is \<open>None\<close> for the exceptions it does not catch.\<close>

definition catch :: "('e, 'm, 'a) io \<Rightarrow> (exc \<Rightarrow> ('e, 'm, 'a) io option) \<Rightarrow> ('e, 'm, 'a) io" where
  "catch m h = (\<lambda>w. case m w of
      (Inl e, w') \<Rightarrow> (if e = Diverges then (Inl e, w')
                      else case h e of None \<Rightarrow> (Inl e, w') | Some k \<Rightarrow> k w')
    | (Inr x, w') \<Rightarrow> (Inr x, w'))"

text \<open>
  One external call: record it, take the environment's reply. A reply is a value or an
  exception: the model's own \<open>Diverges\<close> counts as some exception of the library.
\<close>

fun reply_of :: "exc + 'a \<Rightarrow> exc + 'a" where
  "reply_of (Inr x) = Inr x"
| "reply_of (Inl e) = Inl (if e = Diverges then LibBaseException [] else e)"

definition call :: "'e \<Rightarrow> ('e list \<Rightarrow> exc + 'a) \<Rightarrow> ('e, 'm, 'a) io" where
  "call e reply = (\<lambda>(tr, m). (reply_of (reply tr), tr @ [e], m))"

lemma reply_of_Inr [simp]: "reply_of r = Inr x \<longleftrightarrow> r = Inr x"
  by (cases r) auto

lemma reply_of_Diverges [simp]: "reply_of r \<noteq> Inl Diverges"
  by (cases r) auto

text \<open>A pure computation that may raise, inside effectful code.\<close>

definition lift :: "exc + 'a \<Rightarrow> ('e, 'm, 'a) io" where
  "lift r = (\<lambda>w. (r, w))"

text \<open>Reading the trace of external calls (the environment's clock is a function of it).\<close>

definition reading :: "('e list \<Rightarrow> 'a) \<Rightarrow> ('e, 'm, 'a) io" where
  "reading f = (\<lambda>(tr, m). (Inr (f tr), tr, m))"

text \<open>Reading and writing the state the process keeps.\<close>

definition gets :: "('m \<Rightarrow> 'a) \<Rightarrow> ('e, 'm, 'a) io" where
  "gets f = (\<lambda>(tr, m). (Inr (f m), tr, m))"

definition modify :: "('m \<Rightarrow> 'm) \<Rightarrow> ('e, 'm, unit) io" where
  "modify f = (\<lambda>(tr, m). (Inr (), tr, f m))"

text \<open>Pure code that may raise: sequencing in the sum type.\<close>

definition ebind :: "exc + 'a \<Rightarrow> ('a \<Rightarrow> exc + 'b) \<Rightarrow> exc + 'b" where
  "ebind m k = (case m of Inl e \<Rightarrow> Inl e | Inr x \<Rightarrow> k x)"

lemma ebind_simps [simp, py_simps]:
  "ebind (Inl e) k = Inl e"
  "ebind (Inr x) k = k x"
  by (simp_all add: ebind_def)

lemma ebind_Inr_iff: "ebind m k = Inr y \<longleftrightarrow> (\<exists>x. m = Inr x \<and> k x = Inr y)"
  by (cases m) auto

lemma ebind_Inl_iff: "ebind m k = Inl e \<longleftrightarrow> m = Inl e \<or> (\<exists>x. m = Inr x \<and> k x = Inl e)"
  by (cases m) auto

fun emapM :: "('a \<Rightarrow> exc + 'b) \<Rightarrow> 'a list \<Rightarrow> exc + 'b list" where
  "emapM f [] = Inr []"
| "emapM f (x # xs) = ebind (f x) (\<lambda>y. ebind (emapM f xs) (\<lambda>ys. Inr (y # ys)))"

fun efoldM :: "('a \<Rightarrow> 's \<Rightarrow> exc + 's) \<Rightarrow> 'a list \<Rightarrow> 's \<Rightarrow> exc + 's" where
  "efoldM f [] s = Inr s"
| "efoldM f (x # xs) s = ebind (f x s) (efoldM f xs)"

lemma efoldM_inv:
  assumes "efoldM f xs s = Inr s'" and "I s" and "\<And>x s s'. x \<in> set xs \<Longrightarrow> I s \<Longrightarrow> f x s = Inr s' \<Longrightarrow> I s'"
  shows "I s'"
  using assms
proof (induction xs arbitrary: s)
  case (Cons x xs)
  then obtain s1 where s1: "f x s = Inr s1" "efoldM f xs s1 = Inr s'" by (auto simp: ebind_Inr_iff)
  with Cons.prems have "I s1" by auto
  with Cons.IH s1(2) Cons.prems(3) show ?case by (meson list.set_intros(2))
qed simp

lemma efoldM_adds:
  assumes "efoldM f xs s = Inr s'" and "x \<in> set xs"
    and mono: "\<And>y s s'. f y s = Inr s' \<Longrightarrow> M s \<subseteq> M s'"
    and adds: "\<And>s s'. f x s = Inr s' \<Longrightarrow> b \<in> M s'"
  shows "b \<in> M s'"
proof -
  have keep: "efoldM f ys s = Inr s' \<Longrightarrow> M s \<subseteq> M s'" for ys s
  proof (induction ys arbitrary: s)
    case (Cons y ys)
    then show ?case by (auto simp: ebind_Inr_iff dest!: mono)
  qed simp
  show ?thesis
    using assms(1,2)
  proof (induction xs arbitrary: s)
    case (Cons y ys)
    then obtain s1 where s1: "f y s = Inr s1" "efoldM f ys s1 = Inr s'" by (auto simp: ebind_Inr_iff)
    show ?case
    proof (cases "x \<in> set ys")
      case True
      then show ?thesis using Cons.IH s1(2) by blast
    next
      case False
      then show ?thesis using Cons.prems(2) adds s1 keep [OF s1(2)] by auto
    qed
  qed simp
qed

lemma efoldM_grows:
  assumes "efoldM f xs s = Inr s'" and "\<And>y s s'. f y s = Inr s' \<Longrightarrow> M s \<subseteq> M s'"
  shows "M s \<subseteq> M s'"
  by (rule efoldM_inv [OF assms(1), where I = "\<lambda>t. M s \<subseteq> M t"]) (use assms(2) in blast)+

lemma emapM_set: "emapM f xs = Inr ys \<Longrightarrow> x \<in> set xs \<Longrightarrow> \<exists>y\<in>set ys. f x = Inr y"
  by (induction xs arbitrary: ys) (auto simp: ebind_Inr_iff)

text \<open>Loops of effectful bodies over a list: collecting results, or threading a value.\<close>

fun mapM :: "('a \<Rightarrow> ('e, 'm, 'b) io) \<Rightarrow> 'a list \<Rightarrow> ('e, 'm, 'b list) io" where
  "mapM f [] = ret []"
| "mapM f (x # xs) = bnd (f x) (\<lambda>y. bnd (mapM f xs) (\<lambda>ys. ret (y # ys)))"

fun foldM :: "('a \<Rightarrow> 's \<Rightarrow> ('e, 'm, 's) io) \<Rightarrow> 'a list \<Rightarrow> 's \<Rightarrow> ('e, 'm, 's) io" where
  "foldM f [] s = ret s"
| "foldM f (x # xs) s = bnd (f x s) (foldM f xs)"

text \<open>
  \<open>asyncio.gather\<close>: all coroutines run (here one after the other); then the first exception, if
  any, is raised.
\<close>

fun first_exc :: "(exc + 'a) list \<Rightarrow> exc + 'a list" where
  "first_exc [] = Inr []"
| "first_exc (Inl e # rs) = Inl e"
| "first_exc (Inr x # rs) = ebind (first_exc rs) (\<lambda>xs. Inr (x # xs))"

definition gather :: "('e, 'm, 'a) io list \<Rightarrow> ('e, 'm, 'a list) io" where
  "gather ms = bnd (mapM attempt ms) (\<lambda>rs. lift (first_exc rs))"

definition whenM :: "bool \<Rightarrow> ('e, 'm, unit) io \<Rightarrow> ('e, 'm, unit) io" where
  "whenM b m = (if b then m else ret ())"

text \<open>Stated at a pair, so that simplification evaluates programs only where they are run.\<close>

lemma ret_app [simp, io_simps]: "ret x (tr, m) = (Inr x, tr, m)"
  by (simp add: ret_def)

lemma raise_app [simp, io_simps]: "raise e (tr, m) = (Inl e, tr, m)"
  by (simp add: raise_def)

lemma lift_app [simp, io_simps]: "lift r (tr, m) = (r, tr, m)"
  by (simp add: lift_def)

lemma outcome_iff [simp]:
  "ret x w = (r, w') \<longleftrightarrow> r = Inr x \<and> w' = w"
  "raise e w = (r', w') \<longleftrightarrow> r' = Inl e \<and> w' = w"
  "lift q w = (q', w') \<longleftrightarrow> q' = q \<and> w' = w"
  by (auto simp: ret_def raise_def lift_def)

lemma lift_simps [simp]: "lift (Inr x) = ret x" "lift (Inl e) = raise e"
  by (simp_all add: lift_def ret_def raise_def)

lemma fst_outcome [simp]:
  "fst (ret x w) = Inr x" "fst (raise e w) = Inl e" "fst (lift r w) = r"
  "snd (ret x w) = w" "snd (raise e' w) = w" "snd (lift r' w) = w"
  by (auto simp: ret_def raise_def lift_def)

lemma call_app [simp, io_simps]: "call e reply (tr, m) = (reply_of (reply tr), tr @ [e], m)"
  by (simp add: call_def)

lemma reading_app [simp, io_simps]: "reading f (tr, m) = (Inr (f tr), tr, m)"
  by (simp add: reading_def)

lemma gets_app [simp, io_simps]: "gets f (tr, m) = (Inr (f m), tr, m)"
  by (simp add: gets_def)

lemma modify_app [simp, io_simps]: "modify f (tr, m) = (Inr (), tr, f m)"
  by (simp add: modify_def)

lemma bnd_app [io_simps]:
  "bnd m k w = (case m w of (Inl e, w') \<Rightarrow> (Inl e, w') | (Inr x, w') \<Rightarrow> k x w')"
  by (simp add: bnd_def)

lemma attempt_app [io_simps]:
  "attempt m w = (case m w of (r, w') \<Rightarrow> if r = Inl Diverges then (Inl Diverges, w') else (Inr r, w'))"
  by (simp add: attempt_def)

lemma catch_app [io_simps]:
  "catch m h w = (case m w of
      (Inl e, w') \<Rightarrow> (if e = Diverges then (Inl e, w')
                      else case h e of None \<Rightarrow> (Inl e, w') | Some k \<Rightarrow> k w')
    | (Inr x, w') \<Rightarrow> (Inr x, w'))"
  by (simp add: catch_def)

lemma bnd_ret [simp, io_simps]: "bnd (ret x) k = k x"
  by (rule ext) (simp add: bnd_def ret_def)

lemma bnd_raise [simp, io_simps]: "bnd (raise e) k = raise e"
  by (rule ext) (simp add: bnd_def raise_def)

lemma bnd_assoc: "bnd (bnd m k) l = bnd m (\<lambda>x. bnd (k x) l)"
  by (rule ext) (auto simp: bnd_def split: prod.splits sum.splits)

lemma bnd_Inr_iff:
  "bnd m k w = (Inr y, w'') \<longleftrightarrow> (\<exists>x w'. m w = (Inr x, w') \<and> k x w' = (Inr y, w''))"
  by (auto simp: bnd_def split: prod.splits sum.splits)

lemma bnd_Inl_iff:
  "bnd m k w = (Inl e, w'') \<longleftrightarrow>
     m w = (Inl e, w'') \<or> (\<exists>x w'. m w = (Inr x, w') \<and> k x w' = (Inl e, w''))"
  by (auto simp: bnd_def split: prod.splits sum.splits)

lemma bnd_step: "m w = (Inr x, w') \<Longrightarrow> bnd m k w = k x w'"
  by (simp add: bnd_def)

lemma bnd_fail: "m w = (Inl e, w') \<Longrightarrow> bnd m k w = (Inl e, w')"
  by (simp add: bnd_def)


subsection \<open>Which external calls code may make\<close>

definition emits :: "('e \<Rightarrow> bool) \<Rightarrow> ('e, 'm, 'a) io \<Rightarrow> bool" where
  "emits P m \<longleftrightarrow> (\<forall>w. \<exists>ev. fst (snd (m w)) = fst w @ ev \<and> list_all P ev)"

lemma emitsI:
  "(\<And>tr s. \<exists>ev. fst (snd (m (tr, s))) = tr @ ev \<and> list_all P ev) \<Longrightarrow> emits P m"
  by (simp add: emits_def)

lemma emitsD:
  "emits P m \<Longrightarrow> m (tr, s) = (r, tr', s') \<Longrightarrow> \<exists>ev. tr' = tr @ ev \<and> list_all P ev"
  unfolding emits_def by (metis fst_conv snd_conv)

lemma emits_mono: "emits P m \<Longrightarrow> (\<And>e. P e \<Longrightarrow> Q e) \<Longrightarrow> emits Q m"
  unfolding emits_def by (meson list.pred_mono_strong)

lemma emits_ret [emits_rules]: "emits P (ret x)"
  by (simp add: emits_def)

lemma emits_raise [emits_rules]: "emits P (raise e)"
  by (simp add: emits_def)

lemma emits_lift [emits_rules]: "emits P (lift r)"
  by (simp add: emits_def)

lemma emits_Pair [emits_rules]: "emits P (Pair r)"
  by (simp add: emits_def)

lemma emits_reading [emits_rules]: "emits P (reading f)"
  by (simp add: emits_def)

lemma emits_gets [emits_rules]: "emits P (gets f)"
  by (simp add: emits_def)

lemma emits_modify [emits_rules]: "emits P (modify f)"
  by (simp add: emits_def)

lemma emits_call [emits_rules]: "P e \<Longrightarrow> emits P (call e reply)"
  by (simp add: emits_def)

lemma emits_bnd [emits_rules]:
  assumes m: "emits P m" and k: "\<And>x. emits P (k x)"
  shows "emits P (bnd m k)"
proof (rule emitsI)
  fix tr s
  obtain r tr' s' where mt: "m (tr, s) = (r, tr', s')" by (cases "m (tr, s)")
  with m obtain ev where ev: "tr' = tr @ ev" "list_all P ev" by (blast dest: emitsD)
  show "\<exists>ev. fst (snd (bnd m k (tr, s))) = tr @ ev \<and> list_all P ev"
  proof (cases r)
    case (Inl e)
    with mt ev show ?thesis by (simp add: bnd_def)
  next
    case (Inr x)
    obtain r2 tr2 s2 where k2: "k x (tr', s') = (r2, tr2, s2)" by (cases "k x (tr', s')")
    with k [of x] obtain ev2 where "tr2 = tr' @ ev2" "list_all P ev2" by (blast dest: emitsD)
    with Inr mt ev k2 show ?thesis by (simp add: bnd_def)
  qed
qed

lemma emits_attempt [emits_rules]: "emits P m \<Longrightarrow> emits P (attempt m)"
  unfolding emits_def attempt_def by (auto split: prod.splits) (metis fst_conv snd_conv)+

lemma catch_attempt:
  "catch m h = bnd (attempt m) (\<lambda>r. case r of
      Inl e \<Rightarrow> (case h e of None \<Rightarrow> raise e | Some k \<Rightarrow> k)
    | Inr x \<Rightarrow> ret x)"
  by (rule ext) (auto simp: catch_def attempt_def bnd_def ret_def raise_def split: prod.splits sum.splits option.splits)

lemma emits_if [emits_rules]: "(b \<Longrightarrow> emits P m) \<Longrightarrow> (\<not> b \<Longrightarrow> emits P n) \<Longrightarrow> emits P (if b then m else n)"
  by simp

lemma emits_when [emits_rules]: "(b \<Longrightarrow> emits P m) \<Longrightarrow> emits P (whenM b m)"
  by (simp add: whenM_def emits_ret)

lemma emits_case_option [emits_rules]:
  "(v = None \<Longrightarrow> emits P m) \<Longrightarrow> (\<And>x. v = Some x \<Longrightarrow> emits P (n x)) \<Longrightarrow>
     emits P (case v of None \<Rightarrow> m | Some x \<Rightarrow> n x)"
  by (cases v) auto

lemma emits_case_sum [emits_rules]:
  "(\<And>x. v = Inl x \<Longrightarrow> emits P (m x)) \<Longrightarrow> (\<And>x. v = Inr x \<Longrightarrow> emits P (n x)) \<Longrightarrow>
     emits P (case v of Inl x \<Rightarrow> m x | Inr x \<Rightarrow> n x)"
  by (cases v) auto

lemma emits_case_prod [emits_rules]:
  "(\<And>x y. v = (x, y) \<Longrightarrow> emits P (m x y)) \<Longrightarrow> emits P (case v of (x, y) \<Rightarrow> m x y)"
  by (cases v) auto

lemma emits_case_list [emits_rules]:
  "(v = [] \<Longrightarrow> emits P m) \<Longrightarrow> (\<And>x y. v = x # y \<Longrightarrow> emits P (n x y)) \<Longrightarrow>
     emits P (case v of [] \<Rightarrow> m | x # y \<Rightarrow> n x y)"
  by (cases v) auto

lemma emits_Let [emits_rules]: "emits P (m v) \<Longrightarrow> emits P (let x = v in m x)"
  by simp

lemma emits_catch [emits_rules]:
  assumes "emits P m" and "\<And>e k. h e = Some k \<Longrightarrow> emits P k"
  shows "emits P (catch m h)"
  unfolding catch_attempt
  by (intro emits_bnd emits_attempt emits_case_sum emits_case_option emits_raise emits_ret assms)

lemma emits_mapM [emits_rules]: "(\<And>x. x \<in> set xs \<Longrightarrow> emits P (f x)) \<Longrightarrow> emits P (mapM f xs)"
  by (induction xs) (auto intro!: emits_rules)

lemma emits_foldM [emits_rules]:
  "(\<And>x s. x \<in> set xs \<Longrightarrow> emits P (f x s)) \<Longrightarrow> emits P (foldM f xs s)"
  by (induction xs arbitrary: s) (auto intro!: emits_rules)


lemma emits_gather [emits_rules]: "(\<And>m. m \<in> set ms \<Longrightarrow> emits P m) \<Longrightarrow> emits P (gather ms)"
  unfolding gather_def by (auto intro!: emits_rules)

lemma attempt_ret [simp]: "attempt (ret x) = ret (Inr x)"
  by (rule ext) (simp add: attempt_def ret_def)

lemma gather_rets: "gather (map (\<lambda>x. ret (f x)) xs) = ret (map f xs)"
proof -
  have m: "mapM attempt (map (\<lambda>x. ret (f x)) xs) = (ret (map (\<lambda>x. Inr (f x)) xs) :: ('a, 'b, _) io)"
    by (induction xs) auto
  have "first_exc (map (\<lambda>x. Inr (f x)) xs) = Inr (map f xs)" by (induction xs) auto
  then show ?thesis unfolding gather_def m by simp
qed


subsection \<open>Which values code may return\<close>

definition yields :: "('a \<Rightarrow> bool) \<Rightarrow> ('e, 'm, 'a) io \<Rightarrow> bool" where
  "yields Q m \<longleftrightarrow> (\<forall>w x w'. m w = (Inr x, w') \<longrightarrow> Q x)"

lemma yieldsD: "yields Q m \<Longrightarrow> m w = (Inr x, w') \<Longrightarrow> Q x"
  unfolding yields_def by blast

lemma yields_ret [yields_rules]: "Q x \<Longrightarrow> yields Q (ret x)"
  by (simp add: yields_def)

lemma yields_raise [yields_rules]: "yields Q (raise e)"
  by (simp add: yields_def)

lemma yields_bnd [yields_rules]: "(\<And>x. yields Q (k x)) \<Longrightarrow> yields Q (bnd m k)"
  by (auto simp: yields_def bnd_def split: prod.splits sum.splits)

lemma yields_if [yields_rules]: "(b \<Longrightarrow> yields Q m) \<Longrightarrow> (\<not> b \<Longrightarrow> yields Q n) \<Longrightarrow> yields Q (if b then m else n)"
  by simp

lemma yields_case_option [yields_rules]:
  "(v = None \<Longrightarrow> yields Q m) \<Longrightarrow> (\<And>x. v = Some x \<Longrightarrow> yields Q (n x)) \<Longrightarrow>
     yields Q (case v of None \<Rightarrow> m | Some x \<Rightarrow> n x)"
  by (cases v) auto

lemma yields_case_prod [yields_rules]:
  "(\<And>x y. v = (x, y) \<Longrightarrow> yields Q (m x y)) \<Longrightarrow> yields Q (case v of (x, y) \<Rightarrow> m x y)"
  by (cases v) auto


subsection \<open>What code has done when it returns\<close>

text \<open>
  \<open>does m Q\<close>: whenever \<open>m\<close> returns \<open>x\<close>, the calls \<open>ev\<close> it made satisfy \<open>Q x ev\<close>.
\<close>

definition does :: "('e, 'm, 'a) io \<Rightarrow> ('a \<Rightarrow> 'e list \<Rightarrow> bool) \<Rightarrow> bool" where
  "does m Q \<longleftrightarrow> (\<forall>tr s x tr' s'. m (tr, s) = (Inr x, tr', s') \<longrightarrow> (\<exists>ev. tr' = tr @ ev \<and> Q x ev))"

lemma doesD: "does m Q \<Longrightarrow> m (tr, s) = (Inr x, tr', s') \<Longrightarrow> \<exists>ev. tr' = tr @ ev \<and> Q x ev"
  unfolding does_def by blast

lemma does_ret: "R x [] \<Longrightarrow> does (ret x) R"
  by (simp add: does_def)

lemma does_raise: "does (raise e) R"
  by (simp add: does_def)

lemma does_lift: "(\<And>x. r = Inr x \<Longrightarrow> R x []) \<Longrightarrow> does (lift r) R"
  by (simp add: does_def)

lemma does_call: "(\<And>x tr. reply tr = Inr x \<Longrightarrow> R x [e]) \<Longrightarrow> does (call e reply) R"
  by (auto simp: does_def)

lemma does_reading: "(\<And>x. R x []) \<Longrightarrow> does (reading f) R"
  by (simp add: does_def)

lemma does_emits: "emits P m \<Longrightarrow> (\<And>x ev. list_all P ev \<Longrightarrow> R x ev) \<Longrightarrow> does m R"
  unfolding does_def by (meson emitsD)

lemma does_bnd:
  assumes "does m Q" and "\<And>x ev. Q x ev \<Longrightarrow> does (k x) (\<lambda>y ev2. R y (ev @ ev2))"
  shows "does (bnd m k) R"
  unfolding does_def
proof (intro allI impI)
  fix tr s y tr' s' assume "bnd m k (tr, s) = (Inr y, tr', s')"
  then obtain x tr1 s1 where m: "m (tr, s) = (Inr x, tr1, s1)" and k: "k x (tr1, s1) = (Inr y, tr', s')"
    by (auto simp: bnd_Inr_iff)
  from doesD [OF assms(1) m] obtain ev where ev: "tr1 = tr @ ev" "Q x ev" by blast
  from doesD [OF assms(2) [OF ev(2)] k] obtain ev2 where "tr' = tr1 @ ev2" "R y (ev @ ev2)" by blast
  with ev show "\<exists>ev. tr' = tr @ ev \<and> R y ev" by auto
qed

lemma does_attempt:
  assumes "emits P m" and "does m Q"
    and "\<And>e ev. list_all P ev \<Longrightarrow> R (Inl e) ev" and "\<And>x ev. list_all P ev \<Longrightarrow> Q x ev \<Longrightarrow> R (Inr x) ev"
  shows "does (attempt m) R"
  unfolding does_def
proof (intro allI impI)
  fix tr s r tr' s' assume "attempt m (tr, s) = (Inr r, tr', s')"
  then have m: "m (tr, s) = (r, tr', s')" by (auto simp: attempt_def split: prod.splits if_splits)
  from emitsD [OF assms(1) m] obtain ev where ev: "tr' = tr @ ev" "list_all P ev" by blast
  show "\<exists>ev. tr' = tr @ ev \<and> R r ev"
  proof (cases r)
    case (Inl e)
    with ev assms(3) show ?thesis by blast
  next
    case (Inr x)
    with m doesD [OF assms(2)] obtain ev2 where "tr' = tr @ ev2" "Q x ev2" by blast
    with ev Inr assms(4) show ?thesis by auto
  qed
qed

lemma does_mono: "does m Q \<Longrightarrow> (\<And>x ev. Q x ev \<Longrightarrow> R x ev) \<Longrightarrow> does m R"
  unfolding does_def by blast

text \<open>
  \<open>ends m R\<close>: the same for every outcome, exceptions included.
\<close>

definition ends :: "('e, 'm, 'a) io \<Rightarrow> (exc + 'a \<Rightarrow> 'e list \<Rightarrow> bool) \<Rightarrow> bool" where
  "ends m R \<longleftrightarrow> (\<forall>tr s r tr' s'. m (tr, s) = (r, tr', s') \<longrightarrow> (\<exists>ev. tr' = tr @ ev \<and> R r ev))"

lemma endsD: "ends m R \<Longrightarrow> m (tr, s) = (r, tr', s') \<Longrightarrow> \<exists>ev. tr' = tr @ ev \<and> R r ev"
  unfolding ends_def by blast

lemma does_ends: "ends m (\<lambda>r ev. \<forall>x. r = Inr x \<longrightarrow> Q x ev) \<Longrightarrow> does m Q"
  unfolding does_def ends_def by blast

lemma ends_ret [ends_rules]: "R (Inr x) [] \<Longrightarrow> ends (ret x) R"
  by (simp add: ends_def)

lemma ends_raise [ends_rules]: "R (Inl e) [] \<Longrightarrow> ends (raise e) R"
  by (simp add: ends_def)

lemma ends_lift: "R r [] \<Longrightarrow> ends (lift r) R"
  by (simp add: ends_def)

lemma ends_call: "(\<And>tr. R (reply_of (reply tr)) [e]) \<Longrightarrow> ends (call e reply) R"
  by (simp add: ends_def)

lemma ends_emits: "emits P m \<Longrightarrow> (\<And>r ev. list_all P ev \<Longrightarrow> R r ev) \<Longrightarrow> ends m R"
  unfolding ends_def by (meson emitsD)

lemma ends_bnd:
  assumes "ends m Q" and "\<And>e ev. Q (Inl e) ev \<Longrightarrow> R (Inl e) ev"
    and "\<And>x ev. Q (Inr x) ev \<Longrightarrow> ends (k x) (\<lambda>r ev2. R r (ev @ ev2))"
  shows "ends (bnd m k) R"
  unfolding ends_def
proof (intro allI impI)
  fix tr s r tr' s' assume run: "bnd m k (tr, s) = (r, tr', s')"
  obtain r1 tr1 s1 where m: "m (tr, s) = (r1, tr1, s1)" by (cases "m (tr, s)") auto
  from endsD [OF assms(1) m] obtain ev where ev: "tr1 = tr @ ev" "Q r1 ev" by blast
  show "\<exists>ev. tr' = tr @ ev \<and> R r ev"
  proof (cases r1)
    case (Inl e)
    then show ?thesis using run m ev assms(2) by (auto simp: bnd_app)
  next
    case (Inr x)
    then have "k x (tr1, s1) = (r, tr', s')" using run m by (simp add: bnd_app)
    from endsD [OF assms(3) this] ev Inr show ?thesis by force
  qed
qed

lemma ends_attempt:
  assumes "ends m (\<lambda>r ev. if r = Inl Diverges then R (Inl Diverges) ev else R (Inr r) ev)"
  shows "ends (attempt m) R"
  using assms unfolding ends_def attempt_def by (fastforce split: prod.splits if_splits)

lemma ends_case_prod [ends_rules]: "(\<And>a b. ends (f a b) R) \<Longrightarrow> ends (case x of (a, b) \<Rightarrow> f a b) R"
  by (cases x) simp

lemma ends_mono: "ends m Q \<Longrightarrow> (\<And>r ev. Q r ev \<Longrightarrow> R r ev) \<Longrightarrow> ends m R"
  unfolding ends_def by blast

lemma does_with_emits: "emits P m \<Longrightarrow> does m Q \<Longrightarrow> does m (\<lambda>x ev. list_all P ev \<and> Q x ev)"
  unfolding does_def by (metis emitsD same_append_eq)

lemma does_catch:
  assumes "ends m Q" and "\<And>x ev. Q (Inr x) ev \<Longrightarrow> R x ev"
    and "\<And>e k ev. Q (Inl e) ev \<Longrightarrow> h e = Some k \<Longrightarrow> does k (\<lambda>x ev2. R x (ev @ ev2))"
  shows "does (catch m h) R"
  unfolding does_def
proof (intro allI impI)
  fix tr s x tr' s' assume run: "catch m h (tr, s) = (Inr x, tr', s')"
  obtain r1 tr1 s1 where m: "m (tr, s) = (r1, tr1, s1)" by (cases "m (tr, s)") auto
  from endsD [OF assms(1) m] obtain ev where ev: "tr1 = tr @ ev" "Q r1 ev" by blast
  show "\<exists>ev. tr' = tr @ ev \<and> R x ev"
  proof (cases r1)
    case (Inl e)
    with run m obtain k where k: "h e = Some k" "k (tr1, s1) = (Inr x, tr', s')"
      by (auto simp: catch_app split: if_splits option.splits)
    have "Q (Inl e) ev" using ev(2) Inl by simp
    from doesD [OF assms(3) [OF this k(1)] k(2)] ev(1) show ?thesis by auto
  next
    case (Inr y)
    then show ?thesis using run m ev assms(2) by (auto simp: catch_app)
  qed
qed

lemma ends_catch:
  assumes "ends m Q" and "\<And>x ev. Q (Inr x) ev \<Longrightarrow> R (Inr x) ev" and "\<And>ev. Q (Inl Diverges) ev \<Longrightarrow> R (Inl Diverges) ev"
    and "\<And>e ev. Q (Inl e) ev \<Longrightarrow> h e = None \<Longrightarrow> R (Inl e) ev"
    and "\<And>e k ev. Q (Inl e) ev \<Longrightarrow> e \<noteq> Diverges \<Longrightarrow> h e = Some k \<Longrightarrow> ends k (\<lambda>r ev2. R r (ev @ ev2))"
  shows "ends (catch m h) R"
  unfolding ends_def
proof (intro allI impI)
  fix tr s r tr' s' assume run: "catch m h (tr, s) = (r, tr', s')"
  obtain r1 tr1 s1 where m: "m (tr, s) = (r1, tr1, s1)" by (cases "m (tr, s)") auto
  from endsD [OF assms(1) m] obtain ev where ev: "tr1 = tr @ ev" "Q r1 ev" by blast
  show "\<exists>ev. tr' = tr @ ev \<and> R r ev"
  proof (cases r1)
    case (Inr x)
    then show ?thesis using run m ev assms(2) by (auto simp: catch_app)
  next
    case (Inl e)
    show ?thesis
    proof (cases "e = Diverges \<or> h e = None")
      case True
      then show ?thesis using run m ev Inl assms(3,4) by (cases "e = Diverges") (auto simp: catch_app)
    next
      case False
      then obtain k where k: "h e = Some k" "e \<noteq> Diverges" by auto
      then have "k (tr1, s1) = (r, tr', s')" using run m Inl by (simp add: catch_app)
      from endsD [OF assms(5) [OF _ k(2,1)] this] ev Inl show ?thesis by auto
    qed
  qed
qed

lemma does_if: "(b \<Longrightarrow> does m R) \<Longrightarrow> (\<not> b \<Longrightarrow> does n R) \<Longrightarrow> does (if b then m else n) R"
  by simp

lemma does_lift_bnd: "(\<And>x. r = Inr x \<Longrightarrow> does (k x) R) \<Longrightarrow> does (bnd (lift r) k) R"
  by (cases r) (auto intro: does_raise)

lemma does_case_prod: "(\<And>a b. x = (a, b) \<Longrightarrow> does (f a b) R) \<Longrightarrow> does (case x of (a, b) \<Rightarrow> f a b) R"
  by (cases x) simp

lemma emits_ends: "ends m R \<Longrightarrow> emits (\<lambda>_. True) m"
  unfolding ends_def emits_def by (auto simp: list_all_iff) (metis fst_conv prod.collapse snd_conv)

lemma does_attempt_ok:
  assumes "emits (\<lambda>_. True) m" and "does m Q"
  shows "does (attempt m) (\<lambda>r ev. \<forall>x. r = Inr x \<longrightarrow> Q x ev)"
  using does_attempt [OF assms, of "\<lambda>r ev. \<forall>x. r = Inr x \<longrightarrow> Q x ev"] by simp

text \<open>For evaluated runs: the outcome and the trace of a run, and that it has called something.\<close>

lemma run_of: "fst x = r \<Longrightarrow> \<exists>tr s. x = (r, tr, s)"
  by (cases x) auto

lemma run_effect: "fst (snd x) \<noteq> tr \<Longrightarrow> \<exists>r tr' s'. x = (r, tr', s') \<and> (tr', s') \<noteq> (tr, s)"
  by (cases x) auto

end
