(* ===== verification/Messages.thy ===== *)
theory Messages
  imports PyBase
begin

text \<open>
  The data the services exchange: the enumerations of \<open>workflows/enums.py\<close>, the event context of a
  webhook (\<open>api_utils/auth_factories.py\<close>) and the message classes of \<open>workflows/messaging/\<close>, each a
  \<open>record\<close> that extends the record of its base class. The lemmas show that a details object
  survives the trip through the \<open>workflow_details\<close> dictionary of a message.
\<close>


section \<open>Enumerations\<close>

datatype ScanWorkflow = PR | PUSH

datatype FeedbackWorkflow = FB_PR | PUSH_GEN

datatype ScanStates = AWAIT | FEEDBACK | ANNOTATE | EXECUTE | DONE | FAILURE | PRESCAN

datatype ExecTypes = RESOLVER

datatype ResolverOps = SCAN | SCAN_COMPLETE

text \<open>\<open>__base_enum.__str__\<close>: the value of the member.\<close>

fun str_ScanWorkflow :: "ScanWorkflow \<Rightarrow> string" where
  "str_ScanWorkflow PR = ''pull-request''"
| "str_ScanWorkflow PUSH = ''push''"

fun str_FeedbackWorkflow :: "FeedbackWorkflow \<Rightarrow> string" where
  "str_FeedbackWorkflow FB_PR = ''pull-request''"
| "str_FeedbackWorkflow PUSH_GEN = ''push-gen-sarif''"

fun str_ScanStates :: "ScanStates \<Rightarrow> string" where
  "str_ScanStates AWAIT = ''await''"
| "str_ScanStates FEEDBACK = ''feedback''"
| "str_ScanStates ANNOTATE = ''annotate''"
| "str_ScanStates EXECUTE = ''exec''"
| "str_ScanStates DONE = ''finished''"
| "str_ScanStates FAILURE = ''failed''"
| "str_ScanStates PRESCAN = ''prescan''"

fun str_ExecTypes :: "ExecTypes \<Rightarrow> string" where
  "str_ExecTypes RESOLVER = ''sca-resolver''"

fun str_ResolverOps :: "ResolverOps \<Rightarrow> string" where
  "str_ResolverOps SCAN = ''run-scan''"
| "str_ResolverOps SCAN_COMPLETE = ''scan-complete''"

text \<open>Distinct members have distinct values, so a routing key determines its member.\<close>

lemma str_ScanStates_inj [simp]: "str_ScanStates s = str_ScanStates t \<longleftrightarrow> s = t"
  by (cases s; cases t) auto

lemma str_ScanStates_no_dot: "CHR ''.'' \<notin> set (str_ScanStates s)"
  by (cases s) auto

lemma str_FeedbackWorkflow_inj [simp]:
  "str_FeedbackWorkflow s = str_FeedbackWorkflow t \<longleftrightarrow> s = t"
  by (cases s; cases t) auto

lemma str_FeedbackWorkflow_no_dot: "CHR ''.'' \<notin> set (str_FeedbackWorkflow s)"
  by (cases s) auto

datatype ResultStates = TO_VERIFY | NOT_EXPLOITABLE | PROP_NOT_EXPLOITABLE | CONFIRMED | URGENT

text \<open>\<open>ResultSeverity\<close>, with its rank (0 is the most severe) as the order of the type.\<close>

datatype ResultSeverity = CRITICAL | HIGH | MEDIUM | LOW | INFO

fun rank :: "ResultSeverity \<Rightarrow> nat" where
  "rank CRITICAL = 0"
| "rank HIGH = 1"
| "rank MEDIUM = 2"
| "rank LOW = 3"
| "rank INFO = 4"

lemma rank_inj: "rank a = rank b \<longleftrightarrow> a = b"
  by (cases a; cases b) auto

instantiation ResultSeverity :: linorder
begin

definition less_eq_ResultSeverity :: "ResultSeverity \<Rightarrow> ResultSeverity \<Rightarrow> bool" where
  "less_eq_ResultSeverity a b = (rank a \<le> rank b)"

definition less_ResultSeverity :: "ResultSeverity \<Rightarrow> ResultSeverity \<Rightarrow> bool" where
  "less_ResultSeverity a b = (rank a < rank b)"

instance
  by standard (auto simp: less_eq_ResultSeverity_def less_ResultSeverity_def rank_inj)

end


section \<open>Event context and details\<close>

record event_context =
  raw_event_payload :: string
  headers :: "string dict"
  message :: json

text \<open>\<open>EventContext.__post_init__\<close>: the message is the parsed payload.\<close>

definition EventContext :: "(string \<Rightarrow> exc + json) \<Rightarrow> string \<Rightarrow> string dict \<Rightarrow> exc + event_context" where
  "EventContext loads payload hdrs =
     ebind (loads payload)
       (\<lambda>m. Inr \<lparr> raw_event_payload = payload, headers = hdrs, message = m \<rparr>)"

text \<open>\<open>HeaderFilteredEventContext.__init__\<close>: only the headers whose key matches are kept.\<close>

definition HeaderFilteredEventContext ::
    "(string \<Rightarrow> exc + json) \<Rightarrow> (string \<Rightarrow> bool) \<Rightarrow> string \<Rightarrow> string dict \<Rightarrow> exc + event_context" where
  "HeaderFilteredEventContext loads key_matches payload hdrs =
     EventContext loads payload (filter (\<lambda>(k, v). key_matches k) hdrs)"

record common_details =
  clone_url :: json
  repo_project :: json
  repo_slug :: json
  organization :: json
  source_branch :: json
  det_event_context :: event_context

record push_details = common_details +
  commit_hash :: json

record pr_details = common_details +
  pr_id :: json
  target_branch :: json
  target_hash :: json
  source_hash :: json

definition ctx_as_dict :: "event_context \<Rightarrow> json" where
  "ctx_as_dict c = JObj
     [(''raw_event_payload'', JStr (raw_event_payload c)),
      (''headers'', JObj (map (\<lambda>(k, v). (k, JStr v)) (headers c))),
      (''message'', message c)]"

fun str_items :: "json dict \<Rightarrow> exc + string dict" where
  "str_items [] = Inr []"
| "str_items ((k, v) # r) = ebind (as_str v) (\<lambda>s. ebind (str_items r) (\<lambda>ss. Inr ((k, s) # ss)))"

text \<open>Decoding rebuilds the object: \<open>message\<close> is not an init field, it is parsed again.\<close>

definition ctx_from_dict :: "(string \<Rightarrow> exc + json) \<Rightarrow> json \<Rightarrow> exc + event_context" where
  "ctx_from_dict loads j =
     ebind (jget j ''raw_event_payload'') (\<lambda>p. ebind (as_str p) (\<lambda>payload.
     ebind (jget j ''headers'') (\<lambda>h. ebind (as_dict h) (\<lambda>hd. ebind (str_items hd) (\<lambda>hdrs.
     EventContext loads payload hdrs)))))"

definition common_items :: "'a common_details_scheme \<Rightarrow> json dict" where
  "common_items d =
     [(''clone_url'', clone_url d), (''repo_project'', repo_project d), (''repo_slug'', repo_slug d),
      (''organization'', organization d), (''source_branch'', source_branch d),
      (''event_context'', ctx_as_dict (det_event_context d))]"

definition PushDetails_as_dict :: "push_details \<Rightarrow> json dict" where
  "PushDetails_as_dict d = common_items d @ [(''commit_hash'', commit_hash d)]"

definition PRDetails_as_dict :: "pr_details \<Rightarrow> json dict" where
  "PRDetails_as_dict d = common_items d @
     [(''pr_id'', pr_id d), (''target_branch'', target_branch d),
      (''target_hash'', target_hash d), (''source_hash'', source_hash d)]"

definition PushDetails_from_dict :: "(string \<Rightarrow> exc + json) \<Rightarrow> json dict \<Rightarrow> exc + push_details" where
  "PushDetails_from_dict loads d =
     ebind (dgetE d ''clone_url'') (\<lambda>cu. ebind (dgetE d ''repo_project'') (\<lambda>rp.
     ebind (dgetE d ''repo_slug'') (\<lambda>rs. ebind (dgetE d ''organization'') (\<lambda>og.
     ebind (dgetE d ''source_branch'') (\<lambda>sb. ebind (dgetE d ''event_context'') (\<lambda>ec.
     ebind (ctx_from_dict loads ec) (\<lambda>ctx. ebind (dgetE d ''commit_hash'') (\<lambda>ch.
     Inr \<lparr> clone_url = cu, repo_project = rp, repo_slug = rs, organization = og,
            source_branch = sb, det_event_context = ctx, commit_hash = ch \<rparr>))))))))"

definition PRDetails_from_dict :: "(string \<Rightarrow> exc + json) \<Rightarrow> json dict \<Rightarrow> exc + pr_details" where
  "PRDetails_from_dict loads d =
     ebind (dgetE d ''clone_url'') (\<lambda>cu. ebind (dgetE d ''repo_project'') (\<lambda>rp.
     ebind (dgetE d ''repo_slug'') (\<lambda>rs. ebind (dgetE d ''organization'') (\<lambda>og.
     ebind (dgetE d ''source_branch'') (\<lambda>sb. ebind (dgetE d ''event_context'') (\<lambda>ec.
     ebind (ctx_from_dict loads ec) (\<lambda>ctx. ebind (dgetE d ''pr_id'') (\<lambda>pid.
     ebind (dgetE d ''target_branch'') (\<lambda>tb. ebind (dgetE d ''target_hash'') (\<lambda>th.
     ebind (dgetE d ''source_hash'') (\<lambda>sh.
     Inr \<lparr> clone_url = cu, repo_project = rp, repo_slug = rs, organization = og,
            source_branch = sb, det_event_context = ctx, pr_id = pid, target_branch = tb,
            target_hash = th, source_hash = sh \<rparr>)))))))))))"


section \<open>Messages\<close>

record stamped_message =
  timestamp :: string
  correlation_id :: string

record scan_header = stamped_message +
  moniker :: string
  state :: ScanStates
  workflow :: ScanWorkflow

record scan_workflow_header = scan_header +
  workflow_details :: "json dict"

record scan_message = scan_workflow_header +
  scanid :: string
  projectid :: string

record scan_await_message = scan_message +
  drop_by :: string

record scan_feedback_message = scan_message +
  is_error :: bool
  error_msg :: "string option"

record scan_annotation_message = scan_message +
  annotation :: string

record prescan_annotation_message = scan_workflow_header +
  pre_annotation :: string

record delegated_scan_details =
  ds_clone_url :: json
  ds_commit_hash :: json
  scan_branch :: json
  scan_tags :: "json dict"
  file_filters :: json
  project_id :: json
  pickled_scm_service :: string
  pickled_cxone_service :: string
  ds_event_context :: event_context
  orchestrator :: string
  cxoneflow_version :: string

record delegated_scan_base = scan_header +
  details :: delegated_scan_details
  details_signature :: string

record delegated_scan_message = delegated_scan_base +
  capture_logs :: bool

record delegated_scan_result_message = delegated_scan_base +
  resolver_exit_code :: "int option"
  scan_id :: "string option"
  logs :: "string option"

text \<open>A message body on a queue.\<close>

datatype msg =
    AwaitMsg scan_await_message
  | FeedbackMsg scan_feedback_message
  | AnnotationMsg scan_annotation_message
  | PreScanMsg prescan_annotation_message
  | DelegatedMsg delegated_scan_message
  | DelegatedResultMsg delegated_scan_result_message


section \<open>Details survive the dictionary\<close>

lemma str_items_JStr [simp]: "str_items (map (\<lambda>(k, v). (k, JStr v)) h) = Inr h"
  by (induction h) auto

lemma ctx_from_as_dict:
  assumes "loads (raw_event_payload c) = Inr (message c)"
  shows "ctx_from_dict loads (ctx_as_dict c) = Inr c"
  using assms by (simp add: ctx_from_dict_def ctx_as_dict_def EventContext_def)

lemmas details_simps =
  common_items_def PushDetails_as_dict_def PRDetails_as_dict_def
  PushDetails_from_dict_def PRDetails_from_dict_def ctx_from_as_dict

lemma PushDetails_from_as_dict:
  assumes "loads (raw_event_payload (det_event_context d)) = Inr (message (det_event_context d))"
  shows "PushDetails_from_dict loads (PushDetails_as_dict d) = Inr d"
  using assms by (simp add: details_simps)

lemma PRDetails_from_as_dict:
  assumes "loads (raw_event_payload (det_event_context d)) = Inr (message (det_event_context d))"
  shows "PRDetails_from_dict loads (PRDetails_as_dict d) = Inr d"
  using assms by (simp add: details_simps)

end
