(* ===== verification/World.thy ===== *)
theory World
  imports Messages
begin

text \<open>
  The boundary of the program. Everything the sources call but do not define is here: the
  external calls (\<open>event\<close>), and the environment that answers them (\<open>env\<close>), a parameter of every
  definition that uses it. A reply may depend on all calls made before, so nothing is assumed
  about the outside; what a theorem needs of it is a hypothesis of that theorem.

  \<^item> \<open>CxApi\<close> is a call of a coroutine of the \<open>cxone_api\<close> and \<open>cxone_sarif\<close> packages, by name with its
    arguments; \<open>CxPages\<close> an iteration of its \<open>page_generator\<close>.
  \<^item> \<open>Http\<close> is a request sent with \<open>requests\<close>; \<open>RunProc\<close> a subprocess; \<open>Mkdir\<close>, \<open>Chmod\<close>, \<open>CopyFile\<close>,
    \<open>MkTemp\<close>, \<open>RmTemp\<close>, \<open>WriteZip\<close> change the file system.
  \<^item> \<open>MqClient\<close>, \<open>MqChannel\<close>, \<open>MqExchange\<close>, \<open>MqPublish\<close>, \<open>MqClose\<close>, \<open>Ack\<close>, \<open>Nack\<close> are the calls of
    \<open>aio_pika\<close>, \<open>MqDeclare\<close> a declaration and \<open>MqConsume\<close> a subscription at the broker.

  The state \<open>mem\<close> the process keeps between calls: the group caches of the \<open>GroupingService\<close>
  objects and the token caches of the two token factories. Logging is left out: it has no effect
  the services see.
\<close>


section \<open>External calls\<close>

record response =
  status_code :: int
  body :: json
  resp_headers :: "string dict"
    \<comment> \<open>by name in lower case: the lookup does not depend on the case\<close>

text \<open>\<open>requests.Response.ok\<close>.\<close>

definition ok :: "response \<Rightarrow> bool" where
  "ok r = (status_code r < 400)"

text \<open>What \<open>ScanInspector\<close> of the SDK tells about a scan.\<close>

record inspector =
  ins_project_id :: string
  ins_scan_id :: string
  executing :: bool
  failed :: bool
  successful :: bool
  state_msg :: string

text \<open>\<open>PolicyViolationDescriptor\<close> of the SDK.\<close>

record policy_violation =
  PolicyName :: string
  BreakBuild :: bool
  ViolatedRules :: "string list"

text \<open>\<open>ProjectRepoConfig\<close> of the SDK, made from the JSON of a project.\<close>

record repo_config =
  prc_id :: json
  prc_name :: json
  prc_tags :: "json dict"
  prc_json :: json

text \<open>What is declared at the broker: exchanges, queues with their dead letter exchange, bindings.\<close>

datatype exchange_type = FANOUT | TOPIC

datatype mq_decl =
    DeclareExchange string exchange_type bool
  | DeclareQueue string "string option"
  | BindExchange string string
  | BindQueue string string string

datatype event =
    CxApi string json
  | CxPages string json
  | Http string string json
  | RunProc "string list" "string option" "string dict"
  | MkTemp string
  | RmTemp string
  | WriteZip "(string \<times> string) list"
  | Mkdir string
  | Chmod string
  | CopyFile string string
  | MqClient
  | MqChannel
  | MqExchange string
  | MqPublish string string msg "int option" "int dict"
  | MqPublishRaw string string string "string dict"
  | MqClose
  | MqDeclare mq_decl
  | MqConsume string nat
  | Ack
  | Nack bool
  | Sleep int
  | NamingScript event_context
  | Decorate string json

type_synonym trace = "event list"


section \<open>Process state\<close>

record grp_state =
  groupid_index :: "json dict"
  path_res_errors :: "nat dict"

record mem =
  m_groups :: "string \<Rightarrow> grp_state"
  m_ghtokens :: "(json \<times> (json \<times> int)) list"
  m_adotokens :: "string \<Rightarrow> (json \<times> int option) option"

definition mem0 :: mem where
  "mem0 = \<lparr> m_groups = (\<lambda>_. \<lparr> groupid_index = [], path_res_errors = [] \<rparr>),
            m_ghtokens = [], m_adotokens = (\<lambda>_. None) \<rparr>"

type_synonym 'a cio = "(event, mem, 'a) io"


section \<open>Environment\<close>

text \<open>How a subprocess ends: \<open>subprocess.run(check=True)\<close> raises on a non-zero exit code.\<close>

record proc_result =
  returncode :: int
  stderr :: string
  stdout :: string

text \<open>A directory tree, as \<open>Path.iterdir\<close> shows it: neither file nor directory is \<open>Other\<close>.\<close>

datatype fs_tree = File string | Dir string "fs_tree list" | Other string

text \<open>The classes of SSH keys \<open>cryptography\<close> distinguishes, and the parts of a \<open>urllib3\<close> URL.\<close>

datatype key_class = EllipticCurveKey | RSAKey | Ed25519Key | OtherKey

record url3 =
  u_scheme :: "string option"
  u_auth :: "string option"
  u_host :: "string option"
  u_port :: "int option"
  u_path :: "string option"
  u_query :: "string option"
  u_fragment :: "string option"

record env =
  \<comment> \<open>pure library functions\<close>
  jp_find :: "string \<Rightarrow> json \<Rightarrow> json list"
  json_loads :: "string \<Rightarrow> exc + json"
  re_match :: "string \<Rightarrow> string \<Rightarrow> bool"
  re_search :: "string \<Rightarrow> string \<Rightarrow> bool"
  fnmatch :: "string \<Rightarrow> string \<Rightarrow> bool"
  hmac_hex :: "string \<Rightarrow> string \<Rightarrow> string \<Rightarrow> string"
  url_split :: "string \<Rightarrow> string \<times> string \<times> string \<times> string \<times> string"
  url_unsplit :: "string \<times> string \<times> string \<times> string \<times> string \<Rightarrow> string"
  url_parse :: "string \<Rightarrow> string \<times> string \<times> string \<times> string \<times> string \<times> string"
  url_unparse :: "string \<times> string \<times> string \<times> string \<times> string \<times> string \<Rightarrow> string"
  url_quote_plus :: "string \<Rightarrow> string"
  url_quote :: "string \<Rightarrow> string"
  url_quote_all :: "string \<Rightarrow> string"
  shlex_quote :: "string \<Rightarrow> string"
  b64encode :: "string \<Rightarrow> string"
  b64decode_utf8 :: "string \<Rightarrow> exc + string"
  utf8_decode :: "string \<Rightarrow> exc + string"
  clone_url_org :: "string \<Rightarrow> string \<Rightarrow> exc + json"
    \<comment> \<open>\<open>CloneUrlParser(scm, url).org\<close> of the SDK\<close>
  list_set :: "string list \<Rightarrow> string list"
    \<comment> \<open>\<open>list(set(xs))\<close>, whose order differs from process to process\<close>
  jwt_encode :: "json \<Rightarrow> string \<Rightarrow> string"
  jwt_encode_alg :: "json \<Rightarrow> string \<Rightarrow> string \<Rightarrow> string"
  jwt_decode :: "string \<Rightarrow> string \<Rightarrow> string \<Rightarrow> exc + json"
  key_class_of :: "string \<Rightarrow> key_class"
  url3_parse :: "string \<Rightarrow> exc + url3"
  url3_str :: "url3 \<Rightarrow> string"
  sign :: "string \<Rightarrow> delegated_scan_details \<Rightarrow> string"
  verify :: "string \<Rightarrow> string \<Rightarrow> delegated_scan_details \<Rightarrow> exc + unit"
  repr :: "json \<Rightarrow> string"
  isoformat :: "int \<Rightarrow> string"
  fromisoformat :: "string \<Rightarrow> exc + int"
  filters_with_defaults :: "json \<Rightarrow> json \<Rightarrow> exc + json"
  compute_filters :: "json \<Rightarrow> string \<Rightarrow> exc + json"
  exc_str :: "exc \<Rightarrow> string"
  pickle :: "json \<Rightarrow> string"
  version :: string
  agent_name :: string
  process_uuid :: string
  uid_gid :: string
    \<comment> \<open>\<open>os.getuid():os.getgid()\<close>\<close>
  fuel :: nat
  \<comment> \<open>replies\<close>
  now :: "trace \<Rightarrow> int"
  cx_api :: "trace \<Rightarrow> string \<Rightarrow> json \<Rightarrow> exc + response"
  cx_obj :: "trace \<Rightarrow> string \<Rightarrow> json \<Rightarrow> exc + json"
  cx_inspector :: "trace \<Rightarrow> string \<Rightarrow> exc + inspector"
  cx_repo_config :: "trace \<Rightarrow> json \<Rightarrow> exc + repo_config"
  cx_break_build :: "trace \<Rightarrow> string \<Rightarrow> string \<Rightarrow> exc + bool"
  cx_policy_violations :: "trace \<Rightarrow> string \<Rightarrow> string \<Rightarrow> exc + policy_violation list option"
  gzip :: "string \<Rightarrow> string"
  json_dumps :: "json \<Rightarrow> string"
  hash_algorithms :: "string list"
  cx_pages :: "trace \<Rightarrow> string \<Rightarrow> json \<Rightarrow> (exc + json) list"
  scan_inspector_of :: "json \<Rightarrow> exc + inspector"
  http :: "trace \<Rightarrow> string \<Rightarrow> string \<Rightarrow> json \<Rightarrow> exc + response"
  run_proc :: "trace \<Rightarrow> string list \<Rightarrow> string option \<Rightarrow> exc + proc_result"
  path_isfile :: "trace \<Rightarrow> string \<Rightarrow> bool"
  path_exists :: "trace \<Rightarrow> string \<Rightarrow> bool"
  fs_reply :: "trace \<Rightarrow> event \<Rightarrow> bool"
    \<comment> \<open>whether the call succeeds; it raises \<open>OSError\<close> otherwise\<close>
  mkdtemp :: "trace \<Rightarrow> string \<Rightarrow> string"
  dir_tree :: "trace \<Rightarrow> string \<Rightarrow> fs_tree list"
  zip_write :: "trace \<Rightarrow> (string \<times> string) list \<Rightarrow> exc + unit"
  os_environ :: "string dict"
  mq_reply :: "trace \<Rightarrow> event \<Rightarrow> exc + bool"

definition url_scheme :: "env \<Rightarrow> string \<Rightarrow> string" where
  "url_scheme E u = fst (url_split E u)"

definition url_netloc :: "env \<Rightarrow> string \<Rightarrow> string" where
  "url_netloc E u = fst (snd (url_split E u))"

text \<open>Python's \<open>str\<close>.\<close>

definition pstr :: "env \<Rightarrow> json \<Rightarrow> string" where
  "pstr E = py_str (repr E)"

text \<open>One call of each kind.\<close>

definition cxapi :: "env \<Rightarrow> string \<Rightarrow> json \<Rightarrow> response cio" where
  "cxapi E f a = call (CxApi f a) (\<lambda>tr. cx_api E tr f a)"

definition cxobj :: "env \<Rightarrow> string \<Rightarrow> json \<Rightarrow> json cio" where
  "cxobj E f a = call (CxApi f a) (\<lambda>tr. cx_obj E tr f a)"

definition cxpages :: "env \<Rightarrow> string \<Rightarrow> json \<Rightarrow> (exc + json) list cio" where
  "cxpages E f a = call (CxPages f a) (\<lambda>tr. Inr (cx_pages E tr f a))"

definition http_req :: "env \<Rightarrow> string \<Rightarrow> string \<Rightarrow> json \<Rightarrow> response cio" where
  "http_req E meth url a = call (Http meth url a) (\<lambda>tr. http E tr meth url a)"

definition mq :: "env \<Rightarrow> event \<Rightarrow> bool cio" where
  "mq E e = call e (\<lambda>tr. mq_reply E tr e)"

definition fs :: "env \<Rightarrow> event \<Rightarrow> unit cio" where
  "fs E e = call e (\<lambda>tr. if fs_reply E tr e then Inr () else Inl (LibException ''OSError''))"

definition clock :: "env \<Rightarrow> int cio" where
  "clock E = reading (now E)"

text \<open>\<open>cxone_api.util.json_on_ok\<close> raises \<open>ResponseException\<close> unless the response is ok.\<close>

definition json_on_ok :: "response \<Rightarrow> exc + json" where
  "json_on_ok r = (if ok r then Inr (body r) else Inl ResponseException)"

text \<open>Temporary directories can be removed.\<close>

definition cleans :: "env \<Rightarrow> bool" where
  "cleans E \<longleftrightarrow> (\<forall>tr d. fs_reply E tr (RmTemp d))"

text \<open>
  Classes of calls the properties talk about: the calls that create, change or cancel something
  at Checkmarx One, and the calls that only read.
\<close>

definition cx_reads :: "string list" where
  "cx_reads = [''retrieve_list_of_projects'', ''retrieve_groups'', ''get_default_engine_configuration'',
     ''ScanFilterConfig.from_repo_config'',
     ''ProjectRepoConfig.from_project_json'', ''ProjectRepoConfig.from_project_id'', ''ScanLoader.load'',
     ''PolicyViolationInspector.break_build'', ''PolicyViolationInspector.policy_violations'']"

definition starts_scan :: "event \<Rightarrow> bool" where
  "starts_scan e = (case e of CxApi f a \<Rightarrow> f = ''ScanInvoker.scan_get_response'' | _ \<Rightarrow> False)"

definition publishes :: "event \<Rightarrow> bool" where
  "publishes e = (case e of MqPublish _ _ _ _ _ \<Rightarrow> True | _ \<Rightarrow> False)"

definition mq_call :: "event \<Rightarrow> bool" where
  "mq_call e = (case e of MqClient \<Rightarrow> True | MqChannel \<Rightarrow> True | MqExchange _ \<Rightarrow> True
     | MqPublish _ _ _ _ _ \<Rightarrow> True | MqClose \<Rightarrow> True | _ \<Rightarrow> False)"

lemmas world_defs = fs_def cxapi_def cxobj_def cxpages_def http_req_def mq_def clock_def

lemma emits_cxapi [emits_rules]: "P (CxApi f a) \<Longrightarrow> emits P (cxapi E f a)"
  by (simp add: cxapi_def emits_call)

lemma emits_cxobj [emits_rules]: "P (CxApi f a) \<Longrightarrow> emits P (cxobj E f a)"
  by (simp add: cxobj_def emits_call)

lemma emits_cxpages [emits_rules]: "P (CxPages f a) \<Longrightarrow> emits P (cxpages E f a)"
  by (simp add: cxpages_def emits_call)

lemma emits_http_req [emits_rules]: "P (Http meth url a) \<Longrightarrow> emits P (http_req E meth url a)"
  by (simp add: http_req_def emits_call)

lemma emits_mq [emits_rules]: "P e \<Longrightarrow> emits P (mq E e)"
  by (simp add: mq_def emits_call)

lemma emits_fs [emits_rules]: "P e \<Longrightarrow> emits P (fs E e)"
  by (simp add: fs_def emits_call)

lemma emits_clock [emits_rules]: "emits P (clock E)"
  by (simp add: clock_def emits_reading)

end
