(* ===== verification/ApiUtils.thy ===== *)
theory ApiUtils
  imports World
begin

text \<open>
  The package \<open>api_utils\<close>: URL forming, payload signatures, the authentication factories with their
  token caches, the retrying \<open>APISession\<close> and the page generator.

  Two interfaces are stated as locales. \<open>token_cache\<close> is what a caller of \<open>get_token\<close> relies on
  (a live cached token is returned without a request, a returned token is cached); it is
  interpreted for the GitHub App factory and for the Azure DevOps service principal factory.
  \<open>page_source\<close> is what the page generator relies on (a finite sequence of pages, the last one
  flagged); \<open>GhOrch\<close> interprets it with the branch pages of the GitHub orchestrator.
\<close>


section \<open>URLs and payload signatures\<close>

definition form_url :: "env \<Rightarrow> string \<Rightarrow> string \<Rightarrow> string option \<Rightarrow> json dict \<Rightarrow> string" where
  "form_url E endpoint path anchor kwargs =
     (let args = map (\<lambda>(k, v). k @ ''='' @ url_quote E (pstr E v)) kwargs in
      rstrip CHR ''/'' endpoint @ ''/'' @ url_quote E (lstrip CHR ''/'' path)
      @ (if args \<noteq> [] then ''?'' else [])
      @ join ''&'' args
      @ (case anchor of None \<Rightarrow> [] | Some a \<Rightarrow> ''#'' @ a))"

text \<open>Only the digests of \<open>hashlib.algorithms_available\<close> are accepted (the list of the build).\<close>

definition gen_signature_hash :: "env \<Rightarrow> string list \<Rightarrow> string \<Rightarrow> string \<Rightarrow> string \<Rightarrow> exc + string" where
  "gen_signature_hash E available alg secret payload =
     (if alg \<notin> set available then Inl (NotImplementedError alg) else Inr (hmac_hex E alg secret payload))"

definition gen_signature_header :: "env \<Rightarrow> string list \<Rightarrow> string \<Rightarrow> string \<Rightarrow> exc + string \<times> string" where
  "gen_signature_header E available secret payload =
     ebind (gen_signature_hash E available ''sha256'' secret payload) (\<lambda>h. Inr (''sha256'', h))"

text \<open>\<open>algorithm, hash = header.split('=')\<close> raises unless there are exactly two pieces.\<close>

definition split_pair :: "char \<Rightarrow> string \<Rightarrow> exc + string \<times> string" where
  "split_pair c s = (case split_on c s of [a, b] \<Rightarrow> Inr (a, b) | _ \<Rightarrow> Inl ValueError)"

definition verify_signature :: "env \<Rightarrow> string list \<Rightarrow> string \<Rightarrow> string \<Rightarrow> string \<Rightarrow> exc + bool" where
  "verify_signature E available header secret payload =
     ebind (split_pair CHR ''='' header) (\<lambda>(alg, h).
     ebind (gen_signature_hash E available alg secret payload) (\<lambda>g. Inr (g = h)))"

lemma split_pair_join:
  "c \<notin> set a \<Longrightarrow> c \<notin> set b \<Longrightarrow> split_pair c (a @ c # b) = Inr (a, b)"
  by (simp add: split_pair_def split_on_append split_on_single)

lemma verify_gen_signature:
  assumes "gen_signature_header E av secret p = Inr (a, h)" "CHR ''='' \<notin> set h"
  shows "verify_signature E av (a @ ''='' @ h) secret p = Inr True"
proof -
  from assms(1) have a: "a = ''sha256''" and g: "gen_signature_hash E av ''sha256'' secret p = Inr h"
    by (auto simp: gen_signature_header_def ebind_Inr_iff)
  have "split_pair CHR ''='' (a @ ''='' @ h) = Inr (a, h)"
    using split_pair_join [of "CHR ''=''" a h] a assms(2) by simp
  then show ?thesis using a g by (simp add: verify_signature_def)
qed


section \<open>Authentication factories\<close>

datatype auth =
    BasicAuth string string
  | BearerAuth json

datatype auth_factory =
    StaticAuthFactory auth
  | GithubAppAuthFactory string string
  | ADOSPClientSecretAuthFactory string string string
  | NoAuthFactory
    \<comment> \<open>\<open>None\<close> in place of a factory: the configuration has no API credentials\<close>

fun auth_json :: "auth \<Rightarrow> json" where
  "auth_json (BasicAuth u p) = JArr [JStr u, JStr p]"
| "auth_json (BearerAuth t) = JObj [(''Authorization'', t)]"

subsection \<open>GitHub App tokens\<close>

definition encoded_jwt_factory :: "env \<Rightarrow> string \<Rightarrow> json \<Rightarrow> string cio" where
  "encoded_jwt_factory E pkey install_id =
     bnd (clock E) (\<lambda>t. ret (jwt_encode E (JObj
       [(''iat'', JInt t), (''exp'', JInt (t + 600)), (''iss'', JStr (pstr E install_id)),
        (''alg'', JStr ''RS256'')]) pkey))"

definition find_install_id :: "env \<Rightarrow> event_context \<Rightarrow> exc + json" where
  "find_install_id E ctx =
     (case jp_find E ''$.installation.id'' (message ctx) of
        [] \<Rightarrow> (case jp_find E ''$.install_id'' (message ctx) of
                 [] \<Rightarrow> Inl AuthFactoryException
               | v # _ \<Rightarrow> Inr v)
      | v # _ \<Rightarrow> Inr v)"

definition app_id_header :: string where
  "app_id_header = ''X-Github-Hook-Installation-Target-Id''"

definition find_app_id :: "env \<Rightarrow> event_context \<Rightarrow> exc + json" where
  "find_app_id E ctx =
     (case dget (headers ctx) app_id_header of
        Some v \<Rightarrow> Inr (JStr v)
      | None \<Rightarrow> (case jp_find E ''$.app_id'' (message ctx) of
                   [] \<Rightarrow> Inl AuthFactoryException
                 | v # _ \<Rightarrow> Inr v))"

definition gh_ids :: "env \<Rightarrow> event_context \<Rightarrow> exc + json \<times> json" where
  "gh_ids E ctx =
     ebind (find_install_id E ctx) (\<lambda>i. ebind (find_app_id E ctx) (\<lambda>a.
     if i = JNull \<or> a = JNull then Inl AuthFactoryException else Inr (i, a)))"

text \<open>The cache entry of an installation, unless it has expired.\<close>

definition gh_live :: "env \<Rightarrow> json \<Rightarrow> (json \<times> int) option cio" where
  "gh_live E i =
     bnd (gets m_ghtokens) (\<lambda>cache. bnd (clock E) (\<lambda>t.
     ret (case map_of cache i of
            None \<Rightarrow> None
          | Some (tok, expires) \<Rightarrow> if t \<ge> expires then None else Some (tok, expires))))"

definition gh_request_token :: "env \<Rightarrow> string \<Rightarrow> string \<Rightarrow> json \<Rightarrow> json \<Rightarrow> (json \<times> int) cio" where
  "gh_request_token E pkey api_url i a =
     bnd (encoded_jwt_factory E pkey a) (\<lambda>jwt.
     bnd (http_req E ''POST''
            (rstrip CHR ''/'' api_url @ ''/app/installations/'' @ pstr E i @ ''/access_tokens'')
            (JObj [(''headers'', JObj [(''User-Agent'', JStr (agent_name E))]),
                   (''auth'', auth_json (BearerAuth (JStr jwt)))])) (\<lambda>r.
     bnd (lift (json_on_ok r)) (\<lambda>j.
     bnd (lift (jget j ''token'')) (\<lambda>tok.
     bnd (lift (ebind (jget j ''expires_at'') (\<lambda>x. ebind (as_str x) (fromisoformat E)))) (\<lambda>expires.
     bnd (modify (\<lambda>m. m\<lparr> m_ghtokens := AList.update i (tok, expires) (m_ghtokens m) \<rparr>)) (\<lambda>_.
     ret (tok, expires)))))))"

definition gh_get_token_tuple :: "env \<Rightarrow> string \<Rightarrow> string \<Rightarrow> event_context \<Rightarrow> bool \<Rightarrow> (json \<times> int) cio" where
  "gh_get_token_tuple E pkey api_url ctx force_reauth =
     bnd (lift (gh_ids E ctx)) (\<lambda>(i, a).
     bnd (gh_live E i) (\<lambda>live.
     case live of
       Some t \<Rightarrow> if force_reauth then gh_request_token E pkey api_url i a else ret t
     | None \<Rightarrow> gh_request_token E pkey api_url i a))"

definition gh_get_token :: "env \<Rightarrow> string \<Rightarrow> string \<Rightarrow> event_context option \<Rightarrow> bool \<Rightarrow> json cio" where
  "gh_get_token E pkey api_url ctx force_reauth =
     (case ctx of
        None \<Rightarrow> raise AuthFactoryException
      | Some c \<Rightarrow> bnd (gh_get_token_tuple E pkey api_url c force_reauth) (\<lambda>t. ret (fst t)))"

subsection \<open>Azure DevOps service principal tokens\<close>

definition ado_token_url :: "string \<Rightarrow> string" where
  "ado_token_url tenant = ''https://login.microsoftonline.com/'' @ tenant @ ''/oauth2/v2.0/token''"

definition ado_form_payload :: "string \<Rightarrow> string \<Rightarrow> json" where
  "ado_form_payload client_id client_secret = JObj
     [(''client_id'', JStr client_id), (''scope'', JStr ''https://app.vssps.visualstudio.com/.default''),
      (''client_secret'', JStr client_secret), (''grant_type'', JStr ''client_credentials'')]"

text \<open>
  The token and when it expires; the token is stored before the expiry is read from the reply, so
  a reply without one leaves a token that never expires.
\<close>

definition set_ado :: "string \<Rightarrow> (json \<times> int option) option \<Rightarrow> unit cio" where
  "set_ado client_id v = modify (\<lambda>m. m\<lparr> m_adotokens := (m_adotokens m)(client_id := v) \<rparr>)"

definition ado_drop_expired :: "env \<Rightarrow> string \<Rightarrow> unit cio" where
  "ado_drop_expired E client_id =
     bnd (gets (\<lambda>m. m_adotokens m client_id)) (\<lambda>c. bnd (clock E) (\<lambda>t.
     case c of
       Some (tok, Some expires) \<Rightarrow> if t \<ge> expires then set_ado client_id None else ret ()
     | _ \<Rightarrow> ret ()))"

definition ado_request_token :: "env \<Rightarrow> string \<Rightarrow> string \<Rightarrow> string \<Rightarrow> json cio" where
  "ado_request_token E tenant client_id client_secret =
     bnd (http_req E ''POST'' (ado_token_url tenant)
            (JObj [(''headers'', JObj [(''User-Agent'', JStr (agent_name E))]),
                   (''data'', ado_form_payload client_id client_secret)])) (\<lambda>r.
     bnd (lift (json_on_ok r)) (\<lambda>j.
     bnd (lift (jget j ''access_token'')) (\<lambda>tok.
     bnd (gets (\<lambda>m. Option.bind (m_adotokens m client_id) snd)) (\<lambda>old.
     bnd (set_ado client_id (Some (tok, old))) (\<lambda>_.
     bnd (clock E) (\<lambda>t.
     bnd (lift (ebind (jget j ''expires_in'') as_int)) (\<lambda>secs.
     bnd (set_ado client_id (Some (tok, Some (t + secs)))) (\<lambda>_. ret tok))))))))"

definition ado_get_token :: "env \<Rightarrow> string \<Rightarrow> string \<Rightarrow> string \<Rightarrow> bool \<Rightarrow> json cio" where
  "ado_get_token E tenant client_id client_secret force_reauth =
     bnd (ado_drop_expired E client_id) (\<lambda>_.
     bnd (gets (\<lambda>m. m_adotokens m client_id)) (\<lambda>c.
     case c of
       Some (tok, expires) \<Rightarrow>
         if force_reauth then ado_request_token E tenant client_id client_secret else ret tok
     | None \<Rightarrow> ado_request_token E tenant client_id client_secret))"

subsection \<open>Dispatch\<close>

text \<open>\<open>get_token\<close> of the base class raises: the static factory does not override it.\<close>

fun get_token :: "env \<Rightarrow> auth_factory \<Rightarrow> event_context option \<Rightarrow> bool \<Rightarrow> json cio" where
  "get_token E (StaticAuthFactory a) ctx f = raise (NotImplementedError ''get_token'')"
| "get_token E (GithubAppAuthFactory pkey url) ctx f = gh_get_token E pkey url ctx f"
| "get_token E (ADOSPClientSecretAuthFactory ten cid sec) ctx f = ado_get_token E ten cid sec f"
| "get_token E NoAuthFactory ctx f = raise (AttributeError ''get_token'')"

fun get_auth :: "env \<Rightarrow> auth_factory \<Rightarrow> event_context option \<Rightarrow> bool \<Rightarrow> auth cio" where
  "get_auth E (StaticAuthFactory a) ctx f = ret a"
| "get_auth E NoAuthFactory ctx f = raise (AttributeError ''get_auth'')"
| "get_auth E fac ctx f = bnd (get_token E fac ctx f) (\<lambda>t. ret (BearerAuth t))"


section \<open>What callers rely on: token caches\<close>

text \<open>
  \<open>cached m\<close> is the cache entry the factory would use in state \<open>m\<close>, a token and its expiry. A live
  entry is returned with no request and no change; a token that was returned is the one in the cache.
\<close>

locale token_cache =
  fixes get :: "bool \<Rightarrow> json cio"
    and cached :: "mem \<Rightarrow> (json \<times> 'e) option"
    and live :: "'e \<Rightarrow> trace \<Rightarrow> bool"
  assumes hit: "cached m = Some (t, e) \<Longrightarrow> live e tr \<Longrightarrow> get False (tr, m) = (Inr t, tr, m)"
    and fills: "get f (tr, m) = (Inr t, tr', m') \<Longrightarrow> \<exists>e. cached m' = Some (t, e)"
begin

lemma reuse:
  assumes "get f (tr, m) = (Inr t, tr', m')" and "cached m' = Some (t', e)" and "live e tr2"
  shows "get False (tr2, m') = (Inr t, tr2, m')"
  using fills [OF assms(1)] hit [of m' t e tr2] assms(2,3) by auto

text \<open>Until the token expires, any number of calls are answered from the cache.\<close>

lemma reuse_many:
  assumes "get f (tr, m) = (Inr t, tr', m')" and "cached m' = Some (t', e)" and "live e tr'"
  shows "mapM (\<lambda>_. get False) xs (tr', m') = (Inr (map (\<lambda>_. t) xs), tr', m')"
proof (induction xs)
  case (Cons x xs)
  then show ?case using reuse [OF assms] by (simp add: bnd_def)
qed simp

end

definition gh_cached :: "env \<Rightarrow> event_context \<Rightarrow> mem \<Rightarrow> (json \<times> int) option" where
  "gh_cached E ctx m = (case gh_ids E ctx of Inl _ \<Rightarrow> None | Inr (i, a) \<Rightarrow> map_of (m_ghtokens m) i)"

lemma gh_request_token_fills:
  "gh_request_token E pk url i a w = (Inr p, tr', m') \<Longrightarrow> map_of (m_ghtokens m') i = Some p"
  by (cases w) (auto simp: gh_request_token_def encoded_jwt_factory_def world_defs bnd_Inr_iff update_conv')

interpretation gh_tokens: token_cache
    "\<lambda>f. gh_get_token E pk url (Some ctx) f" "gh_cached E ctx" "\<lambda>e tr. now E tr < e"
  for E pk url ctx
proof (unfold_locales, goal_cases)
  case (1 m t e tr)
  then show ?case
    by (auto simp: gh_cached_def gh_get_token_def gh_get_token_tuple_def gh_live_def clock_def
        bnd_def split: sum.splits)
next
  case (2 f tr m t tr' m')
  then obtain i a where ids: "gh_ids E ctx = Inr (i, a)"
    by (auto simp: gh_get_token_def gh_get_token_tuple_def bnd_Inr_iff)
  with 2 show ?case
    by (cases "map_of (m_ghtokens m) i")
      (auto simp: gh_get_token_def gh_get_token_tuple_def gh_live_def clock_def gh_cached_def
        bnd_Inr_iff split: if_splits dest!: gh_request_token_fills)
qed

interpretation ado_tokens: token_cache
    "\<lambda>f. ado_get_token E ten cid sec f" "\<lambda>m. m_adotokens m cid" "\<lambda>e tr. case e of None \<Rightarrow> True | Some x \<Rightarrow> now E tr < x"
  for E ten cid sec
proof (unfold_locales, goal_cases)
  case (1 m t e tr)
  then show ?case
    by (auto simp: ado_get_token_def ado_drop_expired_def clock_def bnd_def split: option.splits prod.splits)
next
  case (2 f tr m t tr' m')
  then show ?case
    by (auto simp: ado_get_token_def ado_drop_expired_def ado_request_token_def set_ado_def world_defs
        bnd_Inr_iff split: option.splits if_splits prod.splits)
qed


section \<open>API sessions\<close>

record api_session =
  api_endpoint :: string
  ses_auth :: auth_factory
  ses_timeout :: int
  ses_retries :: int
  ses_proxies :: json
  ses_verify :: json

definition form_api_endpoint :: "string \<Rightarrow> string option \<Rightarrow> string" where
  "form_api_endpoint base suff =
     (case suff of
        None \<Rightarrow> rstrip CHR ''/'' base
      | Some s \<Rightarrow> if s = [] then rstrip CHR ''/'' base
                  else rstrip CHR ''/'' base @ ''/'' @ rstrip CHR ''/'' (lstrip CHR ''/'' s))"

definition concat_path_to_endpoint :: "api_session \<Rightarrow> string \<Rightarrow> string" where
  "concat_path_to_endpoint s path = rstrip CHR ''/'' (api_endpoint s) @ ''/'' @ lstrip CHR ''/'' path"

fun replace_vars :: "string dict \<Rightarrow> string \<Rightarrow> string" where
  "replace_vars [] url = url"
| "replace_vars ((k, v) # r) url = replace_vars r (py_replace (CHR '':'' # k) v url)"

record request_args =
  rq_query :: json
  rq_body :: json
  rq_extra_headers :: "json dict"
  rq_url_vars :: "string dict"

definition no_args :: request_args where
  "no_args = \<lparr> rq_query = JNull, rq_body = JNull, rq_extra_headers = [], rq_url_vars = [] \<rparr>"

text \<open>The loop \<open>for tryCount in range(0, retries)\<close>.\<close>

fun exec_tries :: "env \<Rightarrow> api_session \<Rightarrow> event_context option \<Rightarrow> string \<Rightarrow> string \<Rightarrow> json dict \<Rightarrow>
    nat \<Rightarrow> nat \<Rightarrow> response cio" where
  "exec_tries E s ctx meth url args tryCount 0 = raise RetriesExhausted"
| "exec_tries E s ctx meth url args tryCount (Suc left) =
     bnd (get_auth E (ses_auth s) ctx (tryCount > 0)) (\<lambda>a.
     bnd (http_req E meth url (JObj (args @ [(''auth'', auth_json a)]))) (\<lambda>r.
     if \<not> ok r then
       (if status_code r \<in> {401, 403} then raise SCMAuthException
        else bnd (call (Sleep 1) (\<lambda>_. Inr ())) (\<lambda>_.
               exec_tries E s ctx meth url args (Suc tryCount) left))
     else ret r))"

definition session_exec :: "env \<Rightarrow> api_session \<Rightarrow> event_context option \<Rightarrow> string \<Rightarrow> string \<Rightarrow>
    request_args \<Rightarrow> response cio" where
  "session_exec E s ctx meth path a =
     (let url = replace_vars (rq_url_vars a) (concat_path_to_endpoint s path);
          hdrs = dmerge [(''User-Agent'', JStr (agent_name E))] (rq_extra_headers a)
      in exec_tries E s ctx meth url
           [(''params'', rq_query a), (''data'', rq_body a), (''headers'', JObj hdrs),
            (''timeout'', JInt (ses_timeout s)), (''proxies'', ses_proxies s), (''verify'', ses_verify s)]
           0 (nat (ses_retries s)))"

text \<open>A response that is returned is a success: callers never see another.\<close>

lemma exec_tries_ok: "exec_tries E s ctx meth url args c n w = (Inr r, w') \<Longrightarrow> ok r"
  by (induction n arbitrary: c w) (auto simp: bnd_Inr_iff split: if_splits)

lemma session_exec_ok: "session_exec E s ctx meth path a w = (Inr r, w') \<Longrightarrow> ok r"
  by (auto simp: session_exec_def Let_def dest: exec_tries_ok)

lemma emits_get_token:
  assumes "\<And>u a. P (Http ''POST'' u a)"
  shows "emits P (get_token E fac ctx f)"
  by (cases fac)
    (auto simp: gh_get_token_def gh_get_token_tuple_def gh_live_def gh_request_token_def
      encoded_jwt_factory_def ado_get_token_def ado_drop_expired_def ado_request_token_def set_ado_def
      intro!: emits_rules assms split: option.splits prod.splits)

lemma emits_get_auth [emits_rules]:
  assumes "\<And>u a. P (Http ''POST'' u a)"
  shows "emits P (get_auth E fac ctx f)"
  by (cases fac) (auto intro!: emits_rules emits_get_token assms simp del: get_token.simps)

definition http_or_sleep :: "event \<Rightarrow> bool" where
  "http_or_sleep e = (case e of Http _ _ _ \<Rightarrow> True | Sleep _ \<Rightarrow> True | _ \<Rightarrow> False)"

lemma emits_exec_tries:
  assumes "\<And>m u a. P (Http m u a)" and "\<And>n. P (Sleep n)"
  shows "emits P (exec_tries E s ctx meth url args c n)"
  by (induction n arbitrary: c) (auto intro!: emits_rules assms)

lemma emits_session_exec [emits_rules]:
  assumes "\<And>m u a. P (Http m u a)" and "\<And>n. P (Sleep n)"
  shows "emits P (session_exec E s ctx meth path a)"
  unfolding session_exec_def Let_def by (rule emits_exec_tries [OF assms])


section \<open>Paging\<close>

text \<open>
  \<open>async_api_page_generator\<close>, drained: the items in the order the generator yields them. A page
  is handed out from its end (\<open>buf.pop()\<close>), so every page comes in reverse. \<open>fetch\<close> is the
  extractor applied to the reply of the coroutine; an extractor that returned \<open>None\<close> makes the
  unpacking raise. Each round of the fuel is one fetched page.
\<close>

fun async_api_page_generator ::
    "(nat \<Rightarrow> (event, 'm, ('a list \<times> bool)) io) \<Rightarrow> nat \<Rightarrow> nat \<Rightarrow> (event, 'm, 'a list) io" where
  "async_api_page_generator fetch 0 offset = raise Diverges"
| "async_api_page_generator fetch (Suc n) offset =
     bnd (fetch offset) (\<lambda>(buf, last_page).
     if buf = [] then ret []
     else if last_page then ret (rev buf)
     else bnd (async_api_page_generator fetch n (offset + 1)) (\<lambda>r. ret (rev buf @ r)))"

lemma emits_pager [emits_rules]:
  "(\<And>i. emits P (fetch i)) \<Longrightarrow> emits P (async_api_page_generator fetch n off)"
  by (induction n arbitrary: off) (auto intro!: emits_rules)

text \<open>
  What the generator relies on: whoever \<open>serves\<close> a listing of \<open>pages\<close> delivers page \<open>i\<close> whatever was
  called before, sets the flag on the last one, and leaves no page but the last empty. Then, with
  fuel for every page, the generator ends and yields every item of every page exactly once.
\<close>

locale page_source =
  fixes fetch :: "nat \<Rightarrow> (event, 'm, ('a list \<times> bool)) io"
    and serves :: "'a list list \<Rightarrow> bool"
  assumes deliver: "serves pages \<Longrightarrow> i < length pages \<Longrightarrow>
      \<exists>w'. fetch i w = (Inr (pages ! i, Suc i = length pages), w')"
    and nonempty: "serves pages \<Longrightarrow> Suc i < length pages \<Longrightarrow> pages ! i \<noteq> []"
    and some: "serves pages \<Longrightarrow> pages \<noteq> []"
begin

lemma drain_from:
  "serves pages \<Longrightarrow> i < length pages \<Longrightarrow> length pages \<le> i + n \<Longrightarrow>
     \<exists>w'. async_api_page_generator fetch n i w = (Inr (concat (map rev (drop i pages))), w')"
proof (induction n arbitrary: i w)
  case 0
  then show ?case by simp
next
  case (Suc n)
  obtain w1 where f: "fetch i w = (Inr (pages ! i, Suc i = length pages), w1)"
    using deliver [OF Suc.prems(1,2)] by blast
  have d: "drop i pages = pages ! i # drop (Suc i) pages"
    using Suc.prems(2) by (simp add: Cons_nth_drop_Suc)
  show ?case
  proof (cases "Suc i = length pages")
    case True
    then show ?thesis using f d by (auto simp: bnd_def ret_def)
  next
    case False
    then have lt: "Suc i < length pages" using Suc.prems(2) by simp
    obtain w2 where
      "async_api_page_generator fetch n (Suc i) w1 = (Inr (concat (map rev (drop (Suc i) pages))), w2)"
      using Suc.IH [of "Suc i" w1] lt Suc.prems by auto
    then show ?thesis using f d nonempty [OF Suc.prems(1) lt] False by (auto simp: bnd_def ret_def)
  qed
qed

lemma drain:
  assumes "serves pages" and "length pages \<le> n"
  shows "\<exists>w'. async_api_page_generator fetch n 0 w = (Inr (concat (map rev pages)), w')"
  using drain_from [of pages 0 n w] assms some by auto

end

end
