(* ===== verification/CxOneSvc.thy ===== *)
theory CxOneSvc
  imports ApiUtils
begin

text \<open>
  \<open>cxone_service/grouping.py\<close> and \<open>cxone_service/__init__.py\<close>: the group assignment cache and the
  service every workflow uses to talk to Checkmarx One (find or create the project, compute the
  engine configuration, submit, find, tag, cancel and report on scans).

  The lemmas about \<open>GroupingService\<close> show its cache invariant (a path is never both resolved and
  counted as failing) and that it never raises; those about \<open>CxOneService\<close> what a found project
  is updated to, which calls each operation may make, and that waiting for a report ends.
\<close>


section \<open>Grouping\<close>

record route =
  rt_regex :: string
  rt_groups :: "string list"

definition max_resolution_errors :: nat where
  "max_resolution_errors = 3"

text \<open>\<open>add_assignment_rule\<close>: group paths are kept without their leading slash.\<close>

definition add_assignment_rule :: "route list \<Rightarrow> string \<Rightarrow> string list \<Rightarrow> route list" where
  "add_assignment_rule routes regex paths =
     routes @ [\<lparr> rt_regex = regex, rt_groups = map (lstrip CHR ''/'') paths \<rparr>]"

definition grp :: "string \<Rightarrow> grp_state cio" where
  "grp mk = gets (\<lambda>m. m_groups m mk)"

definition grp_modify :: "string \<Rightarrow> (grp_state \<Rightarrow> grp_state) \<Rightarrow> unit cio" where
  "grp_modify mk f = modify (\<lambda>m. m\<lparr> m_groups := (m_groups m)(mk := f (m_groups m mk)) \<rparr>)"

definition bump_error :: "string \<Rightarrow> grp_state \<Rightarrow> grp_state" where
  "bump_error path g =
     g\<lparr> path_res_errors :=
          (case dget (path_res_errors g) path of
             Some n \<Rightarrow> dset path (n + 1) (path_res_errors g)
           | None \<Rightarrow> dset path 1 (path_res_errors g)) \<rparr>"

definition increment_error :: "string \<Rightarrow> string \<Rightarrow> unit cio" where
  "increment_error mk path = grp_modify mk (bump_error path)"

text \<open>The loop \<open>for gdef in group_defs\<close>: the id of the first group whose name is the path.\<close>

fun find_group :: "string \<Rightarrow> json list \<Rightarrow> exc + json option" where
  "find_group path [] = Inr None"
| "find_group path (g # gs) =
     ebind (jget g ''name'') (\<lambda>n.
     if n = JStr path then ebind (jget g ''id'') (\<lambda>i. Inr (Some i)) else find_group path gs)"

definition index_group :: "string \<Rightarrow> json \<Rightarrow> grp_state \<Rightarrow> grp_state" where
  "index_group path i g = g\<lparr> groupid_index := dset path i (groupid_index g) \<rparr>"

definition clear_error :: "string \<Rightarrow> grp_state \<Rightarrow> grp_state" where
  "clear_error path g = g\<lparr> path_res_errors := ddel path (path_res_errors g) \<rparr>"

text \<open>
  Looking a path up at Checkmarx One. The value tells whether the loop body goes on (\<open>True\<close>) or
  the path is skipped with \<open>continue\<close> because no group was returned.
\<close>

definition lookup_group :: "env \<Rightarrow> string \<Rightarrow> string \<Rightarrow> bool cio" where
  "lookup_group E mk path =
     catch
       (bnd (cxapi E ''retrieve_groups'' (JObj [(''search'', JStr path)])) (\<lambda>r.
        bnd (lift (ebind (json_on_ok r) as_list)) (\<lambda>defs.
        if defs = [] then bnd (increment_error mk path) (\<lambda>_. ret False)
        else bnd (lift (find_group path defs)) (\<lambda>found.
          case found of
            None \<Rightarrow> ret True
          | Some i \<Rightarrow> bnd (grp_modify mk (index_group path i)) (\<lambda>_. ret True)))))
       (\<lambda>e. Some (bnd (increment_error mk path) (\<lambda>_. ret True)))"

definition resolve_path :: "env \<Rightarrow> string \<Rightarrow> string \<Rightarrow> json list cio" where
  "resolve_path E mk path =
     bnd (grp mk) (\<lambda>g.
     bnd (if path \<in> set (dkeys (groupid_index g)) then ret True else lookup_group E mk path) (\<lambda>go.
     if \<not> go then ret []
     else bnd (grp mk) (\<lambda>g.
       case dget (groupid_index g) path of
         None \<Rightarrow> ret []
       | Some i \<Rightarrow> bnd (grp_modify mk (clear_error path)) (\<lambda>_. ret [i]))))"

definition resolve_group_ids :: "env \<Rightarrow> string \<Rightarrow> string list \<Rightarrow> json list cio" where
  "resolve_group_ids E mk paths = bnd (mapM (resolve_path E mk) paths) (\<lambda>rs. ret (concat rs))"

definition resolve_groups :: "env \<Rightarrow> string \<Rightarrow> route list \<Rightarrow> string \<Rightarrow> json list cio" where
  "resolve_groups E mk routes url =
     bnd (mapM (\<lambda>r. resolve_group_ids E mk (rt_groups r))
           (filter (\<lambda>r. re_match E (rt_regex r) url) routes)) (\<lambda>rs. ret (concat rs))"

definition purge_cache :: "string \<Rightarrow> unit cio" where
  "purge_cache mk = grp_modify mk (\<lambda>_. \<lparr> groupid_index = [], path_res_errors = [] \<rparr>)"

subsection \<open>Invariant of the cache\<close>

definition grp_inv :: "grp_state \<Rightarrow> bool" where
  "grp_inv g \<longleftrightarrow>
     (\<forall>p. dget (groupid_index g) p \<noteq> None \<longrightarrow> dget (path_res_errors g) p = None)
     \<and> (\<forall>p n. dget (path_res_errors g) p = Some n \<longrightarrow> 0 < n)"

definition mem_inv :: "mem \<Rightarrow> bool" where
  "mem_inv m \<longleftrightarrow> (\<forall>mk. grp_inv (m_groups m mk))"

lemma groupid_index_simps [simp]:
  "groupid_index (bump_error path g) = groupid_index g"
  "groupid_index (clear_error path g) = groupid_index g"
  "groupid_index (index_group path i g) = dset path i (groupid_index g)"
  by (simp_all add: bump_error_def clear_error_def index_group_def)

lemma grp_inv_bump:
  "grp_inv g \<Longrightarrow> dget (groupid_index g) path = None \<Longrightarrow> grp_inv (bump_error path g)"
  by (auto simp: bump_error_def grp_inv_def split: option.splits)

lemma grp_inv_clear: "grp_inv g \<Longrightarrow> grp_inv (clear_error path g)"
  by (auto simp: clear_error_def grp_inv_def delete_conv')

lemma grp_inv_index_clear:
  "grp_inv g \<Longrightarrow> grp_inv (clear_error path (index_group path i g))"
  by (auto simp: clear_error_def index_group_def grp_inv_def delete_conv')

lemma mem_inv_upd: "mem_inv m \<Longrightarrow> grp_inv g \<Longrightarrow> mem_inv (m\<lparr> m_groups := (m_groups m)(mk := g) \<rparr>)"
  by (auto simp: mem_inv_def)

lemma mem_inv_mem0: "mem_inv mem0"
  by (simp add: mem_inv_def mem0_def grp_inv_def)

text \<open>
  What a lookup may do to the cache: leave it, count one more failure of an unresolved path, or
  add the path to the index.
\<close>

inductive lookup_outcome :: "string \<Rightarrow> grp_state \<Rightarrow> bool \<Rightarrow> grp_state \<Rightarrow> bool" for path where
  unmatched: "lookup_outcome path g True g"
| no_groups: "lookup_outcome path g False (bump_error path g)"
| failing: "lookup_outcome path g True (bump_error path g)"
| matched: "lookup_outcome path g True (index_group path i g)"

inductive_cases lookup_outcomeE: "lookup_outcome path g b g'"

lemma find_group_no_div: "find_group path gs \<noteq> Inl Diverges"
proof (induction gs)
  case (Cons g gs)
  then show ?case by (cases g) (auto simp: ebind_Inl_iff split: option.splits)
qed simp

lemma group_defs_no_div: "ebind (json_on_ok r) as_list \<noteq> Inl Diverges"
  by (cases "body r") (auto simp: json_on_ok_def)

lemma lookup_group_total:
  "\<exists>b g'. lookup_group E mk path (tr, m) =
      (Inr b, tr @ [CxApi ''retrieve_groups'' (JObj [(''search'', JStr path)])],
       m\<lparr> m_groups := (m_groups m)(mk := g') \<rparr>)
     \<and> lookup_outcome path (m_groups m mk) b g'"
proof -
  let ?a = "JObj [(''search'', JStr path)]"
  let ?rep = "reply_of (cx_api E tr ''retrieve_groups'' ?a)"
  note defs = lookup_group_def cxapi_def catch_def bnd_def increment_error_def grp_modify_def
  consider (err) e where "?rep = Inl e" "e \<noteq> Diverges"
    | (resp) r where "?rep = Inr r"
    by (cases ?rep) (auto, metis reply_of_Diverges)
  then show ?thesis
  proof cases
    case err
    then show ?thesis by (auto simp: defs intro: lookup_outcome.intros)
  next
    case (resp r)
    show ?thesis
    proof (cases "ebind (json_on_ok r) as_list")
      case (Inl e)
      with group_defs_no_div [of r] have "e \<noteq> Diverges" by auto
      with resp Inl show ?thesis by (auto simp: defs intro: lookup_outcome.intros)
    next
      case (Inr gs)
      show ?thesis
      proof (cases "gs = []")
        case True
        with resp Inr show ?thesis by (auto simp: defs intro: lookup_outcome.intros)
      next
        case False
        consider (exc) e where "find_group path gs = Inl e" "e \<noteq> Diverges"
          | (none) "find_group path gs = Inr None"
          | (some) i where "find_group path gs = Inr (Some i)"
          using find_group_no_div [of path gs] by (cases "find_group path gs") auto
        then show ?thesis
        proof cases
          case none
          with resp Inr False have "lookup_group E mk path (tr, m) =
              (Inr True, tr @ [CxApi ''retrieve_groups'' ?a],
               m\<lparr> m_groups := (m_groups m)(mk := m_groups m mk) \<rparr>)"
            by (simp add: defs)
          then show ?thesis by (blast intro: lookup_outcome.unmatched)
        qed (use resp Inr False in \<open>auto simp: defs intro: lookup_outcome.intros\<close>)
      qed
    qed
  qed
qed

text \<open>
  Code that never raises, keeps the invariant and only asks for groups.
\<close>

definition group_call :: "event \<Rightarrow> bool" where
  "group_call e = (case e of CxApi f a \<Rightarrow> f = ''retrieve_groups'' | _ \<Rightarrow> False)"

definition tame :: "'a cio \<Rightarrow> bool" where
  "tame p \<longleftrightarrow> (\<forall>tr m. mem_inv m \<longrightarrow>
     (\<exists>x ev m'. p (tr, m) = (Inr x, tr @ ev, m') \<and> mem_inv m' \<and> list_all group_call ev))"

lemma tameD:
  "tame p \<Longrightarrow> mem_inv m \<Longrightarrow>
     \<exists>x ev m'. p (tr, m) = (Inr x, tr @ ev, m') \<and> mem_inv m' \<and> list_all group_call ev"
  unfolding tame_def by blast

lemma tame_ret: "tame (ret x)"
  by (simp add: tame_def)

lemma tame_bnd:
  assumes "tame p" and "\<And>x. tame (k x)"
  shows "tame (bnd p k)"
  unfolding tame_def
proof (intro allI impI)
  fix tr m assume m: "mem_inv m"
  obtain x ev m' where p: "p (tr, m) = (Inr x, tr @ ev, m')" "mem_inv m'" "list_all group_call ev"
    using tameD [OF assms(1) m] by blast
  obtain y ev2 m2 where k: "k x (tr @ ev, m') = (Inr y, (tr @ ev) @ ev2, m2)" "mem_inv m2"
      "list_all group_call ev2"
    using tameD [OF assms(2) p(2)] by blast
  from p k show "\<exists>x ev m'. bnd p k (tr, m) = (Inr x, tr @ ev, m') \<and> mem_inv m' \<and> list_all group_call ev"
    by (auto simp: bnd_def)
qed

lemma tame_mapM: "(\<And>x. tame (f x)) \<Longrightarrow> tame (mapM f xs)"
  by (induction xs) (auto intro!: tame_ret tame_bnd)

lemma tame_resolve_path: "tame (resolve_path E mk path)"
  unfolding tame_def
proof (intro allI impI)
  fix tr m assume inv: "mem_inv m"
  let ?g = "m_groups m mk"
  note defs = resolve_path_def grp_def grp_modify_def bnd_def
  have g: "grp_inv ?g" using inv by (simp add: mem_inv_def)
  show "\<exists>x ev m'. resolve_path E mk path (tr, m) = (Inr x, tr @ ev, m') \<and> mem_inv m' \<and> list_all group_call ev"
  proof (cases "dget (groupid_index ?g) path")
    case (Some i)
    then have "path \<in> set (dkeys (groupid_index ?g))" by (force dest: map_of_SomeD)
    with Some inv g show ?thesis
      by (auto simp: defs intro!: mem_inv_upd grp_inv_clear)
  next
    case None
    then have nin: "path \<notin> set (dkeys (groupid_index ?g))" by (simp add: map_of_eq_None_iff)
    obtain b g' where l: "lookup_group E mk path (tr, m) =
        (Inr b, tr @ [CxApi ''retrieve_groups'' (JObj [(''search'', JStr path)])],
         m\<lparr> m_groups := (m_groups m)(mk := g') \<rparr>)" and o: "lookup_outcome path ?g b g'"
      using lookup_group_total [of E mk path tr m] by blast
    from o show ?thesis
    proof cases
      case (matched i)
      with l nin inv g show ?thesis
        by (auto simp: defs group_call_def intro!: mem_inv_upd grp_inv_index_clear)
    qed (use l nin inv g None in \<open>auto simp: defs group_call_def intro!: mem_inv_upd grp_inv_bump\<close>)
  qed
qed

lemma tame_resolve_groups: "tame (resolve_groups E mk routes url)"
  unfolding resolve_groups_def resolve_group_ids_def
  by (intro tame_bnd tame_mapM tame_resolve_path tame_ret)


section \<open>The service\<close>

record cxone_service =
  cx_moniker :: string
  display_link :: string
  default_engine_config :: "json dict"
  default_scan_tags :: "json dict"
  default_project_tags :: "json dict"
  rename_legacy :: bool
  update_groups :: bool
  group_routes :: "route list"

definition COMMIT_TAG :: string where "COMMIT_TAG = ''commit''"
definition PR_ID_TAG :: string where "PR_ID_TAG = ''pr-id''"
definition PR_TARGET_TAG :: string where "PR_TARGET_TAG = ''pr-target''"
definition PR_STATUS_TAG :: string where "PR_STATUS_TAG = ''pr-status''"
definition PR_STATE_TAG :: string where "PR_STATE_TAG = ''pr-state''"

definition updatable_scans_statuses :: json where
  "updatable_scans_statuses = JArr [JStr ''Completed'', JStr ''Failed'', JStr ''Partial'']"

definition report_poll_delay_seconds :: int where "report_poll_delay_seconds = 30"
definition report_generate_timeout_seconds :: int where "report_generate_timeout_seconds = 600"

definition get_json_or_fail :: "response \<Rightarrow> exc + json" where
  "get_json_or_fail r = (if \<not> ok r then Inl CxOneException else Inr (body r))"

definition succeed_or_throw :: "response \<Rightarrow> exc + response" where
  "succeed_or_throw r = (if \<not> ok r then Inl CxOneException else Inr r)"

text \<open>\<open>get_resolver_tag_for_project\<close>: the project's own tag, if it is there and not empty.\<close>

definition get_resolver_tag_for_project :: "repo_config \<Rightarrow> string \<Rightarrow> string option \<Rightarrow> exc + json" where
  "get_resolver_tag_for_project prc tag_key default_tag =
     (case dget (prc_tags prc) tag_key of
        None \<Rightarrow> Inr (jopt default_tag)
      | Some JNull \<Rightarrow> Inr (jopt default_tag)
      | Some (JStr s) \<Rightarrow> Inr (if s \<noteq> [] then JStr s else jopt default_tag)
      | Some (JArr xs) \<Rightarrow> Inr (if xs \<noteq> [] then JArr xs else jopt default_tag)
      | Some (JObj d) \<Rightarrow> Inr (if d \<noteq> [] then JObj d else jopt default_tag)
      | Some _ \<Rightarrow> Inl TypeError)"

subsection \<open>Scan searches\<close>

definition scan_query :: "json option \<Rightarrow> string \<Rightarrow> json \<Rightarrow> json" where
  "scan_query statuses project_name hash = JObj
     ((case statuses of None \<Rightarrow> [] | Some s \<Rightarrow> [(''statuses'', s)]) @
      [(''project_names'', JStr project_name), (''tags_keys'', JStr COMMIT_TAG), (''tags_values'', hash)])"

text \<open>\<open>PR_ID_TAG in scan["tags"] and str(scan["tags"][PR_ID_TAG]) == by_pr_id\<close>\<close>

definition is_pr_scan :: "env \<Rightarrow> json \<Rightarrow> json \<Rightarrow> exc + bool" where
  "is_pr_scan E by_pr_id scan =
     ebind (jget scan ''tags'') (\<lambda>t. ebind (as_mapping t) (\<lambda>tags.
     Inr (case dget tags PR_ID_TAG of None \<Rightarrow> False | Some v \<Rightarrow> JStr (pstr E v) = by_pr_id)))"

definition pr_tags_update :: "json \<Rightarrow> json \<Rightarrow> json \<Rightarrow> json dict \<Rightarrow> json dict" where
  "pr_tags_update target st status tags =
     dset PR_STATUS_TAG status (dset PR_STATE_TAG st (dset PR_TARGET_TAG target tags))"

definition update_scan :: "env \<Rightarrow> json \<Rightarrow> json \<Rightarrow> json \<Rightarrow> json \<Rightarrow> exc + json \<Rightarrow> json list \<Rightarrow> json list cio" where
  "update_scan E by_pr_id target st status item acc =
     bnd (lift item) (\<lambda>scan.
     bnd (lift (is_pr_scan E by_pr_id scan)) (\<lambda>mine.
     if \<not> mine then ret acc
     else bnd (lift (ebind (jget scan ''tags'') as_mapping)) (\<lambda>tags.
          bnd (lift (jget scan ''id'')) (\<lambda>i.
          bnd (cxapi E ''update_scan_tags''
                 (JObj [(''scanid'', i), (''tags'', JObj (pr_tags_update target st status tags))])) (\<lambda>r.
          ret (if ok r then acc @ [i] else acc))))))"

definition update_scan_pr_tags :: "env \<Rightarrow> string \<Rightarrow> json \<Rightarrow> json \<Rightarrow> json \<Rightarrow> json \<Rightarrow> json \<Rightarrow> json list cio" where
  "update_scan_pr_tags E project_name by_pr_id hash target st status =
     bnd (cxpages E ''retrieve_list_of_scans''
            (scan_query (Some updatable_scans_statuses) project_name hash)) (\<lambda>items.
     foldM (update_scan E by_pr_id target st status) items [])"

definition find_pr_scans :: "env \<Rightarrow> string \<Rightarrow> json \<Rightarrow> json \<Rightarrow> json list cio" where
  "find_pr_scans E project_name by_pr_id hash =
     bnd (cxpages E ''retrieve_list_of_scans'' (scan_query None project_name hash)) (\<lambda>items.
     foldM (\<lambda>item acc.
       bnd (lift item) (\<lambda>scan. bnd (lift (is_pr_scan E by_pr_id scan)) (\<lambda>mine.
       if mine then bnd (lift (jget scan ''id'')) (\<lambda>i. ret (acc @ [i])) else ret acc))) items [])"

subsection \<open>Engine configuration and scans\<close>

definition merge_engine :: "json \<Rightarrow> json dict \<Rightarrow> exc + json dict" where
  "merge_engine cfg acc =
     ebind (jget cfg ''type'') (\<lambda>t. ebind (as_arg t) (\<lambda>ty. ebind (jget cfg ''value'') (\<lambda>v.
     case dget acc ty of
       Some old \<Rightarrow>
         if old \<noteq> JNull then
           ebind (as_mapping old) (\<lambda>o'. ebind (as_mapping v) (\<lambda>n. Inr (dset ty (JObj (dmerge o' n)) acc)))
         else Inr (dset ty v acc)
     | None \<Rightarrow> Inr (dset ty v acc))))"

fun merge_engines :: "json list \<Rightarrow> json dict \<Rightarrow> exc + json dict" where
  "merge_engines [] acc = Inr acc"
| "merge_engines (c # cs) acc = ebind (merge_engine c acc) (merge_engines cs)"

definition minimum_engine_selection :: "json dict" where
  "minimum_engine_selection = [(''sast'', JObj [])]"

definition get_engine_config_for_scan :: "env \<Rightarrow> cxone_service \<Rightarrow> repo_config \<Rightarrow> json \<Rightarrow> json dict cio" where
  "get_engine_config_for_scan E svc prc branch =
     bnd (cxobj E ''get_default_engine_configuration'' (JArr [prc_id prc, branch])) (\<lambda>j.
     bnd (lift (as_list j)) (\<lambda>cfgs.
     bnd (lift (merge_engines cfgs (default_engine_config svc))) (\<lambda>merged.
     bnd (cxobj E ''ScanFilterConfig.from_repo_config'' (prc_json prc)) (\<lambda>flt.
     bnd (lift (ebind (filters_with_defaults E flt (JObj merged)) as_mapping)) (\<lambda>res.
     ret (if res = [] then minimum_engine_selection else res))))))"

definition sca_selected :: "env \<Rightarrow> cxone_service \<Rightarrow> repo_config \<Rightarrow> json \<Rightarrow> bool cio" where
  "sca_selected E svc prc branch =
     (if ''sca'' \<in> set (dkeys (default_engine_config svc)) then ret True
      else bnd (get_engine_config_for_scan E svc prc branch) (\<lambda>cfg. ret (''sca'' \<in> set (dkeys cfg))))"

definition execute_scan :: "env \<Rightarrow> cxone_service \<Rightarrow> string \<Rightarrow> repo_config \<Rightarrow> json \<Rightarrow> json dict \<Rightarrow> json cio" where
  "execute_scan E svc zip_path prc branch tags =
     bnd (get_engine_config_for_scan E svc prc branch) (\<lambda>cfg.
     bnd (cxapi E ''ScanInvoker.scan_get_response''
            (JObj [(''project'', prc_id prc), (''branch'', branch), (''engines'', JObj cfg),
                   (''tags'', JObj (dmerge tags (default_scan_tags svc))), (''zip'', JStr zip_path)])) (\<lambda>r.
     lift (get_json_or_fail r)))"

definition load_scan_inspector :: "env \<Rightarrow> string \<Rightarrow> inspector cio" where
  "load_scan_inspector E sid = call (CxApi ''ScanLoader.load'' (JStr sid)) (\<lambda>tr. cx_inspector E tr sid)"

definition cancel_scan :: "env \<Rightarrow> json \<Rightarrow> bool cio" where
  "cancel_scan E sid = bnd (cxapi E ''cancel_a_scan'' sid) (\<lambda>r. ret (ok r))"

definition load_project_config_by_id :: "env \<Rightarrow> json \<Rightarrow> repo_config cio" where
  "load_project_config_by_id E pid =
     call (CxApi ''ProjectRepoConfig.from_project_id'' pid) (\<lambda>tr. cx_repo_config E tr pid)"

subsection \<open>Finding or creating the project\<close>

text \<open>\<open>list(set(existing + resolved))\<close>; the order of the result is Python's, not relied on.\<close>

definition resolve_group_memberships :: "env \<Rightarrow> cxone_service \<Rightarrow> json list \<Rightarrow> string \<Rightarrow> json list cio" where
  "resolve_group_memberships E svc existing url =
     bnd (resolve_groups E (cx_moniker svc) (group_routes svc) url) (\<lambda>new. ret (remdups (existing @ new)))"

definition project_by_name_query :: "string \<Rightarrow> string" where
  "project_by_name_query nm = ''$.projects[?(@.name=='' @ [CHR 39] @ nm @ [CHR 39] @ '')]''"

text \<open>Which project of the reply is taken, and whether its name is to be updated.\<close>

definition select_project :: "env \<Rightarrow> cxone_service \<Rightarrow> string \<Rightarrow> string \<Rightarrow> json \<Rightarrow> exc + json \<times> bool" where
  "select_project E svc default_name dynamic_name resp =
     (let dyn = jp_find E (project_by_name_query dynamic_name) resp;
          def = jp_find E (project_by_name_query default_name) resp
      in if dyn \<noteq> [] then Inr (last dyn, False)
         else ebind (popE def) (\<lambda>p. Inr (p, rename_legacy svc)))"

text \<open>The tags a found project lacks, and the service moniker when it is missing or another one.\<close>

definition new_project_tags :: "cxone_service \<Rightarrow> json dict \<Rightarrow> json dict" where
  "new_project_tags svc tags =
     (let missing = filter (\<lambda>(k, v). k \<notin> set (dkeys tags)) (default_project_tags svc) in
      case dget tags ''service'' of
        Some v \<Rightarrow> if v \<noteq> JStr (cx_moniker svc) then dset ''service'' (JStr (cx_moniker svc)) missing else missing
      | None \<Rightarrow> dset ''service'' (JStr (cx_moniker svc)) missing)"

text \<open>\<open>project_json["tags"] = new_tags | project_json["tags"]\<close>: the old value of a tag wins.\<close>

definition updated_tags :: "cxone_service \<Rightarrow> json dict \<Rightarrow> json dict" where
  "updated_tags svc tags = dmerge (new_project_tags svc tags) tags"

definition tag_step :: "cxone_service \<Rightarrow> json dict \<Rightarrow> exc + json dict \<times> bool" where
  "tag_step svc pj =
     ebind (dgetE pj ''tags'') (\<lambda>t. ebind (as_dict t) (\<lambda>tags.
     if new_project_tags svc tags \<noteq> [] then Inr (dset ''tags'' (JObj (updated_tags svc tags)) pj, True)
     else Inr (pj, False)))"

definition orig_groups :: "json dict \<Rightarrow> exc + json list" where
  "orig_groups pj = ebind (dgetE pj ''groups'') (\<lambda>g. if g \<noteq> JNull then as_list g else Inr [])"

text \<open>
  The repository URL: removed when the project is linked to a repository by id, set when it has
  none. \<open>len(repoUrl)\<close> raises when the value has no length.
\<close>

definition repo_url_step :: "string \<Rightarrow> json dict \<Rightarrow> exc + json dict \<times> bool" where
  "repo_url_step url pj =
     (if dget pj ''repoId'' \<noteq> None \<and> dget pj ''repoId'' \<noteq> Some JNull \<and> dget pj ''repoUrl'' \<noteq> None
      then Inr (ddel ''repoUrl'' pj, False)
      else case dget pj ''repoUrl'' of
        None \<Rightarrow> Inr (dset ''repoUrl'' (JStr url) pj, True)
      | Some JNull \<Rightarrow> Inr (dset ''repoUrl'' (JStr url) pj, True)
      | Some (JStr s) \<Rightarrow> if s = [] then Inr (dset ''repoUrl'' (JStr url) pj, True) else Inr (pj, False)
      | Some (JArr s) \<Rightarrow> if s = [] then Inr (dset ''repoUrl'' (JStr url) pj, True) else Inr (pj, False)
      | Some (JObj s) \<Rightarrow> if s = [] then Inr (dset ''repoUrl'' (JStr url) pj, True) else Inr (pj, False)
      | Some _ \<Rightarrow> Inl TypeError)"

definition update_project :: "env \<Rightarrow> json \<Rightarrow> json dict \<Rightarrow> response cio" where
  "update_project E pid pj = cxapi E ''update_a_project'' (JObj [(''projectid'', pid), (''kwargs'', JObj pj)])"

text \<open>The loop around \<open>update_a_project\<close>: one retry, with the groups resolved afresh.\<close>

definition update_loop :: "env \<Rightarrow> cxone_service \<Rightarrow> json \<Rightarrow> json list \<Rightarrow> string \<Rightarrow> json dict \<Rightarrow>
    (response \<times> json dict) cio" where
  "update_loop E svc pid groups url pj =
     bnd (update_project E pid pj) (\<lambda>r.
     if ok r then ret (r, pj)
     else bnd (purge_cache (cx_moniker svc)) (\<lambda>_.
          bnd (resolve_group_memberships E svc groups url) (\<lambda>gs.
          let pj' = dset ''groups'' (JArr gs) pj in
          bnd (update_project E pid pj') (\<lambda>r'. ret (r', pj')))))"

definition refresh_project :: "env \<Rightarrow> cxone_service \<Rightarrow> string \<Rightarrow> string \<Rightarrow> json \<Rightarrow> bool \<Rightarrow> json dict cio" where
  "refresh_project E svc dynamic_name url project do_name_update =
     bnd (lift (as_mapping project)) (\<lambda>pj0.
     bnd (lift (dgetE pj0 ''id'')) (\<lambda>pid.
     bnd (lift (tag_step svc pj0)) (\<lambda>(pj1, upd1).
     let pj2 = (if do_name_update then dset ''name'' (JStr dynamic_name) pj1 else pj1);
         upd2 = (upd1 \<or> do_name_update) in
     bnd (lift (orig_groups pj2)) (\<lambda>groups.
     bnd (if update_groups svc then
            bnd (resolve_group_memberships E svc groups url) (\<lambda>gs.
            if \<exists>g\<in>set gs. g \<notin> set groups then ret (dset ''groups'' (JArr gs) pj2, True) else ret (pj2, upd2))
          else ret (pj2, upd2)) (\<lambda>(pj3, upd3).
     bnd (lift (repo_url_step url pj3)) (\<lambda>(pj4, upd4).
     if upd3 \<or> upd4 then
       bnd (update_loop E svc pid groups url pj4) (\<lambda>(r, pj5).
       bnd (lift (succeed_or_throw r)) (\<lambda>_. ret pj5))
     else ret pj4))))))"

definition create_project :: "env \<Rightarrow> cxone_service \<Rightarrow> string \<Rightarrow> string \<Rightarrow> response cio" where
  "create_project E svc dynamic_name url =
     bnd (resolve_groups E (cx_moniker svc) (group_routes svc) url) (\<lambda>gs.
     cxapi E ''create_a_project'' (JObj
       [(''groups'', JArr gs), (''name'', JStr dynamic_name), (''origin'', JStr (agent_name E)),
        (''tags'', JObj (dmerge (default_project_tags svc)
            [(''cxone-flow'', JStr (version E)), (''service'', JStr (cx_moniker svc))])),
        (''repoUrl'', JStr url)]))"

text \<open>
  \<open>__create_or_retrieve_project\<close>. A 400 means the project was created meanwhile: one more round,
  in which \<open>retry\<close> is off. The recursion is on \<open>retry\<close>.
\<close>

definition known_project :: "env \<Rightarrow> cxone_service \<Rightarrow> string \<Rightarrow> string \<Rightarrow> string \<Rightarrow> json \<Rightarrow> json cio" where
  "known_project E svc default_name dynamic_name url resp =
     bnd (lift (select_project E svc default_name dynamic_name resp)) (\<lambda>(p, rename).
     bnd (refresh_project E svc dynamic_name url p rename) (\<lambda>pj. ret (JObj pj)))"

definition list_projects :: "env \<Rightarrow> string \<Rightarrow> string \<Rightarrow> (json \<times> bool) cio" where
  "list_projects E default_name dynamic_name =
     bnd (cxapi E ''retrieve_list_of_projects''
            (JObj [(''names'', JStr (join '','' [default_name, dynamic_name]))])) (\<lambda>r.
     bnd (lift (get_json_or_fail r)) (\<lambda>resp.
     bnd (lift (ebind (jget resp ''filteredTotalCount'') py_int)) (\<lambda>n.
     ret (resp, n = 0))))"

definition created_json :: "response \<Rightarrow> exc + json" where
  "created_json r = ebind (get_json_or_fail r) (\<lambda>pj. ebind (jget pj ''id'') (\<lambda>_. Inr pj))"

definition create_or_retrieve_again :: "env \<Rightarrow> cxone_service \<Rightarrow> string \<Rightarrow> string \<Rightarrow> string \<Rightarrow> json cio" where
  "create_or_retrieve_again E svc default_name dynamic_name url =
     bnd (list_projects E default_name dynamic_name) (\<lambda>(resp, none).
     if none then bnd (create_project E svc dynamic_name url) (\<lambda>r. lift (created_json r))
     else known_project E svc default_name dynamic_name url resp)"

definition create_or_retrieve_project :: "env \<Rightarrow> cxone_service \<Rightarrow> string \<Rightarrow> string \<Rightarrow> string \<Rightarrow> json cio" where
  "create_or_retrieve_project E svc default_name dynamic_name url =
     bnd (list_projects E default_name dynamic_name) (\<lambda>(resp, none).
     if none then
       bnd (create_project E svc dynamic_name url) (\<lambda>r.
       if status_code r \<notin> {400, 403} then lift (created_json r)
       else if status_code r = 403 then raise CxOnePermissionException
       else create_or_retrieve_again E svc default_name dynamic_name url)
     else known_project E svc default_name dynamic_name url resp)"

definition load_project_config :: "env \<Rightarrow> cxone_service \<Rightarrow> string \<Rightarrow> string \<Rightarrow> string \<Rightarrow> repo_config cio" where
  "load_project_config E svc default_name dynamic_name url =
     bnd (create_or_retrieve_project E svc default_name dynamic_name url) (\<lambda>pj.
     call (CxApi ''ProjectRepoConfig.from_project_json'' pj) (\<lambda>tr. cx_repo_config E tr pj))"

subsection \<open>Reports\<close>

fun report_poll :: "env \<Rightarrow> json \<Rightarrow> int \<Rightarrow> nat \<Rightarrow> json cio" where
  "report_poll E rid start 0 = raise Diverges"
| "report_poll E rid start (Suc n) =
     bnd (clock E) (\<lambda>t.
     bnd (call (Sleep report_poll_delay_seconds) (\<lambda>_. Inr ())) (\<lambda>_.
     if t - start < report_generate_timeout_seconds then
       bnd (cxapi E ''retrieve_report_status'' rid) (\<lambda>r.
       bnd (lift (ebind (get_json_or_fail r) as_dict)) (\<lambda>st.
       case dget st ''status'' of
         None \<Rightarrow> raise CxOneException
       | Some v \<Rightarrow>
           if v = JStr ''completed'' then
             bnd (cxapi E ''download_a_report'' rid) (\<lambda>r2. lift (get_json_or_fail r2))
           else report_poll E rid start n))
     else ret JNull))"

definition retrieve_report :: "env \<Rightarrow> string \<Rightarrow> string \<Rightarrow> json cio" where
  "retrieve_report E pid sid =
     bnd (cxapi E ''create_a_report'' (JObj
            [(''reportName'', JStr ''improved-scan-report''), (''fileFormat'', JStr ''json''),
             (''reportType'', JStr ''cli''),
             (''data'', JObj [(''scanId'', JStr sid), (''projectId'', JStr pid)])])) (\<lambda>r.
     bnd (lift (ebind (get_json_or_fail r) as_dict)) (\<lambda>rep.
     case dget rep ''reportId'' of
       None \<Rightarrow> raise CxOneException
     | Some rid \<Rightarrow> bnd (clock E) (\<lambda>start. report_poll E rid start (fuel E))))"


section \<open>Properties of the service\<close>

subsection \<open>Project tags\<close>

lemma dget_filter_keys:
  "dget (filter (\<lambda>(k, v). P k) d) k = (if P k then dget d k else None)"
  by (induction d) auto

lemma dget_new_project_tags:
  "dget (new_project_tags svc tags) k =
     (if k = ''service'' \<and> dget tags ''service'' \<noteq> Some (JStr (cx_moniker svc))
      then Some (JStr (cx_moniker svc))
      else if dget tags k = None then dget (default_project_tags svc) k else None)"
  by (auto simp: new_project_tags_def Let_def dget_filter_keys map_of_eq_None_iff [symmetric]
      split: option.splits)

lemma dget_updated_tags:
  assumes "distinct (dkeys tags)"
  shows "dget (updated_tags svc tags) k =
     (case dget tags k of
        Some v \<Rightarrow> Some v
      | None \<Rightarrow> if k = ''service'' then Some (JStr (cx_moniker svc)) else dget (default_project_tags svc) k)"
  using assms
  by (auto simp: updated_tags_def dget_dmerge dget_new_project_tags split: option.splits)

subsection \<open>Engine configuration\<close>

lemma merge_engine_other:
  "merge_engine cfg acc = Inr acc' \<Longrightarrow> jget cfg ''type'' = Inr (JStr ty) \<Longrightarrow> k \<noteq> ty \<Longrightarrow>
     dget acc' k = dget acc k"
  by (auto simp: merge_engine_def ebind_Inr_iff split: option.splits if_splits)

lemma merge_engine_keys:
  "merge_engine cfg acc = Inr acc' \<Longrightarrow> set (dkeys acc) \<subseteq> set (dkeys acc')"
  by (auto simp: merge_engine_def ebind_Inr_iff set_dkeys_dset simp del: set_map split: option.splits if_splits)

lemma merge_engines_keys:
  "merge_engines cfgs acc = Inr acc' \<Longrightarrow> set (dkeys acc) \<subseteq> set (dkeys acc')"
proof (induction cfgs arbitrary: acc)
  case (Cons c cs)
  then show ?case by (fastforce simp: ebind_Inr_iff simp del: set_map dest: merge_engine_keys)
qed simp

lemma get_engine_config_nonempty:
  "get_engine_config_for_scan E svc prc br w = (Inr cfg, w') \<Longrightarrow> cfg \<noteq> []"
  by (auto simp: get_engine_config_for_scan_def bnd_Inr_iff minimum_engine_selection_def split: if_splits)

subsection \<open>Which calls the operations make\<close>

definition cx_read :: "event \<Rightarrow> bool" where
  "cx_read e = (case e of CxApi f a \<Rightarrow> f \<in> set cx_reads | CxPages f a \<Rightarrow> True | _ \<Rightarrow> False)"

text \<open>The calls of finding or creating a project, and of submitting a scan.\<close>

definition project_call :: "event \<Rightarrow> bool" where
  "project_call e = (cx_read e \<or> (case e of CxApi f a \<Rightarrow> f \<in> {''create_a_project'', ''update_a_project''} | _ \<Rightarrow> False))"

lemma emits_resolve_groups [emits_rules]:
  assumes "\<And>a. P (CxApi ''retrieve_groups'' a)"
  shows "emits P (resolve_groups E mk routes url)"
  unfolding resolve_groups_def resolve_group_ids_def resolve_path_def lookup_group_def
    increment_error_def grp_modify_def grp_def
  by (auto intro!: emits_rules assms)

lemma emits_resolve_group_memberships [emits_rules]:
  "(\<And>a. P (CxApi ''retrieve_groups'' a)) \<Longrightarrow> emits P (resolve_group_memberships E svc gs url)"
  unfolding resolve_group_memberships_def by (intro emits_rules)

lemma emits_engine_config [emits_rules]:
  assumes "\<And>a. P (CxApi ''get_default_engine_configuration'' a)"
    and "\<And>a. P (CxApi ''ScanFilterConfig.from_repo_config'' a)"
  shows "emits P (get_engine_config_for_scan E svc prc br)"
  unfolding get_engine_config_for_scan_def by (intro emits_rules assms)

lemma emits_sca_selected [emits_rules]:
  assumes "\<And>a. P (CxApi ''get_default_engine_configuration'' a)"
    and "\<And>a. P (CxApi ''ScanFilterConfig.from_repo_config'' a)"
  shows "emits P (sca_selected E svc prc br)"
  unfolding sca_selected_def by (intro emits_rules assms)

lemma emits_create_or_retrieve [emits_rules]:
  assumes "\<And>a. P (CxApi ''retrieve_list_of_projects'' a)" and "\<And>a. P (CxApi ''retrieve_groups'' a)"
    and "\<And>a. P (CxApi ''create_a_project'' a)" and "\<And>a. P (CxApi ''update_a_project'' a)"
  shows "emits P (create_or_retrieve_project E svc dn yn url)"
  unfolding create_or_retrieve_project_def create_or_retrieve_again_def known_project_def
    refresh_project_def update_loop_def update_project_def create_project_def list_projects_def
    purge_cache_def grp_modify_def Let_def
  by (intro emits_rules assms)

lemma emits_load_project_config [emits_rules]:
  assumes "\<And>a. P (CxApi ''retrieve_list_of_projects'' a)" and "\<And>a. P (CxApi ''retrieve_groups'' a)"
    and "\<And>a. P (CxApi ''create_a_project'' a)" and "\<And>a. P (CxApi ''update_a_project'' a)"
    and "\<And>a. P (CxApi ''ProjectRepoConfig.from_project_json'' a)"
  shows "emits P (load_project_config E svc dn yn url)"
  unfolding load_project_config_def by (intro emits_rules assms)

lemma emits_execute_scan [emits_rules]:
  assumes "\<And>a. P (CxApi ''get_default_engine_configuration'' a)"
    and "\<And>a. P (CxApi ''ScanFilterConfig.from_repo_config'' a)"
    and "\<And>a. P (CxApi ''ScanInvoker.scan_get_response'' a)"
  shows "emits P (execute_scan E svc z prc br tags)"
  unfolding execute_scan_def by (intro emits_rules assms)

lemma emits_load_scan_inspector [emits_rules]:
  "P (CxApi ''ScanLoader.load'' (JStr sid)) \<Longrightarrow> emits P (load_scan_inspector E sid)"
  unfolding load_scan_inspector_def by (intro emits_rules)

lemma emits_report_poll:
  assumes "\<And>s. P (Sleep s)" and "\<And>a. P (CxApi ''retrieve_report_status'' a)"
    and "\<And>a. P (CxApi ''download_a_report'' a)"
  shows "emits P (report_poll E rid st n)"
  by (induction n) (auto intro!: emits_rules assms)

lemma emits_retrieve_report [emits_rules]:
  assumes "\<And>s. P (Sleep s)" and "\<And>a. P (CxApi ''retrieve_report_status'' a)"
    and "\<And>a. P (CxApi ''download_a_report'' a)" and "\<And>a. P (CxApi ''create_a_report'' a)"
  shows "emits P (retrieve_report E pid sid)"
  unfolding retrieve_report_def by (intro emits_rules emits_report_poll assms)

subsection \<open>Tag updates touch the scans of the pull request only\<close>

definition pr_tag_call :: "env \<Rightarrow> json \<Rightarrow> json \<Rightarrow> json \<Rightarrow> json \<Rightarrow> event \<Rightarrow> bool" where
  "pr_tag_call E by_pr_id target st status e =
     (case e of
        CxPages f a \<Rightarrow> f = ''retrieve_list_of_scans''
      | CxApi f a \<Rightarrow> f = ''update_scan_tags'' \<and>
          (\<exists>i tags v. a = JObj [(''scanid'', i), (''tags'', JObj (pr_tags_update target st status tags))]
              \<and> dget tags PR_ID_TAG = Some v \<and> JStr (pstr E v) = by_pr_id)
      | _ \<Rightarrow> False)"

lemma dget_pr_tags_update:
  "dget (pr_tags_update target st status tags) k =
     (if k = PR_STATUS_TAG then Some status else if k = PR_STATE_TAG then Some st
      else if k = PR_TARGET_TAG then Some target else dget tags k)"
  by (simp add: pr_tags_update_def)

lemma emits_update_scan: "emits (pr_tag_call E pid tg st su) (update_scan E pid tg st su item acc)"
proof (cases item)
  case (Inl e)
  then show ?thesis by (simp add: update_scan_def emits_rules)
next
  case (Inr scan)
  show ?thesis
  proof (cases "is_pr_scan E pid scan = Inr True")
    case True
    then obtain tags v where "jget scan ''tags'' = Inr (JObj tags)" "dget tags PR_ID_TAG = Some v"
        "JStr (pstr E v) = pid"
      by (auto simp: is_pr_scan_def ebind_Inr_iff split: option.splits elim!: as_mapping.elims)
    moreover from calculation have "pr_tag_call E pid tg st su (CxApi ''update_scan_tags''
        (JObj [(''scanid'', i), (''tags'', JObj (pr_tags_update tg st su tags))]))" for i
      unfolding pr_tag_call_def by auto
    ultimately show ?thesis using Inr True
      by (auto simp: update_scan_def intro!: emits_rules)
  next
    case False
    then show ?thesis
      by (cases "is_pr_scan E pid scan") (auto simp: Inr update_scan_def intro!: emits_rules)
  qed
qed

lemma emits_update_scan_pr_tags:
  "emits (pr_tag_call E pid tg st su) (update_scan_pr_tags E nm pid h tg st su)"
  unfolding update_scan_pr_tags_def
  by (intro emits_rules emits_update_scan) (simp add: pr_tag_call_def)

subsection \<open>Waiting for a report ends\<close>

definition clock_runs :: "env \<Rightarrow> bool" where
  "clock_runs E \<longleftrightarrow> (\<forall>tr e. now E tr \<le> now E (tr @ [e])) \<and> (\<forall>tr s. now E tr + s \<le> now E (tr @ [Sleep s]))"

lemma as_dict_no_div: "ebind (get_json_or_fail r) as_dict \<noteq> Inl Diverges"
  by (cases "body r") (auto simp: get_json_or_fail_def)

lemma get_json_no_div: "get_json_or_fail r \<noteq> Inl Diverges"
  by (auto simp: get_json_or_fail_def)

lemma bnd_no_div:
  assumes "\<And>w'. m w \<noteq> (Inl Diverges, w')" and "\<And>x w'. m w = (Inr x, w') \<Longrightarrow> fst (k x w') \<noteq> Inl Diverges"
  shows "fst (bnd m k w) \<noteq> Inl Diverges"
  using assms by (auto simp: bnd_def split: prod.splits sum.splits)

lemma report_poll_ends:
  assumes "clock_runs E"
  shows "report_generate_timeout_seconds \<le> now E tr - start + report_poll_delay_seconds * int n \<Longrightarrow>
     fst (report_poll E rid start (Suc n) (tr, m)) \<noteq> Inl Diverges"
proof (induction n arbitrary: tr m)
  case 0
  then show ?case by (simp add: clock_def bnd_def)
next
  case (Suc n)
  let ?tr1 = "tr @ [Sleep report_poll_delay_seconds]"
  let ?tr2 = "?tr1 @ [CxApi ''retrieve_report_status'' rid]"
  have "now E tr + report_poll_delay_seconds \<le> now E ?tr1" "now E ?tr1 \<le> now E ?tr2"
    using assms unfolding clock_runs_def by blast+
  then have IH: "fst (report_poll E rid start (Suc n) (?tr2, m)) \<noteq> Inl Diverges"
    using Suc.IH [of ?tr2 m] Suc.prems by (simp add: algebra_simps)
  show ?case
    unfolding report_poll.simps(2) [of E rid start "Suc n"]
    using IH as_dict_no_div get_json_no_div
    by (auto simp: clock_def cxapi_def bnd_def simp del: report_poll.simps
        split: prod.splits sum.splits option.splits dest: arg_cong [of _ _ reply_of])
qed

lemma retrieve_report_ends:
  assumes "clock_runs E" and "21 \<le> fuel E"
  shows "fst (retrieve_report E pid sid w) \<noteq> Inl Diverges"
proof -
  have poll: "fst (report_poll E rid (now E tr) (fuel E) (tr, m)) \<noteq> Inl Diverges" for rid tr m
    using report_poll_ends [OF assms(1), of tr "now E tr" "fuel E - 1" rid m] assms(2)
    by (simp add: report_generate_timeout_seconds_def report_poll_delay_seconds_def of_nat_diff)
  have api: "cxapi E f a u \<noteq> (Inl Diverges, u')" for f a u u'
    using reply_of_Diverges [of "cx_api E (fst u) f a"] by (cases u) (auto simp: cxapi_def)
  have rest: "fst (bnd (lift (ebind (get_json_or_fail r) as_dict)) (\<lambda>rep. case dget rep ''reportId'' of
      None \<Rightarrow> raise CxOneException | Some rid \<Rightarrow> bnd (clock E) (\<lambda>start. report_poll E rid start (fuel E))) u) \<noteq> Inl Diverges" for r u
    using as_dict_no_div [of r] poll
    by (cases u, intro bnd_no_div) (auto simp: clock_def bnd_app split: option.splits)
  show ?thesis
    unfolding retrieve_report_def by (rule bnd_no_div [OF api rest])
qed

end
