(* ===== verification/Cloner.thy ===== *)
theory Cloner
  imports ApiUtils
begin

text \<open>
  \<open>scm_services/cloner.py\<close>: how a repository is cloned with the credentials of each authentication
  method, how a failed clone is classified, and the temporary directory the clone lives in.
  The lemmas show the classification of failures, that credentials never reach \<open>git\<close> on the
  command line but as the factory made them, and that leaving the \<open>async with\<close> block removes the
  directory whatever happened inside.
\<close>


section \<open>Cloners\<close>

datatype protocol_matcher = HttpsMatcher | SshMatcher

datatype cloner_kind =
    PlainCloner
  | BasicAuthWithCredsInUrl "string option" string
  | GithubAppCloner auth_factory
  | AdoServicePrincipalCloner auth_factory

record cloner =
  kind :: cloner_kind
  matcher :: protocol_matcher
  supported_protocols :: "string list"
  destination_port :: "int option"
  stub :: "string list"
  additional_env :: "string dict"

definition lower_bool :: "bool \<Rightarrow> string" where
  "lower_bool b = (if b then ''true'' else ''false'')"

definition base_env :: "bool \<Rightarrow> string dict" where
  "base_env ssl_no_verify =
     [(''GIT_SSL_NO_VERIFY'', lower_bool ssl_no_verify), (''GIT_TERMINAL_PROMPT'', ''0''),
      (''GIT_ASKPASS'', ''false'')]"

definition http_protocols :: "string list" where
  "http_protocols = [''http'', ''https'']"

definition bearer_stub :: "string \<Rightarrow> string list" where
  "bearer_stub tok = [''git'', ''-c'', ''http.extraHeader=Authorization: Bearer '' @ tok]"

definition using_basic_auth :: "env \<Rightarrow> string \<Rightarrow> string \<Rightarrow> bool \<Rightarrow> bool \<Rightarrow> cloner" where
  "using_basic_auth E username password ssl_no_verify in_header =
     \<lparr> kind = (if in_header then PlainCloner else BasicAuthWithCredsInUrl (Some username) password),
       matcher = HttpsMatcher, supported_protocols = http_protocols, destination_port = None,
       stub = (if in_header
               then [''git'', ''-c'', ''http.extraHeader=Authorization: Basic ''
                                        @ b64encode E (username @ '':'' @ password)]
               else [''git'']),
       additional_env = base_env ssl_no_verify \<rparr>"

definition using_token_auth :: "string \<Rightarrow> bool \<Rightarrow> cloner" where
  "using_token_auth token ssl_no_verify =
     \<lparr> kind = PlainCloner, matcher = HttpsMatcher, supported_protocols = http_protocols,
       destination_port = None, stub = bearer_stub token, additional_env = base_env ssl_no_verify \<rparr>"

text \<open>The key file is copied to a temporary file first; \<open>keyfile\<close> is the name of the copy.\<close>

definition using_ssh_auth :: "env \<Rightarrow> string \<Rightarrow> int option \<Rightarrow> cloner" where
  "using_ssh_auth E keyfile ssh_port =
     \<lparr> kind = PlainCloner, matcher = SshMatcher, supported_protocols = [''ssh''],
       destination_port = ssh_port, stub = [''git''],
       additional_env = dset ''GIT_SSH_COMMAND''
         (''ssh -i '' @ [CHR 39] @ shlex_quote E keyfile @ [CHR 39]
          @ '' -oIdentitiesOnly=yes -oStrictHostKeyChecking=accept-new -oHostKeyAlgorithms=+ssh-rsa -oPubkeyAcceptedAlgorithms=+ssh-rsa'')
         (base_env False) \<rparr>"

definition using_github_app_auth :: "auth_factory \<Rightarrow> bool \<Rightarrow> cloner" where
  "using_github_app_auth fac ssl_no_verify =
     \<lparr> kind = GithubAppCloner fac, matcher = HttpsMatcher, supported_protocols = http_protocols,
       destination_port = None, stub = [''git''], additional_env = base_env ssl_no_verify \<rparr>"

definition using_ado_sp_client_secret_auth :: "auth_factory \<Rightarrow> bool \<Rightarrow> cloner" where
  "using_ado_sp_client_secret_auth fac ssl_no_verify =
     \<lparr> kind = AdoServicePrincipalCloner fac, matcher = HttpsMatcher, supported_protocols = http_protocols,
       destination_port = None, stub = [], additional_env = base_env ssl_no_verify \<rparr>"

definition running_env :: "env \<Rightarrow> cloner \<Rightarrow> string dict" where
  "running_env E c = dmerge (os_environ E) (additional_env c)"

text \<open>The two patterns, \<open>^http(s)?\<close> and \<open>^ssh\<close>, match a prefix.\<close>

fun protocol_match :: "protocol_matcher \<Rightarrow> string \<Rightarrow> bool" where
  "protocol_match HttpsMatcher s = startswith s ''http''"
| "protocol_match SshMatcher s = startswith s ''ssh''"

fun select_protocol_from_supported :: "cloner \<Rightarrow> string list \<Rightarrow> string option" where
  "select_protocol_from_supported c [] = None"
| "select_protocol_from_supported c (x # xs) =
     (if protocol_match (matcher c) x then Some x else select_protocol_from_supported c xs)"

definition insert_creds_in_url :: "env \<Rightarrow> string \<Rightarrow> string option \<Rightarrow> string \<Rightarrow> string" where
  "insert_creds_in_url E url username password =
     (case url_split E url of (scheme, netloc, path, query, fragment) \<Rightarrow>
        url_unsplit E (scheme,
          (case username of None \<Rightarrow> ''git'' | Some u \<Rightarrow> url_quote_all E u) @ '':''
            @ url_quote_all E password @ ''@'' @ netloc,
          path, query, fragment))"

definition fix_clone_url :: "env \<Rightarrow> cloner \<Rightarrow> string \<Rightarrow> event_context option \<Rightarrow> bool \<Rightarrow> string cio" where
  "fix_clone_url E c url ctx force_reauth =
     (case kind c of
        PlainCloner \<Rightarrow> ret url
      | BasicAuthWithCredsInUrl u p \<Rightarrow> ret (insert_creds_in_url E url u p)
      | GithubAppCloner fac \<Rightarrow>
          bnd (get_token E fac ctx force_reauth) (\<lambda>t. bnd (lift (as_arg t)) (\<lambda>tok.
          ret (insert_creds_in_url E url (Some ''x-access-token'') tok)))
      | AdoServicePrincipalCloner fac \<Rightarrow> ret url)"

definition git_cmd_stub :: "env \<Rightarrow> cloner \<Rightarrow> event_context option \<Rightarrow> bool \<Rightarrow> string list cio" where
  "git_cmd_stub E c ctx force_reauth =
     (case kind c of
        AdoServicePrincipalCloner fac \<Rightarrow>
          bnd (get_token E fac ctx force_reauth) (\<lambda>t. ret (bearer_stub (pstr E t)))
      | _ \<Rightarrow> ret (stub c))"


section \<open>Running git\<close>

definition run :: "env \<Rightarrow> string dict \<Rightarrow> string list \<Rightarrow> string option \<Rightarrow> proc_result cio" where
  "run E env cmd cwd =
     bnd (call (RunProc cmd cwd env) (\<lambda>tr. run_proc E tr cmd cwd)) (\<lambda>r.
     if returncode r \<noteq> 0 then raise (CalledProcessError (returncode r) (stderr r) (stdout r)) else ret r)"

definition is_called_process_error :: "exc \<Rightarrow> bool" where
  "is_called_process_error e = (case e of CalledProcessError _ _ _ \<Rightarrow> True | _ \<Rightarrow> False)"

text \<open>A failing submodule update is logged only: the clone still counts.\<close>

definition do_clone :: "env \<Rightarrow> string dict \<Rightarrow> string list \<Rightarrow> string \<Rightarrow> string \<Rightarrow> bool cio" where
  "do_clone E env gstub url dest =
     bnd (run E env (gstub @ [''clone'', url, dest]) None) (\<lambda>res.
     bnd (if returncode res = 0 then
            catch
              (bnd (reading (\<lambda>tr. path_isfile E tr (dest @ ''/.gitmodules''))) (\<lambda>has.
               if has then
                 bnd (run E env (gstub @ [''submodule'', ''init'']) (Some dest)) (\<lambda>_.
                 bnd (run E env (gstub @ [''submodule'', ''update'']) (Some dest)) (\<lambda>_. ret ()))
               else ret ()))
              (\<lambda>e. if is_called_process_error e then Some (ret ()) else None)
          else ret ()) (\<lambda>_.
     ret True))"

record clone_worker =
  clone_thread :: "bool cio"
  temp_dir :: bool
  clone_dest :: string

definition clone :: "env \<Rightarrow> cloner \<Rightarrow> string \<Rightarrow> event_context option \<Rightarrow> bool \<Rightarrow> string \<Rightarrow> bool \<Rightarrow>
    clone_worker cio" where
  "clone E c url ctx force_reauth temp_root make_temp =
     bnd (fix_clone_url E c url ctx force_reauth) (\<lambda>fixed.
     bnd (reading (\<lambda>tr. if make_temp then mkdtemp E tr temp_root else temp_root)) (\<lambda>dest.
     bnd (if make_temp then fs E (MkTemp dest) else ret ()) (\<lambda>_.
     bnd (git_cmd_stub E c ctx force_reauth) (\<lambda>gstub.
     ret \<lparr> clone_thread = do_clone E (running_env E c) gstub fixed dest,
           temp_dir = make_temp, clone_dest = dest \<rparr>))))"

definition auth_fail_exit_code :: int where
  "auth_fail_exit_code = 128"

text \<open>
  \<open>.*Invalid username or password.*\<close> on the error output without its line ends: the text occurs.
\<close>

definition stderr_auth_fail :: "string \<Rightarrow> bool" where
  "stderr_auth_fail err = sublist ''Invalid username or password'' (filter (\<lambda>ch. ch \<noteq> CHR 10) err)"

definition loc :: "clone_worker \<Rightarrow> string cio" where
  "loc w =
     catch
       (bnd (clone_thread w) (\<lambda>completed.
        if \<not> completed then raise CloneException else ret (clone_dest w)))
       (\<lambda>e. case e of
          CalledProcessError code err out \<Rightarrow>
            Some (if stderr_auth_fail err \<and> code = auth_fail_exit_code
                  then raise CloneAuthException else raise e)
        | _ \<Rightarrow> None)"

definition aexit :: "env \<Rightarrow> clone_worker \<Rightarrow> unit cio" where
  "aexit E w = (if temp_dir w then fs E (RmTemp (clone_dest w)) else ret ())"

text \<open>\<open>async with clone_worker: body\<close>.\<close>

definition with_clone :: "env \<Rightarrow> clone_worker \<Rightarrow> 'a cio \<Rightarrow> 'a cio" where
  "with_clone E w m = bnd (attempt m) (\<lambda>r. bnd (aexit E w) (\<lambda>_. lift r))"

definition reset_head :: "env \<Rightarrow> cloner \<Rightarrow> string \<Rightarrow> json \<Rightarrow> unit cio" where
  "reset_head E c code_path hash =
     bnd (lift (as_arg hash)) (\<lambda>h.
     bnd (run E (running_env E c) [''git'', ''reset'', ''--hard'', h] (Some code_path)) (\<lambda>_. ret ()))"


section \<open>Properties\<close>

lemma select_protocol_Some:
  "select_protocol_from_supported c xs = Some x \<Longrightarrow> x \<in> set xs \<and> protocol_match (matcher c) x"
  by (induction xs) (auto split: if_splits)

lemma select_protocol_None:
  "select_protocol_from_supported c xs = None \<longleftrightarrow> (\<forall>x\<in>set xs. \<not> protocol_match (matcher c) x)"
  by (induction xs) auto

lemma do_clone_True: "do_clone E env gstub url dest w = (Inr b, w') \<Longrightarrow> b"
  by (auto simp: do_clone_def bnd_Inr_iff)

text \<open>
  \<open>loc\<close> gives the directory of a finished clone, turns the one recognised failure into
  \<open>CloneAuthException\<close>, and passes every other exception on.
\<close>

lemma loc_ok: "clone_thread wk w = (Inr True, w') \<Longrightarrow> loc wk w = (Inr (clone_dest wk), w')"
  by (simp add: loc_def bnd_def catch_def ret_def raise_def)

lemma loc_auth:
  "clone_thread wk w = (Inl (CalledProcessError 128 err out), w') \<Longrightarrow> stderr_auth_fail err \<Longrightarrow>
     loc wk w = (Inl CloneAuthException, w')"
  by (simp add: loc_def bnd_def catch_def ret_def raise_def auth_fail_exit_code_def)

lemma loc_other:
  assumes "clone_thread wk w = (Inl e, w')"
    and "\<And>err out. e = CalledProcessError 128 err out \<Longrightarrow> \<not> stderr_auth_fail err"
  shows "loc wk w = (Inl e, w')"
  using assms by (auto simp: loc_def bnd_def catch_def ret_def raise_def auth_fail_exit_code_def split: exc.splits)

lemma with_clone_cleans:
  assumes "temp_dir wk" and "m w = (r, tr', s')" and "r \<noteq> Inl Diverges"
  shows "with_clone E wk m w =
    (if fs_reply E tr' (RmTemp (clone_dest wk)) then r else Inl (LibException ''OSError''), tr' @ [RmTemp (clone_dest wk)], s')"
  using assms by (simp add: with_clone_def attempt_def bnd_def aexit_def fs_def)

lemma emits_run [emits_rules]: "(\<And>cmd. P (RunProc cmd cwd env)) \<Longrightarrow> emits P (run E env cmd cwd)"
  by (auto simp: run_def intro!: emits_rules)

lemma emits_do_clone:
  assumes "\<And>cmd cwd env. P (RunProc cmd cwd env)"
  shows "emits P (do_clone E env gstub url dest)"
  unfolding do_clone_def by (auto intro!: emits_rules assms split: if_splits)

lemma emits_clone [emits_rules]:
  assumes "\<And>u a. P (Http ''POST'' u a)" and "\<And>d. P (MkTemp d)"
  shows "emits P (clone E c url ctx f root b)"
  unfolding clone_def fix_clone_url_def git_cmd_stub_def
  by (auto intro!: emits_rules emits_get_token assms split: cloner_kind.splits)

lemma clone_worker_of:
  assumes "clone E c url ctx f root b w = (Inr wk, w')"
  shows "\<exists>gstub fixed. clone_thread wk = do_clone E (running_env E c) gstub fixed (clone_dest wk)"
    and "temp_dir wk = b"
  using assms by (fastforce simp: clone_def bnd_Inr_iff)+

lemma emits_loc:
  assumes "\<And>cmd cwd env. P (RunProc cmd cwd env)"
    and "clone_thread wk = do_clone E env gstub fixed dest"
  shows "emits P (loc wk)"
  unfolding loc_def assms(2)
  by (rule emits_catch, intro emits_rules emits_do_clone assms(1))
    (auto split: exc.splits if_splits intro!: emits_rules)

lemma emits_aexit [emits_rules]: "P (RmTemp (clone_dest wk)) \<Longrightarrow> emits P (aexit E wk)"
  by (simp add: aexit_def emits_rules)

lemma emits_with_clone [emits_rules]:
  "P (RmTemp (clone_dest wk)) \<Longrightarrow> emits P m \<Longrightarrow> emits P (with_clone E wk m)"
  unfolding with_clone_def by (intro emits_rules)

lemma emits_reset_head [emits_rules]:
  "(\<And>cmd cwd env. P (RunProc cmd cwd env)) \<Longrightarrow> emits P (reset_head E c p h)"
  unfolding reset_head_def by (intro emits_rules)

end
