(* ===== verification/PrContent.thy ===== *)
theory PrContent
  imports World "HOL-Library.List_Lexorder" "HOL-Library.Char_ord"
begin

text \<open>
  \<open>workflows/pr_content.py\<close>: the markdown comment the services write on a pull request. The rows of
  a section are kept in a \<open>SortedList\<close>; the sections are emitted up to a character limit, then a
  link to the full results takes the place of the rest. The lemmas show that the rows stay
  sorted, that the limit is kept, that the comment carries the identifier by which the services
  find it again, and that excluded severities and states never get a row.
\<close>


section \<open>Sorted rows\<close>

record detail_row =
  row_severity :: ResultSeverity
  output_order :: "string list"
  field_data :: "json dict"

text \<open>\<open>f"{rank:03}"\<close>\<close>

definition pad3 :: "int \<Rightarrow> string" where
  "pad3 i = (if i < 0 then CHR ''-'' # replicate (2 - length (dec_nat (nat (- i)))) CHR ''0'' @ dec_nat (nat (- i))
             else replicate (3 - length (dec_nat (nat i))) CHR ''0'' @ dec_nat (nat i))"

definition severity_rank_key :: "detail_row \<Rightarrow> string" where
  "severity_rank_key r = pad3 (int (rank (row_severity r)))"

text \<open>\<open>row[key]\<close> in a key function, where it is added to a string.\<close>

definition row_field :: "detail_row \<Rightarrow> string \<Rightarrow> exc + string" where
  "row_field r k = (case dget (field_data r) k of None \<Rightarrow> Inr [] | Some v \<Rightarrow> as_arg v)"

definition row_str :: "detail_row \<Rightarrow> exc + string" where
  "row_str r =
     ebind (emapM (\<lambda>f. ebind (dgetE (field_data r) f) as_arg) (output_order r)) (\<lambda>fs.
     Inr (''| '' @ join '' | '' fs @ '' |''))"

datatype row_kind = PolicyRows | SastRows | ScaRows | IacRows | ResolvedRows

fun header_order :: "row_kind \<Rightarrow> string list" where
  "header_order PolicyRows = [''break_build_indicator'', ''policy_name'', ''policy_rule_name'']"
| "header_order SastRows = [''severity_image_link'', ''issue'', ''source_permalink'', ''viewer_link'']"
| "header_order ScaRows = [''severity_image_link'', ''cve'', ''package'', ''viewer_link'']"
| "header_order IacRows = [''severity_image_link'', ''technology'', ''source_permalink'', ''query'', ''viewer_link'']"
| "header_order ResolvedRows = [''severity_image_link'', ''name'', ''viewer_link'']"

fun key_fields :: "row_kind \<Rightarrow> string list" where
  "key_fields PolicyRows = [''policy_name'', ''policy_rule_name'']"
| "key_fields SastRows = [''issue'']"
| "key_fields ScaRows = [''package_name'', ''package_version'', ''cve'']"
| "key_fields IacRows = [''technology'']"
| "key_fields ResolvedRows = [''name'']"

definition row_key :: "row_kind \<Rightarrow> detail_row \<Rightarrow> exc + string" where
  "row_key k r = ebind (emapM (row_field r) (key_fields k)) (\<lambda>fs. Inr (severity_rank_key r @ concat fs))"

text \<open>\<open>SortedList.add\<close> puts an element after those with the same key. Rows are kept with their key.\<close>

fun sorted_add :: "string \<times> detail_row \<Rightarrow> (string \<times> detail_row) list \<Rightarrow> (string \<times> detail_row) list" where
  "sorted_add x [] = [x]"
| "sorted_add x (y # ys) = (if fst y \<le> fst x then y # sorted_add x ys else x # y # ys)"

type_synonym rows = "(string \<times> detail_row) list"

definition add_row :: "row_kind \<Rightarrow> ResultSeverity \<Rightarrow> json dict \<Rightarrow> rows \<Rightarrow> exc + rows" where
  "add_row k sev kwargs rs =
     (let r = \<lparr> row_severity = sev, output_order = header_order k, field_data = kwargs \<rparr> in
      ebind (row_key k r) (\<lambda>key. Inr (sorted_add (key, r) rs)))"

lemma set_sorted_add [simp]: "set (sorted_add x xs) = insert x (set xs)"
  by (induction xs) auto

lemma length_sorted_add [simp]: "length (sorted_add x xs) = Suc (length xs)"
  by (induction xs) auto

lemma sorted_sorted_add: "sorted (map fst xs) \<Longrightarrow> sorted (map fst (sorted_add x xs))"
  by (induction xs) auto

lemma pad3_rank:
  "pad3 (int (rank s)) =
     (case s of CRITICAL \<Rightarrow> ''000'' | HIGH \<Rightarrow> ''001'' | MEDIUM \<Rightarrow> ''002'' | LOW \<Rightarrow> ''003'' | INFO \<Rightarrow> ''004'')"
  by (cases s; simp only: rank.simps ResultSeverity.case; code_simp)

lemma pad3_rank_mono: "pad3 (int (rank s)) \<le> pad3 (int (rank t)) \<longleftrightarrow> s \<le> t"
  unfolding pad3_rank by (cases s; cases t) (simp_all add: less_eq_ResultSeverity_def less_char_def)

lemma length_pad3_rank: "length (pad3 (int (rank s))) = 3"
  unfolding pad3_rank by (cases s) simp_all

lemma append_le_prefix:
  fixes a b x y :: string
  assumes "a @ x \<le> b @ y" and "length a = length b"
  shows "a \<le> b"
  using assms(2,1) by (induction a b rule: list_induct2) (auto simp: Cons_le_Cons)

text \<open>The key of a row starts with its severity, so sorted keys are sorted severities.\<close>

definition keyed :: "rows \<Rightarrow> bool" where
  "keyed rs \<longleftrightarrow> (\<forall>(k, r) \<in> set rs. \<exists>s. k = severity_rank_key r @ s)"

lemma keyed_severities:
  assumes "keyed rs" and "sorted (map fst rs)"
  shows "sorted (map (row_severity \<circ> snd) rs)"
  using assms
proof (induction rs)
  case (Cons kr rs)
  obtain k r where kr: "kr = (k, r)" by (cases kr)
  have "row_severity r \<le> row_severity r'" if mem: "(k', r') \<in> set rs" for k' r'
  proof -
    have "k \<le> k'" using Cons.prems(2) mem kr by force
    moreover obtain s where "k = severity_rank_key r @ s"
      using Cons.prems(1) kr unfolding keyed_def by auto
    moreover obtain s' where "k' = severity_rank_key r' @ s'"
      using Cons.prems(1) mem kr unfolding keyed_def by auto
    ultimately have "severity_rank_key r @ s \<le> severity_rank_key r' @ s'" by simp
    then have "severity_rank_key r \<le> severity_rank_key r'"
      by (rule append_le_prefix) (simp add: severity_rank_key_def length_pad3_rank)
    then show ?thesis by (simp add: severity_rank_key_def pad3_rank_mono)
  qed
  with Cons kr show ?case by (auto simp: keyed_def)
qed simp

lemma add_row_inv:
  assumes "add_row k sev kw rs = Inr rs'" and "keyed rs" and "sorted (map fst rs)"
  shows "keyed rs'" and "sorted (map fst rs')" and "length rs' = Suc (length rs)"
  using assms
  by (auto simp: add_row_def Let_def ebind_Inr_iff row_key_def keyed_def intro: sorted_sorted_add)


section \<open>Enumerations from report values\<close>

text \<open>\<open>ResultSeverity(value)\<close> and \<open>ResultStates(value)\<close>; an unknown value raises.\<close>

fun ResultSeverity_of :: "json \<Rightarrow> exc + ResultSeverity" where
  "ResultSeverity_of (JStr s) =
     (if s = ''Critical'' then Inr CRITICAL else if s = ''High'' then Inr HIGH
      else if s = ''Medium'' then Inr MEDIUM else if s = ''Low'' then Inr LOW
      else if s = ''Info'' \<or> s = ''Information'' \<or> s = [] then Inr INFO else Inl ValueError)"
| "ResultSeverity_of (JInt i) =
     (if i = 0 then Inr CRITICAL else if i = 1 then Inr HIGH else if i = 2 then Inr MEDIUM
      else if i = 3 then Inr LOW else if i = 4 then Inr INFO else Inl ValueError)"
| "ResultSeverity_of _ = Inl ValueError"

fun ResultStates_of :: "json \<Rightarrow> exc + ResultStates" where
  "ResultStates_of (JStr s) =
     (if s = ''To Verify'' then Inr TO_VERIFY else if s = ''Not Exploitable'' then Inr NOT_EXPLOITABLE
      else if s = ''Proposed Not Exploitable'' then Inr PROP_NOT_EXPLOITABLE
      else if s = ''Confirmed'' then Inr CONFIRMED else if s = ''Urgent'' then Inr URGENT else Inl ValueError)"
| "ResultStates_of _ = Inl ValueError"

fun severity_values :: "ResultSeverity \<Rightarrow> string list" where
  "severity_values CRITICAL = [''Critical'', ''0'']"
| "severity_values HIGH = [''High'', ''1'']"
| "severity_values MEDIUM = [''Medium'', ''2'']"
| "severity_values LOW = [''Low'', ''3'']"
| "severity_values INFO = [''Info'', ''Information'', [], ''4'']"

definition all_severities :: "ResultSeverity list" where
  "all_severities = [CRITICAL, HIGH, MEDIUM, LOW, INFO]"

text \<open>\<open>__test_in_enum\<close>: an unknown value is in no exclusion list.\<close>

definition test_in_enum :: "(json \<Rightarrow> exc + 'a) \<Rightarrow> json \<Rightarrow> 'a list \<Rightarrow> bool" where
  "test_in_enum parse v excl = (case parse v of Inl _ \<Rightarrow> False | Inr x \<Rightarrow> x \<in> set excl)"

definition included_severities :: "ResultSeverity list \<Rightarrow> ResultSeverity list" where
  "included_severities excl = filter (\<lambda>x. x \<notin> set excl) all_severities"


section \<open>The comment\<close>

datatype item = Text string | Rows row_kind

record md_comment =
  server_base_url :: string
  overflow_link :: string
  md_scan_url :: string
  annotation_items :: "item list"
  summary_items :: "item list"
  details_items :: "item list"
  rows_of :: "row_kind \<Rightarrow> rows"

definition NL :: string where "NL = [CHR 10]"

definition comment_identifier :: string where "comment_identifier = ''[//]:#cxoneflow''"

definition success_unicode :: string where "success_unicode = ''&#x2705;''"
definition failure_unicode :: string where "failure_unicode = ''&#x274C;''"

definition comment_matches_identifier :: "string \<Rightarrow> bool" where
  "comment_matches_identifier txt = startswith (filter (\<lambda>c. c \<noteq> CHR 10) txt) comment_identifier"

definition append_comment_identifier :: "string \<Rightarrow> string" where
  "append_comment_identifier txt = comment_identifier @ NL @ txt"

definition make_md_link :: "string \<Rightarrow> string \<Rightarrow> string" where
  "make_md_link url nm = ''['' @ nm @ '']('' @ url @ '')''"

definition make_md_image :: "string \<Rightarrow> string \<Rightarrow> string" where
  "make_md_image url nm = ''!['' @ nm @ '']('' @ url @ '')''"

definition form_artifact_url :: "env \<Rightarrow> string \<Rightarrow> string \<Rightarrow> string" where
  "form_artifact_url E base path = rstrip CHR ''/'' base @ ''/artifacts/'' @ url_quote E (lstrip CHR ''/'' path)"

definition make_md_header_image :: "env \<Rightarrow> string \<Rightarrow> string" where
  "make_md_header_image E base = make_md_image (form_artifact_url E base ''checkmarx.png'') ''CheckmarxOne''"

definition lower_char :: "char \<Rightarrow> char" where
  "lower_char c = (if 65 \<le> (of_char c :: nat) \<and> (of_char c :: nat) \<le> 90 then char_of ((of_char c :: nat) + 32) else c)"

definition lower :: "string \<Rightarrow> string" where
  "lower s = map lower_char s"

definition severity_map :: "string dict" where
  "severity_map =
     [(''critical'', ''critical.png''), (''high'', ''high.png''), (''medium'', ''medium.png''), (''low'', ''low.png''),
      (''information'', ''info.png''), (''info'', ''info.png''), (''informational'', ''info.png'')]"

definition make_md_severity_indicator :: "env \<Rightarrow> string \<Rightarrow> string \<Rightarrow> string" where
  "make_md_severity_indicator E base sev =
     make_md_image (form_artifact_url E base
       (case dget severity_map (lower sev) of Some img \<Rightarrow> img | None \<Rightarrow> ''info.png'')) sev"

text \<open>The pieces of the path are plain identifiers, so \<open>Path\<close> only joins them with slashes.\<close>

definition make_cxone_scan_url :: "(string \<Rightarrow> string) \<Rightarrow> string \<Rightarrow> string \<Rightarrow> string \<Rightarrow> string \<Rightarrow> string" where
  "make_cxone_scan_url quote_plus display pid sid branch =
     display @ ''projects/'' @ pid @ ''/scans?id='' @ sid @ ''&filter_by_Scan_Id='' @ sid
       @ ''&branch='' @ quote_plus branch"

definition make_cxone_md_scan_link ::
    "(string \<Rightarrow> string) \<Rightarrow> string \<Rightarrow> string \<Rightarrow> string \<Rightarrow> string \<Rightarrow> string option \<Rightarrow> string" where
  "make_cxone_md_scan_link quote_plus display pid sid branch link_text =
     ''['' @ (case link_text of None \<Rightarrow> sid | Some t \<Rightarrow> t) @ '']('' @ make_cxone_scan_url quote_plus display pid sid branch @ '')''"

definition make_cxone_md_sca_result_link ::
    "string \<Rightarrow> string \<Rightarrow> string \<Rightarrow> string \<Rightarrow> string \<Rightarrow> string \<Rightarrow> string" where
  "make_cxone_md_sca_result_link display pid sid title cve package_id =
     ''['' @ title @ '']('' @ display @ ''results/'' @ pid @ ''/'' @ sid @ ''/sca?internalPath=''
       @ ''%2Fvulnerabilities%2F'' @ cve @ ''%253A'' @ package_id @ ''%2FvulnerabilityDetailsGql'' @ '')''"

definition new_comment :: "string \<Rightarrow> string \<Rightarrow> string \<Rightarrow> md_comment" where
  "new_comment base overflow url =
     \<lparr> server_base_url = base, overflow_link = overflow, md_scan_url = url, annotation_items = [],
       summary_items = [], details_items = [], rows_of = (\<lambda>_. []) \<rparr>"

definition add_to_annotation :: "string \<Rightarrow> md_comment \<Rightarrow> md_comment" where
  "add_to_annotation line c = c\<lparr> annotation_items := annotation_items c @ [Text line] \<rparr>"

definition add_detail :: "row_kind \<Rightarrow> ResultSeverity \<Rightarrow> json dict \<Rightarrow> md_comment \<Rightarrow> exc + md_comment" where
  "add_detail k sev kwargs c =
     ebind (add_row k sev kwargs (rows_of c k)) (\<lambda>rs. Inr (c\<lparr> rows_of := (rows_of c)(k := rs) \<rparr>))"

text \<open>The \<open>start_*_detail_section\<close> methods.\<close>

fun section_head :: "row_kind \<Rightarrow> string list" where
  "section_head PolicyRows = [NL, ''# Policy Violations'', ''| Breaking | Policy Name | Policy Rule |'', ''| :-: | - | - |'']"
| "section_head SastRows = [NL, ''# SAST Results'', ''| Severity | Issue | Source | Checkmarx Insight |'', ''| :-: | - | - | - |'']"
| "section_head ScaRows = [NL, ''# SCA Results'', NL, ''| Severity | CVE | Package | Checkmarx Insight |'', ''| :-: | - | - | - |'']"
| "section_head IacRows = [NL, ''# IAC Results'', NL, ''| Severity | Technology | Source | Query | Checkmarx Insight |'', ''| :-: | - | - | - | - |'']"
| "section_head ResolvedRows = [NL, ''# Resolved SAST Results'', NL, ''| Severity | Name | Checkmarx Insight |'', ''| :-: | - | - |'']"

definition start_detail_section :: "row_kind \<Rightarrow> md_comment \<Rightarrow> md_comment" where
  "start_detail_section k c = c\<lparr> details_items := details_items c @ map Text (section_head k) @ [Rows k] \<rparr>"

fun severity_name :: "ResultSeverity \<Rightarrow> string" where
  "severity_name s = hd (severity_values s)"

definition start_summary_section :: "ResultSeverity list \<Rightarrow> md_comment \<Rightarrow> md_comment" where
  "start_summary_section incl c = c\<lparr> summary_items := summary_items c @ map Text
     [NL, ''# Summary of Vulnerabilities'', NL,
      ''| Engine | '' @ join '' | '' (map severity_name incl) @ '' |'',
      ''|--'' @ concat (replicate (length incl) ''| :-: '') @ ''|''] \<rparr>"

definition add_summary_entry :: "string \<Rightarrow> (ResultSeverity \<Rightarrow> string) \<Rightarrow> ResultSeverity list \<Rightarrow> md_comment \<Rightarrow> md_comment" where
  "add_summary_entry engine counts incl c =
     c\<lparr> summary_items := summary_items c @ [Text (''|'' @ engine @ ''|'' @ join ''|'' (map counts incl) @ ''|'')] \<rparr>"


section \<open>Emitting the content up to a limit\<close>

record appender =
  app_content :: string
  app_total :: int
  app_stop :: bool

definition append_v :: "int \<Rightarrow> string \<Rightarrow> string \<Rightarrow> appender \<Rightarrow> appender" where
  "append_v mx link v a =
     (if app_stop a then a
      else if app_total a + int (length v) \<ge> mx then
        \<lparr> app_content = app_content a @ link, app_total = app_total a + int (length link), app_stop = True \<rparr>
      else \<lparr> app_content = app_content a @ v, app_total = app_total a + int (length v), app_stop = False \<rparr>)"

text \<open>A line end is added unless the text ends in one.\<close>

definition terminated :: "string \<Rightarrow> string" where
  "terminated s = (if s \<noteq> [] \<and> last s = CHR 10 then s else s @ NL)"

fun append_rows :: "int \<Rightarrow> string \<Rightarrow> rows \<Rightarrow> appender \<Rightarrow> exc + appender" where
  "append_rows mx link [] a = Inr a"
| "append_rows mx link ((k, r) # rs) a =
     (if app_stop a then Inr a
      else ebind (row_str r) (\<lambda>s. append_rows mx link rs (append_v mx link (terminated s) a)))"

fun append_items :: "(row_kind \<Rightarrow> rows) \<Rightarrow> int \<Rightarrow> string \<Rightarrow> item list \<Rightarrow> appender \<Rightarrow> exc + appender" where
  "append_items rsf mx link [] a = Inr a"
| "append_items rsf mx link (Text s # is) a = append_items rsf mx link is (append_v mx link (terminated s) a)"
| "append_items rsf mx link (Rows k # is) a =
     ebind (append_rows mx link (rsf k) a) (append_items rsf mx link is)"

text \<open>The values of \<open>__elements\<close> in key order; \<open>None\<close> for the end markers.\<close>

definition elements :: "env \<Rightarrow> md_comment \<Rightarrow> item list option list" where
  "elements E c =
     [Some [Text comment_identifier],
      Some [Text (make_md_header_image E (server_base_url c))], None,
      Some (annotation_items c), None,
      Some (summary_items c), None,
      Some (details_items c), None]"

fun append_elements :: "(row_kind \<Rightarrow> rows) \<Rightarrow> int \<Rightarrow> string \<Rightarrow> item list option list \<Rightarrow> appender \<Rightarrow> exc + appender" where
  "append_elements rsf mx link [] a = Inr a"
| "append_elements rsf mx link (e # es) a =
     (if app_stop a then Inr a
      else let a1 = append_v mx link NL a in
        case e of
          None \<Rightarrow> append_elements rsf mx link es a1
        | Some is \<Rightarrow> if app_stop a1 then Inr a1
                     else ebind (append_items rsf mx link is a1) (append_elements rsf mx link es))"

definition get_content :: "env \<Rightarrow> md_comment \<Rightarrow> int \<Rightarrow> exc + string" where
  "get_content E c char_limit =
     (if char_limit < int (length (overflow_link c)) then Inl ValueError
      else ebind (append_elements (rows_of c) (char_limit - int (length (overflow_link c))) (overflow_link c)
                    (elements E c) \<lparr> app_content = [], app_total = 0, app_stop = False \<rparr>)
             (\<lambda>a. Inr (app_content a)))"


subsection \<open>The limit is kept\<close>

definition app_ok :: "int \<Rightarrow> string \<Rightarrow> appender \<Rightarrow> bool" where
  "app_ok mx link a \<longleftrightarrow> app_total a = int (length (app_content a)) \<and>
     app_total a \<le> (if app_stop a then mx + int (length link) else mx)"

text \<open>One step extends the content and keeps the bound.\<close>

definition grows :: "int \<Rightarrow> string \<Rightarrow> appender \<Rightarrow> appender \<Rightarrow> bool" where
  "grows mx link a b \<longleftrightarrow> prefix (app_content a) (app_content b) \<and> (app_ok mx link a \<longrightarrow> app_ok mx link b)"

lemma grows_refl: "grows mx link a a"
  by (simp add: grows_def)

lemma grows_trans: "grows mx link a b \<Longrightarrow> grows mx link b c \<Longrightarrow> grows mx link a c"
  unfolding grows_def by (meson prefix_order.trans)

lemma grows_append_v: "grows mx link a (append_v mx link v a)"
  by (auto simp: grows_def append_v_def app_ok_def)

lemma grows_append_rows: "append_rows mx link rs a = Inr b \<Longrightarrow> grows mx link a b"
proof (induction rs arbitrary: a)
  case (Cons kr rs)
  show ?case
  proof (cases "app_stop a")
    case True
    with Cons.prems show ?thesis by (cases kr) (auto intro: grows_refl)
  next
    case False
    with Cons.prems obtain s where "append_rows mx link rs (append_v mx link (terminated s) a) = Inr b"
      by (cases kr) (auto simp: ebind_Inr_iff)
    with Cons.IH show ?thesis by (blast intro: grows_trans grows_append_v)
  qed
qed (auto intro: grows_refl)

lemma grows_append_items: "append_items rsf mx link is a = Inr b \<Longrightarrow> grows mx link a b"
proof (induction rsf mx link "is" a rule: append_items.induct)
  case (2 rsf mx link s "is" a)
  then show ?case by (auto intro: grows_trans grows_append_v)
next
  case (3 rsf mx link k "is" a)
  from "3.prems" obtain a1 where a1: "append_rows mx link (rsf k) a = Inr a1"
      "append_items rsf mx link is a1 = Inr b"
    by (auto simp: ebind_Inr_iff)
  from grows_append_rows [OF a1(1)] "3.IH" [of a1] a1(2) show ?case by (blast intro: grows_trans)
qed (auto intro: grows_refl)

lemma grows_append_elements: "append_elements rsf mx link es a = Inr b \<Longrightarrow> grows mx link a b"
proof (induction es arbitrary: a)
  case (Cons e es)
  let ?a1 = "append_v mx link NL a"
  have g1: "grows mx link a ?a1" by (rule grows_append_v)
  show ?case
  proof (cases "app_stop a")
    case True
    with Cons.prems show ?thesis by (auto intro: grows_refl)
  next
    case False
    show ?thesis
    proof (cases e)
      case None
      with Cons.prems False have "append_elements rsf mx link es ?a1 = Inr b" by (simp add: Let_def)
      with Cons.IH g1 show ?thesis by (blast intro: grows_trans)
    next
      case (Some "is")
      show ?thesis
      proof (cases "app_stop ?a1")
        case True
        with Some False Cons.prems g1 show ?thesis by (simp add: Let_def)
      next
        case n: False
        with Some False Cons.prems obtain a2 where "append_items rsf mx link is ?a1 = Inr a2"
            "append_elements rsf mx link es a2 = Inr b"
          by (auto simp: Let_def ebind_Inr_iff)
        with Cons.IH g1 show ?thesis by (blast intro: grows_trans grows_append_items)
      qed
    qed
  qed
qed (auto intro: grows_refl)

lemma get_content_length:
  assumes "get_content E c limit = Inr s"
  shows "int (length s) \<le> limit"
proof -
  let ?mx = "limit - int (length (overflow_link c))" and ?l = "overflow_link c"
  from assms obtain b where lim: "int (length ?l) \<le> limit"
    and b: "append_elements (rows_of c) ?mx ?l (elements E c)
              \<lparr> app_content = [], app_total = 0, app_stop = False \<rparr> = Inr b" and s: "s = app_content b"
    by (auto simp: get_content_def ebind_Inr_iff not_less split: if_splits)
  have "app_ok ?mx ?l \<lparr> app_content = [], app_total = 0, app_stop = False \<rparr>"
    using lim by (simp add: app_ok_def)
  with grows_append_elements [OF b] have "app_ok ?mx ?l b" by (simp add: grows_def)
  then show ?thesis using s lim by (auto simp: app_ok_def split: if_splits)
qed

subsection \<open>The identifier is kept\<close>

lemma filter_prefix: "prefix a b \<Longrightarrow> prefix (filter P a) (filter P b)"
  by (auto simp: prefix_def)

lemma get_content_identified:
  assumes "get_content E c limit = Inr s"
    and "int (length (overflow_link c)) + int (length comment_identifier) + 2 < limit"
  shows "comment_matches_identifier s"
proof -
  let ?mx = "limit - int (length (overflow_link c))" and ?l = "overflow_link c"
  let ?a0 = "\<lparr> app_content = [], app_total = 0, app_stop = False \<rparr>"
  let ?a2 = "append_v ?mx ?l (terminated comment_identifier) (append_v ?mx ?l NL ?a0)"
  from assms obtain b where b: "append_elements (rows_of c) ?mx ?l (elements E c) ?a0 = Inr b"
    and s: "s = app_content b"
    by (auto simp: get_content_def ebind_Inr_iff split: if_splits)
  have a1: "\<not> app_stop (append_v ?mx ?l NL ?a0)"
    using assms(2) by (simp add: append_v_def NL_def)
  have a2: "app_content ?a2 = NL @ comment_identifier @ NL"
    using assms(2) by (simp add: append_v_def NL_def terminated_def comment_identifier_def)
  have "append_elements (rows_of c) ?mx ?l (tl (elements E c)) ?a2 = Inr b"
    using b a1 by (simp add: elements_def Let_def)
  then have "prefix (NL @ comment_identifier @ NL) s"
    using grows_append_elements a2 s unfolding grows_def by metis
  then have "prefix (filter (\<lambda>x. x \<noteq> CHR 10) (NL @ comment_identifier @ NL)) (filter (\<lambda>x. x \<noteq> CHR 10) s)"
    by (rule filter_prefix)
  moreover have "filter (\<lambda>x. x \<noteq> CHR 10) (NL @ comment_identifier @ NL) = comment_identifier"
    by (simp add: NL_def comment_identifier_def)
  ultimately show ?thesis by (simp add: comment_matches_identifier_def)
qed


section \<open>The three kinds of content\<close>

text \<open>What the SCM services see of a content object.\<close>

record pr_content =
  status_text :: string
  content_scan_url :: "string option"
  content_of :: "int \<Rightarrow> exc + string"

definition get_status_msg :: "pr_content \<Rightarrow> int \<Rightarrow> string" where
  "get_status_msg c limit = take (nat limit) (status_text c)"

definition PrescanAnnotation :: "string \<Rightarrow> pr_content" where
  "PrescanAnnotation annot =
     \<lparr> status_text = annot, content_scan_url = None,
       content_of = (\<lambda>limit. Inr (take (nat limit) (append_comment_identifier (''*'' @ annot @ ''*'')))) \<rparr>"

definition content_of_md :: "env \<Rightarrow> string \<Rightarrow> md_comment \<Rightarrow> pr_content" where
  "content_of_md E status c =
     \<lparr> status_text = status, content_scan_url = Some (md_scan_url c), content_of = get_content E c \<rparr>"

definition MarkdownAnnotation :: "env \<Rightarrow> string \<Rightarrow> string \<Rightarrow> string \<Rightarrow> string \<Rightarrow> json \<Rightarrow> string \<Rightarrow> exc + md_comment" where
  "MarkdownAnnotation E display pid sid annot branch base =
     ebind (as_arg branch) (\<lambda>br.
     let link = make_cxone_md_scan_link (url_quote_plus E) display pid sid br None;
         url = make_cxone_scan_url (url_quote_plus E) display pid sid br in
     Inr (add_to_annotation (annot @ '': '' @ link) (new_comment base link url)))"

record feedback =
  excluded_severities :: "ResultSeverity list"
  excluded_states :: "ResultStates list"
  fb_display :: string
  fb_project :: string
  fb_scan :: string
  report :: json
  permalink :: "pr_details \<Rightarrow> json \<Rightarrow> json \<Rightarrow> exc + string"
  fb_pr :: pr_details
  policy_violations :: "policy_violation list option"

text \<open>Whether a result is excluded; the severity is read only if the state does not decide.\<close>

definition is_excluded :: "feedback \<Rightarrow> json \<Rightarrow> exc + bool" where
  "is_excluded fb r =
     ebind (jget r ''state'') (\<lambda>st.
     if test_in_enum ResultStates_of st (excluded_states fb) then Inr True
     else ebind (jget r ''severity'') (\<lambda>sv. Inr (test_in_enum ResultSeverity_of sv (excluded_severities fb))))"

text \<open>Adding a row, preceded by the head of its section if this is the first.\<close>

definition titled_add :: "row_kind \<Rightarrow> json \<Rightarrow> (ResultSeverity \<Rightarrow> exc + json dict) \<Rightarrow> md_comment \<times> bool \<Rightarrow>
    exc + md_comment \<times> bool" where
  "titled_add k sv flds st =
     (case st of (c, title_added) \<Rightarrow>
       let c1 = (if title_added then c else start_detail_section k c) in
       ebind (ResultSeverity_of sv) (\<lambda>sev. ebind (flds sev) (\<lambda>kw.
       ebind (add_detail k sev kw c1) (\<lambda>c2. Inr (c2, True)))))"

definition indicator :: "env \<Rightarrow> string \<Rightarrow> json \<Rightarrow> exc + json" where
  "indicator E base sv = ebind (as_str sv) (\<lambda>s. Inr (JStr (make_md_severity_indicator E base s)))"

definition tick :: string where "tick = [CHR 96]"

definition sast_vuln :: "env \<Rightarrow> feedback \<Rightarrow> string \<Rightarrow> json \<Rightarrow> md_comment \<times> bool \<Rightarrow> exc + md_comment \<times> bool" where
  "sast_vuln E fb describe_link vuln st =
     ebind (is_excluded fb vuln) (\<lambda>ex. if ex then Inr st else
     ebind (jget vuln ''severity'') (\<lambda>sv.
     titled_add SastRows sv (\<lambda>sev.
       ebind (indicator E (server_base_url (fst st)) sv) (\<lambda>img.
       ebind (jget vuln ''sourceFileName'') (\<lambda>file. ebind (jget vuln ''sourceLine'') (\<lambda>line.
       ebind (permalink fb (fb_pr fb) file line) (\<lambda>perma.
       ebind (jget vuln ''resultViewerLink'') (\<lambda>viewer.
       Inr [(''severity_image_link'', img), (''issue'', JStr describe_link),
            (''source_permalink'', JStr (tick @ pstr E file @ tick @ '';'' @ make_md_link perma (pstr E line))),
            (''viewer_link'', JStr (make_md_link (pstr E viewer) ''Attack Vector''))])))))) st))"

definition add_sast_details :: "env \<Rightarrow> feedback \<Rightarrow> md_comment \<Rightarrow> exc + md_comment" where
  "add_sast_details E fb c =
     ebind (efoldM (\<lambda>x st.
       ebind (jget x ''queryDescriptionLink'') (\<lambda>ql. ebind (jget x ''queryName'') (\<lambda>qn.
       ebind (ebind (jget x ''vulnerabilities'') as_list) (\<lambda>vulns.
       efoldM (sast_vuln E fb (make_md_link (pstr E ql) (pstr E qn))) vulns st))))
       (jp_find E ''$.scanResults.resultsList[*]'' (report fb)) (c, False)) (\<lambda>st. Inr (fst st))"

text \<open>\<open>normalized_version\<close>: every element padded, unless one is not a number.\<close>

definition normalized_version :: "string \<Rightarrow> string" where
  "normalized_version v =
     (case emapM (\<lambda>x. py_int (JStr x)) (split_on CHR ''.'' v) of
        Inl _ \<Rightarrow> v
      | Inr ns \<Rightarrow> join ''.'' (map pad3 ns))"

definition sca_result :: "env \<Rightarrow> feedback \<Rightarrow> json \<Rightarrow> json \<Rightarrow> md_comment \<times> bool \<Rightarrow> exc + md_comment \<times> bool" where
  "sca_result E fb x r st =
     ebind (is_excluded fb r) (\<lambda>ex. if ex then Inr st else
     ebind (jget r ''severity'') (\<lambda>sv.
     titled_add ScaRows sv (\<lambda>sev.
       ebind (indicator E (server_base_url (fst st)) sv) (\<lambda>img.
       ebind (jget r ''cve'') (\<lambda>cve. ebind (jget x ''packageName'') (\<lambda>pn.
       ebind (jget x ''packageVersion'') (\<lambda>pv. ebind (jget x ''packageId'') (\<lambda>pid.
       ebind (as_str pv) (\<lambda>ver.
       Inr [(''severity_image_link'', img), (''cve'', cve),
            (''package'', JStr (pstr E pn @ '':'' @ ver)),
            (''viewer_link'', JStr (make_cxone_md_sca_result_link (fb_display fb) (fb_project fb) (fb_scan fb)
                ''Risk Details'' (pstr E cve) (pstr E pid))),
            (''package_name'', pn), (''package_version'', JStr (normalized_version ver))]))))))) st))"

definition add_sca_details :: "env \<Rightarrow> feedback \<Rightarrow> md_comment \<Rightarrow> exc + md_comment" where
  "add_sca_details E fb c =
     ebind (efoldM (\<lambda>x st.
       ebind (ebind (jget x ''packageCategory'') as_list) (\<lambda>cats.
       efoldM (\<lambda>cat st. ebind (ebind (jget cat ''categoryResults'') as_list) (\<lambda>rs.
         efoldM (sca_result E fb x) rs st)) cats st))
       (jp_find E ''$.scaScanResults.packages[*]'' (report fb)) (c, False)) (\<lambda>st. Inr (fst st))"

definition iac_result :: "env \<Rightarrow> feedback \<Rightarrow> json \<Rightarrow> json \<Rightarrow> json \<Rightarrow> md_comment \<times> bool \<Rightarrow> exc + md_comment \<times> bool" where
  "iac_result E fb x query r st =
     ebind (is_excluded fb r) (\<lambda>ex. if ex then Inr st else
     ebind (jget r ''severity'') (\<lambda>sv.
     titled_add IacRows sv (\<lambda>sev.
       ebind (indicator E (server_base_url (fst st)) sv) (\<lambda>img.
       ebind (jget x ''name'') (\<lambda>tech. ebind (jget r ''fileName'') (\<lambda>file.
       ebind (permalink fb (fb_pr fb) file (JInt 1)) (\<lambda>perma.
       ebind (jget query ''queryName'') (\<lambda>qn. ebind (jget r ''resultViewerLink'') (\<lambda>viewer.
       Inr [(''severity_image_link'', img), (''technology'', tech),
            (''source_permalink'', JStr (tick @ pstr E file @ tick @ make_md_link perma ''view'')),
            (''query'', qn), (''viewer_link'', JStr (make_md_link (pstr E viewer) ''Risk Details''))]))))))) st))"

definition add_iac_details :: "env \<Rightarrow> feedback \<Rightarrow> md_comment \<Rightarrow> exc + md_comment" where
  "add_iac_details E fb c =
     ebind (efoldM (\<lambda>x st.
       ebind (ebind (jget x ''queries'') as_list) (\<lambda>qs.
       efoldM (\<lambda>q st. ebind (ebind (jget q ''resultsList'') as_list) (\<lambda>rs.
         efoldM (iac_result E fb x q) rs st)) qs st))
       (jp_find E ''$.iacScanResults.technology[*]'' (report fb)) (c, False)) (\<lambda>st. Inr (fst st))"

text \<open>
  The link of a resolved result names the scan before the project; the two are swapped, unless
  the report already has them the other way round.
\<close>

definition fix_path :: "string \<Rightarrow> string list \<Rightarrow> string list" where
  "fix_path pid comps =
     (let c = butlast comps in take (length c - 1) c @ [pid] @ drop (length c - 1) c)"

definition fix_vulnerability_link :: "env \<Rightarrow> string \<Rightarrow> string \<Rightarrow> string" where
  "fix_vulnerability_link E pid link =
     (case url_parse E link of (scheme, netloc, path, params, query, fragment) \<Rightarrow>
        let comps = split_on CHR ''/'' path in
        if last comps = pid
        then url_unparse E (scheme, netloc, join ''/'' (fix_path pid comps), params, query, fragment)
        else link)"

definition resolved_result :: "env \<Rightarrow> feedback \<Rightarrow> json \<Rightarrow> json \<Rightarrow> md_comment \<times> bool \<Rightarrow> exc + md_comment \<times> bool" where
  "resolved_result E fb vuln r st =
     ebind (jget r ''severity'') (\<lambda>sv.
     if test_in_enum ResultSeverity_of sv (excluded_severities fb) then Inr st
     else ebind (ebind (jget r ''vulnerabilityLink'') as_arg) (\<lambda>link.
     titled_add ResolvedRows sv (\<lambda>sev.
       ebind (indicator E (server_base_url (fst st)) sv) (\<lambda>img.
       ebind (jget vuln ''vulnerabilityName'') (\<lambda>nm.
       Inr [(''severity_image_link'', img), (''name'', nm),
            (''viewer_link'', JStr (make_md_link (fix_vulnerability_link E (fb_project fb) link) ''View''))]))) st))"

definition add_resolved_details :: "env \<Rightarrow> feedback \<Rightarrow> md_comment \<Rightarrow> exc + md_comment" where
  "add_resolved_details E fb c =
     ebind (efoldM (\<lambda>resolved st.
       ebind (ebind (jget resolved ''resolvedVulnerabilities'') as_list) (\<lambda>vulns.
       efoldM (\<lambda>vuln st. ebind (ebind (jget vuln ''resolvedResults'') as_list) (\<lambda>rs.
         efoldM (resolved_result E fb vuln) rs st)) vulns st))
       (jp_find E ''$.resolvedVulnerabilities'' (report fb)) (c, False)) (\<lambda>st. Inr (fst st))"

definition add_policy_violation_detail :: "env \<Rightarrow> string \<Rightarrow> bool \<Rightarrow> string \<Rightarrow> md_comment \<Rightarrow> exc + md_comment" where
  "add_policy_violation_detail E policy_name break_build rule_name c =
     add_detail PolicyRows INFO
       [(''break_build_indicator'', JStr (if break_build then failure_unicode
           else make_md_severity_indicator E (server_base_url c) ''ResultSeverity.INFO'')),
        (''policy_name'', JStr policy_name), (''policy_rule_name'', JStr rule_name)] c"

definition add_policy_violation_details :: "env \<Rightarrow> feedback \<Rightarrow> md_comment \<Rightarrow> exc + md_comment" where
  "add_policy_violation_details E fb c =
     (case policy_violations fb of
        None \<Rightarrow> Inr c
      | Some ps \<Rightarrow> if ps = [] then Inr c else
          efoldM (\<lambda>p. efoldM (add_policy_violation_detail E (PolicyName p) (BreakBuild p)) (ViolatedRules p)) ps
            (start_detail_section PolicyRows c))"

text \<open>\<open>__get_result_count_map\<close>: the count for the first spelling of a severity that occurs.\<close>

fun first_count :: "(string \<Rightarrow> json list) \<Rightarrow> string list \<Rightarrow> string" where
  "first_count qf [] = ''-''"
| "first_count qf (v # vs) = (if qf v \<noteq> [] then dec (int (length (qf v))) else first_count qf vs)"

definition result_count :: "env \<Rightarrow> feedback \<Rightarrow> (string \<Rightarrow> string) \<Rightarrow> ResultSeverity \<Rightarrow> string" where
  "result_count E fb query_gen sev =
     (if sev \<in> set (included_severities (excluded_severities fb))
      then first_count (\<lambda>v. jp_find E (query_gen v) (report fb)) (severity_values sev) else ''-'')"

definition result_query :: "string \<Rightarrow> string \<Rightarrow> string" where
  "result_query path v = path @ ''[?(@.state!='' @ [CHR 39] @ ''Not Exploitable'' @ [CHR 39]
     @ '' & @.severity=='' @ [CHR 39] @ v @ [CHR 39] @ '')]''"

definition add_summary_section :: "env \<Rightarrow> feedback \<Rightarrow> md_comment \<Rightarrow> md_comment" where
  "add_summary_section E fb c =
     (let incl = included_severities (excluded_severities fb);
          entry = (\<lambda>nm path. add_summary_entry nm (result_count E fb (result_query path)) incl) in
      entry ''IaC'' ''$.iacScanResults.technology[*].queries[*].resultsList''
       (entry ''SCA'' ''$.scaScanResults.packages[*].packageCategory[*].categoryResults''
        (entry ''SAST'' ''$.scanResults.resultsList[*].vulnerabilities''
         (start_summary_section incl c))))"

definition engine_status :: "env \<Rightarrow> json \<Rightarrow> string \<Rightarrow> exc + string" where
  "engine_status E s acc =
     ebind (jget s ''status'') (\<lambda>st. ebind (jget s ''name'') (\<lambda>nm.
     Inr (acc @ (if st = JStr ''Completed'' then success_unicode else failure_unicode)
          @ ''&nbsp;**'' @ pstr E nm @ ''**'' @ ''&nbsp;&nbsp;'')))"

definition add_annotation_section :: "env \<Rightarrow> feedback \<Rightarrow> string \<Rightarrow> md_comment \<Rightarrow> exc + md_comment" where
  "add_annotation_section E fb branch c =
     ebind (efoldM (engine_status E) (jp_find E ''$.scanInformation.scannerStatus[*]'' (report fb)) []) (\<lambda>status.
     Inr (add_to_annotation (NL @ status)
       (add_to_annotation (''**Results for Scan ID ''
          @ make_cxone_md_scan_link (url_quote_plus E) (fb_display fb) (fb_project fb) (fb_scan fb) branch None
          @ ''**'') c)))"

definition MarkdownFeedback :: "env \<Rightarrow> feedback \<Rightarrow> string \<Rightarrow> exc + md_comment" where
  "MarkdownFeedback E fb base =
     ebind (as_arg (source_branch (fb_pr fb))) (\<lambda>br.
     let link = make_cxone_md_scan_link (url_quote_plus E) (fb_display fb) (fb_project fb) (fb_scan fb) br
                  (Some ''More results...'');
         url = make_cxone_scan_url (url_quote_plus E) (fb_display fb) (fb_project fb) (fb_scan fb) br in
     ebind (add_annotation_section E fb br (new_comment base (NL @ NL @ link) url)) (\<lambda>c1.
     ebind (add_policy_violation_details E fb (add_summary_section E fb c1)) (\<lambda>c2.
     ebind (add_sast_details E fb c2) (\<lambda>c3.
     ebind (add_resolved_details E fb c3) (\<lambda>c4.
     ebind (add_sca_details E fb c4) (\<lambda>c5. add_iac_details E fb c5))))))"


subsection \<open>Invariant of the rows\<close>

definition good :: "feedback \<Rightarrow> md_comment \<Rightarrow> bool" where
  "good fb c \<longleftrightarrow> (\<forall>k. keyed (rows_of c k) \<and> sorted (map fst (rows_of c k)) \<and>
     (k \<noteq> PolicyRows \<longrightarrow> (\<forall>x \<in> set (rows_of c k). row_severity (snd x) \<notin> set (excluded_severities fb))))"

lemma good_rows: "rows_of c' = rows_of c \<Longrightarrow> good fb c \<Longrightarrow> good fb c'"
  by (simp add: good_def)

lemma good_new: "good fb (new_comment base l u)"
  by (simp add: good_def new_comment_def keyed_def)

lemma good_add_detail:
  assumes "add_detail k sev kw c = Inr c'" and "good fb c"
    and "k \<noteq> PolicyRows \<Longrightarrow> sev \<notin> set (excluded_severities fb)"
  shows "good fb c'"
proof -
  from assms(1) obtain rs where rs: "add_row k sev kw (rows_of c k) = Inr rs"
    and c': "c' = c\<lparr> rows_of := (rows_of c)(k := rs) \<rparr>"
    by (auto simp: add_detail_def ebind_Inr_iff)
  have inv: "keyed rs" "sorted (map fst rs)"
    using add_row_inv [OF rs] assms(2) by (auto simp: good_def)
  have "row_severity (snd x) \<notin> set (excluded_severities fb)" if "k \<noteq> PolicyRows" "x \<in> set rs" for x
    using rs that assms(2,3) by (auto simp: add_row_def Let_def ebind_Inr_iff good_def)
  with inv assms(2) c' show ?thesis by (auto simp: good_def)
qed

lemma good_titled_add:
  assumes "titled_add k sv flds st = Inr st'" and "good fb (fst st)"
    and "\<not> test_in_enum ResultSeverity_of sv (excluded_severities fb)"
  shows "good fb (fst st')"
proof -
  obtain c t where st: "st = (c, t)" by (cases st)
  let ?c1 = "if t then c else start_detail_section k c"
  from assms(1) st obtain sev kw c2 where "ResultSeverity_of sv = Inr sev"
      "add_detail k sev kw ?c1 = Inr c2" "st' = (c2, True)"
    by (auto simp: titled_add_def Let_def ebind_Inr_iff)
  moreover have "good fb ?c1" using assms(2) st by (auto simp: start_detail_section_def intro: good_rows)
  ultimately show ?thesis using assms(3) by (auto simp: test_in_enum_def intro: good_add_detail)
qed

lemma not_excluded:
  "is_excluded fb r = Inr False \<Longrightarrow> jget r ''severity'' = Inr sv \<Longrightarrow>
     \<not> test_in_enum ResultSeverity_of sv (excluded_severities fb)"
  by (auto simp: is_excluded_def ebind_Inr_iff split: if_splits)

lemma good_result:
  assumes "ebind (is_excluded fb r) (\<lambda>ex. if ex then Inr st
             else ebind (jget r ''severity'') (\<lambda>sv. titled_add k sv (flds sv) st)) = Inr st'"
    and "good fb (fst st)"
  shows "good fb (fst st')"
proof -
  from assms(1) obtain ex where ex: "is_excluded fb r = Inr ex" by (auto simp: ebind_Inr_iff)
  show ?thesis
  proof (cases ex)
    case True
    with assms ex show ?thesis by simp
  next
    case False
    with assms(1) ex obtain sv where "jget r ''severity'' = Inr sv" "titled_add k sv (flds sv) st = Inr st'"
      by (auto simp: ebind_Inr_iff)
    moreover have "is_excluded fb r = Inr False" using ex False by simp
    ultimately show ?thesis using assms(2) by (blast intro: good_titled_add dest: not_excluded)
  qed
qed

lemma good_resolved_result:
  assumes "resolved_result E fb v r st = Inr st'" and "good fb (fst st)"
  shows "good fb (fst st')"
proof -
  from assms(1) obtain sv where sv: "jget r ''severity'' = Inr sv"
    by (auto simp: resolved_result_def ebind_Inr_iff)
  show ?thesis
  proof (cases "test_in_enum ResultSeverity_of sv (excluded_severities fb)")
    case True
    with assms sv show ?thesis by (simp add: resolved_result_def)
  next
    case False
    from assms(1) sv False obtain f where "titled_add ResolvedRows sv f st = Inr st'"
      unfolding resolved_result_def by (simp only: ebind_simps if_False ebind_Inr_iff) blast
    with False assms(2) show ?thesis by (blast intro: good_titled_add)
  qed
qed

text \<open>Loop bodies that keep the invariant, and the loops built from them.\<close>

definition keeps :: "feedback \<Rightarrow> (md_comment \<times> bool \<Rightarrow> exc + md_comment \<times> bool) \<Rightarrow> bool" where
  "keeps fb f \<longleftrightarrow> (\<forall>s s'. f s = Inr s' \<longrightarrow> good fb (fst s) \<longrightarrow> good fb (fst s'))"

lemma keepsD: "keeps fb f \<Longrightarrow> f s = Inr s' \<Longrightarrow> good fb (fst s) \<Longrightarrow> good fb (fst s')"
  unfolding keeps_def by blast

lemma keepsI: "(\<And>s s'. f s = Inr s' \<Longrightarrow> good fb (fst s) \<Longrightarrow> good fb (fst s')) \<Longrightarrow> keeps fb f"
  unfolding keeps_def by blast

lemma keeps_ebind: "(\<And>v. keeps fb (\<lambda>s. k v s)) \<Longrightarrow> keeps fb (\<lambda>s. ebind m (\<lambda>v. k v s))"
  unfolding keeps_def ebind_Inr_iff by blast

lemma keeps_efoldM:
  assumes "\<And>x. keeps fb (f x)"
  shows "keeps fb (\<lambda>s. efoldM f xs s)"
  unfolding keeps_def
proof (intro allI impI)
  fix s s' assume "efoldM f xs s = Inr s'" "good fb (fst s)"
  then show "good fb (fst s')"
    by (rule efoldM_inv [where I = "\<lambda>s. good fb (fst s)"]) (rule keepsD [OF assms])
qed

lemma keeps_bodies:
  "keeps fb (\<lambda>s. sast_vuln E fb l v s)" "keeps fb (\<lambda>s. sca_result E fb x r s)"
  "keeps fb (\<lambda>s. iac_result E fb x q r s)" "keeps fb (\<lambda>s. resolved_result E fb v r s)"
  unfolding sast_vuln_def sca_result_def iac_result_def
  by (rule keepsI, erule (1) good_result)+ (rule keepsI, erule (1) good_resolved_result)

lemmas keeps_rules = keeps_ebind keeps_efoldM keeps_bodies

lemma good_of_loop:
  assumes "keeps fb f" and "ebind (f (c, False)) (\<lambda>st. Inr (fst st)) = Inr c'" and "good fb c"
  shows "good fb c'"
  using assms(2,3) keepsD [OF assms(1), of "(c, False)"] by (auto simp: ebind_Inr_iff)

lemma good_add_sast: "add_sast_details E fb c = Inr c' \<Longrightarrow> good fb c \<Longrightarrow> good fb c'"
  unfolding add_sast_details_def by (erule good_of_loop [rotated], assumption, intro keeps_rules)

lemma good_add_sca: "add_sca_details E fb c = Inr c' \<Longrightarrow> good fb c \<Longrightarrow> good fb c'"
  unfolding add_sca_details_def by (erule good_of_loop [rotated], assumption, intro keeps_rules)

lemma good_add_iac: "add_iac_details E fb c = Inr c' \<Longrightarrow> good fb c \<Longrightarrow> good fb c'"
  unfolding add_iac_details_def by (erule good_of_loop [rotated], assumption, intro keeps_rules)

lemma good_add_resolved: "add_resolved_details E fb c = Inr c' \<Longrightarrow> good fb c \<Longrightarrow> good fb c'"
  unfolding add_resolved_details_def by (erule good_of_loop [rotated], assumption, intro keeps_rules)

lemma good_add_policy: "add_policy_violation_details E fb c = Inr c' \<Longrightarrow> good fb c \<Longrightarrow> good fb c'"
proof -
  have step: "good fb c2" if "add_policy_violation_detail E n b r c1 = Inr c2" "good fb c1" for n b r c1 c2
    using that unfolding add_policy_violation_detail_def by (auto intro: good_add_detail)
  show "add_policy_violation_details E fb c = Inr c' \<Longrightarrow> good fb c \<Longrightarrow> good fb c'"
    unfolding add_policy_violation_details_def
    by (auto split: option.splits if_splits simp: start_detail_section_def
        elim!: efoldM_inv [where I = "good fb"] intro: good_rows step)
qed

lemma good_feedback: "MarkdownFeedback E fb base = Inr c \<Longrightarrow> good fb c"
proof -
  assume fbk: "MarkdownFeedback E fb base = Inr c"
  have annot: "good fb c2" if "add_annotation_section E fb br c1 = Inr c2" "good fb c1" for br c1 c2
    using that by (auto simp: add_annotation_section_def add_to_annotation_def ebind_Inr_iff intro: good_rows)
  have sum: "good fb (add_summary_section E fb c1)" if "good fb c1" for c1
    using that by (auto simp: add_summary_section_def Let_def add_summary_entry_def
        start_summary_section_def intro: good_rows)
  show ?thesis
  proof -
    from fbk obtain br l u c1 c2 c3 c4 c5 where
      "add_annotation_section E fb br (new_comment base l u) = Inr c1"
      "add_policy_violation_details E fb (add_summary_section E fb c1) = Inr c2"
      "add_sast_details E fb c2 = Inr c3" "add_resolved_details E fb c3 = Inr c4"
      "add_sca_details E fb c4 = Inr c5" "add_iac_details E fb c5 = Inr c"
      unfolding MarkdownFeedback_def Let_def ebind_Inr_iff by blast
    then show "good fb c"
      by (meson annot sum good_new good_add_policy good_add_sast good_add_resolved good_add_sca good_add_iac)
  qed
qed

text \<open>The path of a link to a resolved result: the last two components change places.\<close>

lemma fix_path_swap: "fix_path pid (xs @ [scan, pid]) = xs @ [pid, scan]"
  by (simp add: fix_path_def butlast_append)

end
