(* ===== verification/Workflows.thy ===== *)
theory Workflows
  imports CxOneSvc Cloner PrContent
begin

text \<open>
  The message driven workflows: \<open>workflows/base_workflow.py\<close>, \<open>pull_request_workflow.py\<close>, \<open>push.py\<close>,
  the pull request and push feedback services, the delivery of SARIF logs, and the scan polling
  service. \<open>scm_services/scm.py\<close> gives the operations of an SCM service as a record of functions.

  The interface \<open>feedback_service\<close> is what the polling service relies on: a service answers the
  scans of its own workflow with one feedback message and ignores all others. It is interpreted
  for both services, and the lemmas about polling rest on it.
\<close>


section \<open>SCM services\<close>

record scm_service =
  display_url :: string
  scm_moniker :: string
  shared_secret :: string
  scm_cloner :: cloner
  scm_exec :: "event_context option \<Rightarrow> string \<Rightarrow> string \<Rightarrow> request_args \<Rightarrow> response cio"
  exec_pr_scan_update_decorate :: "pr_details \<Rightarrow> pr_content \<Rightarrow> scan_message \<Rightarrow> unit cio"
  exec_pr_scan_pending_decorate :: "pr_details \<Rightarrow> pr_content \<Rightarrow> unit cio"
  exec_pr_scan_failure_decorate :: "pr_details \<Rightarrow> pr_content \<Rightarrow> scan_message \<Rightarrow> unit cio"
  exec_pr_scan_success_decorate :: "pr_details \<Rightarrow> pr_content \<Rightarrow> scan_message \<Rightarrow> unit cio"
  exec_pr_unrecoverable_error :: "pr_details \<Rightarrow> scan_message \<Rightarrow> string \<Rightarrow> unit cio"
  exec_pr_prescan_failure :: "pr_details \<Rightarrow> string \<Rightarrow> unit cio"
  create_code_permalink :: "pr_details \<Rightarrow> json \<Rightarrow> json \<Rightarrow> exc + string"

text \<open>The base class: requests go to the session, every decoration is abstract.\<close>

definition SCMService :: "env \<Rightarrow> string \<Rightarrow> string \<Rightarrow> api_session \<Rightarrow> string \<Rightarrow> cloner \<Rightarrow> scm_service" where
  "SCMService E url mk session secret cl =
     \<lparr> display_url = url, scm_moniker = mk, shared_secret = secret, scm_cloner = cl,
       scm_exec = session_exec E session,
       exec_pr_scan_update_decorate = (\<lambda>_ _ _. raise (NotImplementedError ''exec_pr_scan_update_decorate'')),
       exec_pr_scan_pending_decorate = (\<lambda>_ _. raise (NotImplementedError ''exec_pr_scan_pending_decorate'')),
       exec_pr_scan_failure_decorate = (\<lambda>_ _ _. raise (NotImplementedError ''exec_pr_scan_failure_decorate'')),
       exec_pr_scan_success_decorate = (\<lambda>_ _ _. raise (NotImplementedError ''exec_pr_scan_success_decorate'')),
       exec_pr_unrecoverable_error = (\<lambda>_ _ _. raise (NotImplementedError ''exec_pr_unrecoverable_error'')),
       exec_pr_prescan_failure = (\<lambda>_ _. raise (NotImplementedError ''exec_pr_prescan_failure'')),
       create_code_permalink = (\<lambda>_ _ _. Inl (NotImplementedError ''create_code_permalink'')) \<rparr>"

text \<open>An SCM service whose requests are HTTP requests; the one of \<open>scm.py\<close> is.\<close>

definition http_scm :: "scm_service \<Rightarrow> bool" where
  "http_scm scm \<longleftrightarrow> (\<forall>ctx meth path a. emits http_or_sleep (scm_exec scm ctx meth path a))"

lemma http_scm_exec [emits_rules]: "http_scm scm \<Longrightarrow> emits http_or_sleep (scm_exec scm ctx meth path a)"
  by (simp add: http_scm_def)

lemma http_scm_SCMService: "http_scm (SCMService E url mk session secret cl)"
  by (auto simp: http_scm_def SCMService_def http_or_sleep_def intro!: emits_rules)


section \<open>Publishing\<close>

definition EXCHANGE_SCAN_INPUT :: string where
  "EXCHANGE_SCAN_INPUT = ''cx:Scan In''"

text \<open>
  \<open>_publish\<close>: when no channel was opened, the \<open>finally\<close> clause reads an unbound variable. The value
  is whether the broker acknowledged the message.
\<close>

definition publish :: "env \<Rightarrow> string \<Rightarrow> msg \<Rightarrow> int option \<Rightarrow> int dict \<Rightarrow> string \<Rightarrow> bool cio" where
  "publish E topic m expiration hdrs exchange =
     bnd (attempt (mq E MqChannel)) (\<lambda>ch.
     case ch of
       Inl e \<Rightarrow> raise (LibException ''UnboundLocalError'')
     | Inr _ \<Rightarrow>
         bnd (attempt (bnd (mq E (MqExchange exchange)) (\<lambda>found.
                if found then mq E (MqPublish exchange topic m expiration hdrs) else ret False))) (\<lambda>r.
         bnd (mq E MqClose) (\<lambda>_. lift r)))"

lemma emits_publish [emits_rules]:
  assumes "P MqChannel" "\<And>x. P (MqExchange x)" "P (MqPublish exchange topic m ex h)" "P MqClose"
  shows "emits P (publish E topic m ex h exchange)"
  unfolding publish_def by (intro emits_rules assms)

text \<open>\<open>StampedMessage.factory\<close>: the default correlation id is made once, when the class is loaded.\<close>

definition stamp :: "env \<Rightarrow> string cio" where
  "stamp E = bnd (clock E) (\<lambda>t. ret (isoformat E t))"

lemma emits_stamp [emits_rules]: "emits P (stamp E)"
  unfolding stamp_def by (intro emits_rules)

definition compute_drop_by_timestamp :: "env \<Rightarrow> int \<Rightarrow> string cio" where
  "compute_drop_by_timestamp E keep_alive =
     (if keep_alive \<noteq> 0 then bnd (clock E) (\<lambda>t. ret (isoformat E (t + keep_alive)))
      else ret ''9999-12-31T00:00:00Z'')"

lemma emits_drop_by [emits_rules]: "emits P (compute_drop_by_timestamp E k)"
  unfolding compute_drop_by_timestamp_def by (intro emits_rules)

definition is_expired :: "env \<Rightarrow> string \<Rightarrow> bool cio" where
  "is_expired E drop_time = bnd (lift (fromisoformat E drop_time)) (\<lambda>d. bnd (clock E) (\<lambda>t. ret (t \<ge> d)))"

definition pr_topic :: "ScanStates \<Rightarrow> string \<Rightarrow> string \<Rightarrow> string" where
  "pr_topic st flow mk = ''cx.'' @ ''pr.'' @ str_ScanStates st @ ''.'' @ flow @ ''.'' @ mk"

definition push_topic :: "ScanStates \<Rightarrow> string \<Rightarrow> string \<Rightarrow> string" where
  "push_topic st flow mk = ''cx.'' @ ''push.'' @ str_ScanStates st @ ''.'' @ flow @ ''.'' @ mk"


section \<open>The pull request workflow\<close>

record pr_workflow =
  prw_excluded_severities :: "ResultSeverity list"
  prw_excluded_states :: "ResultStates list"
  prw_enabled :: bool
  prw_interval :: int
  prw_scan_timeout :: int

definition pr_await_msg :: "env \<Rightarrow> pr_workflow \<Rightarrow> string \<Rightarrow> string \<Rightarrow> string \<Rightarrow> json dict \<Rightarrow> scan_await_message cio" where
  "pr_await_msg E flow mk pid sid kwargs =
     bnd (compute_drop_by_timestamp E (3600 * prw_scan_timeout flow)) (\<lambda>dby.
     bnd (stamp E) (\<lambda>ts.
     ret \<lparr> timestamp = ts, correlation_id = process_uuid E, moniker = mk, state = AWAIT, workflow = PR,
           workflow_details = kwargs, scanid = sid, projectid = pid, drop_by = dby \<rparr>))"

definition pr_feedback_msg :: "env \<Rightarrow> string \<Rightarrow> string \<Rightarrow> string \<Rightarrow> bool \<Rightarrow> string option \<Rightarrow> json dict \<Rightarrow>
    scan_feedback_message cio" where
  "pr_feedback_msg E mk pid sid err err_msg kwargs =
     bnd (stamp E) (\<lambda>ts.
     ret \<lparr> timestamp = ts, correlation_id = process_uuid E, moniker = mk, state = FEEDBACK, workflow = PR,
           workflow_details = kwargs, scanid = sid, projectid = pid, is_error = err, error_msg = err_msg \<rparr>)"

definition pr_annotation_msg :: "env \<Rightarrow> string \<Rightarrow> string \<Rightarrow> string \<Rightarrow> string \<Rightarrow> json dict \<Rightarrow> scan_annotation_message cio" where
  "pr_annotation_msg E mk pid sid annot kwargs =
     bnd (stamp E) (\<lambda>ts.
     ret \<lparr> timestamp = ts, correlation_id = process_uuid E, moniker = mk, state = ANNOTATE, workflow = PR,
           workflow_details = kwargs, scanid = sid, projectid = pid, annotation = annot \<rparr>)"

definition prescan_annotation_msg :: "env \<Rightarrow> string \<Rightarrow> string \<Rightarrow> json dict \<Rightarrow> prescan_annotation_message cio" where
  "prescan_annotation_msg E mk annot kwargs =
     bnd (stamp E) (\<lambda>ts.
     ret \<lparr> timestamp = ts, correlation_id = process_uuid E, moniker = mk, state = PRESCAN, workflow = PR,
           workflow_details = kwargs, pre_annotation = annot \<rparr>)"

definition pr_workflow_start :: "env \<Rightarrow> pr_workflow \<Rightarrow> string \<Rightarrow> string \<Rightarrow> string \<Rightarrow> json dict \<Rightarrow> unit cio" where
  "pr_workflow_start E flow mk pid sid kwargs =
     bnd (pr_await_msg E flow mk pid sid kwargs) (\<lambda>m.
     bnd (publish E (pr_topic AWAIT (str_ScanWorkflow PR) mk) (AwaitMsg m) (Some (1000 * prw_interval flow)) []
            EXCHANGE_SCAN_INPUT) (\<lambda>_. ret ()))"

definition pr_feedback_error :: "env \<Rightarrow> string \<Rightarrow> string \<Rightarrow> string \<Rightarrow> string \<Rightarrow> json dict \<Rightarrow> unit cio" where
  "pr_feedback_error E mk pid sid err kwargs =
     bnd (pr_feedback_msg E mk pid sid True (Some err) kwargs) (\<lambda>m.
     bnd (publish E (pr_topic FAILURE (str_ScanWorkflow PR) mk) (FeedbackMsg m) None [] EXCHANGE_SCAN_INPUT) (\<lambda>_. ret ()))"

definition pr_feedback_start :: "env \<Rightarrow> string \<Rightarrow> string \<Rightarrow> string \<Rightarrow> json dict \<Rightarrow> unit cio" where
  "pr_feedback_start E mk pid sid kwargs =
     bnd (pr_feedback_msg E mk pid sid False (Some ''NA'') kwargs) (\<lambda>m.
     bnd (publish E (pr_topic FEEDBACK (str_ScanWorkflow PR) mk) (FeedbackMsg m) None [] EXCHANGE_SCAN_INPUT) (\<lambda>_. ret ()))"

definition pr_annotation_start :: "env \<Rightarrow> string \<Rightarrow> string \<Rightarrow> string \<Rightarrow> string \<Rightarrow> json dict \<Rightarrow> unit cio" where
  "pr_annotation_start E mk pid sid annot kwargs =
     bnd (pr_annotation_msg E mk pid sid annot kwargs) (\<lambda>m.
     bnd (publish E (pr_topic ANNOTATE (str_ScanWorkflow PR) mk) (AnnotationMsg m) None [] EXCHANGE_SCAN_INPUT) (\<lambda>_. ret ()))"

definition prescan_annotation_start :: "env \<Rightarrow> string \<Rightarrow> string \<Rightarrow> json dict \<Rightarrow> unit cio" where
  "prescan_annotation_start E mk annot kwargs =
     bnd (prescan_annotation_msg E mk annot kwargs) (\<lambda>m.
     bnd (publish E (pr_topic PRESCAN (str_ScanWorkflow PR) mk) (PreScanMsg m) None [] EXCHANGE_SCAN_INPUT) (\<lambda>_. ret ()))"


section \<open>The pull request feedback service\<close>

record pr_service =
  prs_moniker :: string
  prs_server_base_url :: string
  prs_workflow :: pr_workflow

definition start_pr_scan_workflow :: "env \<Rightarrow> pr_service \<Rightarrow> string \<Rightarrow> string \<Rightarrow> pr_details \<Rightarrow> unit cio" where
  "start_pr_scan_workflow E svc pid sid det =
     bnd (mq E MqClient) (\<lambda>_.
     bnd (pr_workflow_start E (prs_workflow svc) (prs_moniker svc) pid sid (PRDetails_as_dict det)) (\<lambda>_.
     bnd (mq E MqClient) (\<lambda>_.
     pr_annotation_start E (prs_moniker svc) pid sid ''CheckmarxOne scan started'' (PRDetails_as_dict det))))"

definition start_delegated_pr_scan_workflow :: "env \<Rightarrow> pr_service \<Rightarrow> pr_details \<Rightarrow> unit cio" where
  "start_delegated_pr_scan_workflow E svc det =
     bnd (mq E MqClient) (\<lambda>_.
     prescan_annotation_start E (prs_moniker svc) ''CheckmarxOne pre-scan is now processing, please wait.''
       (PRDetails_as_dict det))"

definition pr_handle_completed_scan :: "env \<Rightarrow> scan_await_message \<Rightarrow> unit cio" where
  "pr_handle_completed_scan E m =
     (if workflow m = PR then
        bnd (mq E MqClient) (\<lambda>_. pr_feedback_start E (moniker m) (projectid m) (scanid m) (workflow_details m))
      else ret ())"

definition pr_handle_awaited_scan_error :: "env \<Rightarrow> scan_await_message \<Rightarrow> string \<Rightarrow> unit cio" where
  "pr_handle_awaited_scan_error E m err =
     (if workflow m = PR then
        bnd (mq E MqClient) (\<lambda>_. pr_feedback_error E (moniker m) (projectid m) (scanid m) err (workflow_details m))
      else ret ())"

text \<open>\<open>except BaseException: log; return False\<close> around a body that returns \<open>True\<close>.\<close>

definition true_or_logged :: "unit cio \<Rightarrow> bool cio" where
  "true_or_logged m = catch (bnd m (\<lambda>_. ret True)) (\<lambda>e. Some (ret False))"

definition process_prescan_pr_notice :: "env \<Rightarrow> pr_service \<Rightarrow> prescan_annotation_message \<Rightarrow> scm_service \<Rightarrow> bool cio" where
  "process_prescan_pr_notice E svc m scm =
     bnd (lift (PRDetails_from_dict (json_loads E) (workflow_details m))) (\<lambda>det.
     true_or_logged
       (if prw_enabled (prs_workflow svc)
        then exec_pr_scan_pending_decorate scm det (PrescanAnnotation (pre_annotation m)) else ret ()))"

definition process_pr_notice :: "env \<Rightarrow> pr_service \<Rightarrow> scan_annotation_message \<Rightarrow> cxone_service \<Rightarrow> scm_service \<Rightarrow> bool cio" where
  "process_pr_notice E svc m cx scm =
     bnd (lift (PRDetails_from_dict (json_loads E) (workflow_details m))) (\<lambda>det.
     true_or_logged
       (if prw_enabled (prs_workflow svc) then
          bnd (lift (MarkdownAnnotation E (display_link cx) (projectid m) (scanid m) (annotation m)
                 (source_branch det) (prs_server_base_url svc))) (\<lambda>c.
          exec_pr_scan_update_decorate scm det (content_of_md E (annotation m) c) (scan_message.truncate m))
        else ret ()))"

definition feedback_status :: "scan_feedback_message \<Rightarrow> exc + string" where
  "feedback_status m =
     (if is_error m then
        (case error_msg m of None \<Rightarrow> Inl TypeError | Some s \<Rightarrow> Inr (''Scan '' @ scanid m @ '': '' @ s))
      else Inr (''Scan '' @ scanid m @ '': '' @ ''completed''))"

definition do_pr_feedback :: "env \<Rightarrow> pr_service \<Rightarrow> scan_feedback_message \<Rightarrow> cxone_service \<Rightarrow> scm_service \<Rightarrow>
    pr_details \<Rightarrow> unit cio" where
  "do_pr_feedback E svc m cx scm det =
     bnd (retrieve_report E (projectid m) (scanid m)) (\<lambda>rep.
     if rep = JNull then raise WorkflowException
     else
       bnd (lift (feedback_status m)) (\<lambda>status.
       bnd (call (CxApi ''PolicyViolationInspector.policy_violations'' (JArr [JStr (projectid m), JStr (scanid m)]))
              (\<lambda>tr. cx_policy_violations E tr (projectid m) (scanid m))) (\<lambda>pvs.
       bnd (lift (MarkdownFeedback E
              \<lparr> excluded_severities = prw_excluded_severities (prs_workflow svc),
                excluded_states = prw_excluded_states (prs_workflow svc), fb_display = display_link cx,
                fb_project = projectid m, fb_scan = scanid m, report = rep,
                permalink = create_code_permalink scm, fb_pr = det, policy_violations = pvs \<rparr>
              (prs_server_base_url svc))) (\<lambda>c.
       if \<not> is_error m
       then exec_pr_scan_success_decorate scm det (content_of_md E status c) (scan_message.truncate m)
       else exec_pr_scan_failure_decorate scm det (content_of_md E status c) (scan_message.truncate m)))))"

definition process_pr_feedback :: "env \<Rightarrow> pr_service \<Rightarrow> scan_feedback_message \<Rightarrow> cxone_service \<Rightarrow> scm_service \<Rightarrow> bool cio" where
  "process_pr_feedback E svc m cx scm =
     bnd (lift (PRDetails_from_dict (json_loads E) (workflow_details m))) (\<lambda>det.
     catch
       (bnd (if prw_enabled (prs_workflow svc) then do_pr_feedback E svc m cx scm det else ret ()) (\<lambda>_. ret True))
       (\<lambda>e. Some (bnd (exec_pr_unrecoverable_error scm det (scan_message.truncate m) (''CxOneFlow: '' @ exc_str E e))
                    (\<lambda>_. ret False))))"


section \<open>The push workflow and SARIF delivery\<close>

record push_workflow =
  psw_enabled :: bool
  psw_interval :: int
  psw_scan_timeout :: int

definition push_feedback_msg :: "env \<Rightarrow> string \<Rightarrow> string \<Rightarrow> string \<Rightarrow> bool \<Rightarrow> string option \<Rightarrow> json dict \<Rightarrow>
    scan_feedback_message cio" where
  "push_feedback_msg E mk pid sid err err_msg kwargs =
     bnd (stamp E) (\<lambda>ts.
     ret \<lparr> timestamp = ts, correlation_id = process_uuid E, moniker = mk, state = FEEDBACK, workflow = PUSH,
           workflow_details = kwargs, scanid = sid, projectid = pid, is_error = err, error_msg = err_msg \<rparr>)"

definition publish_feedback_msg :: "env \<Rightarrow> scan_feedback_message \<Rightarrow> unit cio" where
  "publish_feedback_msg E m =
     bnd (publish E (push_topic FEEDBACK (str_FeedbackWorkflow PUSH_GEN) (moniker m)) (FeedbackMsg m) None []
            EXCHANGE_SCAN_INPUT) (\<lambda>_. ret ())"

definition push_feedback_start :: "env \<Rightarrow> string \<Rightarrow> string \<Rightarrow> string \<Rightarrow> json dict \<Rightarrow> unit cio" where
  "push_feedback_start E mk pid sid kwargs =
     bnd (push_feedback_msg E mk pid sid False None kwargs) (publish_feedback_msg E)"

definition push_feedback_error :: "env \<Rightarrow> string \<Rightarrow> string \<Rightarrow> string \<Rightarrow> string \<Rightarrow> json dict \<Rightarrow> unit cio" where
  "push_feedback_error E mk pid sid err kwargs =
     bnd (push_feedback_msg E mk pid sid True (Some err) kwargs) (publish_feedback_msg E)"

definition push_workflow_start :: "env \<Rightarrow> push_workflow \<Rightarrow> string \<Rightarrow> string \<Rightarrow> string \<Rightarrow> json dict \<Rightarrow> unit cio" where
  "push_workflow_start E flow mk pid sid kwargs =
     bnd (compute_drop_by_timestamp E (3600 * psw_scan_timeout flow)) (\<lambda>dby.
     bnd (stamp E) (\<lambda>ts.
     bnd (publish E (push_topic AWAIT (str_FeedbackWorkflow PUSH_GEN) mk)
            (AwaitMsg \<lparr> timestamp = ts, correlation_id = process_uuid E, moniker = mk, state = AWAIT,
               workflow = PUSH, workflow_details = kwargs, scanid = sid, projectid = pid, drop_by = dby \<rparr>)
            (Some (1000 * psw_interval flow)) [] EXCHANGE_SCAN_INPUT) (\<lambda>_. ret ())))"

datatype delivery_agent =
    AmqpDeliveryAgent string string string "string option" "string option"
    \<comment> \<open>moniker, shared secret, exchange, topic prefix, topic suffix\<close>
  | HttpDeliveryAgent string string int int json json
    \<comment> \<open>shared secret, endpoint, retries, delay, proxies, certificate check\<close>

definition gen_signature_headers :: "env \<Rightarrow> string \<Rightarrow> string \<Rightarrow> exc + string dict" where
  "gen_signature_headers E secret content =
     ebind (gen_signature_header E (hash_algorithms E) secret content) (\<lambda>(alg, h).
     Inr [(''x-cx-signature-alg'', alg), (''x-cx-signature'', h)])"

definition package_message :: "env \<Rightarrow> string \<Rightarrow> string \<Rightarrow> exc + string \<times> string dict" where
  "package_message E secret m =
     (let compressed = gzip E m in
      ebind (gen_signature_headers E secret compressed) (\<lambda>sig.
      Inr (compressed, dmerge [(''content-encoding'', ''gzip'')] sig)))"

definition amqp_topic :: "string \<Rightarrow> string option \<Rightarrow> string option \<Rightarrow> string" where
  "amqp_topic mk pre suf =
     (case pre of None \<Rightarrow> [] | Some p \<Rightarrow> rstrip CHR ''.'' p @ ''.'') @ mk
     @ (case suf of None \<Rightarrow> [] | Some s \<Rightarrow> ''.'' @ lstrip CHR ''.'' s)"

definition amqp_publish_message :: "env \<Rightarrow> string \<Rightarrow> string \<Rightarrow> string \<Rightarrow> string dict \<Rightarrow> unit cio" where
  "amqp_publish_message E exchange topic m hdrs =
     bnd (attempt (bnd (mq E MqClient) (\<lambda>_. mq E MqChannel))) (\<lambda>ch.
     case ch of
       Inl e \<Rightarrow> ret ()
     | Inr _ \<Rightarrow>
         bnd (attempt (bnd (mq E (MqExchange exchange)) (\<lambda>_.
                mq E (MqPublishRaw exchange topic m hdrs)))) (\<lambda>r.
         bnd (mq E MqClose) (\<lambda>_. ret ())))"

text \<open>The loop of \<open>__post\<close>; the first try has no delay, an exception ends it.\<close>

fun post_tries :: "env \<Rightarrow> string \<Rightarrow> int \<Rightarrow> json dict \<Rightarrow> bool \<Rightarrow> nat \<Rightarrow> bool cio" where
  "post_tries E url delay args once 0 = ret False"
| "post_tries E url delay args once (Suc left) =
     bnd (attempt
       (bnd (if once then call (Sleep delay) (\<lambda>_. Inr ()) else ret ()) (\<lambda>_.
        http_req E ''POST'' url (JObj args)))) (\<lambda>r.
     case r of
       Inl e \<Rightarrow> ret False
     | Inr resp \<Rightarrow> if ok resp then ret True else post_tries E url delay args True left)"

definition http_post :: "env \<Rightarrow> string \<Rightarrow> int \<Rightarrow> int \<Rightarrow> json \<Rightarrow> json \<Rightarrow> string \<Rightarrow> string dict \<Rightarrow> unit cio" where
  "http_post E url retries delay proxies ssl_verify m hdrs =
     bnd (post_tries E url delay
            [(''data'', JStr m), (''headers'', JObj (map (\<lambda>(k, v). (k, JStr v)) hdrs)), (''proxies'', proxies),
             (''verify'', ssl_verify)]
            False (nat (max retries 0) + 1)) (\<lambda>_. ret ())"

fun deliver :: "env \<Rightarrow> string \<Rightarrow> string dict \<Rightarrow> delivery_agent \<Rightarrow> unit cio" where
  "deliver E m msg_headers (AmqpDeliveryAgent mk secret exchange pre suf) =
     bnd (lift (package_message E secret m)) (\<lambda>(packed, hdrs).
     amqp_publish_message E exchange (amqp_topic mk pre suf) packed (dmerge hdrs msg_headers))"
| "deliver E m msg_headers (HttpDeliveryAgent secret url retries delay proxies ssl_verify) =
     bnd (lift (package_message E secret m)) (\<lambda>(packed, hdrs).
     http_post E url retries delay proxies ssl_verify packed (dmerge hdrs msg_headers))"

text \<open>
  \<open>asyncio.wait\<close>: refuses an empty list, and does not raise what the tasks raise.
\<close>

definition wait_all :: "unit cio list \<Rightarrow> unit cio" where
  "wait_all ms = (if ms = [] then raise ValueError else bnd (mapM attempt ms) (\<lambda>_. ret ()))"

record push_service =
  pss_moniker :: string
  pss_agents :: "delivery_agent list"
  pss_sarif_opts :: json
  pss_workflow :: push_workflow

definition sarif_headers :: "env \<Rightarrow> scan_feedback_message \<Rightarrow> push_details \<Rightarrow> string dict" where
  "sarif_headers E m det =
     [(''x-cx-scanid'', scanid m), (''x-cx-projectid'', projectid m), (''x-cx-service'', moniker m),
      (''x-cx-clone-url'', pstr E (clone_url det)), (''x-cx-branch'', pstr E (source_branch det)),
      (''x-cx-commit'', pstr E (commit_hash det)), (''x-cx-is-error'', if is_error m then ''True'' else ''False'')]"

definition do_sarif_generation :: "env \<Rightarrow> push_service \<Rightarrow> scan_feedback_message \<Rightarrow> push_details \<Rightarrow> unit cio" where
  "do_sarif_generation E svc m det =
     (let hdrs = sarif_headers E m det in
      if \<not> is_error m then
        bnd (cxobj E ''get_sarif_v210_log_for_scan''
               (JObj [(''opts'', pss_sarif_opts svc), (''scanid'', JStr (scanid m)),
                      (''throw_on_run_failure'', JBool True), (''clone_url'', clone_url det), (''branch'', source_branch det)])) (\<lambda>log.
        wait_all (map (deliver E (json_dumps E log) hdrs) (pss_agents svc)))
      else wait_all (map (deliver E (json_dumps E (JObj [(''error'', jopt (error_msg m))])) hdrs) (pss_agents svc)))"

definition start_sarif_feedback :: "env \<Rightarrow> push_service \<Rightarrow> string \<Rightarrow> string \<Rightarrow> push_details \<Rightarrow> unit cio" where
  "start_sarif_feedback E svc pid sid det =
     (if psw_enabled (pss_workflow svc) then
        bnd (mq E MqClient) (\<lambda>_.
        push_workflow_start E (pss_workflow svc) (pss_moniker svc) pid sid (PushDetails_as_dict det))
      else ret ())"

definition push_handle_completed_scan :: "env \<Rightarrow> scan_await_message \<Rightarrow> unit cio" where
  "push_handle_completed_scan E m =
     (if workflow m = PUSH then
        bnd (mq E MqClient) (\<lambda>_. push_feedback_start E (moniker m) (projectid m) (scanid m) (workflow_details m))
      else ret ())"

definition push_handle_awaited_scan_error :: "env \<Rightarrow> scan_await_message \<Rightarrow> string \<Rightarrow> unit cio" where
  "push_handle_awaited_scan_error E m err =
     (if workflow m = PUSH then
        bnd (mq E MqClient) (\<lambda>_. push_feedback_error E (moniker m) (projectid m) (scanid m) err (workflow_details m))
      else ret ())"


section \<open>Incoming messages\<close>

text \<open>
  A delivered message: the outcome of decoding its body, its headers and its routing key.
\<close>

record incoming =
  in_body :: "exc + msg"
  in_headers :: "json dict"
  routing_key :: string

definition ack :: "env \<Rightarrow> unit cio" where
  "ack E = bnd (mq E Ack) (\<lambda>_. ret ())"

definition nack :: "env \<Rightarrow> bool \<Rightarrow> unit cio" where
  "nack E requeue = bnd (mq E (Nack requeue)) (\<lambda>_. ret ())"

definition safe_deserialize_body :: "env \<Rightarrow> (msg \<Rightarrow> exc + 'a) \<Rightarrow> incoming \<Rightarrow> 'a cio" where
  "safe_deserialize_body E conv im =
     (case ebind (in_body im) conv of
        Inr x \<Rightarrow> ret x
      | Inl e \<Rightarrow> bnd (nack E False) (\<lambda>_. raise e))"

text \<open>
  \<open>from_binary\<close> of each class: the decoder takes the fields of its class, in their order, from what the
  message has. A field with a default may be missing, so a feedback message can be read from any
  message about a scan, and a prescan annotation from an annotation.
\<close>

fun to_await :: "msg \<Rightarrow> exc + scan_await_message" where
  "to_await (AwaitMsg m) = Inr m"
| "to_await (FeedbackMsg m) = Inl (KeyError ''drop_by'')"
| "to_await (AnnotationMsg m) = Inl (KeyError ''drop_by'')"
| "to_await (PreScanMsg m) = Inl (KeyError ''scanid'')"
| "to_await _ = Inl (KeyError ''workflow_details'')"

definition feedback_defaults :: "'a scan_message_scheme \<Rightarrow> scan_feedback_message" where
  "feedback_defaults m =
     \<lparr> timestamp = timestamp m, correlation_id = correlation_id m, moniker = moniker m, state = state m,
       workflow = workflow m, workflow_details = workflow_details m, scanid = scanid m, projectid = projectid m,
       is_error = False, error_msg = Some ''NA'' \<rparr>"

fun to_feedback :: "msg \<Rightarrow> exc + scan_feedback_message" where
  "to_feedback (FeedbackMsg m) = Inr m"
| "to_feedback (AwaitMsg m) = Inr (feedback_defaults m)"
| "to_feedback (AnnotationMsg m) = Inr (feedback_defaults m)"
| "to_feedback (PreScanMsg m) = Inl (KeyError ''scanid'')"
| "to_feedback _ = Inl (KeyError ''workflow_details'')"

fun to_annotation :: "msg \<Rightarrow> exc + scan_annotation_message" where
  "to_annotation (AnnotationMsg m) = Inr m"
| "to_annotation (AwaitMsg m) = Inl (KeyError ''annotation'')"
| "to_annotation (FeedbackMsg m) = Inl (KeyError ''annotation'')"
| "to_annotation (PreScanMsg m) = Inl (KeyError ''scanid'')"
| "to_annotation _ = Inl (KeyError ''workflow_details'')"

fun to_prescan :: "msg \<Rightarrow> exc + prescan_annotation_message" where
  "to_prescan (PreScanMsg m) = Inr m"
| "to_prescan (AnnotationMsg m) = Inr
     \<lparr> timestamp = timestamp m, correlation_id = correlation_id m, moniker = moniker m, state = state m,
       workflow = workflow m, workflow_details = workflow_details m, pre_annotation = annotation m \<rparr>"
| "to_prescan (AwaitMsg m) = Inl (KeyError ''annotation'')"
| "to_prescan (FeedbackMsg m) = Inl (KeyError ''annotation'')"
| "to_prescan _ = Inl (KeyError ''workflow_details'')"

definition execute_sarif_generation :: "env \<Rightarrow> push_service \<Rightarrow> incoming \<Rightarrow> unit cio" where
  "execute_sarif_generation E svc im =
     bnd (safe_deserialize_body E to_feedback im) (\<lambda>m.
     bnd (lift (PushDetails_from_dict (json_loads E) (workflow_details m))) (\<lambda>det.
     catch
       (bnd (if psw_enabled (pss_workflow svc) then do_sarif_generation E svc m det else ret ()) (\<lambda>_. ack E))
       (\<lambda>e. Some (if is_CxOneException e then nack E True else ack E))))"


section \<open>Scan polling\<close>

text \<open>What the polling service sees of a feedback service.\<close>

record feedback_handler =
  handle_completed_scan :: "scan_await_message \<Rightarrow> unit cio"
  handle_awaited_scan_error :: "scan_await_message \<Rightarrow> string \<Rightarrow> unit cio"

definition pr_handler :: "env \<Rightarrow> feedback_handler" where
  "pr_handler E = \<lparr> handle_completed_scan = pr_handle_completed_scan E,
                    handle_awaited_scan_error = pr_handle_awaited_scan_error E \<rparr>"

definition push_handler :: "env \<Rightarrow> feedback_handler" where
  "push_handler E = \<lparr> handle_completed_scan = push_handle_completed_scan E,
                      handle_awaited_scan_error = push_handle_awaited_scan_error E \<rparr>"

record poll_service =
  poll_services :: "feedback_handler list"
  max_interval :: int
  backoff_scalar :: int

definition break_build :: "env \<Rightarrow> string \<Rightarrow> string \<Rightarrow> bool cio" where
  "break_build E pid sid =
     call (CxApi ''PolicyViolationInspector.break_build'' (JArr [JStr pid, JStr sid])) (\<lambda>tr. cx_break_build E tr pid sid)"

definition all_completed :: "poll_service \<Rightarrow> scan_await_message \<Rightarrow> unit cio" where
  "all_completed svc m = bnd (gather (map (\<lambda>s. handle_completed_scan s m) (poll_services svc))) (\<lambda>_. ret ())"

definition all_failed :: "poll_service \<Rightarrow> scan_await_message \<Rightarrow> string \<Rightarrow> unit cio" where
  "all_failed svc m err =
     bnd (gather (map (\<lambda>s. handle_awaited_scan_error s m err) (poll_services svc))) (\<lambda>_. ret ())"

text \<open>The four branches on a scan that is no longer executing.\<close>

definition scan_finished :: "env \<Rightarrow> poll_service \<Rightarrow> scan_await_message \<Rightarrow> inspector \<Rightarrow> unit cio" where
  "scan_finished E svc m ins =
     bnd (if successful ins
          then bnd (break_build E (ins_project_id ins) (ins_scan_id ins)) (\<lambda>b. ret (\<not> b)) else ret False) (\<lambda>good.
     if good then all_completed svc m
     else if \<not> successful ins then all_failed svc m ''Scan workflow failure''
     else bnd (break_build E (ins_project_id ins) (ins_scan_id ins)) (\<lambda>b.
       if b then all_failed svc m ''Policy violation'' else all_failed svc m (state_msg ins)))"

text \<open>
  The body of the outer \<open>try\<close>: the pending exception, whether the message is to be requeued and
  whether a channel was opened, as the \<open>finally\<close> clause sees them. An exception of the feedback
  services is logged and leaves the message to be requeued; once they are done the message is
  acknowledged, and an exception of that call no longer requeues it.
\<close>

definition finish_scan :: "env \<Rightarrow> poll_service \<Rightarrow> scan_await_message \<Rightarrow> inspector \<Rightarrow> (exc option \<times> bool \<times> bool) cio" where
  "finish_scan E svc m ins =
     bnd (attempt (scan_finished E svc m ins)) (\<lambda>r.
     case r of
       Inl e \<Rightarrow> ret (None, True, True)
     | Inr _ \<Rightarrow> bnd (attempt (ack E)) (\<lambda>a.
         case a of Inl e \<Rightarrow> ret (Some e, False, True) | Inr _ \<Rightarrow> ret (None, False, True)))"

definition poll_inspect :: "env \<Rightarrow> poll_service \<Rightarrow> scan_await_message \<Rightarrow> (exc option \<times> bool \<times> bool) cio" where
  "poll_inspect E svc m =
     bnd (attempt (load_scan_inspector E (scanid m))) (\<lambda>l.
     case l of
       Inl e \<Rightarrow> ret (Some e, True, True)
     | Inr ins \<Rightarrow> if executing ins then ret (None, True, True) else finish_scan E svc m ins)"

definition poll_body :: "env \<Rightarrow> poll_service \<Rightarrow> scan_await_message \<Rightarrow> (exc option \<times> bool \<times> bool) cio" where
  "poll_body E svc m =
     bnd (attempt (bnd (mq E MqClient) (\<lambda>_. mq E MqChannel))) (\<lambda>ch.
     case ch of Inl e \<Rightarrow> ret (Some e, True, False) | Inr _ \<Rightarrow> poll_inspect E svc m)"

definition handle_response_exception :: "env \<Rightarrow> exc option \<times> bool \<times> bool \<Rightarrow> (exc option \<times> bool \<times> bool) cio" where
  "handle_response_exception E st =
     (case st of (pending, requeue, chan) \<Rightarrow>
        if pending = Some ResponseException then
          bnd (attempt (ack E)) (\<lambda>a. case a of Inl e \<Rightarrow> ret (Some e, False, chan) | Inr _ \<Rightarrow> ret (None, False, chan))
        else ret (pending, requeue, chan))"

text \<open>\<open>int(msg.headers["x-death"][0]["original-expiration"])\<close>, in milliseconds.\<close>

definition original_expiration :: "incoming \<Rightarrow> exc + int" where
  "original_expiration im =
     ebind (dgetE (in_headers im) ''x-death'') (\<lambda>d. ebind (as_list d) (\<lambda>ds. ebind (first ds) (\<lambda>x.
     ebind (jget x ''original-expiration'') py_int)))"

definition backoff_of :: "poll_service \<Rightarrow> int \<Rightarrow> int" where
  "backoff_of svc orig = min (orig * backoff_scalar svc) (1000 * max_interval svc)"

definition requeue_poll :: "env \<Rightarrow> poll_service \<Rightarrow> incoming \<Rightarrow> scan_await_message \<Rightarrow> bool \<Rightarrow> unit cio" where
  "requeue_poll E svc im m chan =
     bnd (if chan then mq E (MqExchange EXCHANGE_SCAN_INPUT) else ret False) (\<lambda>found.
     if found then
       bnd (lift (original_expiration im)) (\<lambda>orig.
       bnd (mq E (MqPublish EXCHANGE_SCAN_INPUT (routing_key im) (AwaitMsg m) (Some (backoff_of svc orig)) [])) (\<lambda>acked.
       if acked then ack E else nack E True))
     else ret ())"

text \<open>The \<open>finally\<close> clause and what follows it.\<close>

definition poll_finally :: "env \<Rightarrow> poll_service \<Rightarrow> incoming \<Rightarrow> scan_await_message \<Rightarrow> exc option \<times> bool \<times> bool \<Rightarrow> unit cio" where
  "poll_finally E svc im m st =
     (case st of (pending, requeue, chan) \<Rightarrow>
       bnd (if requeue then requeue_poll E svc im m chan else ret ()) (\<lambda>_.
       bnd (if chan then bnd (mq E MqClose) (\<lambda>_. ret ()) else ret ()) (\<lambda>_.
       case pending of None \<Rightarrow> ret () | Some e \<Rightarrow> raise e)))"

definition execute_poll_scan_workflow :: "env \<Rightarrow> poll_service \<Rightarrow> incoming \<Rightarrow> unit cio" where
  "execute_poll_scan_workflow E svc im =
     bnd (safe_deserialize_body E to_await im) (\<lambda>m.
     bnd (is_expired E (drop_by m)) (\<lambda>expired.
     if expired then ack E
     else
       bnd (poll_body E svc m) (\<lambda>st.
       bnd (handle_response_exception E st) (poll_finally E svc im m))))"


section \<open>What the polling service relies on\<close>

text \<open>
  The feedback for an awaited scan: the only message is one feedback message, on the service's
  topic, that carries the identity and details of the scan and the error, if there is one.
\<close>

definition feedback_for :: "(string \<Rightarrow> string) \<Rightarrow> scan_await_message \<Rightarrow> string option \<Rightarrow> event \<Rightarrow> bool" where
  "feedback_for topic m err e \<longleftrightarrow> mq_call e \<and>
     (publishes e \<longrightarrow> (\<exists>fm. e = MqPublish EXCHANGE_SCAN_INPUT (topic (moniker m)) (FeedbackMsg fm) None []
        \<and> moniker fm = moniker m \<and> workflow fm = workflow m \<and> scanid fm = scanid m \<and> projectid fm = projectid m
        \<and> workflow_details fm = workflow_details m \<and> is_error fm = (err \<noteq> None)
        \<and> (\<forall>s. err = Some s \<longrightarrow> error_msg fm = Some s)))"

locale feedback_service =
  fixes flow :: ScanWorkflow
    and handler :: feedback_handler
    and done_topic fail_topic :: "string \<Rightarrow> string"
  assumes foreign: "workflow m \<noteq> flow \<Longrightarrow>
      handle_completed_scan handler m = ret () \<and> handle_awaited_scan_error handler m err = ret ()"
    and own_completed: "workflow m = flow \<Longrightarrow>
      emits (feedback_for done_topic m None) (handle_completed_scan handler m)"
    and own_failed: "workflow m = flow \<Longrightarrow>
      emits (feedback_for fail_topic m (Some err)) (handle_awaited_scan_error handler m err)"
begin

text \<open>Among services for other workflows, only this one acts on a scan of its workflow.\<close>

lemma only_own_completed:
  assumes "workflow m = flow" and "\<And>h. h \<in> set others \<union> set others2 \<Longrightarrow> handle_completed_scan h m = ret ()"
  shows "emits (feedback_for done_topic m None)
    (gather (map (\<lambda>h. handle_completed_scan h m) (others @ handler # others2)))"
  using assms own_completed [OF assms(1)]
  by (intro emits_gather) (auto intro: emits_ret)

lemma only_own_failed:
  assumes "workflow m = flow" and "\<And>h. h \<in> set others \<union> set others2 \<Longrightarrow> handle_awaited_scan_error h m err = ret ()"
  shows "emits (feedback_for fail_topic m (Some err))
    (gather (map (\<lambda>h. handle_awaited_scan_error h m err) (others @ handler # others2)))"
  using assms own_failed [OF assms(1)]
  by (intro emits_gather) (auto intro: emits_ret)

end

lemma feedback_for_mq [simp]:
  "feedback_for t m err MqClient" "feedback_for t m err MqChannel" "feedback_for t m err (MqExchange x)"
  "feedback_for t m err MqClose"
  by (simp_all add: feedback_for_def mq_call_def publishes_def)

interpretation pr_fb: feedback_service PR "pr_handler E"
    "pr_topic FEEDBACK (str_ScanWorkflow PR)" "pr_topic FAILURE (str_ScanWorkflow PR)"
  for E
proof (unfold_locales, goal_cases)
  case (1 m err)
  then show ?case by (simp add: pr_handler_def pr_handle_completed_scan_def pr_handle_awaited_scan_error_def)
next
  case (2 m)
  then show ?case
    by (auto simp: pr_handler_def pr_handle_completed_scan_def pr_feedback_start_def pr_feedback_msg_def stamp_def
        feedback_for_def mq_call_def publishes_def bnd_assoc intro!: emits_rules)
next
  case (3 m err)
  then show ?case
    by (auto simp: pr_handler_def pr_handle_awaited_scan_error_def pr_feedback_error_def pr_feedback_msg_def stamp_def
        feedback_for_def mq_call_def publishes_def bnd_assoc intro!: emits_rules)
qed

interpretation push_fb: feedback_service PUSH "push_handler E"
    "push_topic FEEDBACK (str_FeedbackWorkflow PUSH_GEN)" "push_topic FEEDBACK (str_FeedbackWorkflow PUSH_GEN)"
  for E
proof (unfold_locales, goal_cases)
  case (1 m err)
  then show ?case
    by (simp add: push_handler_def push_handle_completed_scan_def push_handle_awaited_scan_error_def)
next
  case (2 m)
  then show ?case
    by (auto simp: push_handler_def push_handle_completed_scan_def push_feedback_start_def push_feedback_msg_def
        publish_feedback_msg_def stamp_def feedback_for_def mq_call_def publishes_def bnd_assoc intro!: emits_rules)
next
  case (3 m err)
  then show ?case
    by (auto simp: push_handler_def push_handle_awaited_scan_error_def push_feedback_error_def push_feedback_msg_def
        publish_feedback_msg_def stamp_def feedback_for_def mq_call_def publishes_def bnd_assoc intro!: emits_rules)
qed

text \<open>The polling service as configured: the pull request service, then the push service.\<close>

definition configured_poll :: "env \<Rightarrow> int \<Rightarrow> int \<Rightarrow> poll_service" where
  "configured_poll E mx scalar =
     \<lparr> poll_services = [pr_handler E, push_handler E], max_interval = mx, backoff_scalar = scalar \<rparr>"

lemma all_completed_PR:
  assumes "workflow m = PR"
  shows "emits (feedback_for (pr_topic FEEDBACK (str_ScanWorkflow PR)) m None) (all_completed (configured_poll E mx sc) m)"
  using pr_fb.only_own_completed [of m "[]" "[push_handler E]" E] push_fb.foreign [of m E] assms
  by (auto simp: all_completed_def configured_poll_def intro!: emits_bnd emits_ret)

lemma all_completed_PUSH:
  assumes "workflow m = PUSH"
  shows "emits (feedback_for (push_topic FEEDBACK (str_FeedbackWorkflow PUSH_GEN)) m None)
    (all_completed (configured_poll E mx sc) m)"
  using push_fb.only_own_completed [of m "[pr_handler E]" "[]" E] pr_fb.foreign [of m E] assms
  by (auto simp: all_completed_def configured_poll_def intro!: emits_bnd emits_ret)

lemma all_failed_PR:
  assumes "workflow m = PR"
  shows "emits (feedback_for (pr_topic FAILURE (str_ScanWorkflow PR)) m (Some err))
    (all_failed (configured_poll E mx sc) m err)"
  using pr_fb.only_own_failed [of m "[]" "[push_handler E]" err E] push_fb.foreign [of m E err] assms
  by (auto simp: all_failed_def configured_poll_def intro!: emits_bnd emits_ret)

lemma all_failed_PUSH:
  assumes "workflow m = PUSH"
  shows "emits (feedback_for (push_topic FEEDBACK (str_FeedbackWorkflow PUSH_GEN)) m (Some err))
    (all_failed (configured_poll E mx sc) m err)"
  using push_fb.only_own_failed [of m "[pr_handler E]" "[]" err E] pr_fb.foreign [of m E err] assms
  by (auto simp: all_failed_def configured_poll_def intro!: emits_bnd emits_ret)


section \<open>Properties of polling\<close>

text \<open>The broker takes every call.\<close>

definition mq_up :: "env \<Rightarrow> bool" where
  "mq_up E \<longleftrightarrow> (\<forall>tr e. mq_reply E tr e = Inr True)"

definition poll_call :: "string \<Rightarrow> event" where
  "poll_call sid = CxApi ''ScanLoader.load'' (JStr sid)"

lemmas poll_defs = execute_poll_scan_workflow_def poll_body_def poll_inspect_def finish_scan_def poll_finally_def handle_response_exception_def
  requeue_poll_def safe_deserialize_body_def is_expired_def load_scan_inspector_def poll_call_def ack_def nack_def

lemma poll_executing:
  assumes "mq_up E" and "in_body im = Inr (AwaitMsg m)"
    and "fromisoformat E (drop_by m) = Inr d" and "now E tr < d"
    and "cx_inspector E (tr @ [MqClient, MqChannel]) (scanid m) = Inr ins" and "executing ins"
    and "original_expiration im = Inr orig"
  shows "execute_poll_scan_workflow E svc im (tr, s) =
    (Inr (), tr @ [MqClient, MqChannel, poll_call (scanid m), MqExchange EXCHANGE_SCAN_INPUT,
       MqPublish EXCHANGE_SCAN_INPUT (routing_key im) (AwaitMsg m) (Some (backoff_of svc orig)) [],
       Ack, MqClose], s)"
  using assms by (simp add: poll_defs mq_def clock_def mq_up_def bnd_def attempt_def)

text \<open>Settling a delivery: acknowledging or rejecting it.\<close>

definition settles :: "event \<Rightarrow> bool" where
  "settles e = (case e of Ack \<Rightarrow> True | Nack _ \<Rightarrow> True | _ \<Rightarrow> False)"

abbreviation settled :: "event list \<Rightarrow> nat" where
  "settled ev \<equiv> length (filter settles ev)"

lemma settled_none: "list_all (\<lambda>e. \<not> settles e) ev \<Longrightarrow> settled ev = 0"
  by (simp add: list_all_iff)

lemma does_none:
  assumes "emits (\<lambda>e. \<not> settles e) m" and "\<And>x ev. settled ev = 0 \<Longrightarrow> R x ev"
  shows "does m R"
  using assms(1) by (rule does_emits) (simp add: assms(2) settled_none)

lemma feedback_for_unsettled: "feedback_for t m err e \<Longrightarrow> \<not> settles e"
  by (auto simp: feedback_for_def mq_call_def settles_def split: event.splits)

lemma all_completed_unsettled: "emits (\<lambda>e. \<not> settles e) (all_completed (configured_poll E mx sc) m)"
  by (cases "workflow m")
    (erule emits_mono [OF all_completed_PR], erule feedback_for_unsettled,
     erule emits_mono [OF all_completed_PUSH], erule feedback_for_unsettled)

lemma all_failed_unsettled: "emits (\<lambda>e. \<not> settles e) (all_failed (configured_poll E mx sc) m err)"
  by (cases "workflow m")
    (erule emits_mono [OF all_failed_PR], erule feedback_for_unsettled,
     erule emits_mono [OF all_failed_PUSH], erule feedback_for_unsettled)

lemma scan_finished_unsettled: "emits (\<lambda>e. \<not> settles e) (scan_finished E (configured_poll E mx sc) m ins)"
  unfolding scan_finished_def break_build_def
  by (intro emits_rules all_completed_unsettled all_failed_unsettled) (auto simp: settles_def)

lemma does_ack: "does (ack E) (\<lambda>_ ev. settled ev = 1)"
  by (auto simp: does_def ack_def mq_def bnd_Inr_iff settles_def)

lemma does_nack: "does (nack E b) (\<lambda>_ ev. settled ev = 1)"
  by (auto simp: does_def nack_def mq_def bnd_Inr_iff settles_def)

text \<open>
  The state after the body and after the handler: nothing was settled as long as the message is
  to be requeued, and it was settled once when it is not and nothing is pending.
\<close>

definition poll_post :: "exc option \<times> bool \<times> bool \<Rightarrow> nat \<Rightarrow> bool" where
  "poll_post st n \<longleftrightarrow> (case st of (pending, requeue, chan) \<Rightarrow>
     (requeue \<longrightarrow> n = 0 \<and> (chan \<or> pending \<noteq> None)) \<and>
     (\<not> requeue \<longrightarrow> pending \<noteq> Some ResponseException \<and> (pending = None \<longrightarrow> n = 1)))"

lemma poll_post_simps [simp]:
  "poll_post (p, True, c) n \<longleftrightarrow> n = 0 \<and> (c \<or> p \<noteq> None)"
  "poll_post (Some e, False, c) n \<longleftrightarrow> e \<noteq> ResponseException"
  "poll_post (None, False, c) n \<longleftrightarrow> n = 1"
  by (auto simp: poll_post_def)

text \<open>
  \<open>ResponseException\<close> is an exception of the Checkmarx One SDK, not of the broker client, and an
  exchange that can be retrieved is an object, hence true.
\<close>

definition broker_ok :: "env \<Rightarrow> bool" where
  "broker_ok E \<longleftrightarrow> (\<forall>tr e. mq_reply E tr e \<noteq> Inl ResponseException) \<and>
     (\<forall>tr x. mq_reply E tr (MqExchange x) \<noteq> Inr False)"

lemma does_unsettled_bnd:
  assumes "emits (\<lambda>e. \<not> settles e) m" and "\<And>x. does (k x) (\<lambda>y ev. R y (settled ev))"
  shows "does (bnd m k) (\<lambda>y ev. R y (settled ev))"
  using does_none [OF assms(1), of "\<lambda>_ ev. settled ev = 0"]
  by (rule does_bnd) (auto intro: does_mono [OF assms(2)])

lemma reply_of_not_response: "r \<noteq> Inl ResponseException \<Longrightarrow> reply_of r \<noteq> Inl ResponseException"
  by (cases r) auto

lemma does_final_ack:
  assumes "broker_ok E"
  shows "does (bnd (attempt (ack E)) (\<lambda>a. case a of Inl e \<Rightarrow> ret (Some e, False, c) | Inr _ \<Rightarrow> ret (None, False, c)))
     (\<lambda>st ev. poll_post st (settled ev))"
proof (rule does_bnd)
  have reply: "reply_of (mq_reply E tr Ack) \<noteq> Inl ResponseException" for tr
    using assms by (intro reply_of_not_response) (simp add: broker_ok_def)
  show "does (attempt (ack E)) (\<lambda>r ev. case r of Inl e \<Rightarrow> e \<noteq> ResponseException | Inr _ \<Rightarrow> settled ev = 1)"
    using reply unfolding ack_def mq_def does_def
    by (auto simp: attempt_app bnd_app settles_def split: sum.splits if_splits)
qed (auto split: sum.splits intro!: does_ret)

lemma does_finish_scan:
  assumes "broker_ok E"
  shows "does (finish_scan E (configured_poll E mx sc) m ins) (\<lambda>st ev. poll_post st (settled ev))"
  unfolding finish_scan_def
  by (intro does_unsettled_bnd emits_attempt scan_finished_unsettled)
    (auto split: sum.splits intro: does_final_ack [OF assms] does_ret)

lemma does_poll_inspect:
  assumes "broker_ok E"
  shows "does (poll_inspect E (configured_poll E mx sc) m) (\<lambda>st ev. poll_post st (settled ev))"
  unfolding poll_inspect_def
  by (intro does_unsettled_bnd emits_attempt emits_load_scan_inspector)
    (auto split: sum.splits intro: does_finish_scan [OF assms] does_ret simp: settles_def)

lemma does_poll_body:
  assumes "broker_ok E"
  shows "does (poll_body E (configured_poll E mx sc) m) (\<lambda>st ev. poll_post st (settled ev))"
  unfolding poll_body_def
  by (intro does_unsettled_bnd emits_attempt emits_bnd emits_mq)
    (auto split: sum.splits intro: does_poll_inspect [OF assms] does_ret simp: settles_def)

lemma does_handle_response:
  assumes "broker_ok E" and "poll_post st n"
  shows "does (handle_response_exception E st) (\<lambda>st' ev. poll_post st' (n + settled ev))"
proof -
  obtain pending requeue chan where st: "st = (pending, requeue, chan)" by (cases st)
  show ?thesis
  proof (cases "pending = Some ResponseException")
    case True
    with assms(2) st have "n = 0" by (auto simp: poll_post_def)
    with True st does_final_ack [OF assms(1), of chan] show ?thesis
      by (simp add: handle_response_exception_def)
  next
    case False
    with assms(2) st show ?thesis by (auto simp: handle_response_exception_def intro!: does_ret)
  qed
qed

lemma does_requeue_poll:
  assumes "broker_ok E"
  shows "does (requeue_poll E svc im m True) (\<lambda>_ ev. settled ev = 1)"
  using assms unfolding does_def requeue_poll_def
  by (auto simp: bnd_Inr_iff mq_def broker_ok_def ack_def nack_def settles_def split: if_splits)

lemma does_close:
  "does (bnd (if chan then bnd (mq E MqClose) (\<lambda>_. ret ()) else ret ()) (\<lambda>_.
       case pending of None \<Rightarrow> ret () | Some e \<Rightarrow> raise e)) (\<lambda>_ ev. pending = None \<and> settled ev = 0)"
  by (auto simp: does_def bnd_Inr_iff mq_def settles_def split: option.splits)

lemma does_poll_finally:
  assumes "broker_ok E" and "poll_post st n"
  shows "does (poll_finally E svc im m st) (\<lambda>_ ev. n + settled ev = 1)"
proof -
  obtain pending requeue chan where st: "st = (pending, requeue, chan)" by (cases st)
  have "does (if requeue then requeue_poll E svc im m chan else ret ())
      (\<lambda>_ ev. if requeue \<and> chan then settled ev = 1 else requeue \<or> settled ev = 0)"
    using does_requeue_poll [OF assms(1)]
    by (cases requeue; cases chan) (auto intro: does_ret simp: does_def requeue_poll_def)
  then show ?thesis
    unfolding poll_finally_def st prod.case
    by (rule does_bnd) (rule does_mono [OF does_close], use assms(2) st in \<open>auto simp: poll_post_def split: if_splits\<close>)
qed

lemma poll_settles_once:
  assumes "broker_ok E"
  shows "does (execute_poll_scan_workflow E (configured_poll E mx sc) im) (\<lambda>_ ev. settled ev = 1)"
proof -
  have deser: "does (safe_deserialize_body E to_await im) (\<lambda>_ ev. settled ev = 0)"
    by (auto simp: does_def safe_deserialize_body_def bnd_Inr_iff split: sum.splits)
  have poll: "does (bnd (poll_body E (configured_poll E mx sc) m) (\<lambda>st.
       bnd (handle_response_exception E st) (poll_finally E (configured_poll E mx sc) im m)))
     (\<lambda>_ ev. settled ev = 1)" for m
  proof (rule does_bnd [OF does_poll_body [OF assms]], goal_cases)
    case (1 st ev)
    show ?case
      by (rule does_bnd [OF does_handle_response [OF assms 1]], rule does_mono [OF does_poll_finally [OF assms]])
        (auto simp: add.assoc)
  qed
  show ?thesis
    unfolding execute_poll_scan_workflow_def is_expired_def
    by (rule does_bnd [OF deser]) (auto simp: bnd_assoc clock_def intro!: does_unsettled_bnd emits_rules
        does_mono [OF does_ack] does_mono [OF poll])
qed

text \<open>
  With the broker up, the feedback of a scan that ended is exactly one message, on the topic of
  the workflow the scan was started for.
\<close>

definition feedback_topic :: "ScanWorkflow \<Rightarrow> bool \<Rightarrow> string \<Rightarrow> string" where
  "feedback_topic flow err =
     (case flow of
        PR \<Rightarrow> pr_topic (if err then FAILURE else FEEDBACK) (str_ScanWorkflow PR)
      | PUSH \<Rightarrow> push_topic FEEDBACK (str_FeedbackWorkflow PUSH_GEN))"

definition feedback_message :: "scan_await_message \<Rightarrow> string option \<Rightarrow> scan_feedback_message \<Rightarrow> bool" where
  "feedback_message m err fm \<longleftrightarrow> moniker fm = moniker m \<and> workflow fm = workflow m \<and> scanid fm = scanid m
     \<and> projectid fm = projectid m \<and> workflow_details fm = workflow_details m \<and> is_error fm = (err \<noteq> None)
     \<and> (\<forall>s. err = Some s \<longrightarrow> error_msg fm = Some s)"

definition one_feedback :: "scan_await_message \<Rightarrow> string option \<Rightarrow> event list \<Rightarrow> bool" where
  "one_feedback m err ev \<longleftrightarrow> (\<exists>fm. feedback_message m err fm \<and>
     ev = [MqClient, MqChannel, MqExchange EXCHANGE_SCAN_INPUT,
           MqPublish EXCHANGE_SCAN_INPUT (feedback_topic (workflow m) (err \<noteq> None) (moniker m)) (FeedbackMsg fm) None [],
           MqClose])"

lemmas handler_defs = pr_handler_def push_handler_def pr_handle_completed_scan_def push_handle_completed_scan_def
  pr_handle_awaited_scan_error_def push_handle_awaited_scan_error_def pr_feedback_start_def pr_feedback_error_def
  push_feedback_start_def push_feedback_error_def publish_feedback_msg_def pr_feedback_msg_def push_feedback_msg_def
  publish_def stamp_def

lemma all_completed_one:
  assumes "mq_up E"
  shows "\<exists>ev. all_completed (configured_poll E mx sc) m (tr, s) = (Inr (), tr @ ev, s) \<and> one_feedback m None ev"
  using assms
  by (cases "workflow m")
    (auto simp: all_completed_def configured_poll_def handler_defs gather_def mq_def mq_up_def clock_def bnd_def attempt_def
      one_feedback_def feedback_message_def feedback_topic_def)

lemma all_failed_one:
  assumes "mq_up E"
  shows "\<exists>ev. all_failed (configured_poll E mx sc) m err (tr, s) = (Inr (), tr @ ev, s) \<and> one_feedback m (Some err) ev"
  using assms
  by (cases "workflow m")
    (auto simp: all_failed_def configured_poll_def handler_defs gather_def mq_def mq_up_def clock_def bnd_def attempt_def
      one_feedback_def feedback_message_def feedback_topic_def)


definition scan_verdict :: "inspector \<Rightarrow> bool \<Rightarrow> string option" where
  "scan_verdict ins violation =
     (if \<not> successful ins then Some ''Scan workflow failure''
      else if violation then Some ''Policy violation'' else None)"

lemma scan_finished_verdict:
  assumes "mq_up E" and "\<And>tr'. cx_break_build E tr' (ins_project_id ins) (ins_scan_id ins) = Inr b"
  shows "\<exists>pre fb. scan_finished E (configured_poll E mx sc) m ins (tr, s) = (Inr (), tr @ pre @ fb, s)
    \<and> list_all (\<lambda>e. \<not> mq_call e \<and> \<not> settles e) pre \<and> one_feedback m (scan_verdict ins b) fb"
proof -
  let ?bb = "CxApi ''PolicyViolationInspector.break_build'' (JArr [JStr (ins_project_id ins), JStr (ins_scan_id ins)])"
  let ?pre = "if \<not> successful ins then [] else if b then [?bb, ?bb] else [?bb]"
  have pre: "list_all (\<lambda>e. \<not> mq_call e \<and> \<not> settles e) ?pre" by (simp add: mq_call_def settles_def)
  obtain fb where "one_feedback m (scan_verdict ins b) fb"
    "(case scan_verdict ins b of None \<Rightarrow> all_completed (configured_poll E mx sc) m
      | Some err \<Rightarrow> all_failed (configured_poll E mx sc) m err) (tr @ ?pre, s) = (Inr (), (tr @ ?pre) @ fb, s)"
    using all_completed_one [OF assms(1), of mx sc m "tr @ ?pre" s] all_failed_one [OF assms(1), of mx sc m _ "tr @ ?pre" s]
    by (cases "scan_verdict ins b") (simp_all, blast+)
  then show ?thesis
    using pre assms(2)
    by (intro exI [of _ ?pre] exI [of _ fb])
      (auto simp: scan_finished_def break_build_def bnd_app scan_verdict_def split: if_splits)
qed

lemma poll_finished:
  assumes "mq_up E" and "in_body im = Inr (AwaitMsg m)"
    and "fromisoformat E (drop_by m) = Inr d" and "now E tr < d"
    and "cx_inspector E (tr @ [MqClient, MqChannel]) (scanid m) = Inr ins" and "\<not> executing ins"
    and "\<And>tr'. cx_break_build E tr' (ins_project_id ins) (ins_scan_id ins) = Inr b"
  shows "\<exists>pre fb. execute_poll_scan_workflow E (configured_poll E mx sc) im (tr, s) =
      (Inr (), tr @ [MqClient, MqChannel, poll_call (scanid m)] @ pre @ fb @ [Ack, MqClose], s)
    \<and> list_all (\<lambda>e. \<not> mq_call e \<and> \<not> settles e) pre \<and> one_feedback m (scan_verdict ins b) fb"
proof -
  obtain pre fb where "scan_finished E (configured_poll E mx sc) m ins (tr @ [MqClient, MqChannel, poll_call (scanid m)], s)
      = (Inr (), (tr @ [MqClient, MqChannel, poll_call (scanid m)]) @ pre @ fb, s)"
    "list_all (\<lambda>e. \<not> mq_call e \<and> \<not> settles e) pre" "one_feedback m (scan_verdict ins b) fb"
    using scan_finished_verdict [OF assms(1,7)] by blast
  then show ?thesis
    using assms(1-6)
    by (intro exI [of _ pre] exI [of _ fb])
      (simp add: poll_defs poll_call_def load_scan_inspector_def safe_deserialize_body_def is_expired_def ack_def
        mq_def clock_def mq_up_def bnd_app attempt_app)
qed

end
