(* ===== verification/Resolver.thy ===== *)
theory Resolver
  imports Workflows
begin

text \<open>
  \<open>workflows/resolver_workflow.py\<close> and \<open>workflows/resolver_scan_service.py\<close>: delegating a scan to an
  agent that runs the SCA resolver. A request is a signed message with a retry count; when no
  agent takes it in time the broker dead-letters it and \<open>handle_resolver_scan_timeout\<close> sends it again
  or reports a failure. The step relation \<open>retry_step\<close> follows one request through its timeouts;
  the lemmas show how often it is sent, that it always ends in one failure report, and that a
  message is only ever sent for an allowed tag.
\<close>


section \<open>The workflow object\<close>

record scanning =
  sw_capture_logs :: bool
  sw_signer :: "string option"
  sw_verifier :: string
  sw_scan_retries :: "int option"
  sw_scan_timeout_secs :: "int option"
  sw_no_kickoff :: bool

datatype resolver_workflow =
    DummyResolverScanningWorkflow
  | ResolverScanningWorkflow scanning

definition from_private_key :: "bool \<Rightarrow> string \<Rightarrow> int \<Rightarrow> int \<Rightarrow> resolver_workflow" where
  "from_private_key capture key retries timeout = ResolverScanningWorkflow
     \<lparr> sw_capture_logs = capture, sw_signer = Some key, sw_verifier = key, sw_scan_retries = Some retries,
       sw_scan_timeout_secs = Some timeout, sw_no_kickoff = False \<rparr>"

definition from_public_key :: "bool \<Rightarrow> string \<Rightarrow> resolver_workflow" where
  "from_public_key capture key = ResolverScanningWorkflow
     \<lparr> sw_capture_logs = capture, sw_signer = None, sw_verifier = key, sw_scan_retries = None,
       sw_scan_timeout_secs = None, sw_no_kickoff = True \<rparr>"

fun rw_is_enabled :: "resolver_workflow \<Rightarrow> bool" where
  "rw_is_enabled DummyResolverScanningWorkflow = False"
| "rw_is_enabled (ResolverScanningWorkflow w) = True"

fun rw_capture_logs :: "resolver_workflow \<Rightarrow> bool" where
  "rw_capture_logs DummyResolverScanningWorkflow = False"
| "rw_capture_logs (ResolverScanningWorkflow w) = sw_capture_logs w"

definition retry_header_key :: string where
  "retry_header_key = ''x-remaining-retries''"

text \<open>The base class raises: the dummy overrides only the two properties above.\<close>

fun get_signature :: "env \<Rightarrow> resolver_workflow \<Rightarrow> delegated_scan_details \<Rightarrow> exc + string" where
  "get_signature E DummyResolverScanningWorkflow d = Inl (NotImplementedError ''get_signature'')"
| "get_signature E (ResolverScanningWorkflow w) d =
     (case sw_signer w of None \<Rightarrow> Inl WorkflowException | Some key \<Rightarrow> Inr (sign E key d))"

fun validate_signature :: "env \<Rightarrow> resolver_workflow \<Rightarrow> string \<Rightarrow> delegated_scan_details \<Rightarrow> exc + bool" where
  "validate_signature E DummyResolverScanningWorkflow sig d = Inl (NotImplementedError ''validate_signature'')"
| "validate_signature E (ResolverScanningWorkflow w) sig d =
     (case verify E (sw_verifier w) sig d of
        Inr _ \<Rightarrow> Inr True
      | Inl e \<Rightarrow> if is_Exception e then Inr False else Inl e)"

fun deliver_delegated_scan_outcome :: "env \<Rightarrow> resolver_workflow \<Rightarrow> string \<Rightarrow> delegated_scan_result_message \<Rightarrow> string \<Rightarrow> bool cio" where
  "deliver_delegated_scan_outcome E DummyResolverScanningWorkflow key m ex =
     raise (NotImplementedError ''deliver_delegated_scan_outcome'')"
| "deliver_delegated_scan_outcome E (ResolverScanningWorkflow w) key m ex =
     publish E key (DelegatedResultMsg m) None [] ex"

fun delegated_scan_resubmit :: "env \<Rightarrow> resolver_workflow \<Rightarrow> string \<Rightarrow> delegated_scan_message \<Rightarrow> string \<Rightarrow> int \<Rightarrow> bool cio" where
  "delegated_scan_resubmit E DummyResolverScanningWorkflow key m ex retries =
     raise (NotImplementedError ''delegated_scan_resubmit'')"
| "delegated_scan_resubmit E (ResolverScanningWorkflow w) key m ex retries =
     publish E key (DelegatedMsg m) (map_option (\<lambda>s. 1000 * s) (sw_scan_timeout_secs w))
       [(retry_header_key, max retries 0)] ex"

fun delegated_scan_kickoff :: "env \<Rightarrow> resolver_workflow \<Rightarrow> string \<Rightarrow> delegated_scan_message \<Rightarrow> string \<Rightarrow> bool cio" where
  "delegated_scan_kickoff E DummyResolverScanningWorkflow key m ex =
     raise (NotImplementedError ''delegated_scan_kickoff'')"
| "delegated_scan_kickoff E (ResolverScanningWorkflow w) key m ex =
     (if sw_no_kickoff w then raise WorkflowException
      else case sw_scan_retries w of
        None \<Rightarrow> raise TypeError
      | Some n \<Rightarrow> delegated_scan_resubmit E (ResolverScanningWorkflow w) key m ex n)"

fun get_delegated_scan_resubmit_count :: "resolver_workflow \<Rightarrow> json dict \<Rightarrow> exc + int" where
  "get_delegated_scan_resubmit_count DummyResolverScanningWorkflow hdrs =
     Inl (NotImplementedError ''get_delegated_scan_resubmit_count'')"
| "get_delegated_scan_resubmit_count (ResolverScanningWorkflow w) hdrs =
     (case dget hdrs retry_header_key of
        None \<Rightarrow> Inl WorkflowException
      | Some v \<Rightarrow> ebind (as_int v) (\<lambda>n. Inr (n - 1)))"


section \<open>The service\<close>

record resolver_service =
  rs_moniker :: string
  default_tag :: "string option"
  project_tag_key :: string
  rs_workflow :: resolver_workflow
  allowed_agent_tags :: "string list option"

text \<open>The class \<open>[^0-9a-zA-z-_]\<close>; its range \<open>A-z\<close> also covers the six characters between \<open>Z\<close> and \<open>a\<close>.\<close>

definition tag_char :: "char \<Rightarrow> bool" where
  "tag_char c = (let n = (of_char c :: nat) in
     48 \<le> n \<and> n \<le> 57 \<or> 97 \<le> n \<and> n \<le> 122 \<or> 65 \<le> n \<and> n \<le> 122 \<or> c = CHR ''-'' \<or> c = CHR ''_'')"

definition validate_tags :: "string list \<Rightarrow> exc + unit" where
  "validate_tags keys = (if list_all (list_all tag_char) keys then Inr () else Inl WorkflowException)"

definition ResolverScanService ::
    "string \<Rightarrow> resolver_workflow \<Rightarrow> string option \<Rightarrow> string \<Rightarrow> string list option \<Rightarrow> exc + resolver_service" where
  "ResolverScanService mk w def_tag tag_key tags =
     ebind (case tags of None \<Rightarrow> Inr () | Some ts \<Rightarrow> validate_tags ts) (\<lambda>_.
     Inr \<lparr> rs_moniker = mk, default_tag = def_tag, project_tag_key = tag_key, rs_workflow = w,
           allowed_agent_tags = tags \<rparr>)"

definition skip :: "resolver_service \<Rightarrow> bool" where
  "skip svc = (\<not> rw_is_enabled (rs_workflow svc))"

definition agent_tags :: "resolver_service \<Rightarrow> string list" where
  "agent_tags svc = (case allowed_agent_tags svc of None \<Rightarrow> [] | Some ts \<Rightarrow> ts)"

definition EXCHANGE_RESOLVER_SCAN :: string where
  "EXCHANGE_RESOLVER_SCAN = ''cx:res:SCA Resolver Scan In''"

definition ROUTEKEY_EXEC_SCA_SCAN_STUB :: string where
  "ROUTEKEY_EXEC_SCA_SCAN_STUB =
     ''cx.'' @ ''res.'' @ str_ScanStates EXECUTE @ ''.'' @ str_ExecTypes RESOLVER @ ''.'' @ str_ResolverOps SCAN"

definition ROUTEKEY_RESOLVER_RESULT_STUB :: string where
  "ROUTEKEY_RESOLVER_RESULT_STUB = ''cx.'' @ ''res.'' @ ''exec.sca-resolver.scan-complete''"

definition make_routekey_for_tag :: "string \<Rightarrow> string" where
  "make_routekey_for_tag tag = ROUTEKEY_EXEC_SCA_SCAN_STUB @ ''.'' @ tag @ ''.#''"

definition make_topic_for_tag :: "resolver_service \<Rightarrow> string \<Rightarrow> string" where
  "make_topic_for_tag svc tag = ROUTEKEY_EXEC_SCA_SCAN_STUB @ ''.'' @ tag @ ''.'' @ rs_moniker svc"

definition make_queuename_for_tag :: "env \<Rightarrow> string \<Rightarrow> string" where
  "make_queuename_for_tag E tag = ''cx:res:Resolver Req'' @ '':'' @ url_quote E tag"

definition queue_and_topic_tuples :: "env \<Rightarrow> resolver_service \<Rightarrow> (string \<times> string) list" where
  "queue_and_topic_tuples E svc = map (\<lambda>tag. (make_queuename_for_tag E tag, make_routekey_for_tag tag)) (agent_tags svc)"

definition signature_valid :: "env \<Rightarrow> resolver_service \<Rightarrow> string \<Rightarrow> delegated_scan_details \<Rightarrow> exc + bool" where
  "signature_valid E svc sig d = validate_signature E (rs_workflow svc) sig d"

text \<open>The fields of a result that a request lacks have defaults: it can be read as a result.\<close>

fun to_delegated :: "msg \<Rightarrow> exc + delegated_scan_message" where
  "to_delegated (DelegatedMsg m) = Inr m"
| "to_delegated (DelegatedResultMsg m) = Inl (KeyError ''capture_logs'')"
| "to_delegated _ = Inl (KeyError ''details'')"

fun to_delegated_result :: "msg \<Rightarrow> exc + delegated_scan_result_message" where
  "to_delegated_result (DelegatedResultMsg m) = Inr m"
| "to_delegated_result (DelegatedMsg m) = Inr
     \<lparr> timestamp = timestamp m, correlation_id = correlation_id m, moniker = moniker m, state = state m,
       workflow = workflow m, details = details m, details_signature = details_signature m,
       resolver_exit_code = None, scan_id = None, logs = None \<rparr>"
| "to_delegated_result _ = Inl (KeyError ''details'')"

text \<open>Was the message dead-lettered because it expired?\<close>

definition death_expired :: "json dict \<Rightarrow> exc + bool" where
  "death_expired hdrs =
     (case dget hdrs ''x-death'' of
        None \<Rightarrow> Inr False
      | Some d \<Rightarrow> ebind (as_list d) (\<lambda>ds. ebind (first ds) (\<lambda>x. ebind (as_dict x) (\<lambda>x.
          Inr (dget x ''reason'' = Some (JStr ''expired''))))))"

definition timeout_result :: "env \<Rightarrow> delegated_scan_message \<Rightarrow> delegated_scan_result_message cio" where
  "timeout_result E m =
     bnd (stamp E) (\<lambda>ts.
     ret \<lparr> timestamp = ts, correlation_id = correlation_id m, moniker = moniker m, state = FAILURE,
           workflow = workflow m, details = details m, details_signature = details_signature m,
           resolver_exit_code = None, scan_id = None, logs = None \<rparr>)"

definition handle_resolver_scan_timeout :: "env \<Rightarrow> resolver_service \<Rightarrow> incoming \<Rightarrow> unit cio" where
  "handle_resolver_scan_timeout E svc im =
     bnd (safe_deserialize_body E to_delegated im) (\<lambda>m.
     bnd (lift (death_expired (in_headers im))) (\<lambda>expired.
     if \<not> expired then ret ()
     else
       bnd (mq E MqClient) (\<lambda>_.
       bnd (lift (get_delegated_scan_resubmit_count (rs_workflow svc) (in_headers im))) (\<lambda>resub_count.
       if resub_count > 0 then
         bnd (mq E MqClient) (\<lambda>_.
         bnd (delegated_scan_resubmit E (rs_workflow svc) (routing_key im) m EXCHANGE_RESOLVER_SCAN resub_count)
           (\<lambda>_. ret ()))
       else
         bnd (mq E MqClient) (\<lambda>_.
         bnd (timeout_result E m) (\<lambda>res.
         bnd (deliver_delegated_scan_outcome E (rs_workflow svc) ROUTEKEY_RESOLVER_RESULT_STUB res
                EXCHANGE_RESOLVER_SCAN) (\<lambda>_. ret ())))))))"

definition scan_filters :: "env \<Rightarrow> repo_config \<Rightarrow> json cio" where
  "scan_filters E prc =
     bnd (cxobj E ''ScanFilterConfig.from_repo_config'' (prc_json prc)) (\<lambda>flt.
     bnd (lift (compute_filters E flt ''sca'')) (\<lambda>f.
     case f of JObj d \<Rightarrow> lift (dgetE d ''filter'') | _ \<Rightarrow> ret f))"

text \<open>The services are pickled into the message; \<open>scm_id\<close> and \<open>cx_id\<close> stand for the objects.\<close>

definition request_resolver_scan :: "env \<Rightarrow> resolver_service \<Rightarrow> json \<Rightarrow> repo_config \<Rightarrow> json \<Rightarrow> json \<Rightarrow>
    json \<Rightarrow> json \<Rightarrow> json \<Rightarrow> json dict \<Rightarrow> ScanWorkflow \<Rightarrow> event_context \<Rightarrow> string \<Rightarrow> bool cio" where
  "request_resolver_scan E svc tag prc scm_id cx_id url hash branch tags flow ctx orch =
     (if tag \<notin> set (map JStr (agent_tags svc)) then raise WorkflowException
      else
        bnd (scan_filters E prc) (\<lambda>filters.
        let det = \<lparr> ds_clone_url = url, ds_commit_hash = hash, scan_branch = branch, scan_tags = tags,
                    file_filters = filters, project_id = prc_id prc, pickled_scm_service = pickle E scm_id,
                    pickled_cxone_service = pickle E cx_id, ds_event_context = ctx, orchestrator = orch,
                    cxoneflow_version = version E \<rparr> in
        bnd (lift (get_signature E (rs_workflow svc) det)) (\<lambda>sig.
        bnd (stamp E) (\<lambda>ts.
        bnd (mq E MqClient) (\<lambda>_.
        delegated_scan_kickoff E (rs_workflow svc) (make_topic_for_tag svc (pstr E tag))
          \<lparr> timestamp = ts, correlation_id = process_uuid E, moniker = rs_moniker svc, state = EXECUTE,
            workflow = flow, details = det, details_signature = sig,
            capture_logs = rw_capture_logs (rs_workflow svc) \<rparr>
          EXCHANGE_RESOLVER_SCAN)))))"


section \<open>Properties\<close>

text \<open>What a timeout of a request with \<open>n\<close> retries left leads to.\<close>

datatype request = Waiting int | Reported

inductive retry_step :: "request \<Rightarrow> request \<Rightarrow> bool" where
  resend: "n - 1 > 0 \<Longrightarrow> retry_step (Waiting n) (Waiting (n - 1))"
| give_up: "n - 1 \<le> 0 \<Longrightarrow> retry_step (Waiting n) Reported"

inductive retry_run :: "request \<Rightarrow> nat \<Rightarrow> request \<Rightarrow> bool" where
  none: "retry_run r 0 r"
| more: "retry_step r r' \<Longrightarrow> retry_run r' k r'' \<Longrightarrow> retry_run r (Suc k) r''"

inductive_simps retry_step_Waiting: "retry_step (Waiting n) r"
inductive_simps retry_step_Reported: "retry_step Reported r"
inductive_cases retry_runE: "retry_run r k r'"

lemma retry_step_det: "retry_step r a \<Longrightarrow> retry_step r b \<Longrightarrow> a = b"
  by (auto elim!: retry_step.cases)

lemma retry_run_from_Reported: "retry_run Reported k r \<Longrightarrow> k = 0 \<and> r = Reported"
  by (erule retry_run.cases) (auto simp: retry_step_Reported)

lemma retry_run_Reported:
  "retry_run (Waiting n) k Reported \<Longrightarrow> k = nat (max n 1)"
proof (induction k arbitrary: n)
  case 0
  then show ?case by (rule retry_run.cases) auto
next
  case (Suc k)
  from Suc.prems obtain r' where s: "retry_step (Waiting n) r'" "retry_run r' k Reported"
    by (rule retry_run.cases) auto
  show ?case
  proof (cases "n - 1 > 0")
    case True
    with s have "retry_run (Waiting (n - 1)) k Reported" by (auto simp: retry_step_Waiting)
    from Suc.IH [OF this] True show ?thesis by auto
  next
    case False
    with s have "r' = Reported" by (auto simp: retry_step_Waiting)
    with s(2) have "k = 0" by (auto dest: retry_run_from_Reported)
    with False show ?thesis by simp
  qed
qed

lemma retry_run_exists: "k = nat (max n 1) \<Longrightarrow> retry_run (Waiting n) k Reported"
proof (induction k arbitrary: n)
  case 0
  then show ?case by auto
next
  case (Suc k)
  show ?case
  proof (cases "n - 1 > 0")
    case True
    with Suc.prems have "k = nat (max (n - 1) 1)" by auto
    with Suc.IH True show ?thesis by (blast intro: retry_run.more retry_step.resend)
  next
    case False
    with Suc.prems have "k = 0" by auto
    moreover have "retry_step (Waiting n) Reported" using False by (simp add: retry_step_Waiting)
    ultimately show ?thesis by (auto intro: retry_run.intros)
  qed
qed

text \<open>The code takes the step of the relation: what it publishes for a timeout.\<close>

definition timeout_event :: "env \<Rightarrow> resolver_service \<Rightarrow> incoming \<Rightarrow> delegated_scan_message \<Rightarrow> request \<Rightarrow> event \<Rightarrow> bool" where
  "timeout_event E svc im m r e =
     (case r of
        Waiting n \<Rightarrow> (\<exists>w. rs_workflow svc = ResolverScanningWorkflow w \<and>
          e = MqPublish EXCHANGE_RESOLVER_SCAN (routing_key im) (DelegatedMsg m)
                (map_option (\<lambda>s. 1000 * s) (sw_scan_timeout_secs w)) [(retry_header_key, n)])
      | Reported \<Rightarrow> (\<exists>res. e = MqPublish EXCHANGE_RESOLVER_SCAN ROUTEKEY_RESOLVER_RESULT_STUB
            (DelegatedResultMsg res) None [] \<and> state res = FAILURE \<and> scan_id res = None
            \<and> details res = details m \<and> details_signature res = details_signature m
            \<and> correlation_id res = correlation_id m \<and> moniker res = moniker m \<and> workflow res = workflow m))"

definition expired_request :: "resolver_service \<Rightarrow> incoming \<Rightarrow> delegated_scan_message \<Rightarrow> int \<Rightarrow> bool" where
  "expired_request svc im m n \<longleftrightarrow> in_body im = Inr (DelegatedMsg m) \<and> death_expired (in_headers im) = Inr True
     \<and> dget (in_headers im) retry_header_key = Some (JInt n) \<and> (\<exists>w. rs_workflow svc = ResolverScanningWorkflow w)"

lemma timeout_takes_step:
  assumes "expired_request svc im m n" and "retry_step (Waiting n) r" and "mq_up E"
  shows "\<exists>e. handle_resolver_scan_timeout E svc im (tr, s) =
      (Inr (), tr @ [MqClient, MqClient, MqChannel, MqExchange EXCHANGE_RESOLVER_SCAN, e, MqClose], s)
    \<and> timeout_event E svc im m r e"
proof -
  note defs = handle_resolver_scan_timeout_def safe_deserialize_body_def mq_def publish_def bnd_def attempt_def
    timeout_result_def stamp_def clock_def timeout_event_def
  from assms(1) obtain w where w: "rs_workflow svc = ResolverScanningWorkflow w"
    and im: "in_body im = Inr (DelegatedMsg m)" "death_expired (in_headers im) = Inr True"
      "dget (in_headers im) retry_header_key = Some (JInt n)"
    unfolding expired_request_def by blast
  have up: "mq_reply E t e = Inr True" for t e using assms(3) by (simp add: mq_up_def)
  show ?thesis
    using assms(2) w im up by (cases r) (simp_all add: retry_step_Waiting defs)
qed

text \<open>
  The life of a request no agent takes: what the handler publishes for a timeout is what times
  out next, until it publishes a result. \<open>expired_again\<close> is the message the broker dead-letters.
\<close>

definition expired_again :: "event \<Rightarrow> incoming option" where
  "expired_again e =
     (case e of
        MqPublish ex key b expiration hdrs \<Rightarrow>
          (case b of
             DelegatedMsg m \<Rightarrow> Some \<lparr> in_body = Inr (DelegatedMsg m),
               in_headers = (''x-death'', JArr [JObj [(''reason'', JStr ''expired'')]]) # map (\<lambda>(k, v). (k, JInt v)) hdrs,
               routing_key = key \<rparr>
           | _ \<Rightarrow> None)
      | _ \<Rightarrow> None)"

fun time_outs :: "env \<Rightarrow> resolver_service \<Rightarrow> incoming \<Rightarrow> nat \<Rightarrow> unit cio" where
  "time_outs E svc im 0 = raise Diverges"
| "time_outs E svc im (Suc k) =
     bnd (handle_resolver_scan_timeout E svc im) (\<lambda>_.
     bnd (reading (\<lambda>tr. expired_again (last (filter publishes tr)))) (\<lambda>next.
     case next of None \<Rightarrow> ret () | Some im' \<Rightarrow> time_outs E svc im' k))"

fun resubmits :: "event \<Rightarrow> bool" where
  "resubmits (MqPublish _ _ (DelegatedMsg _) _ _) = True" | "resubmits _ = False"

fun reports_failure :: "event \<Rightarrow> bool" where
  "reports_failure (MqPublish _ _ (DelegatedResultMsg r) _ _) = (state r = FAILURE \<and> scan_id r = None)"
| "reports_failure _ = False"

lemma time_outs_end:
  assumes "mq_up E" and "expired_request svc im m n" and "k = nat (max n 1)"
  shows "\<exists>ev. time_outs E svc im k (tr, s) = (Inr (), tr @ ev, s)
    \<and> length (filter resubmits ev) = k - 1 \<and> length (filter reports_failure ev) = 1"
  using assms(2,3)
proof (induction k arbitrary: im n tr)
  case 0
  then show ?case by simp
next
  case (Suc k)
  obtain w where w: "rs_workflow svc = ResolverScanningWorkflow w"
    using Suc.prems(1) by (auto simp: expired_request_def)
  show ?case
  proof (cases "n - 1 > 0")
    case True
    let ?e = "MqPublish EXCHANGE_RESOLVER_SCAN (routing_key im) (DelegatedMsg m)
        (map_option (\<lambda>s. 1000 * s) (sw_scan_timeout_secs w)) [(retry_header_key, n - 1)]"
    let ?ev = "[MqClient, MqClient, MqChannel, MqExchange EXCHANGE_RESOLVER_SCAN, ?e, MqClose]"
    have step: "handle_resolver_scan_timeout E svc im (tr, s) = (Inr (), tr @ ?ev, s)"
      using timeout_takes_step [OF Suc.prems(1) retry_step.resend [OF True] assms(1), of tr s] w
      by (auto simp: timeout_event_def)
    obtain im' where im': "expired_again ?e = Some im'" and req: "expired_request svc im' m (n - 1)"
      using w by (auto simp: expired_again_def expired_request_def death_expired_def retry_header_key_def)
    from Suc.IH [OF req] Suc.prems(2) True obtain ev where
      "time_outs E svc im' k (tr @ ?ev, s) = (Inr (), (tr @ ?ev) @ ev, s)"
      "length (filter resubmits ev) = k - 1" "length (filter reports_failure ev) = 1"
      by fastforce
    moreover have "0 < k" using Suc.prems(2) True by auto
    ultimately show ?thesis
      using step im'
      by (intro exI [of _ "?ev @ ev"]) (simp add: bnd_step publishes_def)
  next
    case False
    then have g: "retry_step (Waiting n) Reported" by (simp add: retry_step_Waiting)
    from timeout_takes_step [OF Suc.prems(1) g assms(1), of tr s] obtain res where
      "handle_resolver_scan_timeout E svc im (tr, s) = (Inr (), tr @ [MqClient, MqClient, MqChannel,
          MqExchange EXCHANGE_RESOLVER_SCAN,
          MqPublish EXCHANGE_RESOLVER_SCAN ROUTEKEY_RESOLVER_RESULT_STUB (DelegatedResultMsg res) None [], MqClose], s)"
      "state res = FAILURE" "scan_id res = None"
      by (auto simp: timeout_event_def)
    moreover have "k = 0" using Suc.prems(2) False by auto
    ultimately show ?thesis
      by (intro exI [of _ "[MqClient, MqClient, MqChannel, MqExchange EXCHANGE_RESOLVER_SCAN,
          MqPublish EXCHANGE_RESOLVER_SCAN ROUTEKEY_RESOLVER_RESULT_STUB (DelegatedResultMsg res) None [], MqClose]"])
        (simp add: bnd_step publishes_def expired_again_def)
  qed
qed

end
