(* ===== verification/OrchBase.thy ===== *)
theory OrchBase
  imports Resolver
begin

text \<open>
  \<open>orchestration/base.py\<close> (the template every SCM orchestrator instantiates), \<open>naming_services\<close>,
  \<open>services\<close> and \<open>orchestration/__init__.py\<close> (the dispatch of webhooks, delegated results and kickoffs).

  The abstract methods of \<open>AbstractOrchestrator\<close> are the fields of the record \<open>orch\<close>; the theories of
  the SCMs build such records from event payloads. The lemmas show when a scan is started and
  when not, what the retry of a clone does, and that no payload is acted on without a valid
  signature.
\<close>


section \<open>Services\<close>

text \<open>The naming script is user code: a function of the environment.\<close>

record naming =
  naming_coro :: "(trace \<Rightarrow> event_context \<Rightarrow> exc + string option) option"

definition get_project_name :: "naming \<Rightarrow> string \<Rightarrow> event_context \<Rightarrow> string cio" where
  "get_project_name nm default_name ctx =
     (case naming_coro nm of
        None \<Rightarrow> ret default_name
      | Some script \<Rightarrow>
          catch
            (bnd (call (NamingScript ctx) (\<lambda>tr. script tr ctx)) (\<lambda>name.
             ret (case name of Some n \<Rightarrow> n | None \<Rightarrow> default_name)))
            (\<lambda>e. Some (ret default_name)))"

datatype kickoff_service =
    DummyKickoffService
  | KickoffService string string int
    \<comment> \<open>public key, service moniker, maximum of concurrent scans\<close>

record services =
  sv_cxone :: cxone_service
  sv_scm :: scm_service
  sv_pr :: pr_service
  sv_poll :: poll_service
  sv_push :: push_service
  sv_resolver :: resolver_service
  sv_kickoff :: kickoff_service
  sv_naming :: naming

datatype ScanAction = DELEGATED | EXECUTING | SKIPPED | FAILED | COMPLETE


section \<open>The orchestrator template\<close>

definition normalize_branch_name :: "string \<Rightarrow> string" where
  "normalize_branch_name branch = py_replace ''refs/heads/'' [] (lstrip CHR ''/'' branch)"

definition normalize_json_branch :: "json \<Rightarrow> exc + json" where
  "normalize_json_branch j = ebind (as_str j) (\<lambda>b. Inr (JStr (normalize_branch_name b)))"

record orch =
  o_class :: string
  o_config_key :: string
  o_event_context :: event_context
  o_delegated_scan :: bool
  o_protected_branches :: "scm_service \<Rightarrow> json list cio"
  o_target_branch_and_hash :: "(json \<times> json) cio"
  o_source_branch_and_hash :: "(json \<times> json) cio"
  o_clone_url :: "cloner \<Rightarrow> exc + json"
  o_default_project_name :: "string cio"
  o_pr_id :: "exc + json"
  o_pr_state :: "exc + json"
  o_pr_status :: "exc + json"
  o_repo_project_key :: "exc + json"
  o_repo_organization :: "exc + json"
  o_repo_slug :: "exc + json"

definition get_header_key_safe :: "event_context \<Rightarrow> string \<Rightarrow> string option" where
  "get_header_key_safe ctx k = dget (headers ctx) k"

text \<open>\<open>__get_path_dict\<close>: every regular file below a directory, with its path relative to the root.\<close>

fun tree_entries :: "string \<Rightarrow> string \<Rightarrow> fs_tree \<Rightarrow> (string \<times> string) list" where
  "tree_entries dir rel (File n) = [(dir @ ''/'' @ n, rel @ n)]"
| "tree_entries dir rel (Dir n ts) = concat (map (tree_entries (dir @ ''/'' @ n) (rel @ n @ ''/'')) ts)"
| "tree_entries dir rel (Other n) = []"

definition get_path_dict :: "string \<Rightarrow> fs_tree list \<Rightarrow> (string \<times> string) list" where
  "get_path_dict root ts = concat (map (tree_entries root []) ts)"

definition exec_local_scan :: "env \<Rightarrow> cxone_service \<Rightarrow> string \<Rightarrow> json \<Rightarrow> repo_config \<Rightarrow> json dict \<Rightarrow>
    (inspector \<times> ScanAction) cio" where
  "exec_local_scan E cx code_path branch prc tags =
     bnd (reading (\<lambda>tr. (mkdtemp E tr ''zip'', get_path_dict code_path (dir_tree E tr code_path)))) (\<lambda>(zip, entries).
     bnd (call (WriteZip entries) (\<lambda>tr. zip_write E tr entries)) (\<lambda>_.
     bnd (execute_scan E cx zip prc branch tags) (\<lambda>submit.
     bnd (lift (jget submit ''id'')) (\<lambda>_.
     bnd (lift (scan_inspector_of E submit)) (\<lambda>ins. ret (ins, EXECUTING))))))"

text \<open>One round of the loop in \<open>exec_clone_scan\<close>; the directory of the clone goes with the block.\<close>

definition clone_try :: "env \<Rightarrow> cxone_service \<Rightarrow> scm_service \<Rightarrow> string \<Rightarrow> json \<Rightarrow> json \<Rightarrow> repo_config \<Rightarrow> json dict \<Rightarrow>
    event_context \<Rightarrow> bool \<Rightarrow> (inspector \<times> ScanAction) cio" where
  "clone_try E cx scm url hash branch prc tags ctx force_reauth =
     bnd (clone E (scm_cloner scm) url (Some ctx) force_reauth [] True) (\<lambda>wk.
     with_clone E wk
       (bnd (loc wk) (\<lambda>code_path.
        bnd (reset_head E (scm_cloner scm) code_path hash) (\<lambda>_.
        exec_local_scan E cx code_path branch prc tags))))"

text \<open>
  \<open>while clone_auth_fails <= 1\<close>: the second round asks for new credentials. After two failures the
  loop condition is false and the function returns \<open>None\<close>; the \<open>raise\<close> of its handler is never
  reached, because the handler runs with \<open>clone_auth_fails <= 1\<close> only.
\<close>

fun clone_rounds :: "env \<Rightarrow> cxone_service \<Rightarrow> scm_service \<Rightarrow> string \<Rightarrow> json \<Rightarrow> json \<Rightarrow> repo_config \<Rightarrow> json dict \<Rightarrow>
    event_context \<Rightarrow> nat \<Rightarrow> nat \<Rightarrow> (inspector \<times> ScanAction) option cio" where
  "clone_rounds E cx scm url hash branch prc tags ctx fails 0 = ret None"
| "clone_rounds E cx scm url hash branch prc tags ctx fails (Suc left) =
     bnd (attempt (clone_try E cx scm url hash branch prc tags ctx (fails > 0))) (\<lambda>r.
     case r of
       Inr x \<Rightarrow> ret (Some x)
     | Inl e \<Rightarrow> if e = CloneAuthException
                then clone_rounds E cx scm url hash branch prc tags ctx (Suc fails) left
                else raise e)"

definition exec_clone_scan :: "env \<Rightarrow> cxone_service \<Rightarrow> scm_service \<Rightarrow> string \<Rightarrow> json \<Rightarrow> json \<Rightarrow> repo_config \<Rightarrow> json dict \<Rightarrow>
    event_context \<Rightarrow> (inspector \<times> ScanAction) option cio" where
  "exec_clone_scan E cx scm url hash branch prc tags ctx =
     clone_rounds E cx scm url hash branch prc tags ctx 0 2"

text \<open>Identities of the service objects that are pickled into a delegated scan.\<close>

definition scm_ident :: "scm_service \<Rightarrow> json" where "scm_ident scm = JStr (scm_moniker scm)"
definition cx_ident :: "cxone_service \<Rightarrow> json" where "cx_ident cx = JStr (cx_moniker cx)"

definition try_delegate :: "env \<Rightarrow> orch \<Rightarrow> services \<Rightarrow> repo_config \<Rightarrow> json \<Rightarrow> json \<Rightarrow> json \<Rightarrow> json dict \<Rightarrow> ScanWorkflow \<Rightarrow> bool cio" where
  "try_delegate E o' sv prc url hash branch tags flow =
     catch
       (bnd (lift (get_resolver_tag_for_project prc (project_tag_key (sv_resolver sv)) (default_tag (sv_resolver sv)))) (\<lambda>tag.
        if tag \<noteq> JNull then
          request_resolver_scan E (sv_resolver sv) tag prc (scm_ident (sv_scm sv)) (cx_ident (sv_cxone sv)) url hash
            branch tags flow (o_event_context o') (o_class o')
        else ret False))
       (\<lambda>e. if e = WorkflowException then Some (ret False) else None)"

definition orchestrate_scan :: "env \<Rightarrow> orch \<Rightarrow> services \<Rightarrow> json dict \<Rightarrow> ScanWorkflow \<Rightarrow>
    (inspector option \<times> ScanAction) cio" where
  "orchestrate_scan E o' sv tags flow =
     bnd (o_protected_branches o' (sv_scm sv)) (\<lambda>protected.
     bnd (o_target_branch_and_hash o') (\<lambda>(target_branch, target_hash).
     bnd (o_source_branch_and_hash o') (\<lambda>(source_branch, source_hash).
     bnd (lift (o_clone_url o' (scm_cloner (sv_scm sv)))) (\<lambda>url.
     if url = JNull then raise OrchestrationException
     else if target_branch \<in> set protected then
       bnd (lift (as_arg url)) (\<lambda>url_s.
       bnd (o_default_project_name o') (\<lambda>def_name.
       bnd (o_default_project_name o') (\<lambda>def_name2.
       bnd (get_project_name (sv_naming sv) def_name2 (o_event_context o')) (\<lambda>dyn_name.
       bnd (load_project_config E (sv_cxone sv) def_name dyn_name url_s) (\<lambda>prc.
       bnd (if \<not> o_delegated_scan o' then try_delegate E o' sv prc url source_hash source_branch tags flow
            else ret False) (\<lambda>delegated.
       if delegated then ret (None, DELEGATED)
       else
         bnd (exec_clone_scan E (sv_cxone sv) (sv_scm sv) url_s source_hash source_branch prc tags (o_event_context o')) (\<lambda>r.
         case r of None \<Rightarrow> raise TypeError | Some (ins, action) \<Rightarrow> ret (Some ins, action))))))))
     else ret (None, SKIPPED)))))"

definition push_details_of :: "orch \<Rightarrow> services \<Rightarrow> json \<Rightarrow> json \<Rightarrow> exc + push_details" where
  "push_details_of o' sv branch hash =
     ebind (o_clone_url o' (scm_cloner (sv_scm sv))) (\<lambda>url. ebind (o_repo_project_key o') (\<lambda>pk.
     ebind (o_repo_slug o') (\<lambda>slug. ebind (o_repo_organization o') (\<lambda>org.
     Inr \<lparr> clone_url = url, repo_project = pk, repo_slug = slug, organization = org, source_branch = branch,
           det_event_context = o_event_context o', commit_hash = hash \<rparr>))))"

definition execute_delegated_push_scan_workflow :: "env \<Rightarrow> orch \<Rightarrow> services \<Rightarrow> string \<Rightarrow> (inspector \<times> ScanAction) cio" where
  "execute_delegated_push_scan_workflow E o' sv sid =
     bnd (load_scan_inspector E sid) (\<lambda>ins.
     if executing ins then
       bnd (o_source_branch_and_hash o') (\<lambda>(branch, hash).
       bnd (lift (push_details_of o' sv branch hash)) (\<lambda>det.
       bnd (start_sarif_feedback E (sv_push sv) (ins_project_id ins) (ins_scan_id ins) det) (\<lambda>_.
       ret (ins, EXECUTING))))
     else if failed ins then ret (ins, FAILED) else ret (ins, COMPLETE))"

definition push_scan_tags :: "env \<Rightarrow> services \<Rightarrow> json \<Rightarrow> json dict \<Rightarrow> json dict" where
  "push_scan_tags E sv hash extra =
     dmerge [(COMMIT_TAG, hash), (''workflow'', JStr (str_ScanWorkflow PUSH)), (''cxone-flow'', JStr (version E)),
             (''service'', JStr (cx_moniker (sv_cxone sv)))] extra"

definition execute_push_scan_workflow :: "env \<Rightarrow> orch \<Rightarrow> services \<Rightarrow> json dict \<Rightarrow> (inspector option \<times> ScanAction) cio" where
  "execute_push_scan_workflow E o' sv extra =
     bnd (o_source_branch_and_hash o') (\<lambda>(_, hash).
     bnd (orchestrate_scan E o' sv (push_scan_tags E sv hash extra) PUSH) (\<lambda>(ins, action).
     bnd (case ins of
            Some i \<Rightarrow>
              if action = EXECUTING then
                bnd (o_source_branch_and_hash o') (\<lambda>(branch, hash).
                bnd (lift (push_details_of o' sv branch hash)) (\<lambda>det.
                start_sarif_feedback E (sv_push sv) (ins_project_id i) (ins_scan_id i) det))
              else ret ()
          | None \<Rightarrow> ret ()) (\<lambda>_.
     ret (ins, action))))"

definition make_prdetails :: "orch \<Rightarrow> services \<Rightarrow> pr_details cio" where
  "make_prdetails o' sv =
     bnd (o_source_branch_and_hash o') (\<lambda>(sbranch, shash).
     bnd (o_target_branch_and_hash o') (\<lambda>(tbranch, thash).
     lift (ebind (o_clone_url o' (scm_cloner (sv_scm sv))) (\<lambda>url. ebind (o_repo_project_key o') (\<lambda>pk.
       ebind (o_repo_slug o') (\<lambda>slug. ebind (o_repo_organization o') (\<lambda>org. ebind (o_pr_id o') (\<lambda>pid.
       Inr \<lparr> clone_url = url, repo_project = pk, repo_slug = slug, organization = org, source_branch = sbranch,
             det_event_context = o_event_context o', pr_id = pid, target_branch = tbranch, target_hash = thash,
             source_hash = shash \<rparr>)))))))) "

definition start_pr_workflow :: "env \<Rightarrow> orch \<Rightarrow> services \<Rightarrow> inspector \<Rightarrow> unit cio" where
  "start_pr_workflow E o' sv ins =
     bnd (make_prdetails o' sv) (\<lambda>det.
     start_pr_scan_workflow E (sv_pr sv) (ins_project_id ins) (ins_scan_id ins) det)"

definition start_delegated_pr_workflow :: "env \<Rightarrow> orch \<Rightarrow> services \<Rightarrow> unit cio" where
  "start_delegated_pr_workflow E o' sv =
     bnd (make_prdetails o' sv) (\<lambda>det. start_delegated_pr_scan_workflow E (sv_pr sv) det)"

definition execute_delegated_pr_scan_workflow :: "env \<Rightarrow> orch \<Rightarrow> services \<Rightarrow> string \<Rightarrow> ScanAction cio" where
  "execute_delegated_pr_scan_workflow E o' sv sid =
     bnd (load_scan_inspector E sid) (\<lambda>ins. bnd (start_pr_workflow E o' sv ins) (\<lambda>_. ret EXECUTING))"

definition pr_scan_tags :: "env \<Rightarrow> services \<Rightarrow> json \<Rightarrow> json \<Rightarrow> json \<Rightarrow> json \<Rightarrow> json \<Rightarrow> json dict \<Rightarrow> json dict" where
  "pr_scan_tags E sv hash pid target status st extra =
     dmerge [(COMMIT_TAG, hash), (PR_ID_TAG, pid), (PR_TARGET_TAG, target), (PR_STATUS_TAG, status), (PR_STATE_TAG, st),
             (''workflow'', JStr (str_ScanWorkflow PR)), (''cxone-flow'', JStr (version E)),
             (''service'', JStr (cx_moniker (sv_cxone sv)))] extra"

definition execute_pr_scan_workflow :: "env \<Rightarrow> orch \<Rightarrow> services \<Rightarrow> json dict \<Rightarrow> ScanAction cio" where
  "execute_pr_scan_workflow E o' sv extra =
     bnd (o_source_branch_and_hash o') (\<lambda>(_, hash).
     bnd (o_target_branch_and_hash o') (\<lambda>(target, _).
     bnd (lift (o_pr_id o')) (\<lambda>pid. bnd (lift (o_pr_status o')) (\<lambda>status. bnd (lift (o_pr_state o')) (\<lambda>st.
     bnd (orchestrate_scan E o' sv (pr_scan_tags E sv hash pid target status st extra) PR) (\<lambda>(ins, action).
     bnd (if ins \<noteq> None \<and> action = EXECUTING then start_pr_workflow E o' sv (the ins)
          else if action = DELEGATED then start_delegated_pr_workflow E o' sv
          else ret ()) (\<lambda>_.
     ret action)))))))"

definition execute_pr_tag_update_workflow :: "env \<Rightarrow> orch \<Rightarrow> services \<Rightarrow> json list cio" where
  "execute_pr_tag_update_workflow E o' sv =
     bnd (o_source_branch_and_hash o') (\<lambda>(_, hash).
     bnd (o_target_branch_and_hash o') (\<lambda>(target, _).
     bnd (o_default_project_name o') (\<lambda>def_name.
     bnd (get_project_name (sv_naming sv) def_name (o_event_context o')) (\<lambda>name.
     bnd (lift (o_pr_id o')) (\<lambda>pid. bnd (lift (o_pr_state o')) (\<lambda>st. bnd (lift (o_pr_status o')) (\<lambda>status.
     update_scan_pr_tags E name pid hash target st status)))))))"


section \<open>Routes and dispatch\<close>

text \<open>
  The configuration the dispatcher looks services up in: for each SCM key the configured services
  in their order, each with the pattern that repository URLs have to match.
\<close>

record route_entry =
  route_matcher :: string
  route_services :: services

type_synonym scm_routes = "route_entry list dict"

fun match_url :: "env \<Rightarrow> route_entry list \<Rightarrow> json \<Rightarrow> exc + services option" where
  "match_url E [] url = Inr None"
| "match_url E (r # rs) url =
     ebind (as_arg url) (\<lambda>u. if re_match E (route_matcher r) u then Inr (Some (route_services r)) else match_url E rs url)"

fun match_urls :: "env \<Rightarrow> route_entry list \<Rightarrow> json list \<Rightarrow> exc + services" where
  "match_urls E rs [] = Inl RouteNotFoundException"
| "match_urls E rs (u # us) =
     ebind (match_url E rs u) (\<lambda>sv. case sv of Some s \<Rightarrow> Inr s | None \<Rightarrow> match_urls E rs us)"

definition retrieve_services_by_route :: "env \<Rightarrow> scm_routes \<Rightarrow> json list \<Rightarrow> string \<Rightarrow> exc + services option" where
  "retrieve_services_by_route E cfg urls key =
     (case dget cfg key of
        None \<Rightarrow> Inr None
      | Some rs \<Rightarrow> ebind (match_urls E rs urls) (\<lambda>s. Inr (Some s)))"

text \<open>
  What a handler returns: nothing, a scan with its action, an action, the updated scans, or the
  status of a diagnostic event.
\<close>

datatype exec_result =
    RNone
  | RScan "inspector option" ScanAction
  | RAction ScanAction
  | RScans "json list"
  | RStatus int

text \<open>
  An orchestrator as the dispatcher sees it. The services of the delegated entry points may be
  \<open>None\<close>, which is only found out when one of them is used.
\<close>

record dispatchable =
  d_config_key :: string
  d_is_diagnostic :: bool
  d_route_urls :: "exc + json list"
  d_is_signature_valid :: "string \<Rightarrow> exc + bool"
  d_execute :: "services \<Rightarrow> exec_result cio"
  d_handle_delegated_scan :: "services option \<Rightarrow> string \<Rightarrow> exec_result cio"
  d_handle_delegated_pr_scan_hard_fail :: "services option \<Rightarrow> string \<Rightarrow> unit cio"

definition need :: "services option \<Rightarrow> exc + services" where
  "need sv = (case sv of None \<Rightarrow> Inl (AttributeError ''NoneType'') | Some s \<Rightarrow> Inr s)"

definition dispatch_services :: "env \<Rightarrow> scm_routes \<Rightarrow> dispatchable \<Rightarrow> exc + services option" where
  "dispatch_services E cfg d =
     ebind (d_route_urls d) (\<lambda>urls. retrieve_services_by_route E cfg urls (d_config_key d))"

definition dispatch_execute :: "env \<Rightarrow> scm_routes \<Rightarrow> dispatchable \<Rightarrow> exec_result cio" where
  "dispatch_execute E cfg d =
     (if d_is_diagnostic d then ret (RStatus 204)
      else
        catch
          (bnd (lift (dispatch_services E cfg d)) (\<lambda>sv.
           case sv of
             None \<Rightarrow> ret RNone
           | Some s \<Rightarrow>
               bnd (lift (d_is_signature_valid d (shared_secret (sv_scm s)))) (\<lambda>valid.
               if valid then d_execute d s else ret RNone)))
          (\<lambda>e. if e = RouteNotFoundException \<or> is_CxOneException e then Some (ret RNone) else None))"

definition dispatch_delegated_scan_workflow :: "env \<Rightarrow> scm_routes \<Rightarrow> dispatchable \<Rightarrow> string \<Rightarrow> exec_result cio" where
  "dispatch_delegated_scan_workflow E cfg d sid =
     catch
       (bnd (lift (dispatch_services E cfg d)) (\<lambda>sv. d_handle_delegated_scan d sv sid))
       (\<lambda>e. if e = RouteNotFoundException then Some (ret RNone) else None)"

definition dispatch_delegated_pr_scan_hard_failure_workflow :: "env \<Rightarrow> scm_routes \<Rightarrow> dispatchable \<Rightarrow> unit cio" where
  "dispatch_delegated_pr_scan_hard_failure_workflow E cfg d =
     catch
       (bnd (lift (dispatch_services E cfg d)) (\<lambda>sv.
        d_handle_delegated_pr_scan_hard_fail d sv ''The prescan operation failed to execute properly.''))
       (\<lambda>e. if e = RouteNotFoundException then Some (ret ()) else None)"


section \<open>Properties of the dispatch\<close>

lemma match_url_Some:
  "match_url E rs url = Inr (Some s) \<Longrightarrow>
     \<exists>r\<in>set rs. s = route_services r \<and> (\<exists>u. as_arg url = Inr u \<and> re_match E (route_matcher r) u)"
  by (induction rs) (auto simp: ebind_Inr_iff split: if_splits)

lemma match_urls_Inr:
  "match_urls E rs urls = Inr s \<Longrightarrow>
     \<exists>r\<in>set rs. s = route_services r \<and> (\<exists>url\<in>set urls. \<exists>u. as_arg url = Inr u \<and> re_match E (route_matcher r) u)"
proof (induction urls)
  case (Cons url urls)
  then show ?case by (auto simp: ebind_Inr_iff split: option.splits dest!: match_url_Some) blast+
qed simp

text \<open>Services come from the list of their own SCM, through a pattern that one of the URLs matches.\<close>

lemma retrieve_services_routed:
  assumes "retrieve_services_by_route E cfg urls key = Inr (Some s)"
  shows "\<exists>rs r url u. dget cfg key = Some rs \<and> r \<in> set rs \<and> s = route_services r \<and> url \<in> set urls
    \<and> as_arg url = Inr u \<and> re_match E (route_matcher r) u"
  using assms match_urls_Inr
  by (fastforce simp: retrieve_services_by_route_def ebind_Inr_iff split: option.splits)

text \<open>A handler runs only behind a matching route and a valid signature.\<close>

lemma dispatch_execute_acts:
  assumes "dispatch_execute E cfg d (tr, m) = (r, tr', m')" and "(tr', m') \<noteq> (tr, m)"
  shows "\<exists>s. dispatch_services E cfg d = Inr (Some s) \<and> d_is_signature_valid d (shared_secret (sv_scm s)) = Inr True"
proof (rule ccontr)
  assume no: "\<not> ?thesis"
  have "dispatch_execute E cfg d (tr, m) = (r, tr', m') \<Longrightarrow> (tr', m') = (tr, m)"
    using no
    by (cases "dispatch_services E cfg d")
      (auto simp: dispatch_execute_def catch_app bnd_app split: if_splits option.splits sum.splits)
  then show False using assms by simp
qed


section \<open>Properties of the template\<close>

abbreviation scans_in :: "event list \<Rightarrow> nat" where
  "scans_in ev \<equiv> length (filter starts_scan ev)"

text \<open>The SDK raises its own exceptions, not those of the cloner.\<close>

definition sdk_raises_own :: "env \<Rightarrow> bool" where
  "sdk_raises_own E \<longleftrightarrow> (\<forall>tr f a. cx_api E tr f a \<noteq> Inl CloneAuthException)
     \<and> (\<forall>j. scan_inspector_of E j \<noteq> Inl CloneAuthException)"

lemma no_scans: "list_all (\<lambda>e. \<not> starts_scan e) ev \<Longrightarrow> scans_in ev = 0"
  by (induction ev) auto

lemma reply_of_not_auth: "r \<noteq> Inl CloneAuthException \<Longrightarrow> reply_of r \<noteq> Inl CloneAuthException"
  by (cases r rule: reply_of.cases) auto

lemma jget_not_auth: "jget j k \<noteq> Inl CloneAuthException"
  by (cases "(j, k)" rule: jget.cases) (auto split: option.splits)

definition scan_ends :: "exc + inspector \<times> ScanAction \<Rightarrow> event list \<Rightarrow> bool" where
  "scan_ends r ev = (case r of
      Inl e \<Rightarrow> scans_in ev \<le> (if e = CloneAuthException then 0 else 1)
    | Inr (ins, a) \<Rightarrow> a = EXECUTING \<and> scans_in ev = 1)"

lemma scan_ends_append: "scans_in ev = 0 \<Longrightarrow> scan_ends r (ev @ ev2) = scan_ends r ev2"
  by (simp add: scan_ends_def split: sum.splits prod.splits)

lemma ends_quiet:
  assumes "emits (\<lambda>e. \<not> starts_scan e) m" and "\<And>x. ends (k x) scan_ends"
  shows "ends (bnd m k) scan_ends"
proof (rule ends_bnd)
  show "ends m (\<lambda>r ev. scans_in ev = 0)" using assms(1) by (rule ends_emits) (rule no_scans)
next
  fix e ev assume "scans_in ev = 0"
  then show "scan_ends (Inl e) ev" by (simp add: scan_ends_def)
next
  fix x ev assume "scans_in ev = 0"
  then show "ends (k x) (\<lambda>r ev2. scan_ends r (ev @ ev2))" using assms(2) by (simp add: scan_ends_append)
qed

lemma ends_submit:
  assumes "sdk_raises_own E"
  shows "ends (bnd (cxapi E ''ScanInvoker.scan_get_response'' a) (\<lambda>r.
     bnd (lift (get_json_or_fail r)) (\<lambda>submit. bnd (lift (jget submit ''id'')) (\<lambda>_.
     bnd (lift (scan_inspector_of E submit)) (\<lambda>ins. ret (ins, EXECUTING)))))) scan_ends"
proof (rule ends_bnd [where Q = "\<lambda>r ev. r \<noteq> Inl CloneAuthException \<and> scans_in ev = 1"])
  show "ends (cxapi E ''ScanInvoker.scan_get_response'' a) (\<lambda>r ev. r \<noteq> Inl CloneAuthException \<and> scans_in ev = 1)"
    unfolding cxapi_def
    by (rule ends_call) (use assms reply_of_not_auth in \<open>auto simp: sdk_raises_own_def starts_scan_def\<close>)
next
  fix x ev assume one: "Inr x \<noteq> (Inl CloneAuthException :: exc + response) \<and> scans_in ev = 1"
  show "ends (bnd (lift (get_json_or_fail x)) (\<lambda>submit. bnd (lift (jget submit ''id'')) (\<lambda>_.
     bnd (lift (scan_inspector_of E submit)) (\<lambda>ins. ret (ins, EXECUTING))))) (\<lambda>r ev2. scan_ends r (ev @ ev2))"
    using one assms jget_not_auth
    by (auto simp: ends_def bnd_app scan_ends_def sdk_raises_own_def get_json_or_fail_def split: sum.splits)
qed (simp add: scan_ends_def)

lemma ends_exec_local_scan:
  assumes "sdk_raises_own E"
  shows "ends (exec_local_scan E cx code_path branch prc tags) scan_ends"
proof -
  have assoc: "bnd (execute_scan E cx zip prc branch tags) k =
      bnd (get_engine_config_for_scan E cx prc branch) (\<lambda>cfg.
      bnd (cxapi E ''ScanInvoker.scan_get_response''
            (JObj [(''project'', prc_id prc), (''branch'', branch), (''engines'', JObj cfg),
                   (''tags'', JObj (dmerge tags (default_scan_tags cx))), (''zip'', JStr zip)])) (\<lambda>r.
      bnd (lift (get_json_or_fail r)) k))" for zip and k :: "json \<Rightarrow> (inspector \<times> ScanAction) cio"
    by (simp add: execute_scan_def bnd_assoc)
  show ?thesis
    unfolding exec_local_scan_def assoc
    by (intro ends_case_prod ends_quiet ends_submit assms emits_rules) (simp_all add: starts_scan_def)
qed

lemma emits_run_quiet: "emits (\<lambda>e. \<not> starts_scan e) (reset_head E c p h)"
  by (intro emits_rules) (simp add: starts_scan_def)

lemma ends_with_clone:
  assumes "ends m scan_ends"
  shows "ends (with_clone E wk m) scan_ends"
  unfolding with_clone_def
proof (rule ends_bnd [where Q = "\<lambda>r ev. case r of Inl e \<Rightarrow> e = Diverges \<and> scans_in ev \<le> 1 | Inr r' \<Rightarrow> scan_ends r' ev"])
  show "ends (attempt m) (\<lambda>r ev. case r of Inl e \<Rightarrow> e = Diverges \<and> scans_in ev \<le> 1 | Inr r' \<Rightarrow> scan_ends r' ev)"
    by (rule ends_attempt, rule ends_mono [OF assms]) (auto simp: scan_ends_def)
next
  fix r ev assume "case Inr r of Inl e \<Rightarrow> e = Diverges \<and> scans_in ev \<le> 1 | Inr r' \<Rightarrow> scan_ends r' ev"
  then show "ends (bnd (aexit E wk) (\<lambda>_. lift r)) (\<lambda>r ev2. scan_ends r (ev @ ev2))"
    by (auto simp: ends_def aexit_def fs_def bnd_app scan_ends_def starts_scan_def split: sum.splits prod.splits if_splits)
qed (simp add: scan_ends_def)

lemma ends_clone_try:
  assumes "sdk_raises_own E"
  shows "ends (clone_try E cx scm url hash branch prc tags ctx f) scan_ends"
  unfolding clone_try_def
proof (rule ends_bnd [where Q = "\<lambda>r ev. scans_in ev = 0 \<and> (\<forall>wk. r = Inr wk \<longrightarrow>
      (\<exists>gstub fixed. clone_thread wk = do_clone E (running_env E (scm_cloner scm)) gstub fixed (clone_dest wk)))"])
  let ?c = "clone E (scm_cloner scm) url (Some ctx) f [] True"
  have "emits (\<lambda>e. \<not> starts_scan e) ?c" by (intro emits_rules) (simp_all add: starts_scan_def)
  then show "ends ?c (\<lambda>r ev. scans_in ev = 0 \<and> (\<forall>wk. r = Inr wk \<longrightarrow>
      (\<exists>gstub fixed. clone_thread wk = do_clone E (running_env E (scm_cloner scm)) gstub fixed (clone_dest wk))))"
    unfolding ends_def using clone_worker_of(1) by (metis emitsD no_scans)
next
  fix wk ev
  assume *: "scans_in ev = 0 \<and> (\<forall>w. Inr wk = (Inr w :: exc + clone_worker) \<longrightarrow>
      (\<exists>gstub fixed. clone_thread w = do_clone E (running_env E (scm_cloner scm)) gstub fixed (clone_dest w)))"
  then have "emits (\<lambda>e. \<not> starts_scan e) (loc wk)"
    by (auto intro!: emits_loc simp: starts_scan_def)
  then have "ends (with_clone E wk (bnd (loc wk) (\<lambda>code_path. bnd (reset_head E (scm_cloner scm) code_path hash) (\<lambda>_.
      exec_local_scan E cx code_path branch prc tags)))) scan_ends"
    by (intro ends_with_clone ends_quiet emits_run_quiet ends_exec_local_scan assms)
  then show "ends (with_clone E wk (bnd (loc wk) (\<lambda>code_path. bnd (reset_head E (scm_cloner scm) code_path hash) (\<lambda>_.
      exec_local_scan E cx code_path branch prc tags)))) (\<lambda>r ev2. scan_ends r (ev @ ev2))"
    using * by (simp add: scan_ends_append)
qed (simp add: scan_ends_def)

text \<open>A clone that is tried again has not submitted a scan before.\<close>

lemma clone_rounds_scans:
  assumes "sdk_raises_own E"
  shows "does (clone_rounds E cx scm url hash branch prc tags ctx fails n)
     (\<lambda>r ev. case r of None \<Rightarrow> scans_in ev = 0 | Some (ins, a) \<Rightarrow> a = EXECUTING \<and> scans_in ev = 1)"
proof (induction n arbitrary: fails)
  case 0
  show ?case by (simp add: does_ret)
next
  case (Suc n)
  have "does (attempt (clone_try E cx scm url hash branch prc tags ctx (0 < fails))) scan_ends"
    by (rule does_ends, rule ends_attempt, rule ends_mono [OF ends_clone_try [OF assms]]) auto
  then show ?case
    by (simp only: clone_rounds.simps, rule does_bnd)
      (auto simp: scan_ends_def split: sum.splits prod.splits intro!: does_ret does_raise does_mono [OF Suc.IH]
         split: option.splits)
qed

lemma publish_publishes: "does (publish E topic m ex h exchange) (\<lambda>done ev. done \<longrightarrow> (\<exists>e\<in>set ev. publishes e))"
  unfolding does_def publish_def mq_def
  by (auto simp: bnd_app attempt_app publishes_def split: if_splits sum.splits)

lemma emits_publish_quiet: "emits (\<lambda>e. \<not> starts_scan e) (publish E topic m ex h exchange)"
  by (intro emits_rules) (simp_all add: starts_scan_def)

lemma emits_request_quiet:
  "emits (\<lambda>e. \<not> starts_scan e) (request_resolver_scan E svc tag prc scm cx url hash branch tags flow ctx orch)"
  unfolding request_resolver_scan_def scan_filters_def Let_def
  by (cases "rs_workflow svc")
    (auto intro!: emits_rules split: json.splits option.splits simp: starts_scan_def)

lemma request_publishes:
  "does (request_resolver_scan E svc tag prc scm cx url hash branch tags flow ctx orch)
     (\<lambda>sent ev. sent \<longrightarrow> (\<exists>e\<in>set ev. publishes e))"
proof -
  have kick: "does (delegated_scan_kickoff E flow key m ex) (\<lambda>sent ev. sent \<longrightarrow> (\<exists>e\<in>set ev. publishes e))" for flow key m ex
    by (cases flow) (auto split: option.splits intro!: does_raise publish_publishes)
  have later: "does (bnd n k) (\<lambda>sent ev. sent \<longrightarrow> (\<exists>e\<in>set ev. publishes e))"
    if "emits (\<lambda>_. True) n" "\<And>x. does (k x) (\<lambda>sent ev. sent \<longrightarrow> (\<exists>e\<in>set ev. publishes e))"
    for n :: "'b cio" and k
    by (rule does_bnd [OF does_emits [OF that(1)]], rule TrueI) (rule does_mono [OF that(2)], auto)
  show ?thesis
    unfolding request_resolver_scan_def Let_def
    by (intro does_if does_raise later kick)
      (auto intro!: emits_rules simp: scan_filters_def split: json.splits)
qed

definition delegated_or_quiet :: "bool \<Rightarrow> event list \<Rightarrow> bool" where
  "delegated_or_quiet delegated ev \<longleftrightarrow> scans_in ev = 0 \<and> (delegated \<longrightarrow> (\<exists>e\<in>set ev. publishes e))"

lemma try_delegate_accounted: "does (try_delegate E o' sv prc url hash branch tags flow) delegated_or_quiet"
  unfolding try_delegate_def catch_attempt
proof (rule does_bnd)
  let ?m = "bnd (lift (get_resolver_tag_for_project prc (project_tag_key (sv_resolver sv)) (default_tag (sv_resolver sv))))
     (\<lambda>tag. if tag \<noteq> JNull then request_resolver_scan E (sv_resolver sv) tag prc (scm_ident (sv_scm sv))
        (cx_ident (sv_cxone sv)) url hash branch tags flow (o_event_context o') (o_class o') else ret False)"
  have emits: "emits (\<lambda>e. \<not> starts_scan e) ?m" by (intro emits_rules emits_request_quiet)
  have does: "does ?m (\<lambda>sent ev. sent \<longrightarrow> (\<exists>e\<in>set ev. publishes e))"
    by (rule does_bnd [OF does_lift, where Q = "\<lambda>_ ev. ev = []"]) (auto intro!: does_ret request_publishes)
  show "does (attempt ?m) (\<lambda>r ev. scans_in ev = 0 \<and> (r = Inr True \<longrightarrow> (\<exists>e\<in>set ev. publishes e)))"
    by (rule does_attempt [OF emits does]) (auto dest: no_scans)
qed (auto simp: delegated_or_quiet_def split: sum.splits intro!: does_ret does_raise)

text \<open>
  How a scan request may end: skipped after nothing but requests to the SCM, delegated with a
  published message and no scan of its own, or executing with exactly one submitted scan.
\<close>

definition accounted :: "inspector option \<times> ScanAction \<Rightarrow> event list \<Rightarrow> bool" where
  "accounted r ev = (case r of (ins, a) \<Rightarrow>
     a = SKIPPED \<and> ins = None \<and> list_all http_or_sleep ev
     \<or> a = DELEGATED \<and> ins = None \<and> scans_in ev = 0 \<and> (\<exists>e\<in>set ev. publishes e)
     \<or> a = EXECUTING \<and> ins \<noteq> None \<and> scans_in ev = 1)"

definition scan_under_way :: "inspector option \<times> ScanAction \<Rightarrow> nat \<Rightarrow> bool \<Rightarrow> bool" where
  "scan_under_way r scans published = (case r of (ins, a) \<Rightarrow>
     a = DELEGATED \<and> ins = None \<and> scans = 0 \<and> published \<or> a = EXECUTING \<and> ins \<noteq> None \<and> scans = 1)"

lemma scan_under_way_mono: "scan_under_way r n False \<Longrightarrow> scan_under_way r n b"
  by (auto simp: scan_under_way_def)

lemma http_no_scans: "list_all http_or_sleep ev \<Longrightarrow> scans_in ev = 0"
  by (induction ev) (auto simp: http_or_sleep_def starts_scan_def split: event.splits)

text \<open>\<open>at_most n m\<close>: however \<open>m\<close> ends, it has submitted at most \<open>n\<close> scans.\<close>

definition at_most :: "nat \<Rightarrow> 'a cio \<Rightarrow> bool" where
  "at_most n m \<longleftrightarrow> ends m (\<lambda>_ ev. scans_in ev \<le> n)"

named_theorems capped_rules "how many scans code may submit"

lemma at_most_quiet: "emits (\<lambda>e. \<not> starts_scan e) m \<Longrightarrow> at_most n m"
  unfolding at_most_def by (erule ends_emits) (simp add: no_scans)

lemma at_most_before [capped_rules]:
  assumes "emits (\<lambda>e. \<not> starts_scan e) m" and "\<And>x. at_most n (k x)"
  shows "at_most n (bnd m k)"
  unfolding at_most_def
proof (rule ends_bnd [OF ends_emits [OF assms(1), of "\<lambda>_ ev. scans_in ev = 0"]])
  fix x ev assume "scans_in ev = 0"
  then show "ends (k x) (\<lambda>r ev2. scans_in (ev @ ev2) \<le> n)" using assms(2) by (simp add: at_most_def)
qed (simp_all add: no_scans)

lemma at_most_after:
  assumes "at_most n m" and "\<And>x. emits (\<lambda>e. \<not> starts_scan e) (k x)"
  shows "at_most n (bnd m k)"
  unfolding at_most_def
proof (rule ends_bnd [OF assms(1) [unfolded at_most_def]])
  fix x ev assume "scans_in ev \<le> n"
  then show "ends (k x) (\<lambda>r ev2. scans_in (ev @ ev2) \<le> n)"
    by (intro ends_emits [OF assms(2)]) (auto dest: no_scans)
qed

lemma at_most_does:
  assumes "at_most n m" and "does m Q"
  shows "ends m (\<lambda>r ev. scans_in ev \<le> n \<and> (\<forall>x. r = Inr x \<longrightarrow> Q x ev))"
  using assms unfolding at_most_def does_def ends_def by (metis same_append_eq)

lemma at_most_simple [capped_rules]: "at_most n (ret x)" "at_most n (raise e)" "at_most n (lift r)"
  by (simp_all add: at_most_quiet emits_rules)

lemma at_most_if [capped_rules]: "at_most n m \<Longrightarrow> at_most n m' \<Longrightarrow> at_most n (if b then m else m')"
  by simp

lemma at_most_case_prod [capped_rules]: "(\<And>a b. at_most n (f a b)) \<Longrightarrow> at_most n (case x of (a, b) \<Rightarrow> f a b)"
  by (cases x) simp

lemma at_most_case_option [capped_rules]:
  "at_most n m \<Longrightarrow> (\<And>x. at_most n (f x)) \<Longrightarrow> at_most n (case v of None \<Rightarrow> m | Some x \<Rightarrow> f x)"
  by (cases v) simp_all

lemma at_most_clone_rounds [capped_rules]:
  assumes "sdk_raises_own E"
  shows "at_most 1 (clone_rounds E cx scm url hash branch prc tags ctx fails n)"
proof (induction n arbitrary: fails)
  case 0
  show ?case by (simp add: at_most_simple)
next
  case (Suc n)
  let ?Q = "\<lambda>r ev. case r of Inl e \<Rightarrow> scans_in ev \<le> 1 | Inr r' \<Rightarrow> scan_ends r' ev"
  have "ends (attempt (clone_try E cx scm url hash branch prc tags ctx (0 < fails))) ?Q"
    by (rule ends_attempt, rule ends_mono [OF ends_clone_try [OF assms]]) (auto simp: scan_ends_def)
  then show ?case
    unfolding clone_rounds.simps at_most_def
  proof (rule ends_bnd)
    fix r ev assume "?Q (Inr r) ev"
    then show "ends (case r of Inl e \<Rightarrow> if e = CloneAuthException
          then clone_rounds E cx scm url hash branch prc tags ctx (Suc fails) n else raise e | Inr x \<Rightarrow> ret (Some x))
        (\<lambda>r ev2. scans_in (ev @ ev2) \<le> 1)"
      using Suc.IH [of "Suc fails"]
      by (auto simp: scan_ends_def at_most_def split: sum.splits if_splits intro!: ends_ret ends_raise)
  qed simp
qed

text \<open>
  What the template relies on: the methods an orchestrator implements send nothing but HTTP
  requests.
\<close>

locale scm_orchestrator =
  fixes o' :: orch
  assumes protected: "http_scm scm \<Longrightarrow> emits http_or_sleep (o_protected_branches o' scm)"
    and target: "emits http_or_sleep (o_target_branch_and_hash o')"
    and source: "emits http_or_sleep (o_source_branch_and_hash o')"
    and naming: "emits http_or_sleep (o_default_project_name o')"
begin

lemma unscanned_before:
  assumes "emits (\<lambda>e. \<not> starts_scan e) m" and "\<And>x. does (k x) (\<lambda>r ev. R r (scans_in ev) (\<exists>e\<in>set ev. publishes e))"
    and "\<And>r n b. R r n False \<Longrightarrow> R r n b"
  shows "does (bnd m k) (\<lambda>r ev. R r (scans_in ev) (\<exists>e\<in>set ev. publishes e))"
proof (rule does_bnd [OF does_emits [OF assms(1), of "\<lambda>_ ev. scans_in ev = 0"]])
  fix x ev assume "scans_in ev = 0"
  then show "does (k x) (\<lambda>r ev2. R r (scans_in (ev @ ev2)) (\<exists>e\<in>set (ev @ ev2). publishes e))"
    by (auto intro!: does_mono [OF assms(2)] simp: bex_Un) (metis (full_types) assms(3))
qed (rule no_scans)

lemma emits_quiet: "emits http_or_sleep m \<Longrightarrow> emits (\<lambda>e. \<not> starts_scan e) m"
  by (erule emits_mono) (auto simp: http_or_sleep_def starts_scan_def split: event.splits)

lemma accounted_after: "list_all http_or_sleep ev \<Longrightarrow> accounted r ev2 \<Longrightarrow> accounted r (ev @ ev2)"
  by (auto simp: accounted_def http_no_scans split: prod.splits)

lemma quiet_accounted:
  assumes "emits http_or_sleep m" and "\<And>x. does (k x) accounted"
  shows "does (bnd m k) accounted"
  by (rule does_bnd [OF does_emits [OF assms(1)]], assumption) (rule does_mono [OF assms(2) accounted_after])

lemma started:
  assumes "sdk_raises_own E"
  shows "does (bnd (if \<not> o_delegated_scan o' then try_delegate E o' sv prc url hash branch tags flow else ret False)
       (\<lambda>delegated. if delegated then ret (None, DELEGATED)
          else bnd (exec_clone_scan E (sv_cxone sv) (sv_scm sv) url_s hash branch prc tags (o_event_context o')) (\<lambda>r.
            case r of None \<Rightarrow> raise TypeError | Some (ins, action) \<Rightarrow> ret (Some ins, action))))
     (\<lambda>r ev. scan_under_way r (scans_in ev) (\<exists>e\<in>set ev. publishes e))"
proof (rule does_bnd [where Q = delegated_or_quiet])
  show "does (if \<not> o_delegated_scan o' then try_delegate E o' sv prc url hash branch tags flow else ret False) delegated_or_quiet"
    by (intro does_if try_delegate_accounted does_ret) (simp add: delegated_or_quiet_def)
next
  fix delegated ev assume d: "delegated_or_quiet delegated ev"
  have clone: "does (bnd (exec_clone_scan E (sv_cxone sv) (sv_scm sv) url_s hash branch prc tags (o_event_context o')) (\<lambda>r.
            case r of None \<Rightarrow> raise TypeError | Some (ins, action) \<Rightarrow> ret (Some ins, action)))
       (\<lambda>(ins, a) ev2. a = EXECUTING \<and> ins \<noteq> None \<and> scans_in ev2 = 1)"
    unfolding exec_clone_scan_def
    by (rule does_bnd [OF clone_rounds_scans [OF assms]]) (auto split: option.splits intro!: does_raise does_ret)
  show "does (if delegated then ret (None, DELEGATED)
          else bnd (exec_clone_scan E (sv_cxone sv) (sv_scm sv) url_s hash branch prc tags (o_event_context o')) (\<lambda>r.
            case r of None \<Rightarrow> raise TypeError | Some (ins, action) \<Rightarrow> ret (Some ins, action)))
     (\<lambda>r ev2. scan_under_way r (scans_in (ev @ ev2)) (\<exists>e\<in>set (ev @ ev2). publishes e))"
    using d by (intro does_if does_ret does_mono [OF clone]) (auto simp: scan_under_way_def delegated_or_quiet_def)
qed

lemma emits_naming: "emits (\<lambda>e. \<not> starts_scan e) (get_project_name nm d ctx)"
  unfolding get_project_name_def by (auto intro!: emits_rules split: option.splits simp: starts_scan_def)

lemma orchestrated:
  assumes "http_scm (sv_scm sv)" and "sdk_raises_own E"
  shows "does (orchestrate_scan E o' sv tags flow) accounted"
proof -
  note before = unscanned_before [where R = scan_under_way, OF _ _ scan_under_way_mono]
  have load: "emits (\<lambda>e. \<not> starts_scan e) (load_project_config E cx dn yn url)" for cx dn yn url
    by (intro emits_rules) (simp_all add: starts_scan_def)
  have go: "does (bnd (lift (as_arg url)) (\<lambda>url_s.
       bnd (o_default_project_name o') (\<lambda>def_name.
       bnd (o_default_project_name o') (\<lambda>def_name2.
       bnd (get_project_name (sv_naming sv) def_name2 (o_event_context o')) (\<lambda>dyn_name.
       bnd (load_project_config E (sv_cxone sv) def_name dyn_name url_s) (\<lambda>prc.
       bnd (if \<not> o_delegated_scan o' then try_delegate E o' sv prc url shash sbranch tags flow
            else ret False) (\<lambda>delegated.
       if delegated then ret (None, DELEGATED)
       else
         bnd (exec_clone_scan E (sv_cxone sv) (sv_scm sv) url_s shash sbranch prc tags (o_event_context o')) (\<lambda>r.
         case r of None \<Rightarrow> raise TypeError | Some (ins, action) \<Rightarrow> ret (Some ins, action)))))))))
     (\<lambda>r ev. scan_under_way r (scans_in ev) (\<exists>e\<in>set ev. publishes e))" for url shash sbranch
    by (intro before started assms(2) emits_lift emits_quiet [OF naming] emits_naming load)
  have acc: "scan_under_way r (scans_in ev) (\<exists>e\<in>set ev. publishes e) \<Longrightarrow> accounted r ev" for r ev
    by (auto simp: scan_under_way_def accounted_def)
  show ?thesis
    unfolding orchestrate_scan_def
    by (intro quiet_accounted does_case_prod does_if does_raise does_ret protected assms(1) target source emits_lift
          does_mono [OF go acc])
      (simp_all add: accounted_def)
qed

lemma emits_orchestrate:
  assumes "http_scm (sv_scm sv)" and "sdk_raises_own E"
  shows "emits (\<lambda>_. True) (orchestrate_scan E o' sv tags flow)"
proof -
  have any: "emits P m \<Longrightarrow> emits (\<lambda>_. True) m" for P and m :: "'b cio" by (erule emits_mono) simp
  have rounds: "emits (\<lambda>_. True) (clone_rounds E cx scm url h b prc tg ctx f n)" for cx scm url h b prc tg ctx f n
    by (induction n arbitrary: f) (auto intro!: emits_rules emits_ends [OF ends_clone_try [OF assms(2)]])
  have delegate: "emits (\<lambda>_. True) (try_delegate E o'' sv prc u h b tg fl)" for o'' prc u h b tg fl
    unfolding try_delegate_def
    by (intro emits_rules any [OF emits_request_quiet]) (auto intro!: emits_rules split: if_splits)
  show ?thesis
    unfolding orchestrate_scan_def exec_clone_scan_def
    by (intro emits_rules rounds delegate any [OF protected] any [OF target] any [OF source] any [OF naming]
        any [OF emits_naming] assms(1) TrueI)
qed

lemma emits_push_scan:
  assumes "http_scm (sv_scm sv)" and "sdk_raises_own E"
  shows "emits (\<lambda>_. True) (execute_push_scan_workflow E o' sv extra)"
proof -
  have any: "emits P m \<Longrightarrow> emits (\<lambda>_. True) m" for P and m :: "'b cio" by (erule emits_mono) simp
  show ?thesis
    unfolding execute_push_scan_workflow_def start_sarif_feedback_def push_workflow_start_def
    by (intro emits_rules emits_orchestrate assms any [OF source] TrueI)
qed

lemma accounted_then: "accounted (ins, a) ev \<Longrightarrow> a \<noteq> SKIPPED \<Longrightarrow> scans_in ev2 = 0 \<Longrightarrow> accounted (ins, a) (ev @ ev2)"
  by (auto simp: accounted_def)

lemma emits_details: "emits (\<lambda>e. \<not> starts_scan e) (make_prdetails o' sv)"
  unfolding make_prdetails_def by (intro emits_rules emits_quiet [OF source] emits_quiet [OF target])

lemma emits_start_pr: "emits (\<lambda>e. \<not> starts_scan e) (start_pr_workflow E o' sv i)"
  unfolding start_pr_workflow_def start_pr_scan_workflow_def pr_annotation_start_def pr_annotation_msg_def
    pr_workflow_start_def pr_await_msg_def
  by (intro emits_rules emits_details) (simp_all add: starts_scan_def)

lemma emits_start_delegated_pr: "emits (\<lambda>e. \<not> starts_scan e) (start_delegated_pr_workflow E o' sv)"
  unfolding start_delegated_pr_workflow_def start_delegated_pr_scan_workflow_def prescan_annotation_start_def
    prescan_annotation_msg_def
  by (intro emits_rules emits_details) (simp_all add: starts_scan_def)

lemma emits_start_sarif: "emits (\<lambda>e. \<not> starts_scan e) (start_sarif_feedback E svc pid sid det)"
  unfolding start_sarif_feedback_def push_workflow_start_def
  by (intro emits_rules) (simp_all add: starts_scan_def)

lemma pr_scan_accounted:
  assumes "http_scm (sv_scm sv)" and "sdk_raises_own E"
  shows "does (execute_pr_scan_workflow E o' sv extra) (\<lambda>a ev. \<exists>ins. accounted (ins, a) ev)"
proof -
  have then_quiet: "does (bnd (if ins \<noteq> None \<and> a = EXECUTING then start_pr_workflow E o' sv (the ins)
          else if a = DELEGATED then start_delegated_pr_workflow E o' sv else ret ()) (\<lambda>_. ret a))
       (\<lambda>a' ev2. \<exists>ins. accounted (ins, a') (ev @ ev2))" if acc: "accounted (ins, a) ev" for ins a ev
  proof (cases "a = SKIPPED")
    case True
    then show ?thesis using acc by (auto intro!: does_ret)
  next
    case False
    let ?m = "if ins \<noteq> None \<and> a = EXECUTING then start_pr_workflow E o' sv (the ins)
          else if a = DELEGATED then start_delegated_pr_workflow E o' sv else ret ()"
    have "emits (\<lambda>e. \<not> starts_scan e) ?m" by (intro emits_if emits_start_pr emits_start_delegated_pr emits_ret)
    then have "does ?m (\<lambda>_ ev2. scans_in ev2 = 0)" by (rule does_emits) (rule no_scans)
    then show ?thesis by (rule does_bnd) (intro does_ret exI [of _ ins], simp add: accounted_then [OF acc False])
  qed
  have step: "does (bnd m k) (\<lambda>a ev. \<exists>ins. accounted (ins, a) ev)"
    if "emits http_or_sleep m" "\<And>x. does (k x) (\<lambda>a ev. \<exists>ins. accounted (ins, a) ev)"
    for m :: "'b cio" and k :: "'b \<Rightarrow> ScanAction cio"
    by (rule does_bnd [OF does_emits [OF that(1)]], assumption) (rule does_mono [OF that(2)], blast intro: accounted_after)
  have final: "does (bnd (orchestrate_scan E o' sv tags PR) (\<lambda>(ins, action).
      bnd (if ins \<noteq> None \<and> action = EXECUTING then start_pr_workflow E o' sv (the ins)
          else if action = DELEGATED then start_delegated_pr_workflow E o' sv else ret ()) (\<lambda>_. ret action)))
      (\<lambda>a ev. \<exists>ins. accounted (ins, a) ev)" for tags
    by (rule does_bnd [OF orchestrated [OF assms]], rule does_case_prod, rule then_quiet) simp
  show ?thesis
    unfolding execute_pr_scan_workflow_def
    by (intro step does_case_prod target source emits_lift final)
qed

lemma push_scan_accounted:
  assumes "http_scm (sv_scm sv)" and "sdk_raises_own E"
  shows "does (execute_push_scan_workflow E o' sv extra) accounted"
proof -
  let ?more = "\<lambda>ins a. case ins of
            Some i \<Rightarrow>
              if a = EXECUTING then
                bnd (o_source_branch_and_hash o') (\<lambda>(branch, hash).
                bnd (lift (push_details_of o' sv branch hash)) (\<lambda>det.
                start_sarif_feedback E (sv_push sv) (ins_project_id i) (ins_scan_id i) det))
              else ret ()
          | None \<Rightarrow> ret ()"
  have "emits (\<lambda>e. \<not> starts_scan e) (?more ins a)" for ins a
    by (intro emits_rules emits_quiet [OF source] emits_start_sarif)
  then have quiet: "does (?more ins a) (\<lambda>_ ev2. scans_in ev2 = 0)" for ins a
    by (rule does_emits) (rule no_scans)
  have then_quiet: "does (bnd (?more ins a) (\<lambda>_. ret (ins, a))) (\<lambda>r ev2. accounted r (ev @ ev2))"
    if acc: "accounted (ins, a) ev" for ins a ev
  proof (cases "a = SKIPPED")
    case True
    then show ?thesis using acc by (auto simp: accounted_def intro!: does_ret)
  next
    case False
    show ?thesis by (rule does_bnd [OF quiet]) (auto intro!: does_ret accounted_then [OF acc False])
  qed
  have final: "does (bnd (orchestrate_scan E o' sv tags PUSH) (\<lambda>(ins, a). bnd (?more ins a) (\<lambda>_. ret (ins, a)))) accounted" for tags
    by (rule does_bnd [OF orchestrated [OF assms]], rule does_case_prod, rule then_quiet) simp
  show ?thesis
    unfolding execute_push_scan_workflow_def
    by (rule quiet_accounted [OF source], rule does_case_prod, rule final)
qed

lemma orchestrate_capped [capped_rules]:
  assumes "http_scm (sv_scm sv)" and "sdk_raises_own E"
  shows "at_most 1 (orchestrate_scan E o' sv tags flow)"
proof -
  have load: "emits (\<lambda>e. \<not> starts_scan e) (load_project_config E cx dn yn url)" for cx dn yn url
    by (intro emits_rules) (simp_all add: starts_scan_def)
  have delegate: "emits (\<lambda>e. \<not> starts_scan e) (try_delegate E o'' sv prc u h b tg fl)" for o'' prc u h b tg fl
    unfolding try_delegate_def
    by (intro emits_rules emits_request_quiet) (auto intro!: emits_rules split: if_splits)
  show ?thesis
    unfolding orchestrate_scan_def exec_clone_scan_def
    by (intro capped_rules emits_lift emits_quiet [OF protected] emits_quiet [OF target] emits_quiet [OF source]
        emits_quiet [OF naming] emits_naming load emits_if delegate emits_ret assms
        at_most_after [OF at_most_clone_rounds])
      (auto intro!: emits_rules split: option.splits prod.splits)
qed

lemma pr_scan_capped:
  assumes "http_scm (sv_scm sv)" and "sdk_raises_own E"
  shows "at_most 1 (execute_pr_scan_workflow E o' sv extra)"
  unfolding execute_pr_scan_workflow_def
  by (intro capped_rules emits_quiet [OF target] emits_quiet [OF source] emits_lift
        at_most_after [OF orchestrate_capped [OF assms]])
    (auto intro!: emits_rules emits_start_pr emits_start_delegated_pr split: prod.splits)

lemma push_scan_capped:
  assumes "http_scm (sv_scm sv)" and "sdk_raises_own E"
  shows "at_most 1 (execute_push_scan_workflow E o' sv extra)"
  unfolding execute_push_scan_workflow_def
  by (intro capped_rules emits_quiet [OF source] at_most_after [OF orchestrate_capped [OF assms]])
    (intro emits_rules emits_quiet [OF source] emits_start_sarif)

end

text \<open>After two failed authentications the function returns nothing instead of raising.\<close>

lemma exec_clone_scan_gives_up:
  assumes "clone_try E cx scm url hash branch prc tags ctx False w = (Inl CloneAuthException, w1)"
    and "clone_try E cx scm url hash branch prc tags ctx True w1 = (Inl CloneAuthException, w2)"
  shows "exec_clone_scan E cx scm url hash branch prc tags ctx w = (Inr None, w2)"
  using assms by (simp add: exec_clone_scan_def numeral_2_eq_2 bnd_def attempt_def ret_def)

lemma exec_clone_scan_retries:
  assumes "clone_try E cx scm url hash branch prc tags ctx False w = (Inl CloneAuthException, w1)"
    and "clone_try E cx scm url hash branch prc tags ctx True w1 = (Inr r, w2)"
  shows "exec_clone_scan E cx scm url hash branch prc tags ctx w = (Inr (Some r), w2)"
  using assms by (simp add: exec_clone_scan_def numeral_2_eq_2 bnd_def attempt_def ret_def)

text \<open>Once the worker exists, its directory is removed however the scan ends.\<close>

lemma clone_try_cleans:
  assumes "clone E (scm_cloner scm) url (Some ctx) f [] True w = (Inr wk, w1)"
    and "clone_try E cx scm url hash branch prc tags ctx f w = (r, tr', s')" and "r \<noteq> Inl Diverges"
  shows "last tr' = RmTemp (clone_dest wk)"
proof -
  let ?body = "bnd (loc wk) (\<lambda>code_path. bnd (reset_head E (scm_cloner scm) code_path hash) (\<lambda>_.
        exec_local_scan E cx code_path branch prc tags))"
  have run: "with_clone E wk ?body w1 = (r, tr', s')"
    using assms(1,2) by (simp add: clone_try_def bnd_step)
  obtain r1 tr1 s1 where body: "?body w1 = (r1, tr1, s1)" by (cases "?body w1") auto
  have "r1 \<noteq> Inl Diverges" using run body assms(3) by (auto simp: with_clone_def attempt_def bnd_def)
  then show ?thesis
    using with_clone_cleans [of wk ?body w1 r1 tr1 s1 E] clone_worker_of(2) [OF assms(1)] body run by simp
qed

text \<open>Whatever the naming script does, there is a name, and without one it is the default.\<close>

lemma get_project_name_total:
  "\<exists>n ev. get_project_name nm d ctx (tr, m) = (Inr n, tr @ ev, m)
     \<and> (n = d \<or> (\<exists>script. naming_coro nm = Some script \<and> script tr ctx = Inr (Some n)))"
  by (cases "naming_coro nm")
    (auto simp: get_project_name_def catch_app bnd_app split: sum.splits option.splits)

text \<open>
  How the handler of an event may end: a scan is accounted for, and a handler that reports none
  has neither submitted a scan nor published anything.
\<close>

definition starts_nothing :: "event \<Rightarrow> bool" where
  "starts_nothing e \<longleftrightarrow> \<not> starts_scan e \<and> \<not> publishes e"

definition handled :: "exec_result \<Rightarrow> event list \<Rightarrow> bool" where
  "handled r ev = (case r of
      RScan ins a \<Rightarrow> accounted (ins, a) ev
    | RAction a \<Rightarrow> \<exists>ins. accounted (ins, a) ev
    | _ \<Rightarrow> list_all starts_nothing ev)"

lemma does_scan_handled: "does m accounted \<Longrightarrow> does (bnd m (\<lambda>(ins, a). ret (RScan ins a))) handled"
  by (erule does_bnd) (auto simp: handled_def split: prod.splits intro!: does_ret)

lemma does_action_handled:
  "does m (\<lambda>a ev. \<exists>ins. accounted (ins, a) ev) \<Longrightarrow> does (bnd m (\<lambda>a. ret (RAction a))) handled"
  by (erule does_bnd) (auto simp: handled_def intro!: does_ret)

lemma does_none_handled: "emits starts_nothing m \<Longrightarrow> does (bnd m (\<lambda>_. ret RNone)) handled"
  by (rule does_bnd, erule does_emits, assumption) (simp add: handled_def does_ret)

lemma emits_pr_tag_update:
  assumes "scm_orchestrator o'"
  shows "emits starts_nothing (execute_pr_tag_update_workflow E o' sv)"
proof -
  have http: "emits http_or_sleep m \<Longrightarrow> emits starts_nothing m" for m :: "'b cio"
    by (erule emits_mono)
      (auto simp: http_or_sleep_def starts_nothing_def starts_scan_def publishes_def split: event.splits)
  have upd: "emits starts_nothing (update_scan_pr_tags E nm pid h tg st su)" for nm pid h tg st su
    by (rule emits_mono [OF emits_update_scan_pr_tags])
      (auto simp: pr_tag_call_def starts_nothing_def starts_scan_def publishes_def split: event.splits)
  have nam: "emits starts_nothing (get_project_name nm d ctx)" for nm d ctx
    unfolding get_project_name_def
    by (auto intro!: emits_rules split: option.splits simp: starts_nothing_def starts_scan_def publishes_def)
  show ?thesis
    unfolding execute_pr_tag_update_workflow_def
    by (intro emits_rules upd nam http scm_orchestrator.target [OF assms] scm_orchestrator.source [OF assms]
        scm_orchestrator.naming [OF assms])
qed

lemma emits_nothing_quiet: "emits starts_nothing m \<Longrightarrow> emits (\<lambda>e. \<not> starts_scan e) m"
  by (erule emits_mono) (simp add: starts_nothing_def)

end
