(* ===== verification/OrchCommon.thy ===== *)
theory OrchCommon
  imports OrchBase
begin

text \<open>
  What the orchestrators of the SCMs share: queries on payloads, the signature header of GitHub and
  Bitbucket, the names of projects (\<open>orchestration/naming\<close>), and the way an event is accounted for
  when the search for earlier scans of a pull request comes before its scan.
\<close>


section \<open>Values of payloads\<close>

text \<open>\<open>len(x)\<close> and \<open>s in x\<close> for JSON values.\<close>

fun py_len :: "json \<Rightarrow> exc + nat" where
  "py_len (JStr s) = Inr (length s)"
| "py_len (JArr xs) = Inr (length xs)"
| "py_len (JObj d) = Inr (length d)"
| "py_len _ = Inl TypeError"

fun py_in :: "string \<Rightarrow> json \<Rightarrow> exc + bool" where
  "py_in s (JStr t) = Inr (sublist s t)"
| "py_in s (JArr xs) = Inr (JStr s \<in> set xs)"
| "py_in s (JObj d) = Inr (s \<in> set (dkeys d))"
| "py_in s _ = Inl TypeError"

text \<open>\<open>query.find(message)[0].value\<close>.\<close>

definition find1 :: "env \<Rightarrow> string \<Rightarrow> json \<Rightarrow> exc + json" where
  "find1 E q m = first (jp_find E q m)"

text \<open>\<open>query.find(message).pop().value\<close>.\<close>

definition find_pop :: "env \<Rightarrow> string \<Rightarrow> json \<Rightarrow> exc + json" where
  "find_pop E q m = popE (jp_find E q m)"

text \<open>
  A value that is looked up in a dictionary or put into a set must be hashable; \<open>list(set(xs))\<close>
  is used below only where its order does not matter, or through the order of the environment.
\<close>

fun as_key :: "json \<Rightarrow> exc + json" where
  "as_key (JArr _) = Inl TypeError"
| "as_key (JObj _) = Inl TypeError"
| "as_key j = Inr j"

lemma as_key_Inr: "as_key j = Inr k \<Longrightarrow> k = j"
  by (cases j) auto

definition to_lower :: "string \<Rightarrow> string" where
  "to_lower = map (\<lambda>c. if (of_char c :: nat) \<in> {65..90} then char_of ((of_char c :: nat) + 32) else c)"



section \<open>Signatures, URLs and names\<close>

text \<open>\<open>signature.hmac\<close> raises for an unknown digest.\<close>

definition signature_hmac :: "env \<Rightarrow> string \<Rightarrow> string \<Rightarrow> string \<Rightarrow> exc + string" where
  "signature_hmac E alg secret payload =
     (if alg \<in> set (hash_algorithms E) then Inr (hmac_hex E alg secret payload) else Inl ValueError)"

text \<open>The header \<open>algorithm=hash\<close> GitHub and Bitbucket sign a payload with.\<close>

definition hub_signature_valid :: "env \<Rightarrow> string \<Rightarrow> event_context \<Rightarrow> string \<Rightarrow> exc + bool" where
  "hub_signature_valid E header ctx secret =
     (case get_header_key_safe ctx header of
        None \<Rightarrow> Inr False
      | Some sig \<Rightarrow>
          ebind (split_pair CHR ''='' sig) (\<lambda>(alg, h).
          ebind (signature_hmac E alg secret (raw_event_payload ctx)) (\<lambda>p. Inr (h = p))))"

lemma hub_signed:
  assumes "hub_signature_valid E header ctx secret = Inr True"
  shows "\<exists>alg. dget (headers ctx) header = Some (alg @ ''='' @ hmac_hex E alg secret (raw_event_payload ctx))
    \<and> alg \<in> set (hash_algorithms E)"
proof -
  obtain sig alg h where sig: "dget (headers ctx) header = Some sig"
    and s: "split_on CHR ''='' sig = [alg, h]" and h: "signature_hmac E alg secret (raw_event_payload ctx) = Inr h"
    using assms
    by (auto simp: hub_signature_valid_def get_header_key_safe_def split_pair_def ebind_Inr_iff
        split: option.splits list.splits)
  have "sig = alg @ ''='' @ h" using join_split_on [of "CHR ''=''" sig] s by simp
  then show ?thesis using sig h by (auto simp: signature_hmac_def split: if_splits)
qed

definition remove_auth_from_url :: "env \<Rightarrow> string \<Rightarrow> exc + string" where
  "remove_auth_from_url E url = ebind (url3_parse E url) (\<lambda>u. Inr (url3_str E (u\<lparr> u_auth := None \<rparr>)))"

definition gh_create_project_name :: "env \<Rightarrow> json \<Rightarrow> json \<Rightarrow> string" where
  "gh_create_project_name E org repo = pstr E org @ ''/'' @ pstr E repo"

definition ado_create_project_name :: "env \<Rightarrow> json \<Rightarrow> json \<Rightarrow> json \<Rightarrow> string" where
  "ado_create_project_name E collection project repo =
     pstr E collection @ ''/'' @ pstr E project @ ''/'' @ pstr E repo"

definition bbdc_create_project_name :: "env \<Rightarrow> json \<Rightarrow> json \<Rightarrow> json \<Rightarrow> string" where
  "bbdc_create_project_name E key project repo =
     pstr E key @ ''/'' @ pstr E project @ ''/'' @ pstr E repo"

definition bbc_create_project_name :: "env \<Rightarrow> json \<Rightarrow> json \<Rightarrow> json \<Rightarrow> json \<Rightarrow> string" where
  "bbc_create_project_name E org key project slug =
     pstr E org @ ''/'' @ pstr E key @ ''/'' @ pstr E project @ ''/'' @ pstr E slug"

text \<open>\<open>GitlabProjectNaming\<close> returns its argument.\<close>

definition gl_create_project_name :: "string \<Rightarrow> string" where
  "gl_create_project_name path = path"

text \<open>\<open>_repo_clone_url\<close>: the URL of the first protocol the cloner supports.\<close>

definition url_for_cloner :: "json dict \<Rightarrow> cloner \<Rightarrow> exc + json" where
  "url_for_cloner urls c =
     (case select_protocol_from_supported c (dkeys urls) of
        None \<Rightarrow> Inl (KeyError ''None'') | Some k \<Rightarrow> dgetE urls k)"


section \<open>Accounting for events\<close>

lemma emits_find_pr_scans: "emits starts_nothing (find_pr_scans E nm pid h)"
  unfolding find_pr_scans_def
  by (auto intro!: emits_rules simp: starts_nothing_def starts_scan_def publishes_def split: sum.splits)

text \<open>
  Before a merge request is scanned nothing is started; the calls made so far do not change how
  the scan is accounted for, except that a skipped scan is preceded by the search for earlier scans.
\<close>

definition mr_accounted :: "exec_result \<Rightarrow> event list \<Rightarrow> bool" where
  "mr_accounted r ev = (case r of
      RScan ins a \<Rightarrow> accounted (ins, a) ev
    | RAction a \<Rightarrow> a = SKIPPED \<and> list_all starts_nothing ev
        \<or> a = DELEGATED \<and> scans_in ev = 0 \<and> (\<exists>e\<in>set ev. publishes e) \<or> a = EXECUTING \<and> scans_in ev = 1
    | _ \<Rightarrow> list_all starts_nothing ev)"

lemma starts_nothing_scans: "list_all starts_nothing ev \<Longrightarrow> scans_in ev = 0"
  by (rule no_scans) (simp add: list_all_iff starts_nothing_def)

lemma http_starts_nothing: "http_or_sleep e \<Longrightarrow> starts_nothing e"
  by (auto simp: http_or_sleep_def starts_nothing_def starts_scan_def publishes_def split: event.splits)

lemma accounted_mr: "accounted (ins, a) ev \<Longrightarrow> mr_accounted (RAction a) ev"
  by (auto simp: accounted_def mr_accounted_def list_all_iff http_starts_nothing)

text \<open>The handling of a pull request has no scan to hand out.\<close>

definition pr_accounted :: "exec_result \<Rightarrow> event list \<Rightarrow> bool" where
  "pr_accounted r ev \<longleftrightarrow> mr_accounted r ev \<and> (\<forall>ins a. r \<noteq> RScan ins a)"

lemma pr_before:
  assumes "emits starts_nothing m" and "\<And>x. does (k x) pr_accounted"
  shows "does (bnd m k) pr_accounted"
proof (rule does_bnd [OF does_emits [OF assms(1)]])
  fix x ev assume q: "list_all starts_nothing ev"
  show "does (k x) (\<lambda>r ev2. pr_accounted r (ev @ ev2))"
    using starts_nothing_scans [OF q] q
    by (intro does_mono [OF assms(2)]) (auto simp: pr_accounted_def mr_accounted_def split: exec_result.splits)
qed

lemma mr_before:
  assumes "emits http_or_sleep m" and "\<And>x. does (k x) mr_accounted"
  shows "does (bnd m k) mr_accounted"
proof (rule does_bnd [OF does_emits [OF assms(1)]])
  fix x ev assume q: "list_all http_or_sleep ev"
  then have "list_all starts_nothing ev" by (rule list.pred_mono_strong) (simp add: http_starts_nothing)
  then show "does (k x) (\<lambda>r ev2. mr_accounted r (ev @ ev2))"
    using starts_nothing_scans q
    by (intro does_mono [OF assms(2)]) (auto simp: mr_accounted_def accounted_def split: exec_result.splits)
qed

lemma pr_none: "does (ret RNone) pr_accounted"
  by (simp add: pr_accounted_def mr_accounted_def does_ret)

lemma mr_none: "does (ret RNone) mr_accounted"
  by (simp add: mr_accounted_def does_ret)

lemma pr_mr: "does m pr_accounted \<Longrightarrow> does m mr_accounted"
  by (erule does_mono) (simp add: pr_accounted_def)

lemma emits_project_name: "emits starts_nothing (get_project_name nm d ctx)"
  unfolding get_project_name_def
  by (auto intro!: emits_rules split: option.splits simp: starts_nothing_def starts_scan_def publishes_def)

lemma emits_http_nothing: "emits http_or_sleep m \<Longrightarrow> emits starts_nothing m"
  by (erule emits_mono) (rule http_starts_nothing)

lemma at_most_nothing: "emits starts_nothing m \<Longrightarrow> (\<And>x. at_most n (k x)) \<Longrightarrow> at_most n (bnd m k)"
  by (intro at_most_before emits_nothing_quiet)

text \<open>The workflows of the template, as the handlers of the SCMs end with them.\<close>

context scm_orchestrator
begin

lemma pr_scan_ends:
  assumes "http_scm (sv_scm sv)" and "sdk_raises_own E"
  shows "does (bnd (execute_pr_scan_workflow E o' sv extra) (\<lambda>a. ret (RAction a))) pr_accounted"
  by (rule does_bnd [OF pr_scan_accounted [OF assms]]) (auto intro!: does_ret dest: accounted_mr simp: pr_accounted_def)

lemma emits_tag_update: "emits starts_nothing (execute_pr_tag_update_workflow E o' sv)"
  by (rule emits_pr_tag_update, rule scm_orchestrator_axioms)

lemma tag_update_ends: "does (bnd (execute_pr_tag_update_workflow E o' sv) (\<lambda>s. ret (RScans s))) pr_accounted"
  by (rule pr_before [OF emits_tag_update]) (simp add: pr_accounted_def mr_accounted_def does_ret)

lemma push_scan_ends:
  assumes "http_scm (sv_scm sv)" and "sdk_raises_own E"
  shows "does (bnd (execute_push_scan_workflow E o' sv extra) (\<lambda>(ins, a). ret (RScan ins a))) mr_accounted"
  by (rule does_bnd [OF push_scan_accounted [OF assms]]) (auto intro!: does_ret simp: mr_accounted_def)

lemma scan_results_capped:
  assumes "http_scm (sv_scm sv)" and "sdk_raises_own E"
  shows "at_most 1 (bnd (execute_pr_scan_workflow E o' sv extra) (\<lambda>a. ret (RAction a)))"
    and "at_most 1 (bnd (execute_push_scan_workflow E o' sv extra) (\<lambda>(ins, a). ret (RScan ins a)))"
    and "at_most 1 (bnd (execute_pr_tag_update_workflow E o' sv) (\<lambda>s. ret (RScans s)))"
  by (rule at_most_after [OF pr_scan_capped [OF assms]], rule emits_ret)
    (rule at_most_after [OF push_scan_capped [OF assms]], auto intro: emits_rules,
     intro at_most_nothing emits_tag_update at_most_simple)

end

text \<open>Services come with the pattern of a route, and a handler runs behind a valid signature only.\<close>

lemma dispatch_authenticated:
  assumes "dispatch_execute E cfg d (tr, m) = (r, tr', m')" and "(tr', m') \<noteq> (tr, m)"
    and "d_route_urls d = Inr urls"
  shows "\<exists>rs e u. dget cfg (d_config_key d) = Some rs \<and> e \<in> set rs \<and> JStr u \<in> set urls
    \<and> re_match E (route_matcher e) u
    \<and> d_is_signature_valid d (shared_secret (sv_scm (route_services e))) = Inr True"
proof -
  from dispatch_execute_acts [OF assms(1,2)] assms(3) obtain s where
    s: "retrieve_services_by_route E cfg urls (d_config_key d) = Inr (Some s)"
    and v: "d_is_signature_valid d (shared_secret (sv_scm s)) = Inr True"
    by (auto simp: dispatch_services_def)
  have arg: "as_arg url = Inr u \<Longrightarrow> url = JStr u" for url u by (cases url) auto
  from retrieve_services_routed [OF s] v show ?thesis by (metis arg)
qed

end
