(* ===== verification/GhOrch.thy ===== *)
theory GhOrch
  imports OrchCommon
begin

text \<open>
  \<open>orchestration/gh.py\<close>: the GitHub orchestrator. Its constructor reads the event of a payload, the
  URLs to route and to clone; \<open>execute\<close> dispatches the event to a workflow, which fills in the data
  of the repository and the pull request and runs the template of \<open>OrchBase\<close> with them.

  The interface \<open>scm_orchestrator\<close> is interpreted for the orchestrators built here, and
  \<open>page_source\<close> for the listing of protected branches.
\<close>


section \<open>Data\<close>

record github =
  gh_ctx :: event_context
  gh_isdiagnostic :: bool
  gh_event :: "string option"
  gh_action :: json
  gh_dispatch_event :: "string option"
  gh_route_urls :: "json list"
  gh_clone_urls :: "json dict"

definition gh_installation_route_urls :: "env \<Rightarrow> json \<Rightarrow> exc + json list" where
  "gh_installation_route_urls E m = ebind (find1 E ''$.installation.account.html_url'' m) (\<lambda>u. Inr [u])"

definition gh_code_event_route_urls :: "env \<Rightarrow> json \<Rightarrow> exc + json list" where
  "gh_code_event_route_urls E m = Inr (jp_find E ''$.repository[clone_url,ssh_url]'' m)"

definition gh_code_event_clone_urls :: "env \<Rightarrow> json \<Rightarrow> exc + json dict" where
  "gh_code_event_clone_urls E m =
     ebind (find1 E ''$.repository.ssh_url'' m) (\<lambda>s. ebind (find1 E ''$.repository.clone_url'' m) (\<lambda>h.
     Inr [(''ssh'', s), (''http'', h)]))"

definition gh_route_url_parser_dispatch :: "env \<Rightarrow> string option \<Rightarrow> json \<Rightarrow> exc + json list" where
  "gh_route_url_parser_dispatch E ev m =
     (if ev \<in> {Some ''installation'', Some ''installation_repositories''} then gh_installation_route_urls E m
      else if ev \<in> {Some ''push'', Some ''pull_request'', Some ''check_run''} then gh_code_event_route_urls E m
      else Inr [])"

definition gh_clone_url_parser_dispatch :: "env \<Rightarrow> string option \<Rightarrow> json \<Rightarrow> exc + json dict" where
  "gh_clone_url_parser_dispatch E ev m =
     (if ev \<in> {Some ''push'', Some ''pull_request'', Some ''check_run''} then gh_code_event_clone_urls E m
      else Inr [])"

definition gh_dispatch_name :: "env \<Rightarrow> string option \<Rightarrow> json list \<Rightarrow> string option" where
  "gh_dispatch_name E ev actions =
     (case actions of
        [] \<Rightarrow> ev
      | a # _ \<Rightarrow> Some ((case ev of None \<Rightarrow> ''None'' | Some e \<Rightarrow> e) @ '':'' @ (if a = JNull then [] else pstr E a)))"

definition GithubOrchestrator :: "env \<Rightarrow> event_context \<Rightarrow> exc + github" where
  "GithubOrchestrator E ctx =
     (let ev = get_header_key_safe ctx ''X-Github-Event''; m = message ctx; actions = jp_find E ''$.action'' m in
      if ev = Some ''ping'' then
        Inr \<lparr> gh_ctx = ctx, gh_isdiagnostic = True, gh_event = ev, gh_action = JNull, gh_dispatch_event = None,
              gh_route_urls = [], gh_clone_urls = [] \<rparr>
      else
        ebind (gh_route_url_parser_dispatch E ev m) (\<lambda>routes.
        ebind (gh_clone_url_parser_dispatch E ev m) (\<lambda>clones.
        Inr \<lparr> gh_ctx = ctx, gh_isdiagnostic = False, gh_event = ev,
              gh_action = (case actions of [] \<Rightarrow> JNull | a # _ \<Rightarrow> a),
              gh_dispatch_event = gh_dispatch_name E ev actions,
              gh_route_urls = routes, gh_clone_urls = clones \<rparr>)))"

definition gh_is_signature_valid :: "env \<Rightarrow> event_context \<Rightarrow> string \<Rightarrow> exc + bool" where
  "gh_is_signature_valid E ctx secret = hub_signature_valid E ''X-Hub-Signature-256'' ctx secret"


section \<open>App installation\<close>

definition gh_expected_events :: "string list" where
  "gh_expected_events = [''pull_request'', ''pull_request_review'', ''push'']"

definition gh_expected_permissions :: "string dict" where
  "gh_expected_permissions = [(''contents'', ''read''), (''metadata'', ''read''), (''pull_requests'', ''write'')]"

definition gh_permission_weights :: "nat dict" where
  "gh_permission_weights = [(''read'', 1), (''write'', 2)]"

fun weight_of :: "json \<Rightarrow> exc + nat" where
  "weight_of (JStr s) = dgetE gh_permission_weights s"
| "weight_of (JArr _) = Inl TypeError"
| "weight_of (JObj _) = Inl TypeError"
| "weight_of _ = Inl (KeyError [])"

definition gh_check_permission :: "string \<times> json \<Rightarrow> string dict \<Rightarrow> exc + string dict" where
  "gh_check_permission = (\<lambda>(p, granted) missing.
     case dget missing p of
       None \<Rightarrow> Inr missing
     | Some wanted \<Rightarrow>
         ebind (dgetE gh_permission_weights wanted) (\<lambda>w. ebind (weight_of granted) (\<lambda>g.
         Inr (if w \<le> g then ddel p missing else missing))))"

text \<open>
  \<open>__log_app_install\<close> only writes to the log; its value here is what decides the last lines of it:
  whether it has warned, and whether the app is misconfigured.
\<close>

definition gh_log_app_install :: "env \<Rightarrow> github \<Rightarrow> exc + bool \<times> bool" where
  "gh_log_app_install E g =
     (let m = message (gh_ctx g) in
      ebind (find1 E ''$.sender.login'' m) (\<lambda>_.
      ebind (find1 E ''$.installation.account.login'' m) (\<lambda>_.
      ebind (find1 E ''$.installation.account.type'' m) (\<lambda>target_type.
      if gh_action g \<notin> {JStr ''created'', JStr ''new_permissions_accepted'', JStr ''added''} then Inr (False, False)
      else
        ebind (find1 E ''$.installation.repository_selection'' m) (\<lambda>selection.
        ebind (case jp_find E ''$.installation.events'' m of
                 [] \<Rightarrow> Inr gh_expected_events
               | evs # _ \<Rightarrow>
                   ebind (emapM (\<lambda>x. ebind (py_in x evs) (\<lambda>b. Inr (x, b))) gh_expected_events) (\<lambda>bs.
                   Inr (map fst (filter (\<lambda>(x, b). \<not> b) bs)))) (\<lambda>unhandled.
        ebind (case jp_find E ''$.installation.permissions'' m of
                 [] \<Rightarrow> Inr gh_expected_permissions
               | perms # _ \<Rightarrow> ebind (as_dict perms) (\<lambda>ps. efoldM gh_check_permission ps gh_expected_permissions))
          (\<lambda>missing.
        Inr (target_type \<noteq> JStr ''Organization'' \<or> selection \<noteq> JStr ''all'',
             unhandled \<noteq> [] \<or> missing \<noteq> []))))))))"


section \<open>Repository and pull request data\<close>

record gh_data =
  g_project_key :: json
  g_org :: json
  g_pr_id :: json
  g_target_branch :: json
  g_source_branch :: json
  g_target_hash :: json
  g_source_hash :: json
  g_is_draft :: bool
  g_pr_state :: json
  g_pr_status :: json

definition gh_init_state_on_push :: "env \<Rightarrow> json \<Rightarrow> exc + gh_data" where
  "gh_init_state_on_push E m =
     ebind (ebind (find1 E ''$.ref'' m) normalize_json_branch) (\<lambda>br.
     ebind (find1 E ''$.after'' m) (\<lambda>h.
     ebind (find1 E ''$.repository.name'' m) (\<lambda>k.
     ebind (find1 E ''$.repository.owner.name'' m) (\<lambda>o'.
     Inr \<lparr> g_project_key = k, g_org = o', g_pr_id = JNull, g_target_branch = br, g_source_branch = br,
           g_target_hash = h, g_source_hash = h, g_is_draft = False, g_pr_state = JNull, g_pr_status = JNull \<rparr>))))"

definition gh_populate_any :: "env \<Rightarrow> json \<Rightarrow> exc + json \<times> json" where
  "gh_populate_any E m =
     ebind (find1 E ''$.repository.name'' m) (\<lambda>k. ebind (find1 E ''$.repository.owner.login'' m) (\<lambda>o'. Inr (k, o')))"

definition gh_populate_from_check_run :: "env \<Rightarrow> json \<Rightarrow> exc + gh_data" where
  "gh_populate_from_check_run E m =
     ebind (gh_populate_any E m) (\<lambda>(k, o').
     ebind (find1 E ''$.check_run.check_suite.pull_requests[0].url'' m) (\<lambda>_.
     ebind (find1 E ''$.check_run.check_suite.pull_requests[0].number'' m) (\<lambda>i.
     ebind (find1 E ''$.check_run.check_suite.pull_requests[0].base.ref'' m) (\<lambda>tb.
     ebind (find1 E ''$.check_run.check_suite.pull_requests[0].head.ref'' m) (\<lambda>sb.
     ebind (find1 E ''$.check_run.check_suite.pull_requests[0].base.sha'' m) (\<lambda>th.
     ebind (find1 E ''$.check_run.check_suite.pull_requests[0].head.sha'' m) (\<lambda>sh.
     Inr \<lparr> g_project_key = k, g_org = o', g_pr_id = i, g_target_branch = tb, g_source_branch = sb,
           g_target_hash = th, g_source_hash = sh, g_is_draft = False, g_pr_state = JStr ''open'',
           g_pr_status = JStr ''REREQUESTED'' \<rparr>)))))))"

text \<open>The assignees, with the single assignee appended to the list of the payload.\<close>

definition gh_get_pr_assignees :: "env \<Rightarrow> json \<Rightarrow> exc + json" where
  "gh_get_pr_assignees E m =
     ebind (case jp_find E ''$.pull_request.assignees'' m of
              [] \<Rightarrow> Inr (JArr [])
            | v # _ \<Rightarrow> if v = JNull then Inr (JArr [])
                       else ebind (py_len v) (\<lambda>n. Inr (if n > 0 then v else JArr []))) (\<lambda>r.
     case jp_find E ''$.pull_request.assignee'' m of
       [] \<Rightarrow> Inr r
     | a # _ \<Rightarrow> if a = JNull then Inr r
                else (case r of JArr xs \<Rightarrow> Inr (JArr (xs @ [a])) | _ \<Rightarrow> Inl (AttributeError ''append'')))"

definition gh_get_pr_reviewers :: "env \<Rightarrow> json \<Rightarrow> json" where
  "gh_get_pr_reviewers E m =
     (case jp_find E ''$.pull_request[requested_teams,requested_reviewers][*]'' m of
        [] \<Rightarrow> JArr [] | v # _ \<Rightarrow> if v = JNull then JArr [] else v)"

definition gh_pr_status :: "env \<Rightarrow> json \<Rightarrow> exc + json" where
  "gh_pr_status E m =
     ebind (ebind (gh_get_pr_assignees E m) py_len) (\<lambda>n.
     if n > 0 then Inr (JStr ''REVIEWERS_ASSIGNED'')
     else ebind (py_len (gh_get_pr_reviewers E m)) (\<lambda>k.
       Inr (JStr (if k > 0 then ''REVIEWERS_REQUESTED'' else ''NO_REVIEWERS''))))"

definition gh_populate_from_pr :: "env \<Rightarrow> json \<Rightarrow> exc + gh_data" where
  "gh_populate_from_pr E m =
     ebind (gh_populate_any E m) (\<lambda>(k, o').
     ebind (find1 E ''$.pull_request.html_url'' m) (\<lambda>_.
     ebind (find1 E ''$.number'' m) (\<lambda>i.
     ebind (find1 E ''$.pull_request.base.ref'' m) (\<lambda>tb.
     ebind (find1 E ''$.pull_request.head.ref'' m) (\<lambda>sb.
     ebind (find1 E ''$.pull_request.base.sha'' m) (\<lambda>th.
     ebind (find1 E ''$.pull_request.head.sha'' m) (\<lambda>sh.
     ebind (find1 E ''$.pull_request.draft'' m) (\<lambda>d.
     ebind (find1 E ''$.pull_request.state'' m) (\<lambda>st.
     ebind (gh_pr_status E m) (\<lambda>status.
     Inr \<lparr> g_project_key = k, g_org = o', g_pr_id = i, g_target_branch = tb, g_source_branch = sb,
           g_target_hash = th, g_source_hash = sh, g_is_draft = truthy d,
           g_pr_state = JStr (pstr E st @ (if truthy d then ''-draft'' else [])), g_pr_status = status \<rparr>))))))))))"


section \<open>Protected branches\<close>

definition gh_api_page_max :: nat where
  "gh_api_page_max = 100"

definition gh_branches_path :: "env \<Rightarrow> gh_data \<Rightarrow> string" where
  "gh_branches_path E d = ''/repos/'' @ pstr E (g_org d) @ ''/'' @ pstr E (g_project_key d) @ ''/branches''"

definition gh_branches_query :: "nat \<Rightarrow> json" where
  "gh_branches_query offset =
     JObj [(''protected'', JBool True), (''per_page'', JInt (int gh_api_page_max)), (''page'', JInt (int offset + 1))]"

definition gh_branch_page :: "env \<Rightarrow> scm_service \<Rightarrow> event_context \<Rightarrow> gh_data \<Rightarrow> nat \<Rightarrow> (json list \<times> bool) cio" where
  "gh_branch_page E scm ctx d offset =
     bnd (scm_exec scm (Some ctx) ''GET'' (gh_branches_path E d) (no_args\<lparr> rq_query := gh_branches_query offset \<rparr>)) (\<lambda>resp.
     if ok resp then
       (let v = jp_find E ''$.[*].name'' (body resp) in ret (v, length v < gh_api_page_max))
     else raise TypeError)"

definition gh_get_protected_branches :: "env \<Rightarrow> event_context \<Rightarrow> gh_data \<Rightarrow> scm_service \<Rightarrow> json list cio" where
  "gh_get_protected_branches E ctx d scm =
     bnd (async_api_page_generator (gh_branch_page E scm ctx d) (fuel E) 0) (\<lambda>branches.
     if branches = [] then bnd (lift (find1 E ''$.repository.default_branch'' (message ctx))) (\<lambda>b. ret [b])
     else ret branches)"

definition gh_repo_clone_url :: "github \<Rightarrow> cloner \<Rightarrow> exc + json" where
  "gh_repo_clone_url g c =
     url_for_cloner (gh_clone_urls g) c"

definition gh_orch :: "env \<Rightarrow> github \<Rightarrow> gh_data \<Rightarrow> bool \<Rightarrow> orch" where
  "gh_orch E g d delegated =
     \<lparr> o_class = ''orchestration.gh.GithubOrchestrator'', o_config_key = ''gh'', o_event_context = gh_ctx g,
       o_delegated_scan = delegated, o_protected_branches = gh_get_protected_branches E (gh_ctx g) d,
       o_target_branch_and_hash = ret (g_target_branch d, g_target_hash d),
       o_source_branch_and_hash = ret (g_source_branch d, g_source_hash d),
       o_clone_url = gh_repo_clone_url g,
       o_default_project_name = ret (gh_create_project_name E (g_org d) (g_project_key d)),
       o_pr_id = Inr (JStr (pstr E (g_pr_id d))), o_pr_state = Inr (g_pr_state d), o_pr_status = Inr (g_pr_status d),
       o_repo_project_key = Inr (g_project_key d), o_repo_organization = Inr (g_org d), o_repo_slug = Inr (g_project_key d) \<rparr>"


section \<open>Workflows\<close>

definition gh_execute_push_scan_workflow :: "env \<Rightarrow> github \<Rightarrow> services \<Rightarrow> exec_result cio" where
  "gh_execute_push_scan_workflow E g sv =
     bnd (lift (gh_init_state_on_push E (message (gh_ctx g)))) (\<lambda>d.
     bnd (execute_push_scan_workflow E (gh_orch E g d False) sv []) (\<lambda>(ins, a). ret (RScan ins a)))"

definition gh_execute_delegated_push_scan_workflow :: "env \<Rightarrow> github \<Rightarrow> services option \<Rightarrow> string \<Rightarrow> exec_result cio" where
  "gh_execute_delegated_push_scan_workflow E g svo sid =
     bnd (lift (gh_init_state_on_push E (message (gh_ctx g)))) (\<lambda>d.
     bnd (lift (need svo)) (\<lambda>sv.
     bnd (execute_delegated_push_scan_workflow E (gh_orch E g d True) sv sid) (\<lambda>(ins, a). ret (RScan (Some ins) a))))"

definition gh_execute_check_rescan :: "env \<Rightarrow> github \<Rightarrow> services \<Rightarrow> exec_result cio" where
  "gh_execute_check_rescan E g sv =
     bnd (lift (gh_populate_from_check_run E (message (gh_ctx g)))) (\<lambda>d.
     bnd (execute_pr_scan_workflow E (gh_orch E g d False) sv []) (\<lambda>a. ret (RAction a)))"

definition gh_execute_check_cancel_scan :: "env \<Rightarrow> github \<Rightarrow> services \<Rightarrow> exec_result cio" where
  "gh_execute_check_cancel_scan E g sv =
     (let m = message (gh_ctx g) in
      bnd (lift (popE (jp_find E ''$.check_run.id'' m))) (\<lambda>_.
      bnd (lift (popE (jp_find E ''$.check_run.check_suite.pull_requests[0].number'' m))) (\<lambda>_.
      let ids = jp_find E ''$.check_run.external_id'' m in
      if ids = [] then ret RNone
      else bnd (lift (popE ids)) (\<lambda>sid. bnd (cancel_scan E sid) (\<lambda>_. ret RNone)))))"

definition gh_execute_check_requested_action_workflow :: "env \<Rightarrow> github \<Rightarrow> services \<Rightarrow> exec_result cio" where
  "gh_execute_check_requested_action_workflow E g sv =
     bnd (lift (find1 E ''$.requested_action.identifier'' (message (gh_ctx g)))) (\<lambda>action.
     if action = JStr ''CANCELSCAN'' then gh_execute_check_cancel_scan E g sv
     else if action = JStr ''RERUNSCAN'' then gh_execute_check_rescan E g sv
     else ret RNone)"

definition gh_execute_delegated_action_request_workflow :: "env \<Rightarrow> github \<Rightarrow> services option \<Rightarrow> string \<Rightarrow> exec_result cio" where
  "gh_execute_delegated_action_request_workflow E g svo sid =
     bnd (lift (gh_populate_from_check_run E (message (gh_ctx g)))) (\<lambda>d.
     bnd (lift (need svo)) (\<lambda>sv.
     bnd (execute_delegated_pr_scan_workflow E (gh_orch E g d True) sv sid) (\<lambda>a. ret (RAction a))))"

definition gh_execute_pr_scan_workflow :: "env \<Rightarrow> github \<Rightarrow> services \<Rightarrow> exec_result cio" where
  "gh_execute_pr_scan_workflow E g sv =
     bnd (lift (gh_populate_from_pr E (message (gh_ctx g)))) (\<lambda>d.
     if g_is_draft d then ret RNone
     else bnd (execute_pr_scan_workflow E (gh_orch E g d False) sv []) (\<lambda>a. ret (RAction a)))"

definition gh_execute_delegated_pr_scan_workflow :: "env \<Rightarrow> github \<Rightarrow> services option \<Rightarrow> string \<Rightarrow> exec_result cio" where
  "gh_execute_delegated_pr_scan_workflow E g svo sid =
     bnd (lift (gh_populate_from_pr E (message (gh_ctx g)))) (\<lambda>d.
     bnd (lift (need svo)) (\<lambda>sv.
     bnd (execute_delegated_pr_scan_workflow E (gh_orch E g d True) sv sid) (\<lambda>a. ret (RAction a))))"

definition gh_execute_pr_tag_update_workflow :: "env \<Rightarrow> github \<Rightarrow> services \<Rightarrow> exec_result cio" where
  "gh_execute_pr_tag_update_workflow E g sv =
     bnd (lift (gh_populate_from_pr E (message (gh_ctx g)))) (\<lambda>d.
     bnd (execute_pr_tag_update_workflow E (gh_orch E g d False) sv) (\<lambda>scans. ret (RScans scans)))"

datatype gh_handler = LogAppInstall | PushScan | PrScan | PrTagUpdate | CheckRequestedAction | CheckRerequest

definition gh_workflow_map :: "gh_handler dict" where
  "gh_workflow_map =
     [(''installation:deleted'', LogAppInstall), (''installation:unsuspend'', LogAppInstall),
      (''installation:suspend'', LogAppInstall), (''installation:created'', LogAppInstall),
      (''installation_repositories:deleted'', LogAppInstall), (''installation_repositories:unsuspend'', LogAppInstall),
      (''installation_repositories:suspend'', LogAppInstall), (''installation_repositories:created'', LogAppInstall),
      (''push'', PushScan),
      (''pull_request:opened'', PrScan), (''pull_request:synchronize'', PrScan),
      (''pull_request:ready_for_review'', PrScan), (''pull_request:reopened'', PrScan),
      (''pull_request:assigned'', PrTagUpdate), (''pull_request:unassigned'', PrTagUpdate),
      (''pull_request:review_request_removed'', PrTagUpdate), (''pull_request:review_requested'', PrTagUpdate),
      (''pull_request:closed'', PrTagUpdate), (''pull_request:converted_to_draft'', PrTagUpdate),
      (''check_run:requested_action'', CheckRequestedAction), (''check_run:rerequested'', CheckRerequest)]"

definition gh_delegate_scan_handler_map :: "gh_handler dict" where
  "gh_delegate_scan_handler_map =
     [(''push'', PushScan), (''pull_request:opened'', PrScan), (''pull_request:synchronize'', PrScan),
      (''pull_request:ready_for_review'', PrScan), (''pull_request:reopened'', PrScan),
      (''check_run:requested_action'', CheckRequestedAction), (''check_run:rerequested'', CheckRerequest)]"

definition gh_handler_of :: "gh_handler dict \<Rightarrow> github \<Rightarrow> gh_handler option" where
  "gh_handler_of handlers g = Option.bind (gh_dispatch_event g) (dget handlers)"

definition gh_execute :: "env \<Rightarrow> github \<Rightarrow> services \<Rightarrow> exec_result cio" where
  "gh_execute E g sv =
     (case gh_handler_of gh_workflow_map g of
        None \<Rightarrow> ret RNone
      | Some LogAppInstall \<Rightarrow> bnd (lift (gh_log_app_install E g)) (\<lambda>_. ret RNone)
      | Some PushScan \<Rightarrow> gh_execute_push_scan_workflow E g sv
      | Some PrScan \<Rightarrow> gh_execute_pr_scan_workflow E g sv
      | Some PrTagUpdate \<Rightarrow> gh_execute_pr_tag_update_workflow E g sv
      | Some CheckRequestedAction \<Rightarrow> gh_execute_check_requested_action_workflow E g sv
      | Some CheckRerequest \<Rightarrow> gh_execute_check_rescan E g sv)"

definition gh_handle_delegated_scan :: "env \<Rightarrow> github \<Rightarrow> services option \<Rightarrow> string \<Rightarrow> exec_result cio" where
  "gh_handle_delegated_scan E g svo sid =
     (case gh_handler_of gh_delegate_scan_handler_map g of
        Some PushScan \<Rightarrow> gh_execute_delegated_push_scan_workflow E g svo sid
      | Some PrScan \<Rightarrow> gh_execute_delegated_pr_scan_workflow E g svo sid
      | Some CheckRequestedAction \<Rightarrow> gh_execute_delegated_action_request_workflow E g svo sid
      | Some CheckRerequest \<Rightarrow> gh_execute_delegated_action_request_workflow E g svo sid
      | _ \<Rightarrow> ret RNone)"

text \<open>The data always come from the pull request of the payload, also for a check run event.\<close>

definition gh_handle_delegated_pr_scan_hard_fail :: "env \<Rightarrow> github \<Rightarrow> services option \<Rightarrow> string \<Rightarrow> unit cio" where
  "gh_handle_delegated_pr_scan_hard_fail E g svo fail_msg =
     bnd (lift (gh_populate_from_pr E (message (gh_ctx g)))) (\<lambda>d.
     bnd (lift (need svo)) (\<lambda>sv.
     bnd (make_prdetails (gh_orch E g d False) sv) (\<lambda>det.
     exec_pr_prescan_failure (sv_scm sv) det fail_msg)))"

definition gh_dispatchable :: "env \<Rightarrow> github \<Rightarrow> dispatchable" where
  "gh_dispatchable E g =
     \<lparr> d_config_key = ''gh'', d_is_diagnostic = gh_isdiagnostic g, d_route_urls = Inr (gh_route_urls g),
       d_is_signature_valid = gh_is_signature_valid E (gh_ctx g), d_execute = gh_execute E g,
       d_handle_delegated_scan = gh_handle_delegated_scan E g,
       d_handle_delegated_pr_scan_hard_fail = gh_handle_delegated_pr_scan_hard_fail E g \<rparr>"


section \<open>Properties\<close>

interpretation gh_template: scm_orchestrator "gh_orch E g d b" for E g d b
proof unfold_locales
  fix scm assume "http_scm scm"
  then show "emits http_or_sleep (o_protected_branches (gh_orch E g d b) scm)"
    by (auto simp: gh_orch_def gh_get_protected_branches_def gh_branch_page_def Let_def intro!: emits_rules)
qed (simp_all add: gh_orch_def emits_ret)

text \<open>GitHub lists protected branches: full pages, then one that is not full.\<close>

definition gh_lists_branches :: "env \<Rightarrow> scm_service \<Rightarrow> event_context \<Rightarrow> gh_data \<Rightarrow> json list list \<Rightarrow> bool" where
  "gh_lists_branches E scm ctx d pages \<longleftrightarrow>
     pages \<noteq> [] \<and> (\<forall>i. Suc i < length pages \<longrightarrow> length (pages ! i) = gh_api_page_max)
     \<and> length (last pages) < gh_api_page_max
     \<and> (\<forall>i w. i < length pages \<longrightarrow>
         (\<exists>r w'. scm_exec scm (Some ctx) ''GET'' (gh_branches_path E d) (no_args\<lparr> rq_query := gh_branches_query i \<rparr>) w
             = (Inr r, w') \<and> ok r \<and> jp_find E ''$.[*].name'' (body r) = pages ! i))"

interpretation gh_branches: page_source "gh_branch_page E scm ctx d" "gh_lists_branches E scm ctx d" for E scm ctx d
proof
  fix pages i and w :: "event list \<times> mem"
  assume l: "gh_lists_branches E scm ctx d pages" and i: "i < length pages"
  then obtain r w' where r: "scm_exec scm (Some ctx) ''GET'' (gh_branches_path E d)
      (no_args\<lparr> rq_query := gh_branches_query i \<rparr>) w = (Inr r, w')" "ok r" "jp_find E ''$.[*].name'' (body r) = pages ! i"
    unfolding gh_lists_branches_def by blast
  have "length (pages ! i) < gh_api_page_max \<longleftrightarrow> Suc i = length pages"
  proof (cases "Suc i = length pages")
    case True
    then have "pages ! i = last pages" using i by (cases pages rule: rev_cases) auto
    then show ?thesis using l True by (simp add: gh_lists_branches_def)
  next
    case False
    then show ?thesis using l i by (auto simp: gh_lists_branches_def)
  qed
  then show "\<exists>w'. gh_branch_page E scm ctx d i w = (Inr (pages ! i, Suc i = length pages), w')"
    using r by (simp add: gh_branch_page_def bnd_def ret_def Let_def)
qed (auto simp: gh_lists_branches_def gh_api_page_max_def)

lemma gh_protected_branches_all:
  assumes "gh_lists_branches E scm ctx d pages" and "length pages \<le> fuel E" and "concat pages \<noteq> []"
  shows "\<exists>bs w'. gh_get_protected_branches E ctx d scm w = (Inr bs, w') \<and> set bs = set (concat pages)"
proof -
  obtain w' where "async_api_page_generator (gh_branch_page E scm ctx d) (fuel E) 0 w = (Inr (concat (map rev pages)), w')"
    using gh_branches.drain [OF assms(1,2)] by blast
  then show ?thesis using assms(3)
    by (cases w') (auto simp: gh_get_protected_branches_def bnd_step)
qed

text \<open>Which events make the orchestrator start a scan.\<close>

lemma gh_draft_ignored:
  assumes "gh_populate_from_pr E (message (gh_ctx g)) = Inr d" and "g_is_draft d"
  shows "gh_execute_pr_scan_workflow E g sv w = (Inr RNone, w)"
  using assms by (cases w) (simp add: gh_execute_pr_scan_workflow_def)

lemma gh_execute_handled:
  assumes "http_scm (sv_scm sv)" and "sdk_raises_own E"
  shows "does (gh_execute E g sv) handled"
proof -
  have none: "does (ret RNone) handled" by (simp add: handled_def does_ret)
  have scans: "does (bnd (execute_pr_tag_update_workflow E (gh_orch E g d False) sv) (\<lambda>s. ret (RScans s))) handled" for d
    by (rule does_bnd, rule does_emits [OF emits_pr_tag_update], rule gh_template.scm_orchestrator_axioms, assumption)
      (simp add: handled_def does_ret)
  have cancel: "does (gh_execute_check_cancel_scan E g sv) handled"
    unfolding gh_execute_check_cancel_scan_def Let_def
    by (intro does_lift_bnd does_if none does_none_handled)
      (auto simp: cancel_scan_def starts_nothing_def starts_scan_def publishes_def intro!: emits_rules)
  have rescan: "does (gh_execute_check_rescan E g sv) handled"
    unfolding gh_execute_check_rescan_def
    by (intro does_lift_bnd does_action_handled gh_template.pr_scan_accounted assms)
  show ?thesis
    unfolding gh_execute_def gh_execute_push_scan_workflow_def gh_execute_pr_scan_workflow_def
      gh_execute_pr_tag_update_workflow_def gh_execute_check_requested_action_workflow_def
    by (auto split: option.splits gh_handler.splits intro!: none cancel rescan scans does_lift_bnd
        does_action_handled does_scan_handled gh_template.pr_scan_accounted gh_template.push_scan_accounted assms)
qed

lemma gh_execute_capped:
  assumes "http_scm (sv_scm sv)" and "sdk_raises_own E"
  shows "at_most 1 (gh_execute E g sv)"
proof -
  have upd: "emits (\<lambda>e. \<not> starts_scan e) (execute_pr_tag_update_workflow E (gh_orch E g d False) sv)" for d
    by (rule emits_nothing_quiet, rule emits_pr_tag_update, rule gh_template.scm_orchestrator_axioms)
  have cancel: "emits (\<lambda>e. \<not> starts_scan e) (cancel_scan E sid)" for sid
    unfolding cancel_scan_def by (intro emits_rules) (simp add: starts_scan_def)
  have push: "at_most 1 (bnd (execute_push_scan_workflow E (gh_orch E g d False) sv []) (\<lambda>(ins, a). ret (RScan ins a)))" for d
    by (rule at_most_after [OF gh_template.push_scan_capped [OF assms]]) (auto intro: emits_rules)
  have pr: "at_most 1 (bnd (execute_pr_scan_workflow E (gh_orch E g d False) sv []) (\<lambda>a. ret (RAction a)))" for d
    by (rule at_most_after [OF gh_template.pr_scan_capped [OF assms]]) (rule emits_ret)
  show ?thesis
    unfolding gh_execute_def gh_execute_push_scan_workflow_def gh_execute_pr_scan_workflow_def Let_def
      gh_execute_pr_tag_update_workflow_def gh_execute_check_requested_action_workflow_def
      gh_execute_check_cancel_scan_def gh_execute_check_rescan_def
    by (auto split: option.splits gh_handler.splits intro!: push [unfolded One_nat_def] pr [unfolded One_nat_def] capped_rules emits_lift upd cancel emits_rules)
qed

text \<open>
  A webhook of GitHub that has any effect carries an HMAC of its payload under the secret of
  services whose pattern one of its repository URLs matches.
\<close>

lemma gh_dispatch_signed:
  assumes "dispatch_execute E cfg (gh_dispatchable E g) (tr, m) = (r, tr', m')" and "(tr', m') \<noteq> (tr, m)"
  shows "\<exists>rs e u alg. dget cfg ''gh'' = Some rs \<and> e \<in> set rs \<and> JStr u \<in> set (gh_route_urls g)
    \<and> re_match E (route_matcher e) u
    \<and> dget (headers (gh_ctx g)) ''X-Hub-Signature-256'' =
        Some (alg @ ''='' @ hmac_hex E alg (shared_secret (sv_scm (route_services e))) (raw_event_payload (gh_ctx g)))"
  using dispatch_authenticated [OF assms] hub_signed
  by (fastforce simp: gh_dispatchable_def gh_is_signature_valid_def)

text \<open>The hard failure of a rescan that was asked for with a check run is never reported.\<close>

lemma gh_hard_fail_check_run:
  assumes "gh_populate_any E (message (gh_ctx g)) = Inr ko"
    and "jp_find E ''$.pull_request.html_url'' (message (gh_ctx g)) = []"
  shows "gh_handle_delegated_pr_scan_hard_fail E g sv msg w = (Inl IndexError, w)"
  using assms by (cases w, cases ko)
    (simp add: gh_handle_delegated_pr_scan_hard_fail_def gh_populate_from_pr_def find1_def)

end
