(* ===== verification/GlOrch.thy ===== *)
theory GlOrch
  imports OrchCommon
begin

text \<open>
  \<open>orchestration/gl.py\<close>: the GitLab orchestrator. A push carries its protected branch in the payload;
  for a merge request the default branch and the protected branches, which may be wildcards, are
  asked from the API. A merge request whose commit has been scanned before is a tag update.
\<close>


section \<open>Data\<close>

record gitlab =
  gl_ctx :: event_context
  gl_isdiagnostic :: bool
  gl_event :: json
  gl_clone_urls :: "json dict"
  gl_route_urls :: "json list"

definition gl_no_hash :: string where
  "gl_no_hash = replicate 40 (CHR ''0'')"

definition gl_is_no_hash :: "env \<Rightarrow> string \<Rightarrow> json \<Rightarrow> bool" where
  "gl_is_no_hash E q m = (case rev (jp_find E q m) of [] \<Rightarrow> False | h # _ \<Rightarrow> h = JStr gl_no_hash)"

definition gl_push_sub_event :: "env \<Rightarrow> json \<Rightarrow> string" where
  "gl_push_sub_event E m =
     (if gl_is_no_hash E ''$.after'' m then ''branch_delete''
      else if gl_is_no_hash E ''$.before'' m then ''branch_create''
      else ''actual'')"

definition gl_event_of :: "env \<Rightarrow> json \<Rightarrow> exc + json" where
  "gl_event_of E m =
     ebind (case rev (jp_find E ''$.object_kind'' m) of
              v # _ \<Rightarrow> Inr v
            | [] \<Rightarrow> ebind (as_dict m) (\<lambda>d. Inr (case dget d ''event_name'' of Some v \<Rightarrow> v | None \<Rightarrow> JStr ''Unknown''))) (\<lambda>ev.
     Inr (if ev = JStr ''push'' then JStr (''push:'' @ gl_push_sub_event E m) else ev))"

definition gl_clone_urls_of :: "env \<Rightarrow> json \<Rightarrow> exc + json dict" where
  "gl_clone_urls_of E m =
     (let ssh = (case rev (jp_find E ''$.project.git_ssh_url'' m) of [] \<Rightarrow> [] | u # _ \<Rightarrow> [(''ssh'', u)]) in
      case rev (jp_find E ''$.project.git_http_url'' m) of
        [] \<Rightarrow> Inr ssh
      | u # _ \<Rightarrow> ebind (as_arg u) (\<lambda>s. Inr (dset (fst (url_parse E s)) u ssh)))"

definition GitlabOrchestrator :: "env \<Rightarrow> event_context \<Rightarrow> exc + gitlab" where
  "GitlabOrchestrator E ctx =
     ebind (as_dict (message ctx)) (\<lambda>d.
     if dget d ''message'' = Some (JStr ''Hello World'') then
       Inr \<lparr> gl_ctx = ctx, gl_isdiagnostic = True, gl_event = JNull, gl_clone_urls = [], gl_route_urls = [] \<rparr>
     else
       ebind (gl_event_of E (message ctx)) (\<lambda>ev.
       ebind (gl_clone_urls_of E (message ctx)) (\<lambda>urls.
       Inr \<lparr> gl_ctx = ctx, gl_isdiagnostic = False, gl_event = ev, gl_clone_urls = urls,
             gl_route_urls = map snd urls \<rparr>)))"

definition gl_is_signature_valid :: "event_context \<Rightarrow> string \<Rightarrow> exc + bool" where
  "gl_is_signature_valid ctx secret = Inr (Some secret = get_header_key_safe ctx ''X-Gitlab-Token'')"

definition gl_repo_clone_url :: "gitlab \<Rightarrow> cloner \<Rightarrow> exc + json" where
  "gl_repo_clone_url g c =
     url_for_cloner (gl_clone_urls g) c"

record gl_data =
  l_project_key :: string
  l_name :: string
  l_organization :: string
  l_source_branch :: json
  l_target_branch :: json
  l_source_hash :: json
  l_target_hash :: json
  l_protected :: "json list"
  l_pr_id :: json
  l_pr_state :: json
  l_pr_status :: json

text \<open>Project path, name and organization, which is the path without its last part.\<close>

definition gl_populate_common_event_data :: "env \<Rightarrow> json \<Rightarrow> exc + string \<times> string \<times> string" where
  "gl_populate_common_event_data E m =
     ebind (ebind (find_pop E ''$.project.path_with_namespace'' m) as_str) (\<lambda>k.
     Inr (k, last (split_on CHR ''/'' k), join ''/'' (butlast (split_on CHR ''/'' k))))"

definition gl_populate_common_push_event_data :: "env \<Rightarrow> json \<Rightarrow> exc + gl_data" where
  "gl_populate_common_push_event_data E m =
     ebind (ebind (find_pop E ''$.ref'' m) normalize_json_branch) (\<lambda>br.
     ebind (find_pop E ''$.after'' m) (\<lambda>h.
     ebind (gl_populate_common_event_data E m) (\<lambda>(k, n, o').
     ebind (find_pop E ''$.ref_protected'' m) (\<lambda>p.
     ebind (if truthy p then ebind (normalize_json_branch br) (\<lambda>b. Inr [b]) else Inr []) (\<lambda>own.
     ebind (case rev (jp_find E ''$.project.default_branch'' m) of
              [] \<Rightarrow> Inr [] | b # _ \<Rightarrow> ebind (normalize_json_branch b) (\<lambda>b'. Inr [b'])) (\<lambda>def_branch.
     Inr \<lparr> l_project_key = k, l_name = n, l_organization = o', l_source_branch = br, l_target_branch = br,
           l_source_hash = h, l_target_hash = h, l_protected = own @ def_branch,
           l_pr_id = JNull, l_pr_state = JNull, l_pr_status = JNull \<rparr>))))))"

definition gl_populate_common_pr_data :: "env \<Rightarrow> json \<Rightarrow> exc + gl_data" where
  "gl_populate_common_pr_data E m =
     ebind (gl_populate_common_event_data E m) (\<lambda>(k, n, o').
     ebind (ebind (find_pop E ''$.object_attributes.source_branch'' m) normalize_json_branch) (\<lambda>sb.
     ebind (ebind (find_pop E ''$.object_attributes.target_branch'' m) normalize_json_branch) (\<lambda>tb.
     ebind (find_pop E ''$.object_attributes.last_commit.id'' m) (\<lambda>h.
     ebind (find_pop E ''$.object_attributes.iid'' m) (\<lambda>i.
     ebind (find_pop E ''$.object_attributes.state'' m) (\<lambda>st.
     ebind (find_pop E ''$.object_attributes.action'' m) (\<lambda>su.
     Inr \<lparr> l_project_key = k, l_name = n, l_organization = o', l_source_branch = sb, l_target_branch = tb,
           l_source_hash = h, l_target_hash = JNull, l_protected = [],
           l_pr_id = JStr (pstr E i), l_pr_state = st, l_pr_status = su \<rparr>)))))))"

definition gl_orch :: "env \<Rightarrow> gitlab \<Rightarrow> gl_data \<Rightarrow> bool \<Rightarrow> orch" where
  "gl_orch E g d delegated =
     \<lparr> o_class = ''orchestration.gl.GitlabOrchestrator'', o_config_key = ''gl'', o_event_context = gl_ctx g,
       o_delegated_scan = delegated, o_protected_branches = (\<lambda>_. ret (l_protected d)),
       o_target_branch_and_hash = ret (l_target_branch d, l_target_hash d),
       o_source_branch_and_hash = ret (l_source_branch d, l_source_hash d),
       o_clone_url = gl_repo_clone_url g, o_default_project_name = ret (gl_create_project_name (l_project_key d)),
       o_pr_id = Inr (l_pr_id d), o_pr_state = Inr (l_pr_state d), o_pr_status = Inr (l_pr_status d),
       o_repo_project_key = Inr (JStr (l_project_key d)), o_repo_organization = Inr (JStr (l_organization d)),
       o_repo_slug = Inr (JStr (l_project_key d)) \<rparr>"


section \<open>Protected branches of a merge request\<close>

text \<open>
  A protected branch pattern is kept, and the target and source branches it covers are added.
\<close>

definition gl_add_protected :: "env \<Rightarrow> gl_data \<Rightarrow> json \<Rightarrow> json list \<Rightarrow> exc + json list" where
  "gl_add_protected E d pbranch acc =
     ebind (as_str pbranch) (\<lambda>p.
     let bv = normalize_branch_name p in
     ebind (as_arg (l_target_branch d)) (\<lambda>tb.
     ebind (as_arg (l_source_branch d)) (\<lambda>sb.
     Inr (acc @ [JStr bv]
          @ (if fnmatch E tb bv then [JStr (normalize_branch_name tb)] else [])
          @ (if fnmatch E sb bv then [JStr (normalize_branch_name sb)] else [])))))"

definition gl_protected_of :: "env \<Rightarrow> gl_data \<Rightarrow> response \<Rightarrow> response \<Rightarrow> exc + json list" where
  "gl_protected_of E d def_resp prot_resp =
     ebind (json_on_ok def_resp) (\<lambda>dj.
     ebind (case rev (jp_find E ''$.default_branch'' dj) of
              [] \<Rightarrow> Inr [] | b # _ \<Rightarrow> ebind (normalize_json_branch b) (\<lambda>b'. Inr [b'])) (\<lambda>defs.
     ebind (json_on_ok prot_resp) (\<lambda>pj.
     efoldM (gl_add_protected E d) (jp_find E ''$[*].name'' pj) defs)))"

definition gl_fetch_protected :: "env \<Rightarrow> services \<Rightarrow> json \<Rightarrow> gl_data \<Rightarrow> json list cio" where
  "gl_fetch_protected E sv gid d =
     bnd (gather [scm_exec (sv_scm sv) None ''GET'' (''/projects/'' @ pstr E gid) no_args,
                  scm_exec (sv_scm sv) None ''GET'' (''/projects/'' @ pstr E gid @ ''/protected_branches'') no_args]) (\<lambda>rs.
     bnd (lift (gl_protected_of E d (rs ! 0) (rs ! 1))) (\<lambda>bs. ret (remdups bs)))"


section \<open>Workflows\<close>

definition gl_execute_push_scan_workflow :: "env \<Rightarrow> gitlab \<Rightarrow> services \<Rightarrow> json dict \<Rightarrow> exec_result cio" where
  "gl_execute_push_scan_workflow E g sv tags =
     bnd (lift (gl_populate_common_push_event_data E (message (gl_ctx g)))) (\<lambda>d.
     bnd (execute_push_scan_workflow E (gl_orch E g d False) sv tags) (\<lambda>(ins, a). ret (RScan ins a)))"

definition gl_execute_delegated_push_scan_workflow :: "env \<Rightarrow> gitlab \<Rightarrow> services option \<Rightarrow> string \<Rightarrow> exec_result cio" where
  "gl_execute_delegated_push_scan_workflow E g svo sid =
     bnd (lift (gl_populate_common_push_event_data E (message (gl_ctx g)))) (\<lambda>d.
     bnd (lift (need svo)) (\<lambda>sv.
     bnd (execute_delegated_push_scan_workflow E (gl_orch E g d True) sv sid) (\<lambda>(ins, a). ret (RScan (Some ins) a))))"

definition gl_execute_delegated_pr_scan_workflow :: "env \<Rightarrow> gitlab \<Rightarrow> services option \<Rightarrow> string \<Rightarrow> exec_result cio" where
  "gl_execute_delegated_pr_scan_workflow E g svo sid =
     bnd (lift (gl_populate_common_pr_data E (message (gl_ctx g)))) (\<lambda>d.
     bnd (lift (need svo)) (\<lambda>sv.
     bnd (execute_delegated_pr_scan_workflow E (gl_orch E g d True) sv sid) (\<lambda>a. ret (RAction a))))"

definition gl_handle_delegated_pr_scan_hard_fail :: "env \<Rightarrow> gitlab \<Rightarrow> services option \<Rightarrow> string \<Rightarrow> unit cio" where
  "gl_handle_delegated_pr_scan_hard_fail E g svo fail_msg =
     bnd (lift (gl_populate_common_pr_data E (message (gl_ctx g)))) (\<lambda>d.
     bnd (lift (need svo)) (\<lambda>sv.
     bnd (make_prdetails (gl_orch E g d False) sv) (\<lambda>det.
     exec_pr_prescan_failure (sv_scm sv) det fail_msg)))"

definition gl_execute_pr_scan_workflow :: "env \<Rightarrow> gitlab \<Rightarrow> services \<Rightarrow> json dict \<Rightarrow> exec_result cio" where
  "gl_execute_pr_scan_workflow E g sv tags =
     (let m = message (gl_ctx g) in
      bnd (lift (find_pop E ''$.object_attributes.draft'' m)) (\<lambda>draft.
      if truthy draft then bnd (lift (find_pop E ''$.object_attributes.url'' m)) (\<lambda>_. ret RNone)
      else
        bnd (lift (gl_populate_common_pr_data E m)) (\<lambda>d.
        bnd (lift (find_pop E ''$.project.id'' m)) (\<lambda>gid.
        bnd (get_project_name (sv_naming sv) (gl_create_project_name (l_project_key d)) (gl_ctx g)) (\<lambda>name.
        bnd (find_pr_scans E name (l_pr_id d) (l_source_hash d)) (\<lambda>existing.
        if existing \<noteq> [] then
          bnd (execute_pr_tag_update_workflow E (gl_orch E g d False) sv) (\<lambda>scans. ret (RScans scans))
        else if l_pr_state d = JStr ''closed'' then ret RNone
        else
          bnd (gl_fetch_protected E sv gid d) (\<lambda>bs.
          bnd (execute_pr_scan_workflow E (gl_orch E g (d\<lparr> l_protected := bs \<rparr>) False) sv tags) (\<lambda>a.
          ret (RAction a)))))))))"

definition gl_execute :: "env \<Rightarrow> gitlab \<Rightarrow> services \<Rightarrow> exec_result cio" where
  "gl_execute E g sv =
     bnd (lift (as_key (gl_event g))) (\<lambda>ev.
     if ev \<in> {JStr ''push:actual'', JStr ''push:branch_create''} then gl_execute_push_scan_workflow E g sv []
     else if ev = JStr ''merge_request'' then gl_execute_pr_scan_workflow E g sv []
     else ret RNone)"

definition gl_handle_delegated_scan :: "env \<Rightarrow> gitlab \<Rightarrow> services option \<Rightarrow> string \<Rightarrow> exec_result cio" where
  "gl_handle_delegated_scan E g svo sid =
     bnd (lift (as_key (gl_event g))) (\<lambda>ev.
     if ev \<in> {JStr ''push:actual'', JStr ''push:branch_create''} then gl_execute_delegated_push_scan_workflow E g svo sid
     else if ev = JStr ''merge_request'' then gl_execute_delegated_pr_scan_workflow E g svo sid
     else ret RNone)"

definition gl_dispatchable :: "env \<Rightarrow> gitlab \<Rightarrow> dispatchable" where
  "gl_dispatchable E g =
     \<lparr> d_config_key = ''gl'', d_is_diagnostic = gl_isdiagnostic g, d_route_urls = Inr (gl_route_urls g),
       d_is_signature_valid = gl_is_signature_valid (gl_ctx g), d_execute = gl_execute E g,
       d_handle_delegated_scan = gl_handle_delegated_scan E g,
       d_handle_delegated_pr_scan_hard_fail = gl_handle_delegated_pr_scan_hard_fail E g \<rparr>"


section \<open>Properties\<close>

interpretation gl_template: scm_orchestrator "gl_orch E g d b" for E g d b
  by unfold_locales (simp_all add: gl_orch_def emits_ret)

lemma emits_gl_fetch: "http_scm (sv_scm sv) \<Longrightarrow> emits starts_nothing (gl_fetch_protected E sv i d)"
  unfolding gl_fetch_protected_def by (auto intro!: emits_rules emits_http_nothing [OF http_scm_exec])

lemma gl_pr_handled:
  assumes "http_scm (sv_scm sv)" and "sdk_raises_own E"
  shows "does (gl_execute_pr_scan_workflow E g sv tags) pr_accounted"
  unfolding gl_execute_pr_scan_workflow_def Let_def
  by (intro does_lift_bnd pr_before does_if pr_none gl_template.tag_update_ends emits_project_name emits_find_pr_scans
      emits_gl_fetch gl_template.pr_scan_ends assms)

lemma gl_execute_handled:
  assumes "http_scm (sv_scm sv)" and "sdk_raises_own E"
  shows "does (gl_execute E g sv) mr_accounted"
  unfolding gl_execute_def gl_execute_push_scan_workflow_def
  by (intro does_lift_bnd does_if gl_template.push_scan_ends pr_mr [OF gl_pr_handled] mr_none assms)

lemma gl_execute_capped:
  assumes "http_scm (sv_scm sv)" and "sdk_raises_own E"
  shows "at_most 1 (gl_execute E g sv)"
  unfolding gl_execute_def gl_execute_push_scan_workflow_def gl_execute_pr_scan_workflow_def Let_def
  by (intro at_most_nothing emits_lift at_most_if at_most_simple gl_template.scan_results_capped emits_project_name
      emits_find_pr_scans emits_gl_fetch assms)

text \<open>A branch that is deleted is not scanned: the deletion is recognised before the creation.\<close>

lemma gl_branch_delete_ignored:
  assumes "GitlabOrchestrator E ctx = Inr g" and "\<not> gl_isdiagnostic g"
    and "gl_event g \<in> {JStr ''push:actual'', JStr ''push:branch_create''}"
    and "jp_find E ''$.object_kind'' (message ctx) = [JStr ''push'']"
  shows "\<not> gl_is_no_hash E ''$.after'' (message ctx)"
  using assms
  by (auto simp: GitlabOrchestrator_def ebind_Inr_iff gl_event_of_def gl_push_sub_event_def split: if_splits)

text \<open>A merge request is scanned if its target is the default branch or matches a protected pattern.\<close>

lemma gl_add_protected_keeps:
  "gl_add_protected E d p acc = Inr acc' \<Longrightarrow> set acc \<subseteq> set acc'"
  by (auto simp: gl_add_protected_def ebind_Inr_iff Let_def)

lemma gl_wildcard_protected:
  assumes "efoldM (gl_add_protected E d) ps acc = Inr bs" and "JStr p \<in> set ps"
    and "l_target_branch d = JStr tb" and "fnmatch E tb (normalize_branch_name p)"
  shows "JStr (normalize_branch_name tb) \<in> set bs"
  by (rule efoldM_adds [OF assms(1,2)], erule gl_add_protected_keeps)
    (use assms(3,4) in \<open>auto simp: gl_add_protected_def ebind_Inr_iff Let_def\<close>)

lemma gl_dispatch_token:
  assumes "dispatch_execute E cfg (gl_dispatchable E g) (tr, m) = (r, tr', m')" and "(tr', m') \<noteq> (tr, m)"
  shows "\<exists>rs e. dget cfg ''gl'' = Some rs \<and> e \<in> set rs
    \<and> dget (headers (gl_ctx g)) ''X-Gitlab-Token'' = Some (shared_secret (sv_scm (route_services e)))"
  using dispatch_authenticated [OF assms]
  by (fastforce simp: gl_dispatchable_def gl_is_signature_valid_def get_header_key_safe_def)

end
