(* ===== verification/AdoOrch.thy ===== *)
theory AdoOrch
  imports OrchCommon
begin

text \<open>
  \<open>orchestration/adoe.py\<close>: the Azure DevOps orchestrator. Its events carry one clone URL only; the
  other is asked from the API before a workflow runs. The protected branches come from the policies
  of the project, listed page by page with a continuation token; a policy on a prefix makes the
  branches of the repository be listed too. Both loops run on the fuel of the environment, and a
  server that hands out tokens for ever is the outcome \<open>Diverges\<close>.
\<close>


section \<open>Data\<close>

record adoe =
  ad_ctx :: event_context
  ad_isdiagnostic :: bool
  ad_event :: json
  ad_route_urls :: "json list"
  ad_remote_url :: json
  ad_default_branches :: "json list"
  ad_repo_key :: json
  ad_repo_slug :: json
  ad_collection :: string
  ad_repo_id :: json

definition ad_diag_id :: string where
  "ad_diag_id = ''f844ec47-a9db-4511-8281-8b63f4eaf94e''"

text \<open>\<open>Path(p).name\<close>: the last part of the path that is neither empty nor a dot.\<close>

definition path_name :: "string \<Rightarrow> string" where
  "path_name p = (case rev (filter (\<lambda>s. s \<noteq> [] \<and> s \<noteq> ''.'') (split_on CHR ''/'' p)) of [] \<Rightarrow> [] | s # _ \<Rightarrow> s)"

text \<open>\<open>urlparse(url).path\<close> and \<open>.scheme\<close>.\<close>

definition parsed_path :: "env \<Rightarrow> string \<Rightarrow> string" where
  "parsed_path E u = (case url_parse E u of (s, n, p, _) \<Rightarrow> p)"

definition parsed_scheme :: "env \<Rightarrow> string \<Rightarrow> string" where
  "parsed_scheme E u = fst (url_parse E u)"

definition AzureDevOpsEnterpriseOrchestrator :: "env \<Rightarrow> event_context \<Rightarrow> exc + adoe" where
  "AzureDevOpsEnterpriseOrchestrator E ctx =
     (let m = message ctx in
      if JStr ad_diag_id \<in> set (jp_find E ''$.resourceContainers.account.id'' m) then
        Inr \<lparr> ad_ctx = ctx, ad_isdiagnostic = True, ad_event = JNull, ad_route_urls = [], ad_remote_url = JNull,
              ad_default_branches = [], ad_repo_key = JNull, ad_repo_slug = JNull, ad_collection = [], ad_repo_id = JNull \<rparr>
      else
        ebind (find1 E ''$.eventType'' m) (\<lambda>ev.
        let urls = jp_find E ''$.resource.repository.remoteUrl'' m in
        ebind (first urls) (\<lambda>remote.
        ebind (emapM normalize_json_branch (jp_find E ''$.resource.repository.defaultBranch'' m)) (\<lambda>defs.
        ebind (find1 E ''$.resource.repository.project.name'' m) (\<lambda>key.
        ebind (find1 E ''$.resource.repository.name'' m) (\<lambda>slug.
        ebind (find1 E ''$.resourceContainers.collection.baseUrl'' m) (\<lambda>curl.
        ebind (as_arg curl) (\<lambda>c.
        ebind (find1 E ''$.resource.repository.id'' m) (\<lambda>rid.
        Inr \<lparr> ad_ctx = ctx, ad_isdiagnostic = False, ad_event = ev, ad_route_urls = urls, ad_remote_url = remote,
              ad_default_branches = defs, ad_repo_key = key, ad_repo_slug = slug,
              ad_collection = path_name (parsed_path E c), ad_repo_id = rid \<rparr>)))))))))"

text \<open>The secret is the last part of the decoded credentials, \<open>user:secret\<close>.\<close>

definition ad_is_signature_valid :: "env \<Rightarrow> event_context \<Rightarrow> string \<Rightarrow> exc + bool" where
  "ad_is_signature_valid E ctx secret =
     (case get_header_key_safe ctx ''Authorization'' of
        None \<Rightarrow> Inr False
      | Some auth \<Rightarrow>
          ebind (b64decode_utf8 E (last (split_on CHR '' '' auth))) (\<lambda>credentials.
          Inr (last (split_on CHR '':'' credentials) = secret)))"


section \<open>Protected branches\<close>

definition continuation :: "response \<Rightarrow> string option" where
  "continuation r = dget (resp_headers r) ''x-ms-continuationtoken''"

definition token_query :: "string option \<Rightarrow> json" where
  "token_query token = JObj (case token of None \<Rightarrow> [] | Some t \<Rightarrow> [(''continuationToken'', JStr t)])"

text \<open>
  Both loops: request a page, handle it, go on while the response has a continuation token.
\<close>

fun ado_pages :: "(json \<Rightarrow> response cio) \<Rightarrow> (json \<Rightarrow> 's \<Rightarrow> exc + 's) \<Rightarrow> nat \<Rightarrow> string option \<Rightarrow> 's \<Rightarrow> 's cio" where
  "ado_pages request handle 0 token acc = raise Diverges"
| "ado_pages request handle (Suc n) token acc =
     bnd (request (token_query token)) (\<lambda>r.
     bnd (lift (json_on_ok r)) (\<lambda>j.
     bnd (lift (handle j acc)) (\<lambda>acc'.
     case continuation r of
       None \<Rightarrow> ret acc'
     | Some t \<Rightarrow> ado_pages request handle n (Some t) acc')))"

text \<open>One policy scope: a branch of this repository, which may be a prefix.\<close>

definition add_policy :: "adoe \<Rightarrow> json \<Rightarrow> string list \<times> string list \<Rightarrow> exc + string list \<times> string list" where
  "add_policy a p = (\<lambda>(branches, starts).
     ebind (as_dict p) (\<lambda>d.
     if ''refName'' \<notin> set (dkeys d) then Inr (branches, starts)
     else
       ebind (jget p ''repositoryId'') (\<lambda>rid.
       if rid \<noteq> ad_repo_id a then Inr (branches, starts)
       else
         ebind (jget p ''refName'') (\<lambda>n. ebind (as_str n) (\<lambda>s.
         ebind (jget p ''matchKind'') (\<lambda>mkind.
         let b = normalize_branch_name s in
         Inr (branches @ [b], if mkind = JStr ''Prefix'' then starts @ [b] else starts)))))))"

definition policy_page :: "env \<Rightarrow> adoe \<Rightarrow> json \<Rightarrow> string list \<times> string list \<Rightarrow> exc + string list \<times> string list" where
  "policy_page E a j = efoldM (add_policy a) (jp_find E ''$.value[*].settings.scope[*]'' j)"

text \<open>
  The pattern is an alternation of escaped names, and \<open>match\<close> looks at the start of the branch: it
  matches the branches that start with one of the names.
\<close>

definition refs_page :: "env \<Rightarrow> string list \<Rightarrow> json \<Rightarrow> string list \<Rightarrow> exc + string list" where
  "refs_page E starts j branches =
     ebind (emapM (\<lambda>v. ebind (as_str v) (\<lambda>s. Inr (normalize_branch_name s))) (jp_find E ''$.value[*].name'' j)) (\<lambda>names.
     Inr (branches @ filter (\<lambda>b. list_ex (\<lambda>p. startswith b p) starts) (list_set E names)))"

definition ad_project_path :: "env \<Rightarrow> adoe \<Rightarrow> string" where
  "ad_project_path E a = ''/'' @ ad_collection a @ ''/'' @ pstr E (ad_repo_key a)"

definition ad_policy_request :: "env \<Rightarrow> adoe \<Rightarrow> scm_service \<Rightarrow> json \<Rightarrow> response cio" where
  "ad_policy_request E a scm q =
     scm_exec scm None ''GET'' (ad_project_path E a @ ''/_apis/policy/configurations'') (no_args\<lparr> rq_query := q \<rparr>)"

definition ad_refs_request :: "env \<Rightarrow> adoe \<Rightarrow> scm_service \<Rightarrow> json \<Rightarrow> response cio" where
  "ad_refs_request E a scm q =
     scm_exec scm None ''GET'' (ad_project_path E a @ ''/_apis/git/repositories/'' @ pstr E (ad_repo_id a) @ ''/refs'')
       (no_args\<lparr> rq_query := q \<rparr>)"

definition ad_protected_branches_from_policies :: "env \<Rightarrow> adoe \<Rightarrow> scm_service \<Rightarrow> string list cio" where
  "ad_protected_branches_from_policies E a scm =
     bnd (ado_pages (ad_policy_request E a scm) (policy_page E a) (fuel E) None ([], [])) (\<lambda>(branches, starts).
     bnd (if starts \<noteq> [] then ado_pages (ad_refs_request E a scm) (refs_page E starts) (fuel E) None branches
          else ret branches) (\<lambda>bs.
     ret (list_set E bs)))"

definition ad_get_protected_branches :: "env \<Rightarrow> adoe \<Rightarrow> scm_service \<Rightarrow> json list cio" where
  "ad_get_protected_branches E a scm =
     bnd (ad_protected_branches_from_policies E a scm) (\<lambda>bs. ret (ad_default_branches a @ map JStr bs))"


section \<open>Event data\<close>

record ad_data =
  a_source_branch :: json
  a_target_branch :: json
  a_source_hash :: json
  a_target_hash :: json
  a_pr_id :: json
  a_pr_state :: json
  a_pr_status :: json

definition ad_populate_common_push_data :: "env \<Rightarrow> json \<Rightarrow> exc + ad_data" where
  "ad_populate_common_push_data E m =
     ebind (ebind (find1 E ''$.resource.refUpdates..name'' m) normalize_json_branch) (\<lambda>b.
     ebind (find1 E ''$.resource.refUpdates..newObjectId'' m) (\<lambda>h.
     Inr \<lparr> a_source_branch = b, a_target_branch = b, a_source_hash = h, a_target_hash = h,
           a_pr_id = JNull, a_pr_state = JNull, a_pr_status = JNull \<rparr>))"

text \<open>The votes of the reviewers; booleans are the integers 0 and 1.\<close>

definition ad_status_of :: "int \<Rightarrow> string option" where
  "ad_status_of n = map_of [(-10, ''REJECTED''), (-5, ''WAIT_AUTHOR''), (0, ''NO_REVIEW''), (5, ''APPROVED_COMMENTS''),
     (10, ''APPROVED'')] n"

definition ad_pr_vote :: "json \<Rightarrow> exc + string" where
  "ad_pr_vote v = ebind (as_key v) (\<lambda>k.
     case as_int k of
       Inl _ \<Rightarrow> Inl (KeyError [])
     | Inr n \<Rightarrow> (case ad_status_of n of None \<Rightarrow> Inl (KeyError []) | Some s \<Rightarrow> Inr s))"

definition joined_status :: "env \<Rightarrow> string list \<Rightarrow> json" where
  "joined_status E statuses =
     JStr (if list_set E statuses = [] then ''NO_REVIEWERS'' else join ''/'' (list_set E statuses))"

definition ad_populate_common_pr_data :: "env \<Rightarrow> json \<Rightarrow> exc + ad_data" where
  "ad_populate_common_pr_data E m =
     ebind (ebind (find1 E ''$.resource.sourceRefName'' m) normalize_json_branch) (\<lambda>sb.
     ebind (ebind (find1 E ''$.resource.targetRefName'' m) normalize_json_branch) (\<lambda>tb.
     ebind (find1 E ''$.resource.lastMergeSourceCommit[commitId]'' m) (\<lambda>sh.
     ebind (find1 E ''$.resource.lastMergeTargetCommit[commitId]'' m) (\<lambda>th.
     ebind (find1 E ''$.resource.pullRequestId'' m) (\<lambda>i.
     ebind (emapM ad_pr_vote (jp_find E ''$.resource.reviewers[*].vote'' m)) (\<lambda>statuses.
     ebind (find1 E ''$.resource.status'' m) (\<lambda>st.
     Inr \<lparr> a_source_branch = sb, a_target_branch = tb, a_source_hash = sh, a_target_hash = th,
           a_pr_id = JStr (pstr E i), a_pr_state = st, a_pr_status = joined_status E statuses \<rparr>)))))))"

text \<open>
  The clone URLs are an attribute that \<open>__common_execution_steps\<close> sets; reading it before raises.
\<close>

definition ad_common_execution_steps :: "env \<Rightarrow> adoe \<Rightarrow> services \<Rightarrow> json dict cio" where
  "ad_common_execution_steps E a sv =
     bnd (scm_exec (sv_scm sv) None ''GET'' (ad_project_path E a @ ''/_apis/git/repositories/'' @ pstr E (ad_repo_slug a)) no_args) (\<lambda>r.
     bnd (lift (json_on_ok r)) (\<lambda>details.
     bnd (lift (as_arg (ad_remote_url a))) (\<lambda>remote.
     bnd (lift (jget details ''sshUrl'')) (\<lambda>ssh.
     ret (dset ''ssh'' ssh [(parsed_scheme E remote, ad_remote_url a)])))))"

definition ad_repo_clone_url :: "json dict option \<Rightarrow> cloner \<Rightarrow> exc + json" where
  "ad_repo_clone_url urls c =
     (case urls of None \<Rightarrow> Inl (AttributeError ''__clone_urls'') | Some us \<Rightarrow> url_for_cloner us c)"

definition ad_default_project_name :: "env \<Rightarrow> adoe \<Rightarrow> exc + string" where
  "ad_default_project_name E a =
     ebind (as_arg (ad_remote_url a)) (\<lambda>remote. ebind (clone_url_org E ''azure'' remote) (\<lambda>org.
     Inr (ado_create_project_name E org (ad_repo_key a) (ad_repo_slug a))))"

definition ad_orch :: "env \<Rightarrow> adoe \<Rightarrow> json dict option \<Rightarrow> ad_data \<Rightarrow> bool \<Rightarrow> orch" where
  "ad_orch E a urls d delegated =
     \<lparr> o_class = ''orchestration.adoe.AzureDevOpsEnterpriseOrchestrator'', o_config_key = ''adoe'',
       o_event_context = ad_ctx a, o_delegated_scan = delegated,
       o_protected_branches = ad_get_protected_branches E a,
       o_target_branch_and_hash = ret (a_target_branch d, a_target_hash d),
       o_source_branch_and_hash = ret (a_source_branch d, a_source_hash d),
       o_clone_url = ad_repo_clone_url urls, o_default_project_name = lift (ad_default_project_name E a),
       o_pr_id = Inr (a_pr_id d), o_pr_state = Inr (a_pr_state d), o_pr_status = Inr (a_pr_status d),
       o_repo_project_key = Inr (ad_repo_key a), o_repo_organization = Inr (JStr (ad_collection a)),
       o_repo_slug = Inr (ad_repo_slug a) \<rparr>"


section \<open>Workflows\<close>

definition ad_execute_push_scan_workflow :: "env \<Rightarrow> adoe \<Rightarrow> json dict \<Rightarrow> services \<Rightarrow> exec_result cio" where
  "ad_execute_push_scan_workflow E a urls sv =
     bnd (lift (ad_populate_common_push_data E (message (ad_ctx a)))) (\<lambda>d.
     bnd (execute_push_scan_workflow E (ad_orch E a (Some urls) d False) sv []) (\<lambda>(ins, act). ret (RScan ins act)))"

definition ad_execute_delegated_push_scan_workflow :: "env \<Rightarrow> adoe \<Rightarrow> json dict \<Rightarrow> services \<Rightarrow> string \<Rightarrow> exec_result cio" where
  "ad_execute_delegated_push_scan_workflow E a urls sv sid =
     bnd (lift (ad_populate_common_push_data E (message (ad_ctx a)))) (\<lambda>d.
     bnd (execute_delegated_push_scan_workflow E (ad_orch E a (Some urls) d True) sv sid) (\<lambda>(ins, act).
     ret (RScan (Some ins) act)))"

definition ad_execute_delegated_pr_scan_workflow :: "env \<Rightarrow> adoe \<Rightarrow> json dict \<Rightarrow> services \<Rightarrow> string \<Rightarrow> exec_result cio" where
  "ad_execute_delegated_pr_scan_workflow E a urls sv sid =
     bnd (lift (ad_populate_common_pr_data E (message (ad_ctx a)))) (\<lambda>d.
     bnd (execute_delegated_pr_scan_workflow E (ad_orch E a (Some urls) d True) sv sid) (\<lambda>act. ret (RAction act)))"

text \<open>The hard failure handler does not run the common steps first: there are no clone URLs.\<close>

definition ad_handle_delegated_pr_scan_hard_fail :: "env \<Rightarrow> adoe \<Rightarrow> services option \<Rightarrow> string \<Rightarrow> unit cio" where
  "ad_handle_delegated_pr_scan_hard_fail E a svo fail_msg =
     bnd (lift (ad_populate_common_pr_data E (message (ad_ctx a)))) (\<lambda>d.
     bnd (lift (need svo)) (\<lambda>sv.
     bnd (make_prdetails (ad_orch E a None d False) sv) (\<lambda>det.
     exec_pr_prescan_failure (sv_scm sv) det fail_msg)))"

definition ad_repo_details :: "env \<Rightarrow> adoe \<Rightarrow> services \<Rightarrow> response cio" where
  "ad_repo_details E a sv =
     bnd (lift (find1 E ''$.resource.repository.id'' (message (ad_ctx a)))) (\<lambda>rid.
     scm_exec (sv_scm sv) None ''GET''
       (ad_collection a @ ''/'' @ pstr E (ad_repo_key a) @ ''/_apis/git/repositories/'' @ pstr E rid) no_args)"

definition ad_execute_pr_scan_workflow :: "env \<Rightarrow> adoe \<Rightarrow> json dict \<Rightarrow> services \<Rightarrow> exec_result cio" where
  "ad_execute_pr_scan_workflow E a urls sv =
     (let m = message (ad_ctx a) in
      bnd (lift (find1 E ''$.resource.isDraft'' m)) (\<lambda>draft.
      if truthy draft then bnd (lift (find1 E ''$.resource._links.web.href'' m)) (\<lambda>_. ret RNone)
      else
        bnd (lift (ad_populate_common_pr_data E m)) (\<lambda>d.
        bnd (lift (ad_default_project_name E a)) (\<lambda>def_name.
        bnd (get_project_name (sv_naming sv) def_name (ad_ctx a)) (\<lambda>name.
        bnd (find_pr_scans E name (a_pr_id d) (a_source_hash d)) (\<lambda>existing.
        if existing \<noteq> [] then
          bnd (execute_pr_tag_update_workflow E (ad_orch E a (Some urls) d False) sv) (\<lambda>scans. ret (RScans scans))
        else
          bnd (ad_repo_details E a sv) (\<lambda>r.
          if \<not> ok r then ret RNone
          else
            bnd (lift (ebind (jget (body r) ''defaultBranch'') normalize_json_branch)) (\<lambda>b.
            bnd (execute_pr_scan_workflow E (ad_orch E (a\<lparr> ad_default_branches := [b] \<rparr>) (Some urls) d False) sv []) (\<lambda>act.
            ret (RAction act))))))))))"

definition ad_execute :: "env \<Rightarrow> adoe \<Rightarrow> services \<Rightarrow> exec_result cio" where
  "ad_execute E a sv =
     bnd (lift (as_key (ad_event a))) (\<lambda>ev.
     if ev \<notin> {JStr ''git.push'', JStr ''git.pullrequest.created'', JStr ''git.pullrequest.updated''} then ret RNone
     else
       bnd (ad_common_execution_steps E a sv) (\<lambda>urls.
       if ev = JStr ''git.push'' then ad_execute_push_scan_workflow E a urls sv
       else ad_execute_pr_scan_workflow E a urls sv))"

definition ad_handle_delegated_scan :: "env \<Rightarrow> adoe \<Rightarrow> services option \<Rightarrow> string \<Rightarrow> exec_result cio" where
  "ad_handle_delegated_scan E a svo sid =
     bnd (lift (as_key (ad_event a))) (\<lambda>ev.
     if ev \<notin> {JStr ''git.push'', JStr ''git.pullrequest.created'', JStr ''git.pullrequest.updated''} then ret RNone
     else
       bnd (lift (need svo)) (\<lambda>sv.
       bnd (ad_common_execution_steps E a sv) (\<lambda>urls.
       if ev = JStr ''git.push'' then ad_execute_delegated_push_scan_workflow E a urls sv sid
       else ad_execute_delegated_pr_scan_workflow E a urls sv sid)))"

definition ad_dispatchable :: "env \<Rightarrow> adoe \<Rightarrow> dispatchable" where
  "ad_dispatchable E a =
     \<lparr> d_config_key = ''adoe'', d_is_diagnostic = ad_isdiagnostic a, d_route_urls = Inr (ad_route_urls a),
       d_is_signature_valid = ad_is_signature_valid E (ad_ctx a), d_execute = ad_execute E a,
       d_handle_delegated_scan = ad_handle_delegated_scan E a,
       d_handle_delegated_pr_scan_hard_fail = ad_handle_delegated_pr_scan_hard_fail E a \<rparr>"


section \<open>Properties\<close>

lemma emits_ado_pages [emits_rules]:
  "(\<And>q. emits P (request q)) \<Longrightarrow> emits P (ado_pages request handle n token acc)"
  by (induction n arbitrary: token acc) (auto intro!: emits_rules)

interpretation ad_template: scm_orchestrator "ad_orch E a urls d b" for E a urls d b
proof unfold_locales
  fix scm assume "http_scm scm"
  then show "emits http_or_sleep (o_protected_branches (ad_orch E a urls d b) scm)"
    by (auto simp: ad_orch_def ad_get_protected_branches_def ad_protected_branches_from_policies_def
        ad_policy_request_def ad_refs_request_def intro!: emits_rules)
qed (simp_all add: ad_orch_def emits_ret emits_lift)

lemma emits_ad_steps: "http_scm (sv_scm sv) \<Longrightarrow> emits http_or_sleep (ad_common_execution_steps E a sv)"
  unfolding ad_common_execution_steps_def by (intro emits_rules)

lemma emits_ad_details: "http_scm (sv_scm sv) \<Longrightarrow> emits starts_nothing (ad_repo_details E a sv)"
  unfolding ad_repo_details_def by (intro emits_bnd emits_lift emits_http_nothing http_scm_exec)

lemma ad_pr_handled:
  assumes "http_scm (sv_scm sv)" and "sdk_raises_own E"
  shows "does (ad_execute_pr_scan_workflow E a urls sv) pr_accounted"
  unfolding ad_execute_pr_scan_workflow_def Let_def
  by (intro does_lift_bnd pr_before does_if pr_none ad_template.tag_update_ends emits_project_name emits_find_pr_scans
      emits_ad_details ad_template.pr_scan_ends assms)

lemma ad_execute_handled:
  assumes "http_scm (sv_scm sv)" and "sdk_raises_own E"
  shows "does (ad_execute E a sv) mr_accounted"
  unfolding ad_execute_def ad_execute_push_scan_workflow_def
  by (intro does_lift_bnd does_if mr_before [OF emits_ad_steps] ad_template.push_scan_ends pr_mr [OF ad_pr_handled]
      mr_none assms)

lemma ad_execute_capped:
  assumes "http_scm (sv_scm sv)" and "sdk_raises_own E"
  shows "at_most 1 (ad_execute E a sv)"
  unfolding ad_execute_def ad_execute_push_scan_workflow_def ad_execute_pr_scan_workflow_def Let_def
  by (intro at_most_nothing emits_lift at_most_if at_most_simple ad_template.scan_results_capped emits_project_name
      emits_find_pr_scans emits_ad_details emits_http_nothing [OF emits_ad_steps] assms)

text \<open>A server that lists the pages of something, each but the last with the token of the next.\<close>

definition ado_serves :: "(json \<Rightarrow> response cio) \<Rightarrow> json list \<Rightarrow> (nat \<Rightarrow> string option) \<Rightarrow> bool" where
  "ado_serves request pages tok \<longleftrightarrow> pages \<noteq> [] \<and> tok 0 = None \<and> (\<forall>i. 0 < i \<longrightarrow> tok i \<noteq> None)
     \<and> (\<forall>i w. i < length pages \<longrightarrow>
         (\<exists>r w'. request (token_query (tok i)) w = (Inr r, w') \<and> ok r \<and> body r = pages ! i
            \<and> continuation r = (if Suc i < length pages then tok (Suc i) else None)))"

lemma ado_pages_from:
  assumes "ado_serves request pages tok" and "i < length pages" and "length pages \<le> n + i"
    and "efoldM handle (drop i pages) acc = Inr acc'"
  shows "\<exists>w'. ado_pages request handle n (tok i) acc w = (Inr acc', w')"
  using assms(2-)
proof (induction n arbitrary: i acc w)
  case (Suc n)
  obtain r w1 where r: "request (token_query (tok i)) w = (Inr r, w1)" "json_on_ok r = Inr (pages ! i)"
    and c: "continuation r = (if Suc i < length pages then tok (Suc i) else None)"
    using assms(1) Suc.prems(1) unfolding ado_serves_def json_on_ok_def by metis
  obtain acc1 where acc1: "handle (pages ! i) acc = Inr acc1" "efoldM handle (drop (Suc i) pages) acc1 = Inr acc'"
    using Suc.prems(1,3) by (auto simp: Cons_nth_drop_Suc [symmetric] ebind_Inr_iff)
  show ?case
  proof (cases "Suc i < length pages")
    case True
    then obtain t where t: "tok (Suc i) = Some t" using assms(1) unfolding ado_serves_def by blast
    from Suc.IH [OF True _ acc1(2), of w1] Suc.prems(2) obtain w' where
      "ado_pages request handle n (Some t) acc1 w1 = (Inr acc', w')" by (auto simp: t)
    then show ?thesis using r c True acc1(1) by (simp add: t bnd_step)
  next
    case False
    then show ?thesis using r c acc1 by (simp add: bnd_step)
  qed
qed simp

lemma ado_pages_all:
  assumes "ado_serves request pages tok" and "length pages \<le> n" and "efoldM handle pages acc = Inr acc'"
  shows "\<exists>w'. ado_pages request handle n None acc w = (Inr acc', w')"
  using ado_pages_from [OF assms(1), of 0 n handle acc acc' w] assms by (auto simp: ado_serves_def)

text \<open>What the two folds collect: they only add branches, and add those of every page.\<close>

lemma add_policy_grows:
  "add_policy a p s = Inr s' \<Longrightarrow> set (fst s) \<subseteq> set (fst s')"
  "add_policy a p s = Inr s' \<Longrightarrow> set (snd s) \<subseteq> set (snd s')"
  by (auto simp: add_policy_def ebind_Inr_iff Let_def split: prod.splits if_splits)

lemma refs_page_grows: "refs_page E starts j bs = Inr bs' \<Longrightarrow> set bs \<subseteq> set bs'"
  by (auto simp: refs_page_def ebind_Inr_iff)

definition policy_on :: "adoe \<Rightarrow> json \<Rightarrow> string \<Rightarrow> string \<Rightarrow> bool" where
  "policy_on a p ref mkind \<longleftrightarrow> (\<exists>d. p = JObj d \<and> dget d ''refName'' = Some (JStr ref)
     \<and> dget d ''repositoryId'' = Some (ad_repo_id a) \<and> dget d ''matchKind'' = Some (JStr mkind))"

lemma add_policy_adds:
  assumes "policy_on a p ref mkind" and "add_policy a p s = Inr s'"
  shows "normalize_branch_name ref \<in> set (fst s')" and "mkind = ''Prefix'' \<Longrightarrow> normalize_branch_name ref \<in> set (snd s')"
proof -
  obtain bs starts where s: "s = (bs, starts)" by (cases s)
  from assms(1) obtain d where d: "p = JObj d" "dget d ''refName'' = Some (JStr ref)"
    "dget d ''repositoryId'' = Some (ad_repo_id a)" "dget d ''matchKind'' = Some (JStr mkind)"
    by (auto simp: policy_on_def)
  have "''refName'' \<in> set (dkeys d)" using map_of_SomeD [OF d(2)] by force
  then have "s' = (bs @ [normalize_branch_name ref],
      if mkind = ''Prefix'' then starts @ [normalize_branch_name ref] else starts)"
    using assms(2) by (simp add: add_policy_def s d Let_def)
  then show "normalize_branch_name ref \<in> set (fst s')"
    "mkind = ''Prefix'' \<Longrightarrow> normalize_branch_name ref \<in> set (snd s')" by simp_all
qed

lemma policy_pages_collect:
  assumes "efoldM (policy_page E a) pages s = Inr s'" and "j \<in> set pages"
    and "p \<in> set (jp_find E ''$.value[*].settings.scope[*]'' j)" and "policy_on a p ref mkind"
  shows "normalize_branch_name ref \<in> set (fst s')" and "mkind = ''Prefix'' \<Longrightarrow> normalize_branch_name ref \<in> set (snd s')"
proof -
  have grows: "policy_page E a y t = Inr t' \<Longrightarrow> set (fst t) \<subseteq> set (fst t')"
    "policy_page E a y t = Inr t' \<Longrightarrow> set (snd t) \<subseteq> set (snd t')" for y t t'
    unfolding policy_page_def by (erule efoldM_grows, erule add_policy_grows)+
  have adds: "policy_page E a j t = Inr t' \<Longrightarrow> normalize_branch_name ref \<in> set (fst t')"
    "policy_page E a j t = Inr t' \<Longrightarrow> mkind = ''Prefix'' \<Longrightarrow> normalize_branch_name ref \<in> set (snd t')" for t t'
    unfolding policy_page_def
    by (erule efoldM_adds [OF _ assms(3), where M = "\<lambda>t. set (fst t)"], erule add_policy_grows, erule add_policy_adds [OF assms(4)],
        erule efoldM_adds [OF _ assms(3), where M = "\<lambda>t. set (snd t)"], erule add_policy_grows, erule add_policy_adds [OF assms(4)])
  show "normalize_branch_name ref \<in> set (fst s')"
    by (rule efoldM_adds [OF assms(1,2), where M = "\<lambda>t. set (fst t)"], erule grows, erule adds)
  show "mkind = ''Prefix'' \<Longrightarrow> normalize_branch_name ref \<in> set (snd s')"
    by (rule efoldM_adds [OF assms(1,2), where M = "\<lambda>t. set (snd t)"], erule grows, erule adds)
qed

lemma refs_page_adds:
  assumes "refs_page E starts j bs = Inr bs'" and "JStr v \<in> set (jp_find E ''$.value[*].name'' j)"
    and "p \<in> set starts" and "startswith (normalize_branch_name v) p" and "\<And>xs. set (list_set E xs) = set xs"
  shows "normalize_branch_name v \<in> set bs'"
proof -
  from assms(1) obtain names where n: "emapM (\<lambda>v. ebind (as_str v) (\<lambda>s. Inr (normalize_branch_name s)))
      (jp_find E ''$.value[*].name'' j) = Inr names"
    and bs': "bs' = bs @ filter (\<lambda>b. list_ex (\<lambda>p. startswith b p) starts) (list_set E names)"
    by (auto simp: refs_page_def ebind_Inr_iff)
  from emapM_set [OF n assms(2)] have "normalize_branch_name v \<in> set names" by auto
  then show ?thesis using assms(3-) by (auto simp: bs' list_ex_iff)
qed

text \<open>
  The protected branches contain every branch a policy of the repository names, on whatever page,
  and every branch that starts with the name of a policy on a prefix.
\<close>

lemma ad_policy_branches:
  assumes serves: "ado_serves (ad_policy_request E a scm) ppages ptok" "ado_serves (ad_refs_request E a scm) rpages rtok"
    and enough: "length ppages \<le> fuel E" "length rpages \<le> fuel E"
    and well: "efoldM (policy_page E a) ppages ([], []) = Inr (bs, starts)" "efoldM (refs_page E starts) rpages bs = Inr all"
    and sets: "\<And>xs. set (list_set E xs) = set xs"
    and policy: "j \<in> set ppages" "p \<in> set (jp_find E ''$.value[*].settings.scope[*]'' j)" "policy_on a p ref mkind"
  shows "\<exists>ps w'. ad_get_protected_branches E a scm w = (Inr ps, w') \<and> JStr (normalize_branch_name ref) \<in> set ps
    \<and> (mkind = ''Prefix'' \<longrightarrow> (\<forall>k\<in>set rpages. \<forall>v. JStr v \<in> set (jp_find E ''$.value[*].name'' k)
         \<longrightarrow> startswith (normalize_branch_name v) (normalize_branch_name ref) \<longrightarrow> JStr (normalize_branch_name v) \<in> set ps))"
proof -
  obtain w1 where w1: "ado_pages (ad_policy_request E a scm) (policy_page E a) (fuel E) None ([], []) w = (Inr (bs, starts), w1)"
    using ado_pages_all [OF serves(1) enough(1) well(1)] by blast
  obtain w2 where w2: "ado_pages (ad_refs_request E a scm) (refs_page E starts) (fuel E) None bs w1 = (Inr all, w2)"
    using ado_pages_all [OF serves(2) enough(2) well(2)] by blast
  have named: "normalize_branch_name ref \<in> set bs" "mkind = ''Prefix'' \<Longrightarrow> normalize_branch_name ref \<in> set starts"
    using policy_pages_collect [OF well(1) policy] by simp_all
  have grown: "set bs \<subseteq> set all" by (rule efoldM_grows [OF well(2)]) (rule refs_page_grows)
  have matched: "normalize_branch_name v \<in> set all"
    if "mkind = ''Prefix''" "k \<in> set rpages" "JStr v \<in> set (jp_find E ''$.value[*].name'' k)"
      "startswith (normalize_branch_name v) (normalize_branch_name ref)" for k v
    by (rule efoldM_adds [OF well(2) that(2)], erule refs_page_grows,
        erule refs_page_adds [OF _ that(3) named(2) [OF that(1)] that(4) sets])
  let ?found = "if starts \<noteq> [] then all else bs"
  have run: "ad_get_protected_branches E a scm w =
      (Inr (ad_default_branches a @ map JStr (list_set E ?found)), if starts \<noteq> [] then w2 else w1)"
    using w1 w2 by (simp add: ad_get_protected_branches_def ad_protected_branches_from_policies_def bnd_step ret_def bnd_def)
  have found: "normalize_branch_name ref \<in> set ?found" using named(1) grown by auto
  have more: "normalize_branch_name v \<in> set ?found"
    if "mkind = ''Prefix''" "k \<in> set rpages" "JStr v \<in> set (jp_find E ''$.value[*].name'' k)"
      "startswith (normalize_branch_name v) (normalize_branch_name ref)" for k v
    using matched [OF that] named(2) [OF that(1)] by auto
  show ?thesis
    unfolding run using found more by (simp add: sets image_iff)
qed

lemma ad_dispatch_secret:
  assumes "dispatch_execute E cfg (ad_dispatchable E a) (tr, m) = (r, tr', m')" and "(tr', m') \<noteq> (tr, m)"
  shows "\<exists>rs e u auth credentials. dget cfg ''adoe'' = Some rs \<and> e \<in> set rs \<and> JStr u \<in> set (ad_route_urls a)
    \<and> re_match E (route_matcher e) u \<and> dget (headers (ad_ctx a)) ''Authorization'' = Some auth
    \<and> b64decode_utf8 E (last (split_on CHR '' '' auth)) = Inr credentials
    \<and> last (split_on CHR '':'' credentials) = shared_secret (sv_scm (route_services e))"
  using dispatch_authenticated [OF assms]
  by (fastforce simp: ad_dispatchable_def ad_is_signature_valid_def get_header_key_safe_def ebind_Inr_iff
      split: option.splits)

text \<open>The hard failure of a delegated scan is never written to the pull request.\<close>

lemma ad_hard_fail_unreported:
  "\<exists>e. ad_handle_delegated_pr_scan_hard_fail E a sv fail_msg w = (Inl e, w)"
  by (cases w, cases sv)
    (auto simp: ad_handle_delegated_pr_scan_hard_fail_def make_prdetails_def ad_orch_def ad_repo_clone_url_def need_def
      bnd_app split: sum.splits)

end
