(* ===== verification/BbOrch.thy ===== *)
theory BbOrch
  imports OrchCommon
begin

text \<open>
  \<open>orchestration/bitbucket\<close>: the orchestrators of Bitbucket Data Center (\<open>bbdc.py\<close>) and Bitbucket
  Cloud (\<open>bbc.py\<close>), and what they share (\<open>bbbase.py\<close>): the event name and the signature header.

  A Data Center payload has the clone URLs and the data of the repository; the protected branches
  are the development and production branches of its branch model. A Cloud payload names the
  repository only, its slug and clone URLs are asked from the API, again for each workflow step.
\<close>


section \<open>Both editions\<close>

definition bb_event_name :: "event_context \<Rightarrow> string option" where
  "bb_event_name ctx = get_header_key_safe ctx ''X-Event-Key''"

definition bb_is_signature_valid :: "env \<Rightarrow> event_context \<Rightarrow> string \<Rightarrow> exc + bool" where
  "bb_is_signature_valid E ctx secret = hub_signature_valid E ''X-Hub-Signature'' ctx secret"

record bb_data =
  b_project_key :: json
  b_project_name :: json
  b_repo_slug :: json
  b_repo_name :: json
  b_source_branch :: json
  b_target_branch :: json
  b_source_hash :: json
  b_target_hash :: json
  b_pr_id :: json
  b_pr_state :: json
  b_pr_status :: json

datatype bb_handler = BbPushScan | BbPrScan | BbPrTagUpdate


section \<open>Data Center\<close>

record bbdc =
  dc_ctx :: event_context
  dc_isdiagnostic :: bool
  dc_clone_urls :: "(json \<times> json) list"

text \<open>One entry of a dictionary of clone URLs; the name is a key and must be hashable.\<close>

definition dc_add_clone_url :: "json \<Rightarrow> (json \<times> json) list \<Rightarrow> exc + (json \<times> json) list" where
  "dc_add_clone_url entry urls =
     ebind (jget entry ''name'') (\<lambda>name. ebind (jget entry ''href'') (\<lambda>href.
     ebind (as_key name) (\<lambda>k. Inr (AList.update k href urls))))"

text \<open>The two comprehensions and their union: entries of the pull request win.\<close>

definition dc_clone_urls_of :: "env \<Rightarrow> json \<Rightarrow> exc + (json \<times> json) list" where
  "dc_clone_urls_of E m =
     ebind (efoldM dc_add_clone_url (jp_find E ''$.repository.links.clone[*]'' m) []) (\<lambda>push_urls.
     efoldM dc_add_clone_url (jp_find E ''$.pullRequest.fromRef.repository.links.clone[*]'' m) push_urls)"

definition BitBucketDataCenterOrchestrator :: "env \<Rightarrow> event_context \<Rightarrow> exc + bbdc" where
  "BitBucketDataCenterOrchestrator E ctx =
     (if bb_event_name ctx = Some ''diagnostics:ping'' then
        Inr \<lparr> dc_ctx = ctx, dc_isdiagnostic = True, dc_clone_urls = [] \<rparr>
      else
        ebind (dc_clone_urls_of E (message ctx)) (\<lambda>urls.
        Inr \<lparr> dc_ctx = ctx, dc_isdiagnostic = False, dc_clone_urls = urls \<rparr>))"

definition dc_route_urls :: "bbdc \<Rightarrow> json list" where
  "dc_route_urls b = map snd (dc_clone_urls b)"

text \<open>The protocols among the keys: only strings can be equal to a protocol.\<close>

definition dc_repo_clone_url :: "bbdc \<Rightarrow> cloner \<Rightarrow> exc + json" where
  "dc_repo_clone_url b c = url_for_cloner [(s, u). (JStr s, u) \<leftarrow> dc_clone_urls b] c"

text \<open>
  A push with a change that adds or updates a branch is a push to the branch of its first change,
  whatever the type of that change is; otherwise there is no branch, and nothing to scan.
\<close>

definition dc_push_change :: "env \<Rightarrow> json \<Rightarrow> exc + json \<times> json" where
  "dc_push_change E m =
     (if list_ex (\<lambda>t. t \<in> {JStr ''ADD'', JStr ''UPDATE''}) (jp_find E ''$.changes[*].type'' m) then
        ebind (find1 E ''$.changes[*]'' m) (\<lambda>change.
        ebind (ebind (jget change ''ref'') (\<lambda>r. jget r ''displayId'')) (\<lambda>branch.
        ebind (jget change ''toHash'') (\<lambda>hash. Inr (branch, hash))))
      else Inr (JNull, JNull))"

definition dc_populate_common_push_data :: "env \<Rightarrow> json \<Rightarrow> exc + bb_data" where
  "dc_populate_common_push_data E m =
     ebind (dc_push_change E m) (\<lambda>(branch, hash).
     ebind (find1 E ''$.repository.project.key'' m) (\<lambda>key.
     ebind (find1 E ''$.repository.project.name'' m) (\<lambda>pname.
     ebind (find1 E ''$.repository.slug'' m) (\<lambda>slug.
     ebind (find1 E ''$.repository.name'' m) (\<lambda>name.
     Inr \<lparr> b_project_key = key, b_project_name = pname, b_repo_slug = slug, b_repo_name = name,
           b_source_branch = branch, b_target_branch = branch, b_source_hash = hash, b_target_hash = hash,
           b_pr_id = JNull, b_pr_state = JNull, b_pr_status = JNull \<rparr>)))))"

text \<open>The states of the reviewers, without repetitions, as one string.\<close>

definition dc_pr_status :: "env \<Rightarrow> json list \<Rightarrow> exc + json" where
  "dc_pr_status E statuses =
     ebind (emapM as_arg statuses) (\<lambda>ss.
     Inr (JStr (if list_set E ss = [] then ''NO_REVIEWERS'' else join ''/'' (list_set E ss))))"

definition dc_populate_common_pr_data :: "env \<Rightarrow> json \<Rightarrow> exc + bb_data" where
  "dc_populate_common_pr_data E m =
     ebind (find1 E ''$.pullRequest.toRef'' m) (\<lambda>toref.
     ebind (jget toref ''displayId'') (\<lambda>tb. ebind (jget toref ''latestCommit'') (\<lambda>th.
     ebind (find1 E ''$.pullRequest.fromRef'' m) (\<lambda>fromref.
     ebind (jget fromref ''displayId'') (\<lambda>sb. ebind (jget fromref ''latestCommit'') (\<lambda>sh.
     ebind (find1 E ''$.pullRequest.toRef.repository.project.key'' m) (\<lambda>key.
     ebind (find1 E ''$.pullRequest.toRef.repository.project.name'' m) (\<lambda>pname.
     ebind (find1 E ''$.pullRequest.toRef.repository.slug'' m) (\<lambda>slug.
     ebind (find1 E ''$.pullRequest.toRef.repository.name'' m) (\<lambda>name.
     ebind (find1 E ''$.pullRequest.id'' m) (\<lambda>i.
     ebind (find1 E ''$.pullRequest.state'' m) (\<lambda>st.
     ebind (dc_pr_status E (jp_find E ''$.pullRequest.reviewers[*].status'' m)) (\<lambda>status.
     Inr \<lparr> b_project_key = key, b_project_name = pname, b_repo_slug = slug, b_repo_name = name,
           b_source_branch = sb, b_target_branch = tb, b_source_hash = sh, b_target_hash = th,
           b_pr_id = JStr (pstr E i), b_pr_state = st, b_pr_status = status \<rparr>)))))))))))))"

definition dc_branch_of :: "json dict \<Rightarrow> string \<Rightarrow> exc + json list" where
  "dc_branch_of model k =
     (case dget model k of
        None \<Rightarrow> Inr []
      | Some v \<Rightarrow> ebind (as_dict v) (\<lambda>d. Inr (case dget d ''displayId'' of None \<Rightarrow> [] | Some b \<Rightarrow> [b])))"

definition dc_get_protected_branches :: "env \<Rightarrow> bb_data \<Rightarrow> scm_service \<Rightarrow> json list cio" where
  "dc_get_protected_branches E d scm =
     bnd (scm_exec scm None ''GET'' (''/rest/branch-utils/latest/projects/'' @ pstr E (b_project_key d) @ ''/repos/''
           @ pstr E (b_repo_slug d) @ ''/branchmodel'') no_args) (\<lambda>r.
     if \<not> ok r then raise OrchestrationException
     else
       bnd (lift (as_dict (body r))) (\<lambda>model.
       bnd (lift (dc_branch_of model ''development'')) (\<lambda>dev.
       bnd (lift (dc_branch_of model ''production'')) (\<lambda>prod.
       bnd (lift (emapM as_key (dev @ prod))) (\<lambda>bs. ret (remdups bs))))))"

definition dc_orch :: "env \<Rightarrow> bbdc \<Rightarrow> bb_data \<Rightarrow> bool \<Rightarrow> orch" where
  "dc_orch E b d delegated =
     \<lparr> o_class = ''orchestration.bitbucket.bbdc.BitBucketDataCenterOrchestrator'', o_config_key = ''bbdc'',
       o_event_context = dc_ctx b, o_delegated_scan = delegated,
       o_protected_branches = dc_get_protected_branches E d,
       o_target_branch_and_hash = ret (b_target_branch d, b_target_hash d),
       o_source_branch_and_hash = ret (b_source_branch d, b_source_hash d),
       o_clone_url = dc_repo_clone_url b,
       o_default_project_name = ret (bbdc_create_project_name E (b_project_key d) (b_project_name d) (b_repo_name d)),
       o_pr_id = Inr (b_pr_id d), o_pr_state = Inr (b_pr_state d), o_pr_status = Inr (b_pr_status d),
       o_repo_project_key = Inr (b_project_key d), o_repo_organization = Inr (JStr []),
       o_repo_slug = Inr (b_repo_slug d) \<rparr>"

definition dc_execute_push_scan_workflow :: "env \<Rightarrow> bbdc \<Rightarrow> services \<Rightarrow> exec_result cio" where
  "dc_execute_push_scan_workflow E b sv =
     bnd (lift (dc_populate_common_push_data E (message (dc_ctx b)))) (\<lambda>d.
     bnd (execute_push_scan_workflow E (dc_orch E b d False) sv []) (\<lambda>(ins, a). ret (RScan ins a)))"

definition dc_execute_delegated_push_scan_workflow :: "env \<Rightarrow> bbdc \<Rightarrow> services option \<Rightarrow> string \<Rightarrow> exec_result cio" where
  "dc_execute_delegated_push_scan_workflow E b svo sid =
     bnd (lift (dc_populate_common_push_data E (message (dc_ctx b)))) (\<lambda>d.
     bnd (lift (need svo)) (\<lambda>sv.
     bnd (execute_delegated_push_scan_workflow E (dc_orch E b d True) sv sid) (\<lambda>(ins, a). ret (RScan (Some ins) a))))"

definition dc_execute_delegated_pr_scan_workflow :: "env \<Rightarrow> bbdc \<Rightarrow> services option \<Rightarrow> string \<Rightarrow> exec_result cio" where
  "dc_execute_delegated_pr_scan_workflow E b svo sid =
     bnd (lift (dc_populate_common_pr_data E (message (dc_ctx b)))) (\<lambda>d.
     bnd (lift (need svo)) (\<lambda>sv.
     bnd (execute_delegated_pr_scan_workflow E (dc_orch E b d True) sv sid) (\<lambda>a. ret (RAction a))))"

definition dc_handle_delegated_pr_scan_hard_fail :: "env \<Rightarrow> bbdc \<Rightarrow> services option \<Rightarrow> string \<Rightarrow> unit cio" where
  "dc_handle_delegated_pr_scan_hard_fail E b svo fail_msg =
     bnd (lift (dc_populate_common_pr_data E (message (dc_ctx b)))) (\<lambda>d.
     bnd (lift (need svo)) (\<lambda>sv.
     bnd (make_prdetails (dc_orch E b d False) sv) (\<lambda>det.
     exec_pr_prescan_failure (sv_scm sv) det fail_msg)))"

text \<open>\<open>__is_pr_draft\<close>, and the log line that names the draft.\<close>

definition dc_unless_draft :: "env \<Rightarrow> json \<Rightarrow> exec_result cio \<Rightarrow> exec_result cio" where
  "dc_unless_draft E m k =
     bnd (lift (find_pop E ''$.pullRequest.draft'' m)) (\<lambda>draft.
     if truthy draft then bnd (lift (find_pop E ''$.pullRequest.links['self'][*]['href']'' m)) (\<lambda>_. ret RNone)
     else k)"

definition dc_execute_pr_scan_workflow :: "env \<Rightarrow> bbdc \<Rightarrow> services \<Rightarrow> exec_result cio" where
  "dc_execute_pr_scan_workflow E b sv =
     dc_unless_draft E (message (dc_ctx b))
       (bnd (lift (dc_populate_common_pr_data E (message (dc_ctx b)))) (\<lambda>d.
        bnd (execute_pr_scan_workflow E (dc_orch E b d False) sv []) (\<lambda>a. ret (RAction a))))"

definition dc_execute_pr_tag_update_workflow :: "env \<Rightarrow> bbdc \<Rightarrow> services \<Rightarrow> exec_result cio" where
  "dc_execute_pr_tag_update_workflow E b sv =
     dc_unless_draft E (message (dc_ctx b))
       (bnd (lift (dc_populate_common_pr_data E (message (dc_ctx b)))) (\<lambda>d.
        bnd (execute_pr_tag_update_workflow E (dc_orch E b d False) sv) (\<lambda>scans. ret (RScans scans))))"

definition dc_workflow_map :: "bb_handler dict" where
  "dc_workflow_map =
     [(''repo:refs_changed'', BbPushScan), (''pr:opened'', BbPrScan), (''pr:modified'', BbPrScan),
      (''pr:from_ref_updated'', BbPrScan), (''pr:merged'', BbPrTagUpdate), (''pr:declined'', BbPrTagUpdate),
      (''pr:deleted'', BbPrTagUpdate), (''pr:reviewer:unapproved'', BbPrTagUpdate),
      (''pr:reviewer:updated'', BbPrTagUpdate), (''pr:reviewer:approved'', BbPrTagUpdate),
      (''pr:reviewer:needs_work'', BbPrTagUpdate)]"

definition dc_delegate_scan_handler_map :: "bb_handler dict" where
  "dc_delegate_scan_handler_map =
     [(''repo:refs_changed'', BbPushScan), (''pr:opened'', BbPrScan), (''pr:modified'', BbPrScan),
      (''pr:from_ref_updated'', BbPrScan)]"

definition bb_handler_of :: "bb_handler dict \<Rightarrow> event_context \<Rightarrow> bb_handler option" where
  "bb_handler_of handlers ctx = Option.bind (bb_event_name ctx) (dget handlers)"

definition dc_execute :: "env \<Rightarrow> bbdc \<Rightarrow> services \<Rightarrow> exec_result cio" where
  "dc_execute E b sv =
     (case bb_handler_of dc_workflow_map (dc_ctx b) of
        None \<Rightarrow> ret RNone
      | Some BbPushScan \<Rightarrow> dc_execute_push_scan_workflow E b sv
      | Some BbPrScan \<Rightarrow> dc_execute_pr_scan_workflow E b sv
      | Some BbPrTagUpdate \<Rightarrow> dc_execute_pr_tag_update_workflow E b sv)"

definition dc_handle_delegated_scan :: "env \<Rightarrow> bbdc \<Rightarrow> services option \<Rightarrow> string \<Rightarrow> exec_result cio" where
  "dc_handle_delegated_scan E b svo sid =
     (case bb_handler_of dc_delegate_scan_handler_map (dc_ctx b) of
        Some BbPushScan \<Rightarrow> dc_execute_delegated_push_scan_workflow E b svo sid
      | Some BbPrScan \<Rightarrow> dc_execute_delegated_pr_scan_workflow E b svo sid
      | _ \<Rightarrow> ret RNone)"

definition dc_dispatchable :: "env \<Rightarrow> bbdc \<Rightarrow> dispatchable" where
  "dc_dispatchable E b =
     \<lparr> d_config_key = ''bbdc'', d_is_diagnostic = dc_isdiagnostic b, d_route_urls = Inr (dc_route_urls b),
       d_is_signature_valid = bb_is_signature_valid E (dc_ctx b), d_execute = dc_execute E b,
       d_handle_delegated_scan = dc_handle_delegated_scan E b,
       d_handle_delegated_pr_scan_hard_fail = dc_handle_delegated_pr_scan_hard_fail E b \<rparr>"


section \<open>Cloud\<close>

record bbc =
  bc_ctx :: event_context
  bc_route_urls :: "json list"

definition BitBucketCloudOrchestrator :: "env \<Rightarrow> event_context \<Rightarrow> exc + bbc" where
  "BitBucketCloudOrchestrator E ctx =
     (let urls = jp_find E ''$.repository.links.html.href'' (message ctx) in
      if urls = [] then Inl OrchestrationException else Inr \<lparr> bc_ctx = ctx, bc_route_urls = urls \<rparr>)"

definition bc_get_protected_branches :: "env \<Rightarrow> json \<Rightarrow> bb_data \<Rightarrow> scm_service \<Rightarrow> json list cio" where
  "bc_get_protected_branches E org d scm =
     bnd (scm_exec scm None ''GET'' (''/repositories/'' @ pstr E org @ ''/'' @ pstr E (b_repo_slug d)
           @ ''/effective-branching-model'') no_args) (\<lambda>r.
     bnd (lift (json_on_ok r)) (\<lambda>j.
     bnd (lift (emapM as_key (jp_find E ''$..['development','production'].branch.name'' j))) (\<lambda>bs. ret (remdups bs))))"

definition jget_or_none :: "json dict \<Rightarrow> string \<Rightarrow> json" where
  "jget_or_none d k = (case dget d k of None \<Rightarrow> JNull | Some v \<Rightarrow> v)"

text \<open>
  One entry of \<open>links.clone\<close>; the credentials in an HTTP URL are removed. The parser of \<open>urllib3\<close>
  takes \<open>None\<close> for the empty URL.
\<close>

definition bc_add_clone_url :: "env \<Rightarrow> json \<Rightarrow> json dict \<Rightarrow> exc + json dict" where
  "bc_add_clone_url E entry urls =
     ebind (as_dict entry) (\<lambda>d.
     if jget_or_none d ''name'' = JNull then Inr urls
     else
       ebind (as_str (jget_or_none d ''name'')) (\<lambda>name.
       if startswith (to_lower name) ''http'' then
         ebind (if jget_or_none d ''href'' = JNull then Inr [] else as_arg (jget_or_none d ''href'')) (\<lambda>href.
         ebind (remove_auth_from_url E href) (\<lambda>u. Inr (dset name (JStr u) urls)))
       else Inr (dset name (jget_or_none d ''href'') urls)))"

definition bc_init_clone_urls :: "env \<Rightarrow> json \<Rightarrow> json dict \<Rightarrow> exc + json dict" where
  "bc_init_clone_urls E repo_data urls = efoldM (bc_add_clone_url E) (jp_find E ''$.links.clone[*]'' repo_data) urls"

text \<open>
  What the common steps know: the data, the organization and the clone URLs collected so far (the
  dictionary is an attribute of the object and is filled again by each call).
\<close>

record bc_repo =
  bc_project_key :: json
  bc_project_name :: json
  bc_full_name :: json
  bc_organization :: json
  bc_slug :: json
  bc_clone_urls :: "json dict"

definition bc_populate_common_event_data :: "env \<Rightarrow> json \<Rightarrow> scm_service \<Rightarrow> json dict \<Rightarrow> bc_repo cio" where
  "bc_populate_common_event_data E m scm urls =
     bnd (lift (find_pop E ''$.repository.project.key'' m)) (\<lambda>key.
     bnd (lift (find_pop E ''$.repository.project.name'' m)) (\<lambda>pname.
     bnd (lift (find_pop E ''$.repository.full_name'' m)) (\<lambda>full.
     bnd (lift (find_pop E ''$.repository.workspace.slug'' m)) (\<lambda>org.
     bnd (scm_exec scm None ''GET'' (''repositories/'' @ pstr E full) no_args) (\<lambda>r.
     bnd (lift (json_on_ok r)) (\<lambda>repo_data.
     bnd (lift (as_dict repo_data)) (\<lambda>d.
     bnd (lift (bc_init_clone_urls E repo_data urls)) (\<lambda>urls'.
     ret \<lparr> bc_project_key = key, bc_project_name = pname, bc_full_name = full, bc_organization = org,
           bc_slug = jget_or_none d ''slug'', bc_clone_urls = urls' \<rparr>))))))))"

definition bc_push_commit :: "json \<Rightarrow> exc + json \<times> json" where
  "bc_push_commit commit =
     ebind (as_dict commit) (\<lambda>c.
     ebind (as_dict (jget_or_none c ''new'')) (\<lambda>new.
     ebind (as_dict (jget_or_none new ''target'')) (\<lambda>target.
     Inr (jget_or_none new ''name'', jget_or_none target ''hash''))))"

definition bc_populate_common_push_data :: "env \<Rightarrow> json \<Rightarrow> json \<Rightarrow> scm_service \<Rightarrow> (bc_repo \<times> bb_data) cio" where
  "bc_populate_common_push_data E m commit scm =
     bnd (bc_populate_common_event_data E m scm []) (\<lambda>r.
     bnd (lift (bc_push_commit commit)) (\<lambda>(branch, hash).
     ret (r, \<lparr> b_project_key = bc_project_key r, b_project_name = bc_project_name r, b_repo_slug = bc_slug r,
           b_repo_name = bc_full_name r, b_source_branch = branch, b_target_branch = branch, b_source_hash = hash,
           b_target_hash = hash, b_pr_id = JNull, b_pr_state = JNull, b_pr_status = JNull \<rparr>)))"

definition bc_get_pr_status :: "env \<Rightarrow> json \<Rightarrow> exc + json" where
  "bc_get_pr_status E m =
     (let participants = jp_find E ''$.pullrequest.participants[?(@.role == 'REVIEWER')]'' m in
      ebind (emapM as_dict participants) (\<lambda>ps.
      let changes_requested = filter (\<lambda>p. jget_or_none p ''state'' = JStr ''changes_requested'') ps;
          approved = filter (\<lambda>p. jget_or_none p ''approved'' = JBool True) ps
      in Inr (JStr (if ps = [] then ''NO_REVIEWERS''
                    else if approved \<noteq> [] \<and> changes_requested = [] then ''APPROVED''
                    else if approved \<noteq> [] \<and> changes_requested \<noteq> [] then ''PARTIAL_APPROVAL''
                    else if approved = [] \<and> changes_requested \<noteq> [] then ''CHANGES_REQUESTED''
                    else ''AWAITING_REVIEW''))))"

definition bc_pr_data :: "env \<Rightarrow> json \<Rightarrow> bc_repo \<Rightarrow> exc + bb_data" where
  "bc_pr_data E m r =
     ebind (find_pop E ''$.pullrequest.id'' m) (\<lambda>i.
     ebind (find_pop E ''$.pullrequest.state'' m) (\<lambda>st.
     ebind (find_pop E ''$.pullrequest.source.branch.name'' m) (\<lambda>sb.
     ebind (find_pop E ''$.pullrequest.destination.branch.name'' m) (\<lambda>tb.
     ebind (find_pop E ''$.pullrequest.destination.commit.hash'' m) (\<lambda>th.
     ebind (find_pop E ''$.pullrequest.source.commit.hash'' m) (\<lambda>sh.
     ebind (bc_get_pr_status E m) (\<lambda>status.
     Inr \<lparr> b_project_key = bc_project_key r, b_project_name = bc_project_name r, b_repo_slug = bc_slug r,
           b_repo_name = bc_full_name r, b_source_branch = sb, b_target_branch = tb, b_source_hash = sh,
           b_target_hash = th, b_pr_id = JStr (pstr E i), b_pr_state = st, b_pr_status = status \<rparr>)))))))"

definition bc_populate_common_pr_data :: "env \<Rightarrow> json \<Rightarrow> scm_service \<Rightarrow> json dict \<Rightarrow> (bc_repo \<times> bb_data) cio" where
  "bc_populate_common_pr_data E m scm urls =
     bnd (bc_populate_common_event_data E m scm urls) (\<lambda>r.
     bnd (lift (bc_pr_data E m r)) (\<lambda>d. ret (r, d)))"

definition bc_default_project_name :: "env \<Rightarrow> bc_repo \<Rightarrow> string" where
  "bc_default_project_name E r =
     bbc_create_project_name E (bc_organization r) (bc_project_key r) (bc_project_name r) (bc_slug r)"

text \<open>A delegated result does not mark the object as delegated; no scan is started from it anyway.\<close>

definition bc_orch :: "env \<Rightarrow> bbc \<Rightarrow> bc_repo \<Rightarrow> bb_data \<Rightarrow> orch" where
  "bc_orch E b r d =
     \<lparr> o_class = ''orchestration.bitbucket.bbc.BitBucketCloudOrchestrator'', o_config_key = ''bbc'',
       o_event_context = bc_ctx b, o_delegated_scan = False,
       o_protected_branches = bc_get_protected_branches E (bc_organization r) d,
       o_target_branch_and_hash = ret (b_target_branch d, b_target_hash d),
       o_source_branch_and_hash = ret (b_source_branch d, b_source_hash d),
       o_clone_url = url_for_cloner (bc_clone_urls r),
       o_default_project_name = ret (bc_default_project_name E r),
       o_pr_id = Inr (b_pr_id d), o_pr_state = Inr (b_pr_state d), o_pr_status = Inr (b_pr_status d),
       o_repo_project_key = Inr (b_project_key d), o_repo_organization = Inr (bc_organization r),
       o_repo_slug = Inr (b_repo_slug d) \<rparr>"

text \<open>The query is for the changes that end in a commit; \<open>pop\<close> takes the last of them.\<close>

definition bc_commits :: "env \<Rightarrow> json \<Rightarrow> json list" where
  "bc_commits E m = jp_find E ''$.push.changes[?(@.new.target.type=='commit')]'' m"

definition bc_execute_push_scan_workflow :: "env \<Rightarrow> bbc \<Rightarrow> services \<Rightarrow> exec_result cio" where
  "bc_execute_push_scan_workflow E b sv =
     (let m = message (bc_ctx b) in
      if bc_commits E m = [] then ret RNone
      else
        bnd (bc_populate_common_push_data E m (last (bc_commits E m)) (sv_scm sv)) (\<lambda>(r, d).
        bnd (execute_push_scan_workflow E (bc_orch E b r d) sv []) (\<lambda>(ins, a). ret (RScan ins a))))"

definition bc_execute_delegated_push_scan_workflow :: "env \<Rightarrow> bbc \<Rightarrow> services option \<Rightarrow> string \<Rightarrow> exec_result cio" where
  "bc_execute_delegated_push_scan_workflow E b svo sid =
     (let m = message (bc_ctx b) in
      if bc_commits E m = [] then ret RNone
      else
        bnd (lift (need svo)) (\<lambda>sv.
        bnd (bc_populate_common_push_data E m (last (bc_commits E m)) (sv_scm sv)) (\<lambda>(r, d).
        bnd (execute_delegated_push_scan_workflow E (bc_orch E b r d) sv sid) (\<lambda>(ins, a). ret (RScan (Some ins) a)))))"

definition bc_unless_draft :: "env \<Rightarrow> json \<Rightarrow> exec_result cio \<Rightarrow> exec_result cio" where
  "bc_unless_draft E m k =
     bnd (lift (find_pop E ''$.pullrequest.draft'' m)) (\<lambda>draft.
     if truthy draft then bnd (lift (find_pop E ''$.pullrequest.links.html.href'' m)) (\<lambda>_. ret RNone)
     else k)"

definition bc_pr_tag_update :: "env \<Rightarrow> bbc \<Rightarrow> json dict \<Rightarrow> services \<Rightarrow> exec_result cio" where
  "bc_pr_tag_update E b urls sv =
     bc_unless_draft E (message (bc_ctx b))
       (bnd (bc_populate_common_pr_data E (message (bc_ctx b)) (sv_scm sv) urls) (\<lambda>(r, d).
        bnd (execute_pr_tag_update_workflow E (bc_orch E b r d) sv) (\<lambda>scans. ret (RScans scans))))"

text \<open>A pull request scanned before is a tag update, which reads everything once more.\<close>

definition bc_execute_pr_scan_workflow :: "env \<Rightarrow> bbc \<Rightarrow> services \<Rightarrow> exec_result cio" where
  "bc_execute_pr_scan_workflow E b sv =
     bc_unless_draft E (message (bc_ctx b))
       (bnd (bc_populate_common_pr_data E (message (bc_ctx b)) (sv_scm sv) []) (\<lambda>(r, d).
        bnd (get_project_name (sv_naming sv) (bc_default_project_name E r) (bc_ctx b)) (\<lambda>name.
        bnd (find_pr_scans E name (b_pr_id d) (b_source_hash d)) (\<lambda>existing.
        if existing \<noteq> [] then bc_pr_tag_update E b (bc_clone_urls r) sv
        else bnd (execute_pr_scan_workflow E (bc_orch E b r d) sv []) (\<lambda>a. ret (RAction a))))))"

definition bc_execute_delegated_pr_scan_workflow :: "env \<Rightarrow> bbc \<Rightarrow> services option \<Rightarrow> string \<Rightarrow> exec_result cio" where
  "bc_execute_delegated_pr_scan_workflow E b svo sid =
     bnd (lift (need svo)) (\<lambda>sv.
     bnd (bc_populate_common_pr_data E (message (bc_ctx b)) (sv_scm sv) []) (\<lambda>(r, d).
     bnd (execute_delegated_pr_scan_workflow E (bc_orch E b r d) sv sid) (\<lambda>a. ret (RAction a))))"

definition bc_handle_delegated_pr_scan_hard_fail :: "env \<Rightarrow> bbc \<Rightarrow> services option \<Rightarrow> string \<Rightarrow> unit cio" where
  "bc_handle_delegated_pr_scan_hard_fail E b svo fail_msg =
     bnd (lift (need svo)) (\<lambda>sv.
     bnd (bc_populate_common_pr_data E (message (bc_ctx b)) (sv_scm sv) []) (\<lambda>(r, d).
     bnd (make_prdetails (bc_orch E b r d) sv) (\<lambda>det.
     exec_pr_prescan_failure (sv_scm sv) det fail_msg)))"

definition bc_workflow_map :: "bb_handler dict" where
  "bc_workflow_map =
     [(''repo:push'', BbPushScan), (''pullrequest:created'', BbPrScan), (''pullrequest:updated'', BbPrScan),
      (''pullrequest:fulfilled'', BbPrTagUpdate), (''pullrequest:rejected'', BbPrTagUpdate),
      (''pullrequest:approved'', BbPrTagUpdate), (''pullrequest:unapproved'', BbPrTagUpdate),
      (''pullrequest:changes_request_created'', BbPrTagUpdate), (''pullrequest:changes_request_removed'', BbPrTagUpdate)]"

definition bc_delegate_scan_handler_map :: "bb_handler dict" where
  "bc_delegate_scan_handler_map =
     [(''repo:push'', BbPushScan), (''pullrequest:created'', BbPrScan), (''pullrequest:updated'', BbPrScan)]"

definition bc_execute :: "env \<Rightarrow> bbc \<Rightarrow> services \<Rightarrow> exec_result cio" where
  "bc_execute E b sv =
     (case bb_handler_of bc_workflow_map (bc_ctx b) of
        None \<Rightarrow> ret RNone
      | Some BbPushScan \<Rightarrow> bc_execute_push_scan_workflow E b sv
      | Some BbPrScan \<Rightarrow> bc_execute_pr_scan_workflow E b sv
      | Some BbPrTagUpdate \<Rightarrow> bc_pr_tag_update E b [] sv)"

definition bc_handle_delegated_scan :: "env \<Rightarrow> bbc \<Rightarrow> services option \<Rightarrow> string \<Rightarrow> exec_result cio" where
  "bc_handle_delegated_scan E b svo sid =
     (case bb_handler_of bc_delegate_scan_handler_map (bc_ctx b) of
        Some BbPushScan \<Rightarrow> bc_execute_delegated_push_scan_workflow E b svo sid
      | Some BbPrScan \<Rightarrow> bc_execute_delegated_pr_scan_workflow E b svo sid
      | _ \<Rightarrow> ret RNone)"

definition bc_dispatchable :: "env \<Rightarrow> bbc \<Rightarrow> dispatchable" where
  "bc_dispatchable E b =
     \<lparr> d_config_key = ''bbc'', d_is_diagnostic = False, d_route_urls = Inr (bc_route_urls b),
       d_is_signature_valid = bb_is_signature_valid E (bc_ctx b), d_execute = bc_execute E b,
       d_handle_delegated_scan = bc_handle_delegated_scan E b,
       d_handle_delegated_pr_scan_hard_fail = bc_handle_delegated_pr_scan_hard_fail E b \<rparr>"


section \<open>Properties\<close>

interpretation dc_template: scm_orchestrator "dc_orch E b d x" for E b d x
proof unfold_locales
  fix scm assume "http_scm scm"
  then show "emits http_or_sleep (o_protected_branches (dc_orch E b d x) scm)"
    by (auto simp: dc_orch_def dc_get_protected_branches_def intro!: emits_rules)
qed (simp_all add: dc_orch_def emits_ret)

interpretation bc_template: scm_orchestrator "bc_orch E b r d" for E b r d
proof unfold_locales
  fix scm assume "http_scm scm"
  then show "emits http_or_sleep (o_protected_branches (bc_orch E b r d) scm)"
    by (auto simp: bc_orch_def bc_get_protected_branches_def intro!: emits_rules)
qed (simp_all add: bc_orch_def emits_ret)

lemma dc_execute_handled:
  assumes "http_scm (sv_scm sv)" and "sdk_raises_own E"
  shows "does (dc_execute E b sv) mr_accounted"
  unfolding dc_execute_def dc_execute_push_scan_workflow_def dc_execute_pr_scan_workflow_def
    dc_execute_pr_tag_update_workflow_def dc_unless_draft_def
  by (auto split: option.splits bb_handler.splits intro!: mr_none does_lift_bnd dc_template.push_scan_ends
      pr_mr [OF dc_template.pr_scan_ends] pr_mr [OF dc_template.tag_update_ends] assms)

lemma dc_execute_capped:
  assumes "http_scm (sv_scm sv)" and "sdk_raises_own E"
  shows "at_most 1 (dc_execute E b sv)"
  unfolding dc_execute_def dc_execute_push_scan_workflow_def dc_execute_pr_scan_workflow_def
    dc_execute_pr_tag_update_workflow_def dc_unless_draft_def
  by (cases "bb_handler_of dc_workflow_map (dc_ctx b)")
    (auto split: bb_handler.splits simp del: One_nat_def
      intro!: at_most_nothing emits_lift at_most_simple dc_template.scan_results_capped assms)

lemma emits_bc_event_data: "http_scm scm \<Longrightarrow> emits http_or_sleep (bc_populate_common_event_data E m scm urls)"
  unfolding bc_populate_common_event_data_def by (intro emits_rules)

lemma emits_bc_push_data: "http_scm scm \<Longrightarrow> emits http_or_sleep (bc_populate_common_push_data E m c scm)"
  unfolding bc_populate_common_push_data_def by (intro emits_rules emits_bc_event_data)

lemma emits_bc_pr_data: "http_scm scm \<Longrightarrow> emits http_or_sleep (bc_populate_common_pr_data E m scm urls)"
  unfolding bc_populate_common_pr_data_def by (intro emits_rules emits_bc_event_data)

lemmas bc_quiet = emits_http_nothing [OF emits_bc_pr_data] emits_http_nothing [OF emits_bc_push_data]
  emits_project_name emits_find_pr_scans emits_lift

lemma bc_update_handled:
  assumes "http_scm (sv_scm sv)"
  shows "does (bc_pr_tag_update E b urls sv) pr_accounted"
  unfolding bc_pr_tag_update_def bc_unless_draft_def
  by (intro does_lift_bnd does_if pr_before does_case_prod pr_none bc_quiet bc_template.tag_update_ends assms)

lemma bc_pr_handled:
  assumes "http_scm (sv_scm sv)" and "sdk_raises_own E"
  shows "does (bc_execute_pr_scan_workflow E b sv) pr_accounted"
  unfolding bc_execute_pr_scan_workflow_def bc_unless_draft_def
  by (intro does_lift_bnd does_if pr_before does_case_prod pr_none bc_quiet bc_update_handled bc_template.pr_scan_ends assms)

lemma bc_execute_handled:
  assumes "http_scm (sv_scm sv)" and "sdk_raises_own E"
  shows "does (bc_execute E b sv) mr_accounted"
proof -
  have push: "does (bc_execute_push_scan_workflow E b sv) mr_accounted"
    unfolding bc_execute_push_scan_workflow_def Let_def
    by (intro does_if mr_none mr_before [OF emits_bc_push_data] does_case_prod bc_template.push_scan_ends assms)
  show ?thesis
    unfolding bc_execute_def
    by (auto split: option.splits bb_handler.splits intro!: mr_none push pr_mr [OF bc_update_handled]
        pr_mr [OF bc_pr_handled] assms)
qed

lemma bc_execute_capped:
  assumes "http_scm (sv_scm sv)" and "sdk_raises_own E"
  shows "at_most 1 (bc_execute E b sv)"
proof -
  have update: "at_most 1 (bc_pr_tag_update E b urls sv)" for urls
    unfolding bc_pr_tag_update_def bc_unless_draft_def
    by (intro at_most_nothing at_most_if at_most_case_prod at_most_simple bc_quiet bc_template.scan_results_capped assms)
  have "at_most 1 (bc_execute_pr_scan_workflow E b sv)" "at_most 1 (bc_execute_push_scan_workflow E b sv)"
    unfolding bc_execute_pr_scan_workflow_def bc_execute_push_scan_workflow_def bc_unless_draft_def Let_def
    by (intro at_most_nothing at_most_if at_most_case_prod at_most_simple bc_quiet update bc_template.scan_results_capped assms)+
  with update show ?thesis
    unfolding bc_execute_def by (auto split: option.splits bb_handler.splits simp del: One_nat_def intro!: at_most_simple)
qed

text \<open>A Bitbucket event that has any effect is signed, whichever edition sends it.\<close>

lemma bb_dispatch_signed:
  assumes "dispatch_execute E cfg d (tr, m) = (r, tr', m')" and "(tr', m') \<noteq> (tr, m)"
    and "d = dc_dispatchable E b \<and> ctx = dc_ctx b \<and> urls = dc_route_urls b
       \<or> d = bc_dispatchable E c \<and> ctx = bc_ctx c \<and> urls = bc_route_urls c"
  shows "\<exists>rs e u alg. dget cfg (d_config_key d) = Some rs \<and> e \<in> set rs \<and> JStr u \<in> set urls
    \<and> re_match E (route_matcher e) u
    \<and> dget (headers ctx) ''X-Hub-Signature'' =
        Some (alg @ ''='' @ hmac_hex E alg (shared_secret (sv_scm (route_services e))) (raw_event_payload ctx))"
proof -
  have d: "d_route_urls d = Inr urls" "d_is_signature_valid d = bb_is_signature_valid E ctx"
    using assms(3) by (auto simp: dc_dispatchable_def bc_dispatchable_def)
  from dispatch_authenticated [OF assms(1,2) d(1)] show ?thesis
    using hub_signed by (fastforce simp: d(2) bb_is_signature_valid_def)
qed

text \<open>A push that only deletes branches has no branch, and is skipped if the model has none without a name.\<close>

lemma dc_push_without_branch:
  assumes "dc_populate_common_push_data E m = Inr d"
    and "\<forall>t\<in>set (jp_find E ''$.changes[*].type'' m). t \<notin> {JStr ''ADD'', JStr ''UPDATE''}"
  shows "b_source_branch d = JNull" "b_target_branch d = JNull"
  using assms by (auto simp: dc_populate_common_push_data_def dc_push_change_def ebind_Inr_iff list_ex_iff)

end
