(* ===== verification/ScmServices.thy ===== *)
theory ScmServices
  imports Workflows
begin

text \<open>
  The packages \<open>scm_services/gh\<close>, \<open>gl.py\<close>, \<open>bitbucket\<close> and \<open>adoe\<close>: how the state of a scan is written
  to a pull request, as one comment that is created once and updated later, and as a check or a
  commit status where the service is configured to.

  Each service is the record of \<open>scm.py\<close> with the methods it overrides; a class that extends another
  updates the record of its base class. The comments of a pull request are searched page by page
  (\<open>page_search\<close>), and the search stops at the first comment that carries the marker.
\<close>


section \<open>Searching comments\<close>

text \<open>The items in order, until one is accepted or looking at one raises.\<close>

fun first_match :: "('a \<Rightarrow> exc + 'b option) \<Rightarrow> 'a list \<Rightarrow> exc + 'b option" where
  "first_match accept [] = Inr None"
| "first_match accept (x # xs) =
     ebind (accept x) (\<lambda>r. case r of Some y \<Rightarrow> Inr (Some y) | None \<Rightarrow> first_match accept xs)"

text \<open>
  A loop over a page generator that is left at the first accepted item. The generators hand out a
  page from its end (\<open>buf.pop()\<close>), and fetch the next one only when it is used up.
\<close>

fun page_search :: "(nat \<Rightarrow> (event, 'm, ('a list \<times> bool)) io) \<Rightarrow> ('a \<Rightarrow> exc + 'b option) \<Rightarrow> nat \<Rightarrow> nat \<Rightarrow>
    (event, 'm, 'b option) io" where
  "page_search fetch accept 0 offset = raise Diverges"
| "page_search fetch accept (Suc n) offset =
     bnd (fetch offset) (\<lambda>(buf, last_page).
     if buf = [] then ret None
     else
       bnd (lift (first_match accept (rev buf))) (\<lambda>r.
       case r of
         Some y \<Rightarrow> ret (Some y)
       | None \<Rightarrow> if last_page then ret None else page_search fetch accept n (offset + 1)))"

definition marked :: "json \<Rightarrow> exc + bool" where
  "marked txt = ebind (as_str txt) (\<lambda>s. Inr (comment_matches_identifier s))"

definition with_body :: "env \<Rightarrow> json \<Rightarrow> json dict \<Rightarrow> request_args" where
  "with_body E payload hdrs = no_args\<lparr> rq_body := JStr (json_dumps E payload), rq_extra_headers := hdrs \<rparr>"

definition json_headers :: "json dict" where
  "json_headers = [(''Content-Type'', JStr ''application/json'')]"


section \<open>GitHub\<close>

definition gh_max_content_chars :: int where "gh_max_content_chars = 65535"
definition gh_comment_page_max :: nat where "gh_comment_page_max = 100"

definition gh_get_head_sha :: "env \<Rightarrow> pr_details \<Rightarrow> exc + json" where
  "gh_get_head_sha E det = popE (jp_find E ''$.pull_request.head.sha'' (message (det_event_context det)))"

definition gh_create_code_permalink :: "env \<Rightarrow> scm_service \<Rightarrow> pr_details \<Rightarrow> json \<Rightarrow> json \<Rightarrow> exc + string" where
  "gh_create_code_permalink E scm det code_path code_line =
     Inr (form_url E (display_url scm)
       (''/'' @ pstr E (organization det) @ ''/'' @ pstr E (repo_slug det) @ ''/blob/'' @ pstr E (source_branch det)
        @ pstr E code_path)
       (Some (''L'' @ pstr E code_line)) [])"

definition gh_repo_path :: "env \<Rightarrow> pr_details \<Rightarrow> string" where
  "gh_repo_path E det = ''/repos/'' @ pstr E (organization det) @ ''/'' @ pstr E (repo_slug det)"

text \<open>The extractor: the flag it returns for the last page is set when the page is full.\<close>

definition gh_comment_page :: "env \<Rightarrow> scm_service \<Rightarrow> pr_details \<Rightarrow> nat \<Rightarrow> (json list \<times> bool) cio" where
  "gh_comment_page E scm det offset =
     bnd (scm_exec scm (Some (det_event_context det)) ''GET'' (gh_repo_path E det @ ''/issues/'' @ pstr E (pr_id det) @ ''/comments'')
       (no_args\<lparr> rq_query := JObj [(''per_page'', JInt (int gh_comment_page_max)), (''page'', JInt (int offset + 1))] \<rparr>)) (\<lambda>r.
     if ok r then bnd (lift (as_list (body r))) (\<lambda>xs. ret (xs, length xs \<ge> gh_comment_page_max))
     else raise TypeError)"

definition gh_own_comment :: "json \<Rightarrow> exc + json option" where
  "gh_own_comment c =
     ebind (as_dict c) (\<lambda>d.
     if ''id'' \<in> set (dkeys d) \<and> ''body'' \<in> set (dkeys d) then
       ebind (jget c ''id'') (\<lambda>i. ebind (jget c ''body'') (\<lambda>b. ebind (marked b) (\<lambda>mine.
       Inr (if mine then Some i else None))))
     else Inr None)"

text \<open>The target is \<open>None\<close> also when the comment found has a null id.\<close>

definition gh_create_or_update_pr_comment :: "env \<Rightarrow> scm_service \<Rightarrow> pr_details \<Rightarrow> string \<Rightarrow> unit cio" where
  "gh_create_or_update_pr_comment E scm det content =
     (let args = with_body E (JObj [(''body'', JStr content)]) []; ctx = Some (det_event_context det) in
      bnd (page_search (gh_comment_page E scm det) gh_own_comment (fuel E) 0) (\<lambda>target.
      if target \<in> {None, Some JNull} then
        bnd (scm_exec scm ctx ''POST'' (gh_repo_path E det @ ''/issues/'' @ pstr E (pr_id det) @ ''/comments'') args) (\<lambda>r.
        bnd (lift (json_on_ok r)) (\<lambda>j. bnd (lift (jget j ''id'')) (\<lambda>_. ret ())))
      else
        bnd (scm_exec scm ctx ''PATCH'' (gh_repo_path E det @ ''/issues/comments/'' @ pstr E (the target)) args) (\<lambda>r.
        bnd (lift (json_on_ok r)) (\<lambda>_. ret ()))))"

definition gh_comment :: "env \<Rightarrow> scm_service \<Rightarrow> pr_details \<Rightarrow> pr_content \<Rightarrow> unit cio" where
  "gh_comment E scm det c =
     bnd (lift (content_of c gh_max_content_chars)) (gh_create_or_update_pr_comment E scm det)"

definition GHServiceBasic :: "env \<Rightarrow> scm_service \<Rightarrow> scm_service" where
  "GHServiceBasic E scm =
     scm\<lparr> exec_pr_scan_update_decorate := (\<lambda>det c _. gh_comment E scm det c),
          exec_pr_scan_pending_decorate := (\<lambda>det c. gh_comment E scm det c),
          exec_pr_scan_failure_decorate := (\<lambda>det c _. gh_comment E scm det c),
          exec_pr_scan_success_decorate := (\<lambda>det c _. gh_comment E scm det c),
          exec_pr_unrecoverable_error := (\<lambda>det _ _. gh_create_or_update_pr_comment E scm det
            (append_comment_identifier ''An unrecoverable error was encountered while processing the pull-request.'')),
          exec_pr_prescan_failure := (\<lambda>det _. gh_create_or_update_pr_comment E scm det
            (append_comment_identifier ''Unrecoverable PR prescan failure.'')),
          create_code_permalink := gh_create_code_permalink E scm \<rparr>"

definition policy_check_name :: "string option \<Rightarrow> string" where
  "policy_check_name name = (case name of Some n \<Rightarrow> n | None \<Rightarrow> ''CheckmarxOne Scan'')"

definition gh_accept_headers :: "json dict" where
  "gh_accept_headers = [(''accept'', JStr ''application/vnd.github+json''), (''Content-Type'', JStr ''application/json'')]"


subsection \<open>Commit status\<close>

definition gh_status_msg_max :: int where "gh_status_msg_max = 64"

definition gh_status_payload :: "string \<Rightarrow> string option \<Rightarrow> string \<Rightarrow> string \<Rightarrow> json" where
  "gh_status_payload st url description name =
     JObj [(''state'', JStr st), (''target_url'', jopt url), (''description'', JStr description), (''context'', JStr name)]"

definition gh_status_path :: "env \<Rightarrow> pr_details \<Rightarrow> exc + string" where
  "gh_status_path E det =
     ebind (gh_get_head_sha E det) (\<lambda>sha. Inr (gh_repo_path E det @ ''/statuses/'' @ pstr E sha))"

definition gh_post_status :: "env \<Rightarrow> scm_service \<Rightarrow> pr_details \<Rightarrow> json \<Rightarrow> response cio" where
  "gh_post_status E scm det payload =
     bnd (lift (gh_status_path E det)) (\<lambda>path.
     scm_exec scm (Some (det_event_context det)) ''POST'' path (with_body E payload gh_accept_headers))"

definition gh_update_status :: "env \<Rightarrow> scm_service \<Rightarrow> string \<Rightarrow> string \<Rightarrow> pr_details \<Rightarrow> pr_content \<Rightarrow> unit cio" where
  "gh_update_status E scm name st det c =
     bnd (gh_post_status E scm det (gh_status_payload st (content_scan_url c) (get_status_msg c gh_status_msg_max) name)) (\<lambda>r.
     if \<not> ok r then ret () else bnd (lift (json_on_ok r)) (\<lambda>_. ret ()))"

definition gh_plain_status :: "env \<Rightarrow> scm_service \<Rightarrow> string \<Rightarrow> pr_details \<Rightarrow> string \<Rightarrow> unit cio" where
  "gh_plain_status E scm name det txt =
     bnd (gh_post_status E scm det (gh_status_payload ''error'' None txt name)) (\<lambda>_. ret ())"

text \<open>The comment of the base class follows the status, except after a failed prescan.\<close>

definition GHServiceCommitStatus :: "env \<Rightarrow> string option \<Rightarrow> scm_service \<Rightarrow> scm_service" where
  "GHServiceCommitStatus E check_name scm =
     (let name = policy_check_name check_name; basic = GHServiceBasic E scm in
      basic\<lparr> exec_pr_scan_update_decorate := (\<lambda>det c m.
               bnd (gh_update_status E scm name ''pending'' det c) (\<lambda>_. exec_pr_scan_update_decorate basic det c m)),
             exec_pr_scan_pending_decorate := (\<lambda>det c.
               bnd (gh_update_status E scm name ''pending'' det c) (\<lambda>_. exec_pr_scan_pending_decorate basic det c)),
             exec_pr_scan_failure_decorate := (\<lambda>det c m.
               bnd (gh_update_status E scm name ''error'' det c) (\<lambda>_. exec_pr_scan_failure_decorate basic det c m)),
             exec_pr_scan_success_decorate := (\<lambda>det c m.
               bnd (gh_update_status E scm name ''success'' det c) (\<lambda>_. exec_pr_scan_success_decorate basic det c m)),
             exec_pr_unrecoverable_error := (\<lambda>det m txt.
               bnd (gh_plain_status E scm name det txt) (\<lambda>_. exec_pr_unrecoverable_error basic det m txt)),
             exec_pr_prescan_failure := (\<lambda>det txt. gh_plain_status E scm name det txt) \<rparr>)"


subsection \<open>Checks\<close>

definition gh_summary_text :: string where
  "gh_summary_text = ''[CheckmarxOne](https://docs.checkmarx.com/) scans are orchestrated by [CxOneFlow](https://github.com/checkmarx-ts/cxone-flow)''"

definition gh_check_head_sha :: "env \<Rightarrow> pr_details \<Rightarrow> exc + json" where
  "gh_check_head_sha E det =
     (case rev (jp_find E ''$.check_run.check_suite.pull_requests[0].head.sha'' (message (det_event_context det))) of
        v # _ \<Rightarrow> Inr v | [] \<Rightarrow> gh_get_head_sha E det)"

text \<open>Without the permission for checks the service only logs: \<open>SCMAuthException\<close> is caught.\<close>

definition unless_denied :: "'a cio \<Rightarrow> 'a \<Rightarrow> 'a cio" where
  "unless_denied m x = catch m (\<lambda>e. if e = SCMAuthException then Some (ret x) else None)"

definition gh_check_ids_query :: "env \<Rightarrow> json \<Rightarrow> string" where
  "gh_check_ids_query E sha = ''$.check_runs[?(@.head_sha == '' @ [CHR 34] @ pstr E sha @ [CHR 34] @ '')].id''"

definition gh_find_running_check :: "env \<Rightarrow> scm_service \<Rightarrow> string \<Rightarrow> pr_details \<Rightarrow> string \<Rightarrow> json cio" where
  "gh_find_running_check E scm name det status =
     bnd (lift (gh_check_head_sha E det)) (\<lambda>sha.
     if sha = JNull then ret JNull
     else
       unless_denied
         (bnd (scm_exec scm (Some (det_event_context det)) ''GET'' (gh_repo_path E det @ ''/commits/'' @ pstr E sha @ ''/check-runs'')
            (no_args\<lparr> rq_query := JObj [(''check_name'', JStr name), (''status'', JStr status)],
                      rq_extra_headers := gh_accept_headers \<rparr>)) (\<lambda>r.
          bnd (lift (json_on_ok r)) (\<lambda>j.
          ret (case rev (jp_find E (gh_check_ids_query E sha) j) of v # _ \<Rightarrow> v | [] \<Rightarrow> JNull))))
         JNull)"

definition gh_update_run :: "env \<Rightarrow> scm_service \<Rightarrow> pr_details \<Rightarrow> json \<Rightarrow> json \<Rightarrow> unit cio" where
  "gh_update_run E scm det payload run_id =
     unless_denied
       (bnd (scm_exec scm (Some (det_event_context det)) ''PATCH'' (gh_repo_path E det @ ''/check-runs/'' @ pstr E run_id)
          (with_body E payload gh_accept_headers)) (\<lambda>r.
        bnd (lift (json_on_ok r)) (\<lambda>_. ret ())))
       ()"

definition gh_create_run :: "env \<Rightarrow> scm_service \<Rightarrow> pr_details \<Rightarrow> json \<Rightarrow> json cio" where
  "gh_create_run E scm det payload =
     unless_denied
       (bnd (scm_exec scm (Some (det_event_context det)) ''POST'' (gh_repo_path E det @ ''/check-runs'')
          (with_body E payload gh_accept_headers)) (\<lambda>r.
        bnd (lift (json_on_ok r)) (\<lambda>j. lift (popE (jp_find E ''$.id'' j)))))
       JNull"

definition gh_check_output :: "string \<Rightarrow> string \<Rightarrow> json" where
  "gh_check_output title txt = JObj [(''title'', JStr title), (''summary'', JStr gh_summary_text), (''text'', JStr txt)]"

definition gh_check_action :: "string \<Rightarrow> string \<Rightarrow> string \<Rightarrow> json" where
  "gh_check_action label description ident =
     JArr [JObj [(''label'', JStr label), (''description'', JStr description), (''identifier'', JStr ident)]]"

definition gh_content_output :: "pr_content \<Rightarrow> exc + json" where
  "gh_content_output c =
     ebind (content_of c gh_max_content_chars) (\<lambda>txt. Inr (gh_check_output (get_status_msg c gh_max_content_chars) txt))"

definition gh_checks_update :: "env \<Rightarrow> scm_service \<Rightarrow> string \<Rightarrow> pr_details \<Rightarrow> pr_content \<Rightarrow> scan_message \<Rightarrow> unit cio" where
  "gh_checks_update E scm name det c m =
     bnd (gh_find_running_check E scm name det ''queued'') (\<lambda>run_id.
     bnd (lift (gh_check_head_sha E det)) (\<lambda>sha.
     bnd (lift (gh_content_output c)) (\<lambda>out.
     let payload = JObj [(''name'', JStr name), (''head_sha'', sha), (''external_id'', JStr (scanid m)),
           (''status'', JStr ''in_progress''), (''output'', out),
           (''actions'', gh_check_action ''Cancel scan'' ''Cancels the running scan'' ''CANCELSCAN'')] in
     if run_id = JNull then bnd (gh_create_run E scm det payload) (\<lambda>_. ret ())
     else gh_update_run E scm det payload run_id)))"

definition gh_checks_pending :: "env \<Rightarrow> scm_service \<Rightarrow> string \<Rightarrow> pr_details \<Rightarrow> pr_content \<Rightarrow> unit cio" where
  "gh_checks_pending E scm name det c =
     bnd (lift (gh_check_head_sha E det)) (\<lambda>sha.
     bnd (lift (gh_content_output c)) (\<lambda>out.
     bnd (gh_create_run E scm det
       (JObj [(''name'', JStr name), (''head_sha'', sha), (''status'', JStr ''queued''), (''output'', out)])) (\<lambda>_. ret ())))"

text \<open>Closing a check: nothing happens when no check run of that status is found.\<close>

definition gh_close_check :: "env \<Rightarrow> scm_service \<Rightarrow> string \<Rightarrow> pr_details \<Rightarrow> string \<Rightarrow> (json \<Rightarrow> exc + json) \<Rightarrow> unit cio" where
  "gh_close_check E scm name det status payload_of =
     bnd (gh_find_running_check E scm name det status) (\<lambda>run_id.
     if run_id = JNull then ret ()
     else
       bnd (lift (gh_check_head_sha E det)) (\<lambda>sha.
       bnd (lift (payload_of sha)) (\<lambda>payload. gh_update_run E scm det payload run_id)))"

definition gh_completed_payload :: "string \<Rightarrow> string \<Rightarrow> string option \<Rightarrow> json \<Rightarrow> json dict \<Rightarrow> json \<Rightarrow> json" where
  "gh_completed_payload name conclusion ext out actions sha =
     JObj ([(''name'', JStr name), (''head_sha'', sha)]
       @ (case ext of None \<Rightarrow> [] | Some i \<Rightarrow> [(''external_id'', JStr i)])
       @ [(''status'', JStr ''completed''), (''conclusion'', JStr conclusion), (''output'', out)] @ actions)"

definition gh_rerun_actions :: "json dict" where
  "gh_rerun_actions = [(''actions'', gh_check_action ''Re-run scan'' ''Runs the scan again'' ''RERUNSCAN'')]"

definition GHServiceChecks :: "env \<Rightarrow> string option \<Rightarrow> scm_service \<Rightarrow> scm_service" where
  "GHServiceChecks E check_name scm =
     (let name = policy_check_name check_name in
      scm\<lparr> exec_pr_scan_update_decorate := gh_checks_update E scm name,
           exec_pr_scan_pending_decorate := gh_checks_pending E scm name,
           exec_pr_scan_failure_decorate := (\<lambda>det c m. gh_close_check E scm name det ''in_progress'' (\<lambda>sha.
             ebind (gh_content_output c) (\<lambda>out.
             Inr (gh_completed_payload name ''failure'' (Some (scanid m)) out gh_rerun_actions sha)))),
           exec_pr_scan_success_decorate := (\<lambda>det c m. gh_close_check E scm name det ''in_progress'' (\<lambda>sha.
             ebind (gh_content_output c) (\<lambda>out.
             Inr (gh_completed_payload name ''success'' (Some (scanid m)) out [] sha)))),
           exec_pr_unrecoverable_error := (\<lambda>det m txt. gh_close_check E scm name det ''in_progress'' (\<lambda>sha.
             Inr (gh_completed_payload name ''failure'' (Some (scanid m)) (gh_check_output ''Unrecoverable Error'' txt)
               gh_rerun_actions sha))),
           exec_pr_prescan_failure := (\<lambda>det txt. gh_close_check E scm name det ''queued'' (\<lambda>sha.
             Inr (gh_completed_payload name ''failure'' None (gh_check_output ''Prescan failure'' txt) [] sha))),
           create_code_permalink := gh_create_code_permalink E scm \<rparr>)"


section \<open>GitLab\<close>

definition gl_max_content_chars :: int where "gl_max_content_chars = 1000000"

definition gl_notes_path :: string where
  "gl_notes_path = ''/projects/:id/merge_requests/:merge_request_iid/notes''"

definition gl_note_path :: string where
  "gl_note_path = ''/projects/:id/merge_requests/:merge_request_iid/notes/:note_id''"

text \<open>The loop over the notes goes on after a match: the last marked note is the one that is updated.\<close>

definition gl_note_target :: "env \<Rightarrow> json \<Rightarrow> string option \<Rightarrow> exc + string option" where
  "gl_note_target E note acc =
     ebind (jget note ''body'') (\<lambda>b. ebind (marked b) (\<lambda>mine.
     if mine then ebind (jget note ''id'') (\<lambda>i. Inr (Some (pstr E i))) else Inr acc))"

definition gl_create_or_update_pr_comment :: "env \<Rightarrow> scm_service \<Rightarrow> pr_details \<Rightarrow> exc + string \<Rightarrow> unit cio" where
  "gl_create_or_update_pr_comment E scm det content =
     bnd (lift (as_arg (repo_slug det))) (\<lambda>slug.
     let vars = [(''id'', url_quote_plus E slug), (''merge_request_iid'', pstr E (pr_id det))] in
     bnd (scm_exec scm None ''GET'' gl_notes_path (no_args\<lparr> rq_url_vars := vars \<rparr>)) (\<lambda>r.
     bnd (lift (json_on_ok r)) (\<lambda>notes.
     bnd (lift (py_iter notes)) (\<lambda>ns.
     bnd (lift (efoldM (gl_note_target E) ns None)) (\<lambda>target.
     bnd (lift content) (\<lambda>txt.
     bnd (case target of
            None \<Rightarrow> scm_exec scm None ''POST'' gl_notes_path
              (no_args\<lparr> rq_url_vars := vars, rq_body := JObj [(''body'', JStr txt)] \<rparr>)
          | Some i \<Rightarrow> scm_exec scm None ''PUT'' gl_note_path
              (no_args\<lparr> rq_url_vars := vars @ [(''note_id'', i)], rq_body := JObj [(''body'', JStr txt)] \<rparr>)) (\<lambda>r2.
     bnd (lift (json_on_ok r2)) (\<lambda>_. ret ()))))))))"

definition gl_comment :: "env \<Rightarrow> scm_service \<Rightarrow> pr_details \<Rightarrow> pr_content \<Rightarrow> unit cio" where
  "gl_comment E scm det c = gl_create_or_update_pr_comment E scm det (content_of c gl_max_content_chars)"

definition gl_create_code_permalink :: "env \<Rightarrow> scm_service \<Rightarrow> pr_details \<Rightarrow> json \<Rightarrow> json \<Rightarrow> exc + string" where
  "gl_create_code_permalink E scm det code_path code_line =
     Inr (form_url E (display_url scm)
       (''/'' @ pstr E (repo_slug det) @ ''/-/blob/'' @ pstr E (source_branch det) @ pstr E code_path)
       (Some (''L'' @ pstr E code_line)) [])"

definition GLService :: "env \<Rightarrow> scm_service \<Rightarrow> scm_service" where
  "GLService E scm =
     scm\<lparr> exec_pr_scan_update_decorate := (\<lambda>det c _. gl_comment E scm det c),
          exec_pr_scan_pending_decorate := (\<lambda>det c. gl_comment E scm det c),
          exec_pr_scan_failure_decorate := (\<lambda>det c _. gl_comment E scm det c),
          exec_pr_scan_success_decorate := (\<lambda>det c _. gl_comment E scm det c),
          exec_pr_unrecoverable_error := (\<lambda>det _ txt.
            gl_create_or_update_pr_comment E scm det (Inr (append_comment_identifier txt))),
          create_code_permalink := gl_create_code_permalink E scm \<rparr>"


section \<open>Bitbucket Data Center\<close>

definition bbdc_max_content_chars :: int where "bbdc_max_content_chars = 32000"

text \<open>A listing whose pages are in \<open>values\<close>; a page that is null or empty ends it.\<close>

definition page_values :: "json \<Rightarrow> exc + json list" where
  "page_values j = ebind (jget j ''values'') (\<lambda>v. if v = JNull then Inr [] else as_list v)"

text \<open>The offset counts pages, although the API takes it for a number of items.\<close>

definition bbdc_page :: "scm_service \<Rightarrow> string \<Rightarrow> nat \<Rightarrow> (json list \<times> bool) cio" where
  "bbdc_page scm path offset =
     bnd (scm_exec scm None ''GET'' path (no_args\<lparr> rq_query := JObj [(''start'', JInt (int offset))] \<rparr>)) (\<lambda>r.
     bnd (lift (json_on_ok r)) (\<lambda>j.
     bnd (lift (page_values j)) (\<lambda>buf.
     if buf = [] then ret ([], True)
     else bnd (lift (jget j ''isLastPage'')) (\<lambda>l. ret (buf, truthy l)))))"

definition bbdc_pr_path :: "env \<Rightarrow> pr_details \<Rightarrow> string" where
  "bbdc_pr_path E det = ''/rest/api/latest/projects/'' @ pstr E (repo_project det) @ ''/repos/'' @ pstr E (repo_slug det)
     @ ''/pull-requests/'' @ pstr E (pr_id det)"

definition key_in :: "string \<Rightarrow> json \<Rightarrow> exc + bool" where
  "key_in k j = ebind (as_dict j) (\<lambda>d. Inr (k \<in> set (dkeys d)))"

text \<open>An open comment that may be edited and carries the marker, with its version.\<close>

definition bbdc_editable :: "json \<Rightarrow> exc + bool" where
  "bbdc_editable comment =
     ebind (key_in ''threadResolved'' comment) (\<lambda>t. if \<not> t then Inr False else
     ebind (jget comment ''threadResolved'') (\<lambda>resolved. if truthy resolved then Inr False else
     ebind (key_in ''permittedOperations'' comment) (\<lambda>p. if \<not> p then Inr False else
     ebind (jget comment ''permittedOperations'') (\<lambda>ops.
     ebind (key_in ''editable'' ops) (\<lambda>e. if \<not> e then Inr False else
     ebind (jget ops ''editable'') (\<lambda>ed. if \<not> truthy ed then Inr False else
     key_in ''text'' comment))))))"

definition bbdc_own_comment :: "json \<Rightarrow> exc + (int \<times> int) option" where
  "bbdc_own_comment item =
     ebind (key_in ''comment'' item) (\<lambda>has. if \<not> has then Inr None else
     ebind (jget item ''comment'') (\<lambda>comment.
     ebind (bbdc_editable comment) (\<lambda>editable. if \<not> editable then Inr None else
     ebind (ebind (jget comment ''text'') marked) (\<lambda>mine. if \<not> mine then Inr None else
     ebind (ebind (jget comment ''id'') py_int) (\<lambda>i.
     ebind (ebind (jget comment ''version'') py_int) (\<lambda>v. Inr (Some (i, v))))))))"

definition bbdc_add_comment :: "env \<Rightarrow> scm_service \<Rightarrow> pr_details \<Rightarrow> string \<Rightarrow> (int \<times> int) cio" where
  "bbdc_add_comment E scm det markdown =
     bnd (scm_exec scm None ''POST'' (bbdc_pr_path E det @ ''/comments'')
       (with_body E (JObj [(''text'', JStr markdown)]) json_headers)) (\<lambda>r.
     bnd (lift (json_on_ok r)) (\<lambda>j.
     bnd (lift (ebind (jget j ''id'') py_int)) (\<lambda>i. bnd (lift (ebind (jget j ''version'') py_int)) (\<lambda>v. ret (i, v)))))"

definition bbdc_update_comment :: "env \<Rightarrow> scm_service \<Rightarrow> pr_details \<Rightarrow> int \<Rightarrow> int \<Rightarrow> string \<Rightarrow> unit cio" where
  "bbdc_update_comment E scm det i v markdown =
     bnd (scm_exec scm None ''PUT'' (bbdc_pr_path E det @ ''/comments/'' @ dec i)
       (with_body E (JObj [(''version'', JInt v), (''text'', JStr markdown)]) json_headers)) (\<lambda>_. ret ())"

definition bbdc_create_or_update_pr_comment :: "env \<Rightarrow> scm_service \<Rightarrow> pr_details \<Rightarrow> string \<Rightarrow> unit cio" where
  "bbdc_create_or_update_pr_comment E scm det content =
     bnd (page_search (bbdc_page scm (bbdc_pr_path E det @ ''/activities'')) bbdc_own_comment (fuel E) 0) (\<lambda>existing.
     case existing of
       None \<Rightarrow> bnd (bbdc_add_comment E scm det content) (\<lambda>_. ret ())
     | Some (i, v) \<Rightarrow> bbdc_update_comment E scm det i v content)"

definition bbdc_comment :: "env \<Rightarrow> scm_service \<Rightarrow> pr_details \<Rightarrow> pr_content \<Rightarrow> unit cio" where
  "bbdc_comment E scm det c =
     bnd (lift (content_of c bbdc_max_content_chars)) (bbdc_create_or_update_pr_comment E scm det)"

definition bbdc_create_code_permalink :: "env \<Rightarrow> scm_service \<Rightarrow> pr_details \<Rightarrow> json \<Rightarrow> json \<Rightarrow> exc + string" where
  "bbdc_create_code_permalink E scm det code_path code_line =
     Inr (form_url E (display_url scm)
       (''projects/'' @ pstr E (repo_project det) @ ''/repos/'' @ pstr E (repo_slug det) @ ''/browse'' @ pstr E code_path)
       (if code_line = JNull then None else Some (pstr E code_line)) [(''at'', source_branch det)])"

definition BBDCService :: "env \<Rightarrow> scm_service \<Rightarrow> scm_service" where
  "BBDCService E scm =
     scm\<lparr> exec_pr_scan_update_decorate := (\<lambda>det c _. bbdc_comment E scm det c),
          exec_pr_scan_pending_decorate := (\<lambda>det c. bbdc_comment E scm det c),
          exec_pr_scan_failure_decorate := (\<lambda>det c _. bbdc_comment E scm det c),
          exec_pr_scan_success_decorate := (\<lambda>det c _. bbdc_comment E scm det c),
          exec_pr_unrecoverable_error := (\<lambda>det _ txt.
            bbdc_create_or_update_pr_comment E scm det (append_comment_identifier txt)),
          create_code_permalink := bbdc_create_code_permalink E scm \<rparr>"


section \<open>Bitbucket Cloud\<close>

definition bbc_max_content_chars :: int where "bbc_max_content_chars = 32767"

definition bbc_page :: "scm_service \<Rightarrow> string \<Rightarrow> nat \<Rightarrow> (json list \<times> bool) cio" where
  "bbc_page scm path offset =
     bnd (scm_exec scm None ''GET'' path (no_args\<lparr> rq_query := JObj [(''page'', JInt (int offset + 1))] \<rparr>)) (\<lambda>r.
     bnd (lift (json_on_ok r)) (\<lambda>j.
     bnd (lift (page_values j)) (\<lambda>buf.
     if buf = [] then ret ([], True)
     else bnd (lift (as_dict j)) (\<lambda>d. ret (buf, dget d ''next'' \<in> {None, Some JNull})))))"

definition bbc_pr_path :: "env \<Rightarrow> pr_details \<Rightarrow> string" where
  "bbc_pr_path E det = ''/repositories/'' @ pstr E (organization det) @ ''/'' @ pstr E (repo_slug det)
     @ ''/pullrequests/'' @ pstr E (pr_id det) @ ''/comments''"

definition bbc_own_comment :: "json \<Rightarrow> exc + json option" where
  "bbc_own_comment comment =
     ebind (as_dict comment) (\<lambda>d.
     ebind (case dget d ''content'' of None \<Rightarrow> Inr [] | Some c \<Rightarrow> as_dict c) (\<lambda>content.
     case dget content ''raw'' of
       None \<Rightarrow> Inr None
     | Some raw \<Rightarrow>
         if raw = JNull then Inr None
         else ebind (marked raw) (\<lambda>mine.
           Inr (if mine then Some (case dget d ''id'' of None \<Rightarrow> JNull | Some i \<Rightarrow> i) else None))))"

definition bbc_mutate_comment :: "response cio \<Rightarrow> unit cio" where
  "bbc_mutate_comment m =
     bnd m (\<lambda>r. if \<not> ok r then ret () else bnd (lift (as_dict (body r))) (\<lambda>_. ret ()))"

definition bbc_payload :: "env \<Rightarrow> string \<Rightarrow> request_args" where
  "bbc_payload E content = with_body E (JObj [(''content'', JObj [(''raw'', JStr content)])]) json_headers"

definition bbc_create_or_update_comment :: "env \<Rightarrow> scm_service \<Rightarrow> pr_details \<Rightarrow> string \<Rightarrow> unit cio" where
  "bbc_create_or_update_comment E scm det markdown =
     bnd (page_search (bbc_page scm (bbc_pr_path E det)) bbc_own_comment (fuel E) 0) (\<lambda>existing.
     if existing \<in> {None, Some JNull}
     then bbc_mutate_comment (scm_exec scm None ''POST'' (bbc_pr_path E det) (bbc_payload E markdown))
     else bbc_mutate_comment (scm_exec scm None ''PUT'' (bbc_pr_path E det @ ''/'' @ pstr E (the existing))
       (bbc_payload E markdown)))"

definition bbc_comment :: "env \<Rightarrow> scm_service \<Rightarrow> pr_details \<Rightarrow> pr_content \<Rightarrow> unit cio" where
  "bbc_comment E scm det c =
     bnd (lift (content_of c bbc_max_content_chars)) (bbc_create_or_update_comment E scm det)"

definition bbc_create_code_permalink :: "env \<Rightarrow> scm_service \<Rightarrow> pr_details \<Rightarrow> json \<Rightarrow> json \<Rightarrow> exc + string" where
  "bbc_create_code_permalink E scm det code_path code_line =
     Inr (form_url E (display_url scm)
       (''/'' @ pstr E (organization det) @ ''/'' @ pstr E (repo_slug det) @ ''/src/'' @ pstr E (source_hash det)
        @ pstr E code_path)
       (Some (''lines-'' @ pstr E code_line)) [])"

definition BBCServiceBasic :: "env \<Rightarrow> scm_service \<Rightarrow> scm_service" where
  "BBCServiceBasic E scm =
     scm\<lparr> exec_pr_scan_update_decorate := (\<lambda>det c _. bbc_comment E scm det c),
          exec_pr_scan_pending_decorate := (\<lambda>det c. bbc_comment E scm det c),
          exec_pr_scan_failure_decorate := (\<lambda>det c _. bbc_comment E scm det c),
          exec_pr_scan_success_decorate := (\<lambda>det c _. bbc_comment E scm det c),
          exec_pr_unrecoverable_error := (\<lambda>det _ txt.
            bbc_create_or_update_comment E scm det (append_comment_identifier txt)),
          exec_pr_prescan_failure := (\<lambda>det txt.
            bbc_create_or_update_comment E scm det (append_comment_identifier txt)),
          create_code_permalink := bbc_create_code_permalink E scm \<rparr>"

text \<open>
  With checks, each comment comes after a build status. The link to Checkmarx One is that of the
  services configured under the moniker of this service: a function of the configuration.
\<close>

definition bbc_check_text_max :: int where "bbc_check_text_max = 128"

definition bbc_update_check :: "env \<Rightarrow> scm_service \<Rightarrow> string \<Rightarrow> string \<Rightarrow> pr_details \<Rightarrow> string \<Rightarrow> string option \<Rightarrow> unit cio" where
  "bbc_update_check E scm name st det description url =
     bnd (scm_exec scm None ''POST'' (''/repositories/'' @ pstr E (organization det) @ ''/'' @ pstr E (repo_slug det)
         @ ''/commit/'' @ pstr E (source_hash det) @ ''/statuses/build'')
       (with_body E (JObj [(''key'', JStr ''cxoneflow''), (''state'', JStr st), (''description'', JStr description),
          (''url'', jopt url), (''name'', JStr name)]) json_headers)) (\<lambda>_. ret ())"

definition bbc_content_check :: "env \<Rightarrow> scm_service \<Rightarrow> string \<Rightarrow> string \<Rightarrow> pr_details \<Rightarrow> pr_content \<Rightarrow> unit cio" where
  "bbc_content_check E scm name st det c =
     bbc_update_check E scm name st det (get_status_msg c bbc_check_text_max) (content_scan_url c)"

definition BBCServiceChecks :: "env \<Rightarrow> (string \<Rightarrow> exc + string) \<Rightarrow> string option \<Rightarrow> scm_service \<Rightarrow> scm_service" where
  "BBCServiceChecks E display_link_of check_name scm =
     (let name = policy_check_name check_name; basic = BBCServiceBasic E scm in
      basic\<lparr> exec_pr_scan_update_decorate := (\<lambda>det c m.
               bnd (bbc_content_check E scm name ''INPROGRESS'' det c) (\<lambda>_. exec_pr_scan_update_decorate basic det c m)),
             exec_pr_scan_pending_decorate := (\<lambda>det c.
               bnd (lift (display_link_of (scm_moniker scm))) (\<lambda>link.
               bnd (bbc_update_check E scm name ''INPROGRESS'' det (get_status_msg c bbc_check_text_max) (Some link)) (\<lambda>_.
               exec_pr_scan_pending_decorate basic det c))),
             exec_pr_scan_failure_decorate := (\<lambda>det c m.
               bnd (bbc_content_check E scm name ''FAILED'' det c) (\<lambda>_. exec_pr_scan_failure_decorate basic det c m)),
             exec_pr_scan_success_decorate := (\<lambda>det c m.
               bnd (bbc_content_check E scm name ''SUCCESSFUL'' det c) (\<lambda>_. exec_pr_scan_success_decorate basic det c m)),
             exec_pr_unrecoverable_error := (\<lambda>det m txt.
               bnd (lift (display_link_of (scm_moniker scm))) (\<lambda>link.
               bnd (lift (as_arg (target_branch det))) (\<lambda>br.
               bnd (bbc_update_check E scm name ''FAILED'' det txt
                 (Some (make_cxone_scan_url (url_quote_plus E) link (projectid m) (scanid m) br))) (\<lambda>_.
               exec_pr_unrecoverable_error basic det m txt)))),
             exec_pr_prescan_failure := (\<lambda>det txt.
               bnd (lift (display_link_of (scm_moniker scm))) (\<lambda>link.
               bnd (bbc_update_check E scm name ''FAILED'' det txt (Some link)) (\<lambda>_.
               exec_pr_prescan_failure basic det txt))) \<rparr>)"


section \<open>Azure DevOps\<close>

definition ado_max_content_chars :: int where "ado_max_content_chars = 150000"
definition ado_check_text_max :: int where "ado_check_text_max = 128"

definition ado_repo_path :: "env \<Rightarrow> pr_details \<Rightarrow> string" where
  "ado_repo_path E det = pstr E (organization det) @ ''/'' @ pstr E (repo_project det) @ ''/_apis/git/repositories/''
     @ pstr E (repo_slug det) @ ''/pullRequests/'' @ pstr E (pr_id det)"

definition api_version :: json where
  "api_version = JObj [(''api-version'', JStr ''7.0'')]"

definition ado_own_thread :: "json \<Rightarrow> exc + json option" where
  "ado_own_thread thread =
     ebind (key_in ''properties'' thread) (\<lambda>has. if \<not> has then Inr None else
     ebind (jget thread ''properties'') (\<lambda>props. if props = JNull then Inr None else
     ebind (key_in ''cxoneflow'' props) (\<lambda>own. if \<not> own then Inr None else
     ebind (jget thread ''isDeleted'') (\<lambda>deleted. if truthy deleted then Inr None else
     ebind (jget thread ''id'') (\<lambda>i. Inr (Some i))))))"

definition ado_get_pr_thread :: "env \<Rightarrow> scm_service \<Rightarrow> pr_details \<Rightarrow> json cio" where
  "ado_get_pr_thread E scm det =
     bnd (scm_exec scm None ''GET'' (ado_repo_path E det @ ''/threads'') (no_args\<lparr> rq_query := api_version \<rparr>)) (\<lambda>r.
     bnd (lift (json_on_ok r)) (\<lambda>threads.
     bnd (lift (ebind (jget threads ''value'') py_iter)) (\<lambda>ts.
     bnd (lift (first_match ado_own_thread ts)) (\<lambda>found.
     ret (case found of None \<Rightarrow> JNull | Some i \<Rightarrow> i)))))"

definition ado_update_pr_thread :: "env \<Rightarrow> scm_service \<Rightarrow> pr_details \<Rightarrow> json \<Rightarrow> string \<Rightarrow> unit cio" where
  "ado_update_pr_thread E scm det thread_id annot =
     bnd (scm_exec scm None ''PATCH'' (ado_repo_path E det @ ''/threads/'' @ pstr E thread_id @ ''/comments/1'')
       ((with_body E (JObj [(''content'', JStr annot)]) json_headers)\<lparr> rq_query := api_version \<rparr>)) (\<lambda>r.
     bnd (lift (json_on_ok r)) (\<lambda>_. ret ()))"

definition ado_thread_props :: "env \<Rightarrow> string \<Rightarrow> string cio" where
  "ado_thread_props E status_msg =
     bnd (clock E) (\<lambda>t.
     ret (json_dumps E (JObj [(''timestamp'', JStr (isoformat E t)), (''status'', JStr status_msg)])))"

definition ado_create_pr_thread :: "env \<Rightarrow> scm_service \<Rightarrow> pr_details \<Rightarrow> string \<Rightarrow> string \<Rightarrow> unit cio" where
  "ado_create_pr_thread E scm det annot status_msg =
     bnd (ado_thread_props E status_msg) (\<lambda>props.
     bnd (scm_exec scm None ''POST'' (ado_repo_path E det @ ''/threads'')
       ((with_body E (JObj
          [(''comments'', JArr [JObj [(''parentCommentId'', JInt 0), (''content'', JStr annot), (''commentType'', JInt 1)]]),
           (''status'', JInt 1), (''properties'', JObj [(''cxoneflow'', JStr props)])]) json_headers)
        \<lparr> rq_query := api_version \<rparr>)) (\<lambda>r.
     bnd (lift (json_on_ok r)) (\<lambda>thread.
     if thread = JNull then ret () else bnd (lift (jget thread ''id'')) (\<lambda>_. ret ()))))"

definition ado_create_or_update_pr_comment :: "env \<Rightarrow> scm_service \<Rightarrow> pr_details \<Rightarrow> pr_content \<Rightarrow> unit cio" where
  "ado_create_or_update_pr_comment E scm det c =
     bnd (ado_get_pr_thread E scm det) (\<lambda>thread.
     bnd (lift (content_of c ado_max_content_chars)) (\<lambda>txt.
     if thread = JNull then ado_create_pr_thread E scm det txt (get_status_msg c ado_max_content_chars)
     else ado_update_pr_thread E scm det thread txt))"

definition ado_create_code_permalink :: "env \<Rightarrow> scm_service \<Rightarrow> pr_details \<Rightarrow> json \<Rightarrow> json \<Rightarrow> exc + string" where
  "ado_create_code_permalink E scm det code_path code_line =
     Inr (form_url E (display_url scm)
       (pstr E (organization det) @ ''/'' @ pstr E (repo_project det) @ ''/_git/'' @ pstr E (repo_slug det)) None
       [(''path'', code_path), (''version'', JStr (''GB'' @ pstr E (source_branch det))), (''line'', code_line),
        (''lineEnd'', code_line), (''lineStartColumn'', JInt 0), (''lineEndColumn'', JInt 1024),
        (''lineStyle'', JStr ''plain''), (''_a'', JStr ''contents'')])"

text \<open>An unrecoverable error is written into an existing thread only.\<close>

definition ADOEServiceBasic :: "env \<Rightarrow> scm_service \<Rightarrow> scm_service" where
  "ADOEServiceBasic E scm =
     scm\<lparr> exec_pr_scan_update_decorate := (\<lambda>det c _. ado_create_or_update_pr_comment E scm det c),
          exec_pr_scan_pending_decorate := (\<lambda>det c. ado_create_or_update_pr_comment E scm det c),
          exec_pr_scan_failure_decorate := (\<lambda>det c _. ado_create_or_update_pr_comment E scm det c),
          exec_pr_scan_success_decorate := (\<lambda>det c _. ado_create_or_update_pr_comment E scm det c),
          exec_pr_unrecoverable_error := (\<lambda>det _ txt.
            bnd (ado_get_pr_thread E scm det) (\<lambda>thread.
            if thread \<noteq> JNull then ado_update_pr_thread E scm det thread txt else ret ())),
          create_code_permalink := ado_create_code_permalink E scm \<rparr>"

record ado_check =
  chk_name :: string
  chk_genre :: "string option"

definition ado_check_name :: "ado_check \<Rightarrow> string" where
  "ado_check_name k = (case chk_genre k of None \<Rightarrow> [] | Some g \<Rightarrow> g @ ''/'') @ chk_name k"

text \<open>The conditional expression spans the whole union: without a URL the payload is empty.\<close>

definition ado_check_payload :: "env \<Rightarrow> ado_check \<Rightarrow> string \<Rightarrow> string option \<Rightarrow> string option \<Rightarrow> json \<Rightarrow> json" where
  "ado_check_payload E k st url msg iteration =
     (case url of
        None \<Rightarrow> JObj []
      | Some u \<Rightarrow> JObj
          [(''iterationId'', iteration), (''state'', JStr st),
           (''description'', JStr (ado_check_name k @ '': '' @ pstr E (jopt msg))),
           (''context'', JObj [(''name'', JStr (chk_name k)), (''genre'', jopt (chk_genre k))]),
           (''targetUrl'', JStr u)])"

definition ado_iteration_query :: "env \<Rightarrow> json \<Rightarrow> string" where
  "ado_iteration_query E h =
     ''$.value[?(@.sourceRefCommit.commitId == '' @ [CHR 34] @ pstr E h @ [CHR 34] @ '')].id''"

definition ado_get_iteration :: "env \<Rightarrow> scm_service \<Rightarrow> pr_details \<Rightarrow> json cio" where
  "ado_get_iteration E scm det =
     bnd (scm_exec scm None ''GET'' (''/'' @ ado_repo_path E det @ ''/iterations?api-version=7.1'') no_args) (\<lambda>r.
     bnd (lift (json_on_ok r)) (\<lambda>iterations.
     bnd (lift (popE (jp_find E ''$.resource.lastMergeSourceCommit.commitId'' (message (det_event_context det))))) (\<lambda>h.
     ret (case rev (jp_find E (ado_iteration_query E h) iterations) of v # _ \<Rightarrow> v | [] \<Rightarrow> JInt 1))))"

definition ado_set_check_status :: "env \<Rightarrow> scm_service \<Rightarrow> ado_check \<Rightarrow> pr_details \<Rightarrow> string \<Rightarrow> string option \<Rightarrow> string option \<Rightarrow> unit cio" where
  "ado_set_check_status E scm k det st url msg =
     unless_denied
       (bnd (ado_get_iteration E scm det) (\<lambda>iteration.
        bnd (scm_exec scm None ''POST'' (''/'' @ ado_repo_path E det @ ''/statuses?api-version=7.1'')
          (with_body E (ado_check_payload E k st url msg iteration) json_headers)) (\<lambda>_. ret ())))
       ()"

definition ado_content_check :: "env \<Rightarrow> scm_service \<Rightarrow> ado_check \<Rightarrow> string \<Rightarrow> pr_details \<Rightarrow> pr_content \<Rightarrow> unit cio" where
  "ado_content_check E scm k st det c =
     ado_set_check_status E scm k det st (content_scan_url c) (Some (get_status_msg c ado_check_text_max))"

definition ADOEServiceChecks :: "env \<Rightarrow> ado_check \<Rightarrow> scm_service \<Rightarrow> scm_service" where
  "ADOEServiceChecks E k scm =
     (let basic = ADOEServiceBasic E scm in
      basic\<lparr> exec_pr_scan_update_decorate := (\<lambda>det c m.
               bnd (ado_content_check E scm k ''pending'' det c) (\<lambda>_. exec_pr_scan_update_decorate basic det c m)),
             exec_pr_scan_pending_decorate := (\<lambda>det c.
               bnd (ado_content_check E scm k ''pending'' det c) (\<lambda>_. exec_pr_scan_pending_decorate basic det c)),
             exec_pr_scan_failure_decorate := (\<lambda>det c m.
               bnd (ado_content_check E scm k ''failed'' det c) (\<lambda>_. exec_pr_scan_failure_decorate basic det c m)),
             exec_pr_scan_success_decorate := (\<lambda>det c m.
               bnd (ado_content_check E scm k ''succeeded'' det c) (\<lambda>_. exec_pr_scan_success_decorate basic det c m)),
             exec_pr_unrecoverable_error := (\<lambda>det m txt.
               bnd (ado_set_check_status E scm k det ''error'' None (Some txt)) (\<lambda>_.
               exec_pr_unrecoverable_error basic det m txt)) \<rparr>)"


section \<open>Decorations only talk to the SCM\<close>

lemma emits_page_search [emits_rules]:
  "(\<And>i. emits P (fetch i)) \<Longrightarrow> emits P (page_search fetch accept n off)"
  by (induction n arbitrary: off) (auto intro!: emits_rules)

lemma emits_unless_denied [emits_rules]: "emits P m \<Longrightarrow> emits P (unless_denied m x)"
  unfolding unless_denied_def by (auto intro!: emits_rules split: if_splits)

text \<open>
  The contract of a service that decorates pull requests: whatever it is asked to write, it sends
  requests to its SCM and nothing else. Every service of the package keeps it.
\<close>

locale pr_decorator =
  fixes scm :: scm_service
  assumes update: "emits http_or_sleep (exec_pr_scan_update_decorate scm det c m)"
    and pending: "emits http_or_sleep (exec_pr_scan_pending_decorate scm det c)"
    and failure: "emits http_or_sleep (exec_pr_scan_failure_decorate scm det c m)"
    and success: "emits http_or_sleep (exec_pr_scan_success_decorate scm det c m)"
    and unrecoverable: "emits http_or_sleep (exec_pr_unrecoverable_error scm det m txt)"
    and prescan: "emits http_or_sleep (exec_pr_prescan_failure scm det txt)"
begin

lemma emits_true_or_logged: "emits P m \<Longrightarrow> emits P (true_or_logged m)"
  unfolding true_or_logged_def by (auto intro!: emits_rules)

lemma prescan_notice: "emits http_or_sleep (process_prescan_pr_notice E svc msg scm)"
  unfolding process_prescan_pr_notice_def by (intro emits_rules emits_true_or_logged pending)

lemma pr_notice: "emits http_or_sleep (process_pr_notice E svc msg cx scm)"
  unfolding process_pr_notice_def by (intro emits_rules emits_true_or_logged update)

end

text \<open>One lemma per class, for any base service that talks HTTP.\<close>

lemma emits_gh_comment [emits_rules]:
  assumes "http_scm scm"
  shows "emits http_or_sleep (gh_create_or_update_pr_comment E scm det txt)"
    and "emits http_or_sleep (gh_comment E scm det c)"
  unfolding gh_comment_def gh_create_or_update_pr_comment_def gh_comment_page_def Let_def
  by (intro emits_rules assms)+

lemma decorator_GHServiceBasic: "http_scm scm \<Longrightarrow> pr_decorator (GHServiceBasic E scm)"
  by unfold_locales (simp_all add: GHServiceBasic_def emits_gh_comment)

lemma emits_gh_status [emits_rules]:
  assumes "http_scm scm"
  shows "emits http_or_sleep (gh_update_status E scm name st det c)"
    and "emits http_or_sleep (gh_plain_status E scm name det txt)"
  unfolding gh_update_status_def gh_plain_status_def gh_post_status_def by (intro emits_rules assms)+

lemma decorator_GHServiceCommitStatus: "http_scm scm \<Longrightarrow> pr_decorator (GHServiceCommitStatus E n scm)"
  by unfold_locales (simp_all add: GHServiceCommitStatus_def GHServiceBasic_def Let_def emits_bnd emits_gh_comment emits_gh_status)

lemma emits_gh_checks [emits_rules]:
  assumes "http_scm scm"
  shows "emits http_or_sleep (gh_checks_update E scm name det c m)"
    and "emits http_or_sleep (gh_checks_pending E scm name det c)"
    and "emits http_or_sleep (gh_close_check E scm name det status payload_of)"
  unfolding gh_checks_update_def gh_checks_pending_def gh_close_check_def gh_find_running_check_def gh_update_run_def
    gh_create_run_def Let_def
  by (intro emits_rules assms)+

lemma decorator_GHServiceChecks:
  "pr_decorator scm \<Longrightarrow> http_scm scm \<Longrightarrow> pr_decorator (GHServiceChecks E n scm)"
  by unfold_locales (simp_all add: GHServiceChecks_def Let_def emits_gh_checks)

lemma emits_gl_comment [emits_rules]:
  assumes "http_scm scm"
  shows "emits http_or_sleep (gl_create_or_update_pr_comment E scm det txt)"
    and "emits http_or_sleep (gl_comment E scm det c)"
  unfolding gl_comment_def gl_create_or_update_pr_comment_def Let_def by (intro emits_rules assms)+

lemma decorator_GLService: "pr_decorator scm \<Longrightarrow> http_scm scm \<Longrightarrow> pr_decorator (GLService E scm)"
  by unfold_locales (simp_all add: GLService_def emits_gl_comment pr_decorator.prescan)

lemma emits_bbdc_comment [emits_rules]:
  assumes "http_scm scm"
  shows "emits http_or_sleep (bbdc_create_or_update_pr_comment E scm det txt)"
    and "emits http_or_sleep (bbdc_comment E scm det c)"
  unfolding bbdc_comment_def bbdc_create_or_update_pr_comment_def bbdc_page_def bbdc_add_comment_def
    bbdc_update_comment_def
  by (intro emits_rules assms)+

lemma decorator_BBDCService: "pr_decorator scm \<Longrightarrow> http_scm scm \<Longrightarrow> pr_decorator (BBDCService E scm)"
  by unfold_locales (simp_all add: BBDCService_def emits_bbdc_comment pr_decorator.prescan)

lemma emits_bbc_comment [emits_rules]:
  assumes "http_scm scm"
  shows "emits http_or_sleep (bbc_create_or_update_comment E scm det txt)"
    and "emits http_or_sleep (bbc_comment E scm det c)"
    and "emits http_or_sleep (bbc_update_check E scm name st det txt url)"
    and "emits http_or_sleep (bbc_content_check E scm name st det c)"
  unfolding bbc_comment_def bbc_create_or_update_comment_def bbc_page_def bbc_mutate_comment_def bbc_update_check_def
    bbc_content_check_def
  by (intro emits_rules assms)+

lemma decorator_BBCServiceBasic: "http_scm scm \<Longrightarrow> pr_decorator (BBCServiceBasic E scm)"
  by unfold_locales (simp_all add: BBCServiceBasic_def emits_bbc_comment)

lemma decorator_BBCServiceChecks: "http_scm scm \<Longrightarrow> pr_decorator (BBCServiceChecks E link n scm)"
  by unfold_locales
    (simp_all add: BBCServiceChecks_def BBCServiceBasic_def Let_def emits_bnd emits_lift emits_bbc_comment)

lemma emits_ado_comment [emits_rules]:
  assumes "http_scm scm"
  shows "emits http_or_sleep (ado_get_pr_thread E scm det)"
    and "emits http_or_sleep (ado_update_pr_thread E scm det i txt)"
    and "emits http_or_sleep (ado_create_pr_thread E scm det txt status)"
    and "emits http_or_sleep (ado_set_check_status E scm k det st url msg)"
  unfolding ado_get_pr_thread_def ado_update_pr_thread_def ado_create_pr_thread_def ado_thread_props_def
    ado_set_check_status_def ado_get_iteration_def
  by (intro emits_rules assms)+

lemma emits_ado_write [emits_rules]:
  assumes "http_scm scm"
  shows "emits http_or_sleep (ado_create_or_update_pr_comment E scm det c)"
    and "emits http_or_sleep (ado_content_check E scm k st det c)"
  unfolding ado_create_or_update_pr_comment_def ado_content_check_def by (intro emits_rules assms)+

lemma decorator_ADOEServiceBasic: "pr_decorator scm \<Longrightarrow> http_scm scm \<Longrightarrow> pr_decorator (ADOEServiceBasic E scm)"
  by unfold_locales
    (simp_all add: ADOEServiceBasic_def emits_bnd emits_if emits_ret emits_ado_comment emits_ado_write pr_decorator.prescan)

lemma decorator_ADOEServiceChecks: "pr_decorator scm \<Longrightarrow> http_scm scm \<Longrightarrow> pr_decorator (ADOEServiceChecks E k scm)"
  by unfold_locales
    (simp_all add: ADOEServiceChecks_def ADOEServiceBasic_def Let_def emits_bnd emits_if emits_ret emits_ado_comment
      emits_ado_write pr_decorator.prescan)

text \<open>The services as the factories build them, on the base class and a session.\<close>

interpretation base_service: pr_decorator "SCMService E url mk ses sec cl" for E url mk ses sec cl
  by unfold_locales (simp_all add: SCMService_def emits_raise)

lemmas on_session = http_scm_SCMService base_service.pr_decorator_axioms

interpretation gh_basic: pr_decorator "GHServiceBasic E (SCMService E url mk ses sec cl)" for E url mk ses sec cl
  by (intro decorator_GHServiceBasic on_session)

interpretation gh_status: pr_decorator "GHServiceCommitStatus E n (SCMService E url mk ses sec cl)" for E n url mk ses sec cl
  by (intro decorator_GHServiceCommitStatus on_session)

interpretation gh_checks: pr_decorator "GHServiceChecks E n (SCMService E url mk ses sec cl)" for E n url mk ses sec cl
  by (intro decorator_GHServiceChecks on_session)

interpretation gl_service: pr_decorator "GLService E (SCMService E url mk ses sec cl)" for E url mk ses sec cl
  by (intro decorator_GLService on_session)

interpretation bbdc_service: pr_decorator "BBDCService E (SCMService E url mk ses sec cl)" for E url mk ses sec cl
  by (intro decorator_BBDCService on_session)

interpretation bbc_basic: pr_decorator "BBCServiceBasic E (SCMService E url mk ses sec cl)" for E url mk ses sec cl
  by (intro decorator_BBCServiceBasic on_session)

interpretation bbc_checks: pr_decorator "BBCServiceChecks E link n (SCMService E url mk ses sec cl)"
  for E link n url mk ses sec cl
  by (intro decorator_BBCServiceChecks on_session)

interpretation ado_basic: pr_decorator "ADOEServiceBasic E (SCMService E url mk ses sec cl)" for E url mk ses sec cl
  by (intro decorator_ADOEServiceBasic on_session)

interpretation ado_checks: pr_decorator "ADOEServiceChecks E k (SCMService E url mk ses sec cl)" for E k url mk ses sec cl
  by (intro decorator_ADOEServiceChecks on_session)


section \<open>One comment per pull request\<close>

lemma first_match_append:
  "first_match accept (xs @ ys) =
     ebind (first_match accept xs) (\<lambda>r. case r of Some y \<Rightarrow> Inr (Some y) | None \<Rightarrow> first_match accept ys)"
proof (induction xs)
  case (Cons x xs)
  then show ?case by (cases "accept x") (auto split: option.splits)
qed simp

text \<open>
  On a listing that is served page by page the search gives what looking through all items in the
  order of the generator gives.
\<close>

context page_source
begin

lemma search_from:
  "serves pages \<Longrightarrow> i < length pages \<Longrightarrow> length pages \<le> i + n \<Longrightarrow>
     first_match accept (concat (map rev (drop i pages))) = Inr res \<Longrightarrow>
     \<exists>w'. page_search fetch accept n i w = (Inr res, w')"
proof (induction n arbitrary: i w)
  case 0
  then show ?case by simp
next
  case (Suc n)
  obtain w1 where f: "fetch i w = (Inr (pages ! i, Suc i = length pages), w1)"
    using deliver [OF Suc.prems(1,2)] by blast
  have "drop i pages = pages ! i # drop (Suc i) pages" using Suc.prems(2) by (simp add: Cons_nth_drop_Suc)
  then have m: "ebind (first_match accept (rev (pages ! i))) (\<lambda>r. case r of Some y \<Rightarrow> Inr (Some y)
      | None \<Rightarrow> first_match accept (concat (map rev (drop (Suc i) pages)))) = Inr res"
    using Suc.prems(4) by (simp add: first_match_append)
  show ?case
  proof (cases "Suc i = length pages")
    case True
    then show ?thesis using f m by (cases w1) (auto simp: bnd_step ebind_Inr_iff split: option.splits)
  next
    case False
    then have lt: "Suc i < length pages" using Suc.prems(2) by simp
    with Suc.IH [of "Suc i" w1] Suc.prems show ?thesis
      using f m nonempty [OF Suc.prems(1) lt] False by (cases w1) (auto simp: bnd_step ebind_Inr_iff split: option.splits)
  qed
qed

lemma search:
  assumes "serves pages" and "length pages \<le> n" and "first_match accept (concat (map rev pages)) = Inr res"
  shows "\<exists>w'. page_search fetch accept n 0 w = (Inr res, w')"
  using search_from [of pages 0 n accept res w] assms some by auto

end

text \<open>Bitbucket Cloud lists comments: pages with a link to the next, except the last.\<close>

definition bbc_lists :: "scm_service \<Rightarrow> string \<Rightarrow> json list list \<Rightarrow> bool" where
  "bbc_lists scm path pages \<longleftrightarrow> pages \<noteq> [] \<and> (\<forall>i. Suc i < length pages \<longrightarrow> pages ! i \<noteq> [])
     \<and> (\<forall>i w. i < length pages \<longrightarrow>
         (\<exists>r w' d. scm_exec scm None ''GET'' path (no_args\<lparr> rq_query := JObj [(''page'', JInt (int i + 1))] \<rparr>) w = (Inr r, w')
            \<and> ok r \<and> body r = JObj d \<and> dget d ''values'' = Some (JArr (pages ! i))
            \<and> (dget d ''next'' \<in> {None, Some JNull} \<longleftrightarrow> Suc i = length pages)))"

interpretation bbc_comments: page_source "bbc_page scm path" "bbc_lists scm path" for scm path
proof
  fix pages i and w :: "event list \<times> mem"
  assume l: "bbc_lists scm path pages" and i: "i < length pages"
  have "\<exists>r w' d. scm_exec scm None ''GET'' path (no_args\<lparr> rq_query := JObj [(''page'', JInt (int i + 1))] \<rparr>) w = (Inr r, w')
      \<and> ok r \<and> body r = JObj d \<and> dget d ''values'' = Some (JArr (pages ! i))
      \<and> (dget d ''next'' \<in> {None, Some JNull} \<longleftrightarrow> Suc i = length pages)"
    using l i unfolding bbc_lists_def by blast
  then obtain r w' d where r: "scm_exec scm None ''GET'' path (no_args\<lparr> rq_query := JObj [(''page'', JInt (int i + 1))] \<rparr>) w = (Inr r, w')"
    "ok r" "body r = JObj d" "dget d ''values'' = Some (JArr (pages ! i))"
    "dget d ''next'' \<in> {None, Some JNull} \<longleftrightarrow> Suc i = length pages" by blast
  have "pages ! i = [] \<Longrightarrow> Suc i = length pages" using l i unfolding bbc_lists_def by force
  then show "\<exists>w'. bbc_page scm path i w = (Inr (pages ! i, Suc i = length pages), w')"
    using r by (cases w') (auto simp: bbc_page_def bnd_step json_on_ok_def page_values_def)
qed (auto simp: bbc_lists_def)

text \<open>
  A comment that carries the marker is updated in place; only a pull request without one gets a
  new comment.
\<close>

lemma bbc_comment_upserted:
  assumes "bbc_lists scm (bbc_pr_path E det) pages" and "length pages \<le> fuel E"
    and "first_match bbc_own_comment (concat (map rev pages)) = Inr found"
  shows "\<exists>w'. bbc_create_or_update_comment E scm det txt w =
    bbc_mutate_comment
      (if found \<in> {None, Some JNull} then scm_exec scm None ''POST'' (bbc_pr_path E det) (bbc_payload E txt)
       else scm_exec scm None ''PUT'' (bbc_pr_path E det @ ''/'' @ pstr E (the found)) (bbc_payload E txt)) w'"
proof -
  obtain w' where "page_search (bbc_page scm (bbc_pr_path E det)) bbc_own_comment (fuel E) 0 w = (Inr found, w')"
    using bbc_comments.search [OF assms] by blast
  then show ?thesis by (intro exI [of _ w']) (simp add: bbc_create_or_update_comment_def bnd_step)
qed

text \<open>What a service wrote is recognised by it later, whatever of the comment was cut off.\<close>

lemma marked_content:
  assumes "get_content E c limit = Inr s" and "int (length (overflow_link c)) + int (length comment_identifier) + 2 < limit"
  shows "marked (JStr s) = Inr True"
  using get_content_identified [OF assms(1)] assms(2) by (simp add: marked_def)

lemma marked_recognised:
  assumes "marked (JStr s) = Inr True"
  shows "gh_own_comment (JObj [(''id'', i), (''body'', JStr s)]) = Inr (Some i)"
    and "gl_note_target E (JObj [(''id'', i), (''body'', JStr s)]) acc = Inr (Some (pstr E i))"
    and "bbc_own_comment (JObj [(''id'', i), (''content'', JObj [(''raw'', JStr s)])]) = Inr (Some i)"
    and "bbdc_own_comment (JObj [(''comment'', JObj [(''id'', JInt n), (''version'', JInt v), (''threadResolved'', JBool False),
           (''permittedOperations'', JObj [(''editable'', JBool True)]), (''text'', JStr s)])]) = Inr (Some (n, v))"
  using assms
  by (simp_all add: gh_own_comment_def gl_note_target_def bbc_own_comment_def bbdc_own_comment_def bbdc_editable_def key_in_def)

text \<open>
  GitHub: a page of a hundred comments is taken for the last one. When the marked comment is not
  on it, a second comment is created.
\<close>

lemma gh_full_page_ends_search:
  assumes "gh_comment_page E scm det 0 w = (Inr (xs, b), w1)" and "gh_comment_page_max \<le> length xs"
    and "first_match gh_own_comment (rev xs) = Inr None" and "0 < fuel E"
  shows "page_search (gh_comment_page E scm det) gh_own_comment (fuel E) 0 w = (Inr None, w1)"
proof -
  have "b" using assms(1,2)
    by (auto simp: gh_comment_page_def bnd_Inr_iff split: if_splits)
  moreover have "xs \<noteq> []" using assms(2) by (auto simp: gh_comment_page_max_def)
  moreover obtain n where "fuel E = Suc n" using assms(4) by (cases "fuel E") auto
  ultimately show ?thesis using assms(1,3) by (simp add: bnd_step)
qed

lemma gh_duplicate_comment:
  assumes "gh_comment_page E scm det 0 w = (Inr (xs, b), w1)" and "gh_comment_page_max \<le> length xs"
    and "first_match gh_own_comment (rev xs) = Inr None" and "0 < fuel E"
  shows "gh_create_or_update_pr_comment E scm det txt w =
    bnd (scm_exec scm (Some (det_event_context det)) ''POST''
          (gh_repo_path E det @ ''/issues/'' @ pstr E (pr_id det) @ ''/comments'')
          (with_body E (JObj [(''body'', JStr txt)]) [])) (\<lambda>r.
     bnd (lift (json_on_ok r)) (\<lambda>j. bnd (lift (jget j ''id'')) (\<lambda>_. ret ()))) w1"
  using gh_full_page_ends_search [OF assms] by (simp add: gh_create_or_update_pr_comment_def Let_def bnd_step)

text \<open>Azure DevOps: the status of an error without a scan is posted without any field.\<close>

lemma ado_error_check_empty: "ado_check_payload E k st None msg iteration = JObj []"
  by (simp add: ado_check_payload_def)

end
