(* ===== verification/Topology.thy ===== *)
theory Topology
  imports OrchBase
begin

text \<open>
  \<open>rabbit_config.py\<close> with the names of \<open>workflows/feedback_services/pr/queue_constants.py\<close> and of the
  services: the exchanges, queues and bindings that are declared at the broker, in the order of the
  source. \<open>delivered\<close> is how a broker routes by them (fanout and topic exchanges, one level of
  exchange bindings, dead letter exchanges); the lemmas show that every kind of message the
  services publish ends in the queue of its consumer and nowhere else.
\<close>


section \<open>Names\<close>

definition EXCHANGE_SCAN_WAIT :: string where "EXCHANGE_SCAN_WAIT = ''cx:Scan Await''"
definition EXCHANGE_SCAN_POLLING :: string where "EXCHANGE_SCAN_POLLING = ''cx:Scan Polling Delivery''"
definition EXCHANGE_SCAN_INPUT_LEGACY :: string where "EXCHANGE_SCAN_INPUT_LEGACY = ''cx:'' @ ''pr:'' @ ''Scan In''"
definition EXCHANGE_SCAN_WAIT_LEGACY :: string where "EXCHANGE_SCAN_WAIT_LEGACY = ''cx:'' @ ''pr:'' @ ''Scan Await''"
definition EXCHANGE_SCAN_POLLING_LEGACY :: string where
  "EXCHANGE_SCAN_POLLING_LEGACY = ''cx:'' @ ''pr:'' @ ''Scan Polling Delivery''"
definition EXCHANGE_PRESCAN_ANNOTATE :: string where "EXCHANGE_PRESCAN_ANNOTATE = ''cx:'' @ ''pr:'' @ ''Prescan Annotate''"
definition EXCHANGE_SCAN_ANNOTATE :: string where "EXCHANGE_SCAN_ANNOTATE = ''cx:'' @ ''pr:'' @ ''Scan Annotate''"
definition EXCHANGE_SCAN_FEEDBACK :: string where "EXCHANGE_SCAN_FEEDBACK = ''cx:'' @ ''pr:'' @ ''Scan Feedback''"
definition EXCHANGE_SARIF_WORK :: string where "EXCHANGE_SARIF_WORK = ''cx:'' @ ''push:'' @ ''Sarif Workflows''"
definition EXCHANGE_RESOLVER_SCAN_DLX :: string where
  "EXCHANGE_RESOLVER_SCAN_DLX = ''cx:'' @ ''res:'' @ ''SCA Resolver DLX''"

definition QUEUE_SCAN_POLLING :: string where "QUEUE_SCAN_POLLING = ''cx:'' @ ''Polling Scans''"
definition QUEUE_SCAN_WAIT :: string where "QUEUE_SCAN_WAIT = ''cx:'' @ ''Awaited Scans''"
definition QUEUE_SCAN_POLLING_LEGACY :: string where "QUEUE_SCAN_POLLING_LEGACY = ''cx:'' @ ''pr:'' @ ''Polling Scans''"
definition QUEUE_SCAN_WAIT_LEGACY :: string where "QUEUE_SCAN_WAIT_LEGACY = ''cx:'' @ ''pr:'' @ ''Awaited Scans''"
definition QUEUE_PRESCAN_ANNOTATE_PR :: string where
  "QUEUE_PRESCAN_ANNOTATE_PR = ''cx:'' @ ''pr:'' @ ''Prescan PR Annotating''"
definition QUEUE_ANNOTATE_PR :: string where "QUEUE_ANNOTATE_PR = ''cx:'' @ ''pr:'' @ ''PR Annotating''"
definition QUEUE_FEEDBACK_PR :: string where "QUEUE_FEEDBACK_PR = ''cx:'' @ ''pr:'' @ ''PR Feedback''"
definition QUEUE_FAILURE_PR :: string where "QUEUE_FAILURE_PR = ''cx:'' @ ''pr:'' @ ''PR Scan Failure''"
definition QUEUE_SARIF_GEN :: string where "QUEUE_SARIF_GEN = ''cx:'' @ ''push:'' @ ''Generate Sarif''"
definition QUEUE_RESOLVER_COMPLETE :: string where
  "QUEUE_RESOLVER_COMPLETE = ''cx:'' @ ''res:'' @ ''Finished Resolver Scans''"
definition QUEUE_RESOLVER_TIMEOUT :: string where "QUEUE_RESOLVER_TIMEOUT = ''cx:'' @ ''res:'' @ ''Resolver Timeout''"

definition ROUTEKEY_POLL_BINDING :: string where
  "ROUTEKEY_POLL_BINDING = ''cx.'' @ ''*.'' @ str_ScanStates AWAIT @ ''.*.*''"
definition ROUTEKEY_POLL_BINDING_LEGACY :: string where
  "ROUTEKEY_POLL_BINDING_LEGACY = ''cx.'' @ ''pr.'' @ str_ScanStates AWAIT @ ''.*.*''"

text \<open>The four keys of the pull request queues differ in the state.\<close>

definition ROUTEKEY_PR :: "ScanStates \<Rightarrow> string" where
  "ROUTEKEY_PR st = ''cx.'' @ ''pr.'' @ str_ScanStates st @ ''.'' @ str_FeedbackWorkflow FB_PR @ ''.*''"
definition ROUTEKEY_GEN_SARIF :: string where
  "ROUTEKEY_GEN_SARIF = ''cx.'' @ ''push.'' @ str_ScanStates FEEDBACK @ ''.'' @ str_FeedbackWorkflow PUSH_GEN @ ''.*''"
definition ROUTEKEY_EXEC_SCA_SCAN_COMPLETE :: string where
  "ROUTEKEY_EXEC_SCA_SCAN_COMPLETE =
     ''cx.'' @ ''res.'' @ str_ScanStates EXECUTE @ ''.'' @ str_ExecTypes RESOLVER @ ''.'' @ str_ResolverOps SCAN_COMPLETE @ ''.#''"
definition ROUTEKEY_DLX :: string where "ROUTEKEY_DLX = ''cx.'' @ ''res.'' @ ''#''"

lemmas exchange_names = EXCHANGE_SCAN_INPUT_def EXCHANGE_SCAN_WAIT_def EXCHANGE_SCAN_POLLING_def
  EXCHANGE_SCAN_INPUT_LEGACY_def EXCHANGE_SCAN_WAIT_LEGACY_def EXCHANGE_SCAN_POLLING_LEGACY_def
  EXCHANGE_PRESCAN_ANNOTATE_def EXCHANGE_SCAN_ANNOTATE_def EXCHANGE_SCAN_FEEDBACK_def EXCHANGE_SARIF_WORK_def
  EXCHANGE_RESOLVER_SCAN_def EXCHANGE_RESOLVER_SCAN_DLX_def

lemmas queue_names = QUEUE_SCAN_POLLING_def QUEUE_SCAN_WAIT_def QUEUE_SCAN_POLLING_LEGACY_def QUEUE_SCAN_WAIT_LEGACY_def
  QUEUE_PRESCAN_ANNOTATE_PR_def QUEUE_ANNOTATE_PR_def QUEUE_FEEDBACK_PR_def QUEUE_FAILURE_PR_def QUEUE_SARIF_GEN_def
  QUEUE_RESOLVER_COMPLETE_def QUEUE_RESOLVER_TIMEOUT_def

lemmas routekeys = ROUTEKEY_POLL_BINDING_def ROUTEKEY_POLL_BINDING_LEGACY_def ROUTEKEY_PR_def ROUTEKEY_GEN_SARIF_def
  ROUTEKEY_EXEC_SCA_SCAN_COMPLETE_def ROUTEKEY_DLX_def


section \<open>Declarations\<close>

definition scan_declarations :: "mq_decl list" where
  "scan_declarations =
     [DeclareExchange EXCHANGE_SCAN_INPUT_LEGACY FANOUT False,
      DeclareExchange EXCHANGE_SCAN_INPUT FANOUT False,
      DeclareExchange EXCHANGE_SCAN_WAIT_LEGACY TOPIC True,
      DeclareExchange EXCHANGE_SCAN_WAIT TOPIC True,
      DeclareExchange EXCHANGE_PRESCAN_ANNOTATE TOPIC True,
      DeclareExchange EXCHANGE_SCAN_ANNOTATE TOPIC True,
      DeclareExchange EXCHANGE_SCAN_FEEDBACK TOPIC True,
      DeclareExchange EXCHANGE_SARIF_WORK TOPIC True,
      BindExchange EXCHANGE_SCAN_WAIT_LEGACY EXCHANGE_SCAN_INPUT_LEGACY,
      BindExchange EXCHANGE_SCAN_WAIT EXCHANGE_SCAN_INPUT,
      BindExchange EXCHANGE_SCAN_FEEDBACK EXCHANGE_SCAN_INPUT_LEGACY,
      BindExchange EXCHANGE_SCAN_FEEDBACK EXCHANGE_SCAN_INPUT,
      BindExchange EXCHANGE_SARIF_WORK EXCHANGE_SCAN_INPUT,
      BindExchange EXCHANGE_SCAN_ANNOTATE EXCHANGE_SCAN_INPUT_LEGACY,
      BindExchange EXCHANGE_SCAN_ANNOTATE EXCHANGE_SCAN_INPUT,
      BindExchange EXCHANGE_PRESCAN_ANNOTATE EXCHANGE_SCAN_INPUT_LEGACY,
      BindExchange EXCHANGE_PRESCAN_ANNOTATE EXCHANGE_SCAN_INPUT,
      DeclareExchange EXCHANGE_SCAN_POLLING_LEGACY TOPIC True,
      DeclareExchange EXCHANGE_SCAN_POLLING TOPIC True,
      DeclareQueue QUEUE_SCAN_WAIT_LEGACY (Some EXCHANGE_SCAN_POLLING_LEGACY),
      DeclareQueue QUEUE_SCAN_WAIT (Some EXCHANGE_SCAN_POLLING),
      BindQueue QUEUE_SCAN_WAIT_LEGACY EXCHANGE_SCAN_WAIT_LEGACY ROUTEKEY_POLL_BINDING_LEGACY,
      BindQueue QUEUE_SCAN_WAIT EXCHANGE_SCAN_WAIT ROUTEKEY_POLL_BINDING,
      DeclareQueue QUEUE_SCAN_POLLING_LEGACY None,
      DeclareQueue QUEUE_SCAN_POLLING None,
      BindQueue QUEUE_SCAN_POLLING_LEGACY EXCHANGE_SCAN_POLLING_LEGACY ROUTEKEY_POLL_BINDING_LEGACY,
      BindQueue QUEUE_SCAN_POLLING EXCHANGE_SCAN_POLLING ROUTEKEY_POLL_BINDING,
      DeclareQueue QUEUE_FEEDBACK_PR None,
      BindQueue QUEUE_FEEDBACK_PR EXCHANGE_SCAN_FEEDBACK (ROUTEKEY_PR FEEDBACK),
      DeclareQueue QUEUE_SARIF_GEN None,
      BindQueue QUEUE_SARIF_GEN EXCHANGE_SARIF_WORK ROUTEKEY_GEN_SARIF,
      DeclareQueue QUEUE_PRESCAN_ANNOTATE_PR None,
      BindQueue QUEUE_PRESCAN_ANNOTATE_PR EXCHANGE_PRESCAN_ANNOTATE (ROUTEKEY_PR PRESCAN),
      DeclareQueue QUEUE_ANNOTATE_PR None,
      BindQueue QUEUE_ANNOTATE_PR EXCHANGE_SCAN_ANNOTATE (ROUTEKEY_PR ANNOTATE),
      DeclareQueue QUEUE_FAILURE_PR None,
      BindQueue QUEUE_FAILURE_PR EXCHANGE_SCAN_FEEDBACK (ROUTEKEY_PR FAILURE)]"

definition tag_declarations :: "string \<times> string \<Rightarrow> mq_decl list" where
  "tag_declarations = (\<lambda>(queue, topic).
     [DeclareQueue queue (Some EXCHANGE_RESOLVER_SCAN_DLX), BindQueue queue EXCHANGE_RESOLVER_SCAN topic])"

definition resolver_declarations :: "env \<Rightarrow> resolver_service \<Rightarrow> mq_decl list" where
  "resolver_declarations E svc =
     [DeclareExchange EXCHANGE_RESOLVER_SCAN TOPIC False,
      DeclareExchange EXCHANGE_RESOLVER_SCAN_DLX TOPIC True,
      DeclareQueue QUEUE_RESOLVER_TIMEOUT None,
      BindQueue QUEUE_RESOLVER_TIMEOUT EXCHANGE_RESOLVER_SCAN_DLX ROUTEKEY_DLX]
     @ concat (map tag_declarations (queue_and_topic_tuples E svc)) @
     [DeclareQueue QUEUE_RESOLVER_COMPLETE None,
      BindQueue QUEUE_RESOLVER_COMPLETE EXCHANGE_RESOLVER_SCAN ROUTEKEY_EXEC_SCA_SCAN_COMPLETE]"

text \<open>\<open>async with client.channel()\<close>: the channel is closed however the block ends.\<close>

definition on_channel :: "env \<Rightarrow> mq_decl list \<Rightarrow> unit cio" where
  "on_channel E ds =
     bnd (mq E MqClient) (\<lambda>_.
     bnd (mq E MqChannel) (\<lambda>_.
     bnd (attempt (mapM (\<lambda>d. mq E (MqDeclare d)) ds)) (\<lambda>r.
     bnd (mq E MqClose) (\<lambda>_.
     bnd (lift r) (\<lambda>_. ret ())))))"

definition setup_service :: "env \<Rightarrow> services \<Rightarrow> unit cio" where
  "setup_service E sv =
     bnd (on_channel E scan_declarations) (\<lambda>_. on_channel E (resolver_declarations E (sv_resolver sv)))"

text \<open>The services by moniker are in the order of the configuration.\<close>

definition setup_broker :: "env \<Rightarrow> services dict \<Rightarrow> unit cio" where
  "setup_broker E cfg = bnd (mapM (\<lambda>(mk, sv). setup_service E sv) cfg) (\<lambda>_. ret ())"


section \<open>Routing\<close>

text \<open>Topic patterns: a star stands for one word, a hash for any number of words.\<close>

fun topic_match :: "string list \<Rightarrow> string list \<Rightarrow> bool" where
  "topic_match [] ws = (ws = [])"
| "topic_match (p # ps) [] = (p = ''#'' \<and> topic_match ps [])"
| "topic_match (p # ps) (w # ws) =
     (if p = ''#'' then topic_match ps (w # ws) \<or> topic_match (p # ps) ws
      else (p = ''*'' \<or> p = w) \<and> topic_match ps ws)"

definition fanout :: "mq_decl list \<Rightarrow> string \<Rightarrow> bool" where
  "fanout ds ex = list_ex (\<lambda>d. case d of DeclareExchange e k _ \<Rightarrow> e = ex \<and> k = FANOUT | _ \<Rightarrow> False) ds"

definition binding_matches :: "mq_decl list \<Rightarrow> string \<Rightarrow> string \<Rightarrow> string \<Rightarrow> bool" where
  "binding_matches ds ex pat key \<longleftrightarrow> fanout ds ex \<or> topic_match (split_on CHR ''.'' pat) (split_on CHR ''.'' key)"

fun bound_queue :: "mq_decl list \<Rightarrow> string \<Rightarrow> string \<Rightarrow> mq_decl \<Rightarrow> string list" where
  "bound_queue ds ex key (BindQueue q e pat) = (if e = ex \<and> binding_matches ds ex pat key then [q] else [])"
| "bound_queue ds ex key _ = []"

definition queues_at :: "mq_decl list \<Rightarrow> string \<Rightarrow> string \<Rightarrow> string list" where
  "queues_at ds ex key = concat (map (bound_queue ds ex key) ds)"

text \<open>Exchanges are bound to a source with the empty key.\<close>

fun bound_exchange :: "mq_decl list \<Rightarrow> string \<Rightarrow> string \<Rightarrow> mq_decl \<Rightarrow> string list" where
  "bound_exchange ds ex key (BindExchange dest src) = (if src = ex \<and> binding_matches ds ex [] key then [dest] else [])"
| "bound_exchange ds ex key _ = []"

definition delivered :: "mq_decl list \<Rightarrow> string \<Rightarrow> string \<Rightarrow> string list" where
  "delivered ds ex key = queues_at ds ex key
     @ concat (map (\<lambda>d. queues_at ds d key) (concat (map (bound_exchange ds ex key) ds)))"

fun dead_letter_exchange :: "string \<Rightarrow> mq_decl \<Rightarrow> string list" where
  "dead_letter_exchange q (DeclareQueue q' (Some ex)) = (if q' = q then [ex] else [])"
| "dead_letter_exchange q _ = []"

text \<open>A message that expires in a queue goes to the queues its dead letter exchange routes to.\<close>

definition dead_lettered :: "mq_decl list \<Rightarrow> string \<Rightarrow> string \<Rightarrow> string list" where
  "dead_lettered ds q key = concat (map (\<lambda>ex. delivered ds ex key) (concat (map (dead_letter_exchange q) ds)))"


section \<open>Properties\<close>

text \<open>One level of exchange bindings is all there is.\<close>

lemma no_exchange_chains:
  "BindExchange d s \<in> set (scan_declarations @ resolver_declarations E svc) \<Longrightarrow>
     BindExchange d' d \<notin> set (scan_declarations @ resolver_declarations E svc)"
  by (auto simp: scan_declarations_def resolver_declarations_def tag_declarations_def exchange_names)

lemma split_topic: "CHR ''.'' \<notin> set a \<Longrightarrow> split_on CHR ''.'' (a @ CHR ''.'' # b) = a # split_on CHR ''.'' b"
  by (induction a) auto

lemma pr_topic_words:
  "CHR ''.'' \<notin> set flow \<Longrightarrow> split_on CHR ''.'' (pr_topic st flow mk) = [''cx'', ''pr'', str_ScanStates st, flow] @ split_on CHR ''.'' mk"
  by (simp add: pr_topic_def split_topic str_ScanStates_no_dot)

lemma push_topic_words:
  "CHR ''.'' \<notin> set flow \<Longrightarrow> split_on CHR ''.'' (push_topic st flow mk) = [''cx'', ''push'', str_ScanStates st, flow] @ split_on CHR ''.'' mk"
  by (simp add: push_topic_def split_topic str_ScanStates_no_dot)

text \<open>What the exchange for incoming scans does with any key: the bindings behind it.\<close>

definition when_matches :: "string list \<Rightarrow> string \<Rightarrow> string \<Rightarrow> string list" where
  "when_matches pat key q = (if topic_match pat (split_on CHR ''.'' key) then [q] else [])"

lemmas routing_defs = delivered_def queues_at_def binding_matches_def fanout_def scan_declarations_def exchange_names

lemma delivered_scan_input:
  "delivered scan_declarations EXCHANGE_SCAN_INPUT key =
     when_matches [''cx'', ''*'', ''await'', ''*'', ''*''] key QUEUE_SCAN_WAIT
     @ when_matches [''cx'', ''pr'', ''feedback'', ''pull-request'', ''*''] key QUEUE_FEEDBACK_PR
     @ when_matches [''cx'', ''pr'', ''failed'', ''pull-request'', ''*''] key QUEUE_FAILURE_PR
     @ when_matches [''cx'', ''push'', ''feedback'', ''push-gen-sarif'', ''*''] key QUEUE_SARIF_GEN
     @ when_matches [''cx'', ''pr'', ''annotate'', ''pull-request'', ''*''] key QUEUE_ANNOTATE_PR
     @ when_matches [''cx'', ''pr'', ''prescan'', ''pull-request'', ''*''] key QUEUE_PRESCAN_ANNOTATE_PR"
  by (simp add: routing_defs routekeys when_matches_def)

lemma delivered_scan_polling:
  "delivered scan_declarations EXCHANGE_SCAN_POLLING key =
     when_matches [''cx'', ''*'', ''await'', ''*'', ''*''] key QUEUE_SCAN_POLLING"
  by (simp add: routing_defs routekeys when_matches_def)

definition pr_queue :: "ScanStates \<Rightarrow> string list" where
  "pr_queue st = (case st of AWAIT \<Rightarrow> [QUEUE_SCAN_WAIT] | FEEDBACK \<Rightarrow> [QUEUE_FEEDBACK_PR] | FAILURE \<Rightarrow> [QUEUE_FAILURE_PR]
     | ANNOTATE \<Rightarrow> [QUEUE_ANNOTATE_PR] | PRESCAN \<Rightarrow> [QUEUE_PRESCAN_ANNOTATE_PR] | _ \<Rightarrow> [])"

definition push_queue :: "ScanStates \<Rightarrow> string list" where
  "push_queue st = (case st of AWAIT \<Rightarrow> [QUEUE_SCAN_WAIT] | FEEDBACK \<Rightarrow> [QUEUE_SARIF_GEN] | _ \<Rightarrow> [])"

lemma pr_delivered:
  assumes "CHR ''.'' \<notin> set mk"
  shows "delivered scan_declarations EXCHANGE_SCAN_INPUT (pr_topic st (str_ScanWorkflow PR) mk) = pr_queue st"
  by (cases st) (simp_all add: delivered_scan_input when_matches_def pr_topic_words split_on_single [OF assms] pr_queue_def)

lemma push_delivered:
  assumes "CHR ''.'' \<notin> set mk"
  shows "delivered scan_declarations EXCHANGE_SCAN_INPUT (push_topic st (str_FeedbackWorkflow PUSH_GEN) mk) = push_queue st"
  by (cases st) (simp_all add: delivered_scan_input when_matches_def push_topic_words split_on_single [OF assms] push_queue_def)

lemma scan_wait_dead_letters:
  "dead_lettered scan_declarations QUEUE_SCAN_WAIT key =
     when_matches [''cx'', ''*'', ''await'', ''*'', ''*''] key QUEUE_SCAN_POLLING"
proof -
  have "concat (map (dead_letter_exchange QUEUE_SCAN_WAIT) scan_declarations) = [EXCHANGE_SCAN_POLLING]"
    by (simp add: scan_declarations_def QUEUE_SCAN_WAIT_def QUEUE_SCAN_WAIT_LEGACY_def)
  then show ?thesis by (simp add: dead_lettered_def delivered_scan_polling)
qed

lemma awaited_polled:
  assumes "CHR ''.'' \<notin> set mk"
  shows "dead_lettered scan_declarations QUEUE_SCAN_WAIT (pr_topic AWAIT (str_ScanWorkflow PR) mk) = [QUEUE_SCAN_POLLING]"
    and "dead_lettered scan_declarations QUEUE_SCAN_WAIT (push_topic AWAIT (str_FeedbackWorkflow PUSH_GEN) mk) = [QUEUE_SCAN_POLLING]"
  by (simp_all add: scan_wait_dead_letters when_matches_def pr_topic_words push_topic_words split_on_single [OF assms])

text \<open>No binding has room for a moniker of two words: its messages reach no queue.\<close>

lemma split_on_two: "sep \<in> set s \<Longrightarrow> \<exists>a b rest. split_on sep s = a # b # rest"
  by (induction s) (auto split: list.splits simp: neq_Nil_conv)

lemma dotted_moniker_lost:
  assumes "CHR ''.'' \<in> set mk"
  shows "delivered scan_declarations EXCHANGE_SCAN_INPUT (pr_topic st (str_ScanWorkflow PR) mk) = []"
    and "delivered scan_declarations EXCHANGE_SCAN_INPUT (push_topic st (str_FeedbackWorkflow PUSH_GEN) mk) = []"
proof -
  obtain a b rest where mk: "split_on CHR ''.'' mk = a # b # rest" using split_on_two [OF assms] by blast
  show "delivered scan_declarations EXCHANGE_SCAN_INPUT (pr_topic st (str_ScanWorkflow PR) mk) = []"
    "delivered scan_declarations EXCHANGE_SCAN_INPUT (push_topic st (str_FeedbackWorkflow PUSH_GEN) mk) = []"
    by (cases st, simp_all add: delivered_scan_input when_matches_def pr_topic_words push_topic_words mk)+
qed

text \<open>
  The requests, results and expired requests of delegated scans. A tag has neither dots nor the
  wildcard characters, because the service checks the characters of its tags.
\<close>

lemma tag_char_word: "list_all tag_char tag \<Longrightarrow> CHR ''.'' \<notin> set tag \<and> tag \<noteq> ''*'' \<and> tag \<noteq> ''#''"
  by (auto simp: list_all_iff tag_char_def)

lemma topic_match_hash: "topic_match [''#''] ws"
  by (induction ws) auto

lemma tag_words:
  assumes "list_all tag_char tag"
  shows "split_on CHR ''.'' (make_routekey_for_tag tag) = [''cx'', ''res'', ''exec'', ''sca-resolver'', ''run-scan'', tag, ''#'']"
    and "split_on CHR ''.'' (make_topic_for_tag svc tag) =
      [''cx'', ''res'', ''exec'', ''sca-resolver'', ''run-scan'', tag] @ split_on CHR ''.'' (rs_moniker svc)"
  using tag_char_word [OF assms]
  by (simp_all add: make_routekey_for_tag_def make_topic_for_tag_def ROUTEKEY_EXEC_SCA_SCAN_STUB_def split_topic)

definition valid_tags :: "resolver_service \<Rightarrow> bool" where
  "valid_tags svc \<longleftrightarrow> list_all (list_all tag_char) (agent_tags svc)"

lemma ResolverScanService_valid: "ResolverScanService mk w d k tags = Inr svc \<Longrightarrow> valid_tags svc"
  by (cases tags) (auto simp: ResolverScanService_def validate_tags_def valid_tags_def agent_tags_def split: if_splits)

lemma not_fanout_resolver: "\<not> fanout (resolver_declarations E svc) ex"
  by (auto simp: fanout_def list_ex_iff resolver_declarations_def tag_declarations_def split: mq_decl.splits)

lemma no_resolver_exchange: "concat (map (bound_exchange ds ex key) (resolver_declarations E svc)) = []"
  by (auto simp: resolver_declarations_def tag_declarations_def)

fun topic_queue :: "string \<Rightarrow> string \<Rightarrow> mq_decl \<Rightarrow> string list" where
  "topic_queue ex key (BindQueue q e pat) = (if e = ex then when_matches (split_on CHR ''.'' pat) key q else [])"
| "topic_queue ex key _ = []"

lemma queues_at_topic:
  assumes "\<not> fanout ds ex"
  shows "queues_at ds ex key = concat (map (topic_queue ex key) ds)"
proof -
  have "bound_queue ds ex key d = topic_queue ex key d" for d
    using assms by (cases d) (auto simp: binding_matches_def when_matches_def)
  then have "bound_queue ds ex key = topic_queue ex key" by blast
  then show ?thesis by (simp add: queues_at_def)
qed

lemma delivered_resolver_topic:
  "delivered (resolver_declarations E svc) ex key = concat (map (topic_queue ex key) (resolver_declarations E svc))"
  by (simp add: delivered_def no_resolver_exchange queues_at_topic not_fanout_resolver)

lemma tag_queues:
  "concat (map (topic_queue EXCHANGE_RESOLVER_SCAN key) (concat (map tag_declarations
      (map (\<lambda>tag. (make_queuename_for_tag E tag, make_routekey_for_tag tag)) ts)))) =
    concat (map (\<lambda>tag. when_matches (split_on CHR ''.'' (make_routekey_for_tag tag)) key (make_queuename_for_tag E tag)) ts)"
  "ex \<noteq> EXCHANGE_RESOLVER_SCAN \<Longrightarrow> concat (map (topic_queue ex key) (concat (map tag_declarations ps))) = []"
  by (induction ts) (auto simp: tag_declarations_def)

lemma delivered_resolver:
  "delivered (resolver_declarations E svc) EXCHANGE_RESOLVER_SCAN key =
     concat (map (\<lambda>tag. when_matches (split_on CHR ''.'' (make_routekey_for_tag tag)) key (make_queuename_for_tag E tag)) (agent_tags svc))
     @ when_matches [''cx'', ''res'', ''exec'', ''sca-resolver'', ''scan-complete'', ''#''] key QUEUE_RESOLVER_COMPLETE"
proof -
  have "EXCHANGE_RESOLVER_SCAN_DLX \<noteq> EXCHANGE_RESOLVER_SCAN"
    "split_on CHR ''.'' ROUTEKEY_EXEC_SCA_SCAN_COMPLETE = [''cx'', ''res'', ''exec'', ''sca-resolver'', ''scan-complete'', ''#'']"
    by (simp_all add: exchange_names routekeys)
  then show ?thesis
    unfolding delivered_resolver_topic unfolding resolver_declarations_def queue_and_topic_tuples_def map_append concat_append tag_queues(1)
    by simp
qed

lemma delivered_resolver_dlx:
  "delivered (resolver_declarations E svc) EXCHANGE_RESOLVER_SCAN_DLX (''cx.res.'' @ key) = [QUEUE_RESOLVER_TIMEOUT]"
proof -
  have "EXCHANGE_RESOLVER_SCAN_DLX \<noteq> EXCHANGE_RESOLVER_SCAN" by (simp add: exchange_names)
  then show ?thesis
    unfolding delivered_resolver_topic unfolding resolver_declarations_def map_append concat_append tag_queues(2) [OF \<open>EXCHANGE_RESOLVER_SCAN_DLX \<noteq> EXCHANGE_RESOLVER_SCAN\<close>]
    by (simp add: when_matches_def routekeys topic_match_hash split_topic)
qed

lemma request_delivered:
  assumes "valid_tags svc" and "tag \<in> set (agent_tags svc)"
  shows "set (delivered (resolver_declarations E svc) EXCHANGE_RESOLVER_SCAN (make_topic_for_tag svc tag)) = {make_queuename_for_tag E tag}"
proof -
  have ok: "list_all tag_char t" if "t \<in> set (agent_tags svc)" for t using assms(1) that by (auto simp: valid_tags_def list_all_iff)
  have "when_matches (split_on CHR ''.'' (make_routekey_for_tag t)) (make_topic_for_tag svc tag) q = (if t = tag then [q] else [])"
    if "t \<in> set (agent_tags svc)" for t q
    using tag_char_word [OF ok [OF that]] topic_match_hash
    by (simp add: when_matches_def tag_words [OF ok [OF that]] tag_words [OF ok [OF assms(2)]])
  then show ?thesis
    using assms(2) by (auto simp: delivered_resolver when_matches_def tag_words [OF ok [OF assms(2)]])
qed

lemma result_delivered:
  assumes "valid_tags svc" and "key = ROUTEKEY_RESOLVER_RESULT_STUB \<or> key = ROUTEKEY_RESOLVER_RESULT_STUB @ ''.'' @ tag"
  shows "delivered (resolver_declarations E svc) EXCHANGE_RESOLVER_SCAN key = [QUEUE_RESOLVER_COMPLETE]"
proof -
  obtain ws where key: "split_on CHR ''.'' key = [''cx'', ''res'', ''exec'', ''sca-resolver'', ''scan-complete''] @ ws"
    using assms(2) by (auto simp: ROUTEKEY_RESOLVER_RESULT_STUB_def split_topic)
  have "when_matches (split_on CHR ''.'' (make_routekey_for_tag t)) key q = []" if "t \<in> set (agent_tags svc)" for t q
    using assms(1) that by (auto simp: when_matches_def tag_words valid_tags_def list_all_iff key)
  then show ?thesis by (simp add: delivered_resolver when_matches_def key topic_match_hash)
qed

lemma expired_request_delivered:
  assumes "tag \<in> set (agent_tags svc)"
  shows "set (dead_lettered (resolver_declarations E svc) (make_queuename_for_tag E tag) (''cx.res.'' @ key)) = {QUEUE_RESOLVER_TIMEOUT}"
proof -
  let ?ds = "resolver_declarations E svc"
  have only: "set (dead_letter_exchange q d) \<subseteq> {EXCHANGE_RESOLVER_SCAN_DLX}" if "d \<in> set ?ds" for q d
    using that by (auto simp: resolver_declarations_def tag_declarations_def)
  have "DeclareQueue (make_queuename_for_tag E tag) (Some EXCHANGE_RESOLVER_SCAN_DLX) \<in> set ?ds"
    using assms unfolding resolver_declarations_def queue_and_topic_tuples_def by (auto simp: tag_declarations_def)
  then have "EXCHANGE_RESOLVER_SCAN_DLX \<in> set (concat (map (dead_letter_exchange (make_queuename_for_tag E tag)) ?ds))"
    unfolding set_concat set_map by (rule UN_I [OF imageI]) simp
  moreover have "set (concat (map (dead_letter_exchange (make_queuename_for_tag E tag)) ?ds)) \<subseteq> {EXCHANGE_RESOLVER_SCAN_DLX}"
    unfolding set_concat set_map using only by blast
  ultimately have "set (concat (map (dead_letter_exchange (make_queuename_for_tag E tag)) ?ds)) = {EXCHANGE_RESOLVER_SCAN_DLX}"
    by (metis subset_singletonD empty_iff)
  then show ?thesis
    unfolding dead_lettered_def set_concat set_map by (simp only: delivered_resolver_dlx image_insert image_empty) simp
qed

text \<open>A setup that returns has made exactly these declarations.\<close>

fun declared_by :: "event \<Rightarrow> mq_decl list" where
  "declared_by (MqDeclare d) = [d]"
| "declared_by _ = []"

definition declared :: "event list \<Rightarrow> mq_decl list" where
  "declared ev = concat (map declared_by ev)"

lemma declared_simps [simp]:
  "declared [] = []" "declared (e # ev) = declared_by e @ declared ev" "declared (a @ b) = declared a @ declared b"
  by (simp_all add: declared_def)

lemma does_declarations: "does (mapM (\<lambda>d. mq E (MqDeclare d)) ds) (\<lambda>_ ev. declared ev = ds)"
proof (induction ds)
  case (Cons d ds)
  have "does (mq E (MqDeclare d)) (\<lambda>_ ev. declared ev = [d])" by (simp add: mq_def does_call)
  then show ?case
    by (simp, rule does_bnd) (rule does_bnd [OF Cons.IH], simp add: does_ret)
qed (simp add: does_ret)

lemma does_mq_plain: "declared_by e = [] \<Longrightarrow> does (mq E e) (\<lambda>_ ev. declared ev = [])"
  by (simp add: mq_def does_call)

lemma does_on_channel: "does (on_channel E ds) (\<lambda>_ ev. declared ev = ds)"
proof -
  let ?m = "mapM (\<lambda>d. mq E (MqDeclare d)) ds"
  have made: "does (attempt ?m) (\<lambda>r ev. \<forall>x. r = Inr x \<longrightarrow> declared ev = ds)"
    by (rule does_attempt_ok [OF _ does_declarations]) (intro emits_rules TrueI)
  have done_after: "does (bnd (mq E MqClose) (\<lambda>_. bnd (lift r) (\<lambda>_. ret ()))) (\<lambda>_ ev. (\<exists>x. r = Inr x) \<and> declared ev = [])"
    for r :: "exc + bool list"
    by (rule does_bnd [OF does_mq_plain]) (auto intro!: does_lift_bnd does_ret)
  show ?thesis
    unfolding on_channel_def
    by (rule does_bnd [OF does_mq_plain], simp, rule does_bnd [OF does_mq_plain], simp, rule does_bnd [OF made],
        rule does_mono [OF done_after], auto)
qed

lemma does_setup_service:
  "does (setup_service E sv) (\<lambda>_ ev. declared ev = scan_declarations @ resolver_declarations E (sv_resolver sv))"
  unfolding setup_service_def
  by (rule does_bnd [OF does_on_channel]) (rule does_mono [OF does_on_channel], simp)

end
