(* ===== verification/Agents.thy ===== *)
theory Agents
  imports GhOrch GlOrch AdoOrch BbOrch ScmServices Topology
begin

text \<open>
  \<open>workflow_agent.py\<close>, \<open>agent/resolver/results_agent.py\<close> and \<open>agent/resolver/timeout_agent.py\<close>: the
  consumers of the queues. A handler decodes a message, looks up the services of its moniker, does
  the work and settles the message. The lemmas show that every handler settles its message, once,
  whatever exceptions the work raises, and that a result or request with a wrong signature leads
  to nothing but its rejection.
\<close>


section \<open>The workflow agent\<close>

text \<open>\<open>CxOneFlowConfig.retrieve_services_by_moniker\<close>.\<close>

definition retrieve_services_by_moniker :: "services dict \<Rightarrow> string \<Rightarrow> exc + services" where
  "retrieve_services_by_moniker cfg mk = dgetE cfg mk"

text \<open>\<open>try: ... except BaseException: log; await msg.nack(requeue=False)\<close>.\<close>

definition or_nack :: "env \<Rightarrow> unit cio \<Rightarrow> unit cio" where
  "or_nack E m = catch m (\<lambda>e. Some (nack E False))"

definition ack_if :: "env \<Rightarrow> bool cio \<Rightarrow> unit cio" where
  "ack_if E m = bnd m (\<lambda>done. if done then ack E else nack E False)"

definition process_gen_sarif :: "env \<Rightarrow> services dict \<Rightarrow> incoming \<Rightarrow> unit cio" where
  "process_gen_sarif E cfg im = or_nack E
     (bnd (lift (ebind (in_body im) to_feedback)) (\<lambda>sm.
      bnd (lift (retrieve_services_by_moniker cfg (moniker sm))) (\<lambda>sv.
      execute_sarif_generation E (sv_push sv) im)))"

definition process_poll :: "env \<Rightarrow> services dict \<Rightarrow> incoming \<Rightarrow> unit cio" where
  "process_poll E cfg im = or_nack E
     (bnd (lift (ebind (in_body im) to_await)) (\<lambda>sm.
      bnd (lift (retrieve_services_by_moniker cfg (moniker sm))) (\<lambda>sv.
      execute_poll_scan_workflow E (sv_poll sv) im)))"

definition process_prescan_pr_annotate :: "env \<Rightarrow> services dict \<Rightarrow> incoming \<Rightarrow> unit cio" where
  "process_prescan_pr_annotate E cfg im = or_nack E
     (bnd (lift (ebind (in_body im) to_prescan)) (\<lambda>sm.
      bnd (lift (retrieve_services_by_moniker cfg (moniker sm))) (\<lambda>sv.
      ack_if E (process_prescan_pr_notice E (sv_pr sv) sm (sv_scm sv)))))"

definition process_pr_annotate :: "env \<Rightarrow> services dict \<Rightarrow> incoming \<Rightarrow> unit cio" where
  "process_pr_annotate E cfg im = or_nack E
     (bnd (lift (ebind (in_body im) to_annotation)) (\<lambda>sm.
      bnd (lift (retrieve_services_by_moniker cfg (moniker sm))) (\<lambda>sv.
      ack_if E (process_pr_notice E (sv_pr sv) sm (sv_cxone sv) (sv_scm sv)))))"

definition agent_pr_feedback :: "env \<Rightarrow> services dict \<Rightarrow> incoming \<Rightarrow> unit cio" where
  "agent_pr_feedback E cfg im = or_nack E
     (bnd (lift (ebind (in_body im) to_feedback)) (\<lambda>sm.
      bnd (lift (retrieve_services_by_moniker cfg (moniker sm))) (\<lambda>sv.
      ack_if E (process_pr_feedback E (sv_pr sv) sm (sv_cxone sv) (sv_scm sv)))))"

text \<open>The handler of errors has the same body: the message tells it from the others.\<close>

definition process_pr_feedback_error :: "env \<Rightarrow> services dict \<Rightarrow> incoming \<Rightarrow> unit cio" where
  "process_pr_feedback_error E cfg im = or_nack E
     (bnd (lift (ebind (in_body im) to_feedback)) (\<lambda>sm.
      bnd (lift (retrieve_services_by_moniker cfg (moniker sm))) (\<lambda>sv.
      ack_if E (process_pr_feedback E (sv_pr sv) sm (sv_cxone sv) (sv_scm sv)))))"


section \<open>Results and timeouts of delegated scans\<close>

text \<open>
  The class is imported by name and called with the event context. A kickoff orchestrator needs
  the kickoff message too; a name that no orchestrator has cannot be imported.
\<close>

definition orchestrator_factory :: "env \<Rightarrow> string \<Rightarrow> event_context \<Rightarrow> exc + dispatchable" where
  "orchestrator_factory E name ctx =
     (if name = ''orchestration.gh.GithubOrchestrator'' then ebind (GithubOrchestrator E ctx) (\<lambda>g. Inr (gh_dispatchable E g))
      else if name = ''orchestration.gl.GitlabOrchestrator'' then ebind (GitlabOrchestrator E ctx) (\<lambda>g. Inr (gl_dispatchable E g))
      else if name = ''orchestration.adoe.AzureDevOpsEnterpriseOrchestrator''
        then ebind (AzureDevOpsEnterpriseOrchestrator E ctx) (\<lambda>a. Inr (ad_dispatchable E a))
      else if name = ''orchestration.bitbucket.bbdc.BitBucketDataCenterOrchestrator''
        then ebind (BitBucketDataCenterOrchestrator E ctx) (\<lambda>b. Inr (dc_dispatchable E b))
      else if name = ''orchestration.bitbucket.bbc.BitBucketCloudOrchestrator''
        then ebind (BitBucketCloudOrchestrator E ctx) (\<lambda>b. Inr (bc_dispatchable E b))
      else if startswith name ''orchestration.kickoff.'' then Inl TypeError
      else Inl (LibException ''ImportError''))"

text \<open>\<open>capture_logs\<close> of the service: the logs are decoded to be logged.\<close>

definition service_capture_logs :: "env \<Rightarrow> resolver_service \<Rightarrow> string option \<Rightarrow> exc + unit" where
  "service_capture_logs E svc logs' =
     (case logs' of
        Some l \<Rightarrow> if rw_capture_logs (rs_workflow svc) then ebind (utf8_decode E l) (\<lambda>_. Inr ()) else Inr ()
      | None \<Rightarrow> Inr ())"

definition handle_hard_failure :: "env \<Rightarrow> scm_routes \<Rightarrow> delegated_scan_result_message \<Rightarrow> unit cio" where
  "handle_hard_failure E routes m =
     (if state m = FAILURE \<and> scan_id m = None \<and> workflow m = PR then
        bnd (lift (orchestrator_factory E (orchestrator (details m)) (ds_event_context (details m)))) (\<lambda>d.
        dispatch_delegated_pr_scan_hard_failure_workflow E routes d)
      else ret ())"

definition handle_result :: "env \<Rightarrow> scm_routes \<Rightarrow> resolver_service \<Rightarrow> delegated_scan_result_message \<Rightarrow> unit cio" where
  "handle_result E routes svc m =
     bnd (handle_hard_failure E routes m) (\<lambda>_.
     bnd (lift (service_capture_logs E svc (logs m))) (\<lambda>_.
     case scan_id m of
       None \<Rightarrow> ret ()
     | Some sid \<Rightarrow>
         bnd (lift (orchestrator_factory E (orchestrator (details m)) (ds_event_context (details m)))) (\<lambda>d.
         bnd (dispatch_delegated_scan_workflow E routes d sid) (\<lambda>_. ret ()))))"

text \<open>The text that is to be logged for a wrong signature reads an attribute the details do not have.\<close>

definition ResolverResultsAgent :: "env \<Rightarrow> scm_routes \<Rightarrow> services \<Rightarrow> incoming \<Rightarrow> unit cio" where
  "ResolverResultsAgent E routes sv im =
     bnd (safe_deserialize_body E to_delegated_result im) (\<lambda>m.
     or_nack E
       (bnd (lift (signature_valid E (sv_resolver sv) (details_signature m) (details m))) (\<lambda>valid.
        bnd (if \<not> valid then raise (AttributeError ''project_name'') else handle_result E routes (sv_resolver sv) m) (\<lambda>_.
        ack E))))"

definition ResolverTimeoutAgent :: "env \<Rightarrow> services \<Rightarrow> incoming \<Rightarrow> unit cio" where
  "ResolverTimeoutAgent E sv im =
     bnd (safe_deserialize_body E to_delegated im) (\<lambda>m.
     or_nack E
       (bnd (lift (signature_valid E (sv_resolver sv) (details_signature m) (details m))) (\<lambda>valid.
        if \<not> valid then raise (AttributeError ''project_name'')
        else bnd (handle_resolver_scan_timeout E (sv_resolver sv) im) (\<lambda>_. ack E))))"


section \<open>Subscriptions\<close>

text \<open>\<open>mq_agent\<close> subscribes a handler to a queue and then waits for ever.\<close>

definition mq_agent :: "env \<Rightarrow> string \<Rightarrow> nat \<Rightarrow> unit cio" where
  "mq_agent E queue prefetch =
     bnd (mq E MqChannel) (\<lambda>_. bnd (mq E (MqConsume queue prefetch)) (\<lambda>_. ret ()))"

record agent_task =
  task_queue :: string
  task_handler :: "incoming \<Rightarrow> unit cio"

definition agent_tasks :: "env \<Rightarrow> services dict \<Rightarrow> scm_routes \<Rightarrow> services \<Rightarrow> agent_task list" where
  "agent_tasks E cfg routes sv =
     [\<lparr> task_queue = QUEUE_SARIF_GEN, task_handler = process_gen_sarif E cfg \<rparr>,
      \<lparr> task_queue = QUEUE_SCAN_POLLING_LEGACY, task_handler = process_poll E cfg \<rparr>,
      \<lparr> task_queue = QUEUE_SCAN_POLLING, task_handler = process_poll E cfg \<rparr>,
      \<lparr> task_queue = QUEUE_PRESCAN_ANNOTATE_PR, task_handler = process_prescan_pr_annotate E cfg \<rparr>,
      \<lparr> task_queue = QUEUE_ANNOTATE_PR, task_handler = process_pr_annotate E cfg \<rparr>,
      \<lparr> task_queue = QUEUE_FEEDBACK_PR, task_handler = agent_pr_feedback E cfg \<rparr>,
      \<lparr> task_queue = QUEUE_FAILURE_PR, task_handler = process_pr_feedback_error E cfg \<rparr>,
      \<lparr> task_queue = QUEUE_RESOLVER_COMPLETE, task_handler = ResolverResultsAgent E routes sv \<rparr>,
      \<lparr> task_queue = QUEUE_RESOLVER_TIMEOUT, task_handler = ResolverTimeoutAgent E sv \<rparr>]"

text \<open>\<open>spawn_agents\<close>: the tasks of the group start in the order they were made.\<close>

definition spawn_agents :: "env \<Rightarrow> services dict \<Rightarrow> scm_routes \<Rightarrow> unit cio" where
  "spawn_agents E cfg routes =
     bnd (mapM (\<lambda>(mk, sv). mapM (\<lambda>t. bnd (mq E MqClient) (\<lambda>_. mq_agent E (task_queue t) 2)) (agent_tasks E cfg routes sv)) cfg) (\<lambda>_.
     ret ())"



section \<open>The work of a handler settles nothing\<close>

abbreviation quiet :: "'a cio \<Rightarrow> bool" where
  "quiet m \<equiv> emits (\<lambda>e. \<not> settles e) m"

lemma quiet_http: "emits http_or_sleep m \<Longrightarrow> quiet m"
  by (erule emits_mono) (auto simp: http_or_sleep_def settles_def split: event.splits)

lemmas quiet_rules = emits_lift emits_ret emits_raise emits_bnd emits_case_prod emits_if emits_Let emits_case_option

context scm_orchestrator
begin

lemma quiet_start_pr: "quiet (start_pr_workflow E o' sv ins)"
  unfolding start_pr_workflow_def make_prdetails_def start_pr_scan_workflow_def pr_workflow_start_def pr_await_msg_def
    pr_annotation_start_def pr_annotation_msg_def
  by (intro emits_rules quiet_http [OF source] quiet_http [OF target]) (simp_all add: settles_def)

lemma quiet_delegated_pr: "quiet (execute_delegated_pr_scan_workflow E o' sv sid)"
  unfolding execute_delegated_pr_scan_workflow_def
  by (intro emits_rules emits_load_scan_inspector quiet_start_pr) (simp_all add: settles_def)

lemma quiet_delegated_push: "quiet (execute_delegated_push_scan_workflow E o' sv sid)"
  unfolding execute_delegated_push_scan_workflow_def start_sarif_feedback_def push_workflow_start_def
  by (intro emits_rules emits_load_scan_inspector quiet_http [OF source]) (simp_all add: settles_def)

lemma quiet_prdetails: "quiet (make_prdetails o' sv)"
  unfolding make_prdetails_def by (intro emits_rules quiet_http [OF source] quiet_http [OF target])

end

text \<open>Services whose SCM object keeps the contract of the decorators.\<close>

definition decorating :: "services \<Rightarrow> bool" where
  "decorating sv \<longleftrightarrow> http_scm (sv_scm sv) \<and> pr_decorator (sv_scm sv)"

lemma decorating_prescan: "decorating sv \<Longrightarrow> quiet (exec_pr_prescan_failure (sv_scm sv) det s)"
  unfolding decorating_def by (blast intro: quiet_http pr_decorator.prescan)

definition quiet_orchestrator :: "dispatchable \<Rightarrow> bool" where
  "quiet_orchestrator d \<longleftrightarrow> (\<forall>svo. (\<forall>sv. svo = Some sv \<longrightarrow> decorating sv) \<longrightarrow>
     (\<forall>sid. quiet (d_handle_delegated_scan d svo sid)) \<and> (\<forall>s. quiet (d_handle_delegated_pr_scan_hard_fail d svo s)))"

lemma need_Inr: "need svo = Inr sv \<longleftrightarrow> svo = Some sv"
  by (cases svo) (auto simp: need_def)

lemma emits_lift_bnd: "(\<And>x. r = Inr x \<Longrightarrow> emits P (k x)) \<Longrightarrow> emits P (bnd (lift r) k)"
  by (cases r) (auto intro: emits_rules)

lemmas quiet_intros = emits_lift_bnd emits_ret emits_raise emits_if emits_case_prod

lemma quiet_gh: "quiet_orchestrator (gh_dispatchable E g)"
  unfolding quiet_orchestrator_def gh_dispatchable_def gh_handle_delegated_scan_def gh_handle_delegated_pr_scan_hard_fail_def
    gh_execute_delegated_push_scan_workflow_def gh_execute_delegated_action_request_workflow_def
    gh_execute_delegated_pr_scan_workflow_def
  by (auto simp: need_Inr split: option.splits gh_handler.splits intro!: quiet_intros emits_bnd [OF gh_template.quiet_delegated_push]
      emits_bnd [OF gh_template.quiet_delegated_pr] emits_bnd [OF gh_template.quiet_prdetails] decorating_prescan)

lemma quiet_gl: "quiet_orchestrator (gl_dispatchable E g)"
  unfolding quiet_orchestrator_def gl_dispatchable_def gl_handle_delegated_scan_def gl_handle_delegated_pr_scan_hard_fail_def
    gl_execute_delegated_push_scan_workflow_def gl_execute_delegated_pr_scan_workflow_def
  by (auto simp: need_Inr intro!: quiet_intros emits_bnd [OF gl_template.quiet_delegated_push]
      emits_bnd [OF gl_template.quiet_delegated_pr] emits_bnd [OF gl_template.quiet_prdetails] decorating_prescan)

lemma decorating_http: "decorating sv \<Longrightarrow> http_scm (sv_scm sv)"
  by (simp add: decorating_def)

lemma quiet_ad: "quiet_orchestrator (ad_dispatchable E a)"
  unfolding quiet_orchestrator_def ad_dispatchable_def ad_handle_delegated_scan_def ad_handle_delegated_pr_scan_hard_fail_def
    ad_execute_delegated_push_scan_workflow_def ad_execute_delegated_pr_scan_workflow_def
  by (auto simp: need_Inr intro!: quiet_intros emits_bnd [OF ad_template.quiet_delegated_push]
      emits_bnd [OF ad_template.quiet_delegated_pr] emits_bnd [OF ad_template.quiet_prdetails] decorating_prescan
      emits_bnd [OF quiet_http [OF emits_ad_steps [OF decorating_http]]])

lemma quiet_dc: "quiet_orchestrator (dc_dispatchable E b)"
  unfolding quiet_orchestrator_def dc_dispatchable_def dc_handle_delegated_scan_def dc_handle_delegated_pr_scan_hard_fail_def
    dc_execute_delegated_push_scan_workflow_def dc_execute_delegated_pr_scan_workflow_def
  by (auto simp: need_Inr split: option.splits bb_handler.splits intro!: quiet_intros emits_bnd [OF dc_template.quiet_delegated_push]
      emits_bnd [OF dc_template.quiet_delegated_pr] emits_bnd [OF dc_template.quiet_prdetails] decorating_prescan)

lemma quiet_bc: "quiet_orchestrator (bc_dispatchable E b)"
  unfolding quiet_orchestrator_def bc_dispatchable_def bc_handle_delegated_scan_def bc_handle_delegated_pr_scan_hard_fail_def
    bc_execute_delegated_push_scan_workflow_def bc_execute_delegated_pr_scan_workflow_def
  by (auto simp: need_Inr Let_def split: option.splits bb_handler.splits intro!: quiet_intros emits_bnd [OF bc_template.quiet_delegated_push]
      emits_bnd [OF bc_template.quiet_delegated_pr] emits_bnd [OF bc_template.quiet_prdetails] decorating_prescan
      emits_bnd [OF quiet_http [OF emits_bc_push_data [OF decorating_http]]]
      emits_bnd [OF quiet_http [OF emits_bc_pr_data [OF decorating_http]]])

lemma quiet_factory: "orchestrator_factory E name ctx = Inr d \<Longrightarrow> quiet_orchestrator d"
  by (auto simp: orchestrator_factory_def ebind_Inr_iff quiet_gh quiet_gl quiet_ad quiet_dc quiet_bc split: if_splits)

definition routes_decorate :: "scm_routes \<Rightarrow> bool" where
  "routes_decorate routes \<longleftrightarrow> (\<forall>(key, rs)\<in>set routes. \<forall>e\<in>set rs. decorating (route_services e))"

lemma dispatched_decorating:
  "routes_decorate routes \<Longrightarrow> dispatch_services E routes d = Inr (Some sv) \<Longrightarrow> decorating sv"
  by (fastforce simp: dispatch_services_def ebind_Inr_iff routes_decorate_def dest!: retrieve_services_routed dest: map_of_SomeD)

lemma quiet_dispatch:
  assumes "quiet_orchestrator d" and "routes_decorate routes"
  shows "quiet (dispatch_delegated_scan_workflow E routes d sid)"
    and "quiet (dispatch_delegated_pr_scan_hard_failure_workflow E routes d)"
  using assms(1) dispatched_decorating [OF assms(2), of E d]
  unfolding dispatch_delegated_scan_workflow_def dispatch_delegated_pr_scan_hard_failure_workflow_def quiet_orchestrator_def
  by (auto intro!: emits_catch quiet_intros split: if_splits)

lemma quiet_handle_result:
  assumes "routes_decorate routes"
  shows "quiet (handle_result E routes svc m)"
  unfolding handle_result_def handle_hard_failure_def
  by (auto intro!: emits_bnd quiet_intros quiet_dispatch [OF quiet_factory assms] split: option.splits intro: emits_lift)

lemma quiet_timeout: "in_body im = Inr b \<Longrightarrow> to_delegated b = Inr m \<Longrightarrow> quiet (handle_resolver_scan_timeout E svc im)"
  unfolding handle_resolver_scan_timeout_def safe_deserialize_body_def
  by (cases "rs_workflow svc") (auto intro!: emits_rules simp: timeout_result_def settles_def)

lemma settles_simps:
  "\<not> settles (CxApi f a)" "\<not> settles (CxPages f a)" "\<not> settles (Http h u a)" "\<not> settles (Sleep t)" "\<not> settles MqClient"
  "\<not> settles MqChannel" "\<not> settles (MqExchange x)" "\<not> settles (MqPublish x k m e hs)" "\<not> settles (MqPublishRaw x k b hs')" "\<not> settles MqClose"
  by (simp_all add: settles_def)

context pr_decorator
begin

lemma pr_feedback_quiet: "quiet (process_pr_feedback E svc m cx scm)"
  unfolding process_pr_feedback_def do_pr_feedback_def
  by (auto intro!: emits_rules quiet_http [OF success] quiet_http [OF failure] quiet_http [OF unrecoverable]
      simp: settles_simps split: if_splits)

end

lemma quiet_post_tries: "quiet (post_tries E url delay args once n)"
  by (induction n arbitrary: once) (auto intro!: emits_rules simp: settles_simps)

lemma quiet_deliver: "quiet (deliver E m hdrs ag)"
  by (cases ag) (auto simp: amqp_publish_message_def http_post_def intro!: emits_rules quiet_post_tries simp: settles_simps)

lemma quiet_sarif: "quiet (do_sarif_generation E svc m det)"
  unfolding do_sarif_generation_def wait_all_def
  by (auto intro!: emits_rules quiet_deliver simp: settles_simps Let_def)


section \<open>Every message is settled\<close>

text \<open>The broker connection is up: settling a message does not raise.\<close>

definition settling_ok :: "env \<Rightarrow> bool" where
  "settling_ok E \<longleftrightarrow> (\<forall>tr e. settles e \<longrightarrow> (\<exists>x. mq_reply E tr e = Inr x))"

lemma ends_settle:
  assumes "settling_ok E" and "settles e"
  shows "ends (bnd (mq E e) (\<lambda>_. ret ())) (\<lambda>r ev. r = Inr () \<and> settled ev = 1)"
proof (rule ends_bnd)
  show "ends (mq E e) (\<lambda>r ev. (\<exists>x. r = Inr x) \<and> ev = [e])"
    unfolding mq_def using assms by (intro ends_call) (simp add: settling_ok_def)
qed (auto intro!: ends_ret simp: assms(2))

lemma ends_ack: "settling_ok E \<Longrightarrow> ends (ack E) (\<lambda>r ev. r = Inr () \<and> settled ev = 1)"
  unfolding ack_def by (rule ends_settle) (simp_all add: settles_def)

lemma ends_nack: "settling_ok E \<Longrightarrow> ends (nack E b) (\<lambda>r ev. r = Inr () \<and> settled ev = 1)"
  unfolding nack_def by (rule ends_settle) (simp_all add: settles_def)

text \<open>
  Work that settles: when it returns it has settled the message once, when it raises it has not.
\<close>

definition settling :: "'a cio \<Rightarrow> bool" where
  "settling m \<longleftrightarrow> ends m (\<lambda>r ev. case r of Inl e \<Rightarrow> e = Diverges \<or> settled ev = 0 | Inr _ \<Rightarrow> settled ev = 1)"

lemma settling_after:
  assumes "settling m" and "settled ev = 0"
  shows "ends m (\<lambda>r ev2. case r of Inl e \<Rightarrow> e = Diverges \<or> settled (ev @ ev2) = 0 | Inr _ \<Rightarrow> settled (ev @ ev2) = 1)"
  using assms(1) unfolding settling_def by (rule ends_mono) (use assms(2) in \<open>auto split: sum.splits\<close>)

lemma settling_quiet:
  assumes "quiet m" and "\<And>x. settling (k x)"
  shows "settling (bnd m k)"
  unfolding settling_def
proof (rule ends_bnd)
  show "ends m (\<lambda>r ev. settled ev = 0)" using assms(1) by (rule ends_emits) (rule settled_none)
qed (simp, erule settling_after [OF assms(2)])

lemma settling_lift: "(\<And>x. r = Inr x \<Longrightarrow> settling (k x)) \<Longrightarrow> settling (bnd (lift r) k)"
  by (cases r) (auto simp: settling_def intro: ends_rules)

lemma settling_raise: "settling (raise e)"
  by (simp add: settling_def ends_raise)

lemma settling_ack: "settling_ok E \<Longrightarrow> settling (ack E)"
  unfolding settling_def by (rule ends_mono [OF ends_ack]) auto

lemma settling_nack: "settling_ok E \<Longrightarrow> settling (nack E b)"
  unfolding settling_def by (rule ends_mono [OF ends_nack]) auto

lemma settling_catch:
  assumes "settling m" and "\<And>e k. h e = Some k \<Longrightarrow> settling k"
  shows "settling (catch m h)"
  using assms(1) unfolding settling_def
  by (rule ends_catch) (auto intro!: settling_after dest!: assms(2))

definition settled_once :: "exc + unit \<Rightarrow> event list \<Rightarrow> bool" where
  "settled_once r ev \<longleftrightarrow> r = Inl Diverges \<or> r = Inr () \<and> settled ev = 1"

lemma or_nack_once:
  assumes "settling_ok E" and "settling m"
  shows "ends (or_nack E m) settled_once"
  unfolding or_nack_def
  by (rule ends_catch [OF assms(2) [unfolded settling_def]])
    (auto simp: settled_once_def intro: ends_mono [OF ends_nack [OF assms(1)]])

lemma settling_ack_if: "settling_ok E \<Longrightarrow> quiet m \<Longrightarrow> settling (ack_if E m)"
  unfolding ack_if_def by (rule settling_quiet) (auto intro: settling_ack settling_nack)

lemma decorating_notices:
  assumes "decorating sv"
  shows "quiet (process_prescan_pr_notice E svc m1 (sv_scm sv))" and "quiet (process_pr_notice E svc m2 cx (sv_scm sv))"
    and "quiet (process_pr_feedback E svc m3 cx (sv_scm sv))"
  using assms pr_decorator.prescan_notice pr_decorator.pr_notice pr_decorator.pr_feedback_quiet
  unfolding decorating_def by (blast intro: quiet_http)+

definition monikers_decorate :: "services dict \<Rightarrow> bool" where
  "monikers_decorate cfg \<longleftrightarrow> (\<forall>(mk, sv)\<in>set cfg. decorating sv)"

lemma retrieved_decorating: "monikers_decorate cfg \<Longrightarrow> retrieve_services_by_moniker cfg mk = Inr sv \<Longrightarrow> decorating sv"
  by (auto simp: monikers_decorate_def retrieve_services_by_moniker_def dgetE_def split: option.splits dest!: map_of_SomeD)

lemma pr_handlers_settle:
  assumes "settling_ok E" and "monikers_decorate cfg"
  shows "ends (process_prescan_pr_annotate E cfg im) settled_once" and "ends (process_pr_annotate E cfg im) settled_once"
    and "ends (agent_pr_feedback E cfg im) settled_once" and "ends (process_pr_feedback_error E cfg im) settled_once"
  unfolding process_prescan_pr_annotate_def process_pr_annotate_def agent_pr_feedback_def process_pr_feedback_error_def
  by (intro or_nack_once settling_lift settling_ack_if decorating_notices assms(1),
      erule retrieved_decorating [OF assms(2)])+

lemma settling_sarif:
  assumes "settling_ok E" and "ebind (in_body im) to_feedback = Inr sm"
  shows "settling (execute_sarif_generation E svc im)"
proof -
  have work: "quiet (if psw_enabled (pss_workflow svc) then do_sarif_generation E svc m det else ret ())" for m det
    by (simp add: quiet_sarif emits_ret)
  show ?thesis
    unfolding execute_sarif_generation_def safe_deserialize_body_def assms(2) sum.case bnd_ret
    by (intro settling_lift settling_catch settling_quiet [OF work] settling_ack [OF assms(1)])
      (auto split: if_splits intro: settling_ack [OF assms(1)] settling_nack [OF assms(1)])
qed

lemma sarif_handler_settles: "settling_ok E \<Longrightarrow> ends (process_gen_sarif E cfg im) settled_once"
  unfolding process_gen_sarif_def by (intro or_nack_once settling_lift settling_sarif)

text \<open>A message that cannot be decoded is rejected before the exception leaves the handler.\<close>

lemma ends_safe_deserialize:
  assumes "settling_ok E" and "\<And>m. ebind (in_body im) conv = Inr m \<Longrightarrow> ends (k m) settled_once"
  shows "ends (bnd (safe_deserialize_body E conv im) k) (\<lambda>r ev. r = Inl Diverges \<or> settled ev = 1)"
proof (cases "ebind (in_body im) conv")
  case (Inl e)
  have "ends (bnd (nack E False) (\<lambda>_. raise e)) (\<lambda>r ev. (\<exists>e. r = Inl e) \<and> settled ev = 1)" for e :: exc
    by (rule ends_bnd [OF ends_nack [OF assms(1)]]) (auto intro!: ends_raise)
  from ends_bnd [OF this, of "\<lambda>r ev. r = Inl Diverges \<or> settled ev = 1" k] show ?thesis
    by (auto simp: safe_deserialize_body_def Inl)
next
  case (Inr m)
  have "ends (k m) (\<lambda>r ev. r = Inl Diverges \<or> settled ev = 1)"
    by (rule ends_mono [OF assms(2) [OF Inr]]) (auto simp: settled_once_def)
  then show ?thesis by (simp add: safe_deserialize_body_def Inr)
qed

lemma results_agent_settles:
  assumes "settling_ok E" and "routes_decorate routes"
  shows "ends (ResolverResultsAgent E routes sv im) (\<lambda>r ev. r = Inl Diverges \<or> settled ev = 1)"
  unfolding ResolverResultsAgent_def
  by (intro ends_safe_deserialize or_nack_once settling_lift settling_quiet settling_ack assms emits_if emits_raise
      quiet_handle_result)

lemma timeout_agent_settles:
  assumes "settling_ok E"
  shows "ends (ResolverTimeoutAgent E sv im) (\<lambda>r ev. r = Inl Diverges \<or> settled ev = 1)"
  unfolding ResolverTimeoutAgent_def
  by (rule ends_safe_deserialize [OF assms], rule or_nack_once [OF assms], rule settling_lift)
    (auto simp: ebind_Inr_iff intro!: settling_raise settling_quiet [OF quiet_timeout] settling_ack assms)

text \<open>
  A result or an expired request with a wrong signature: it is rejected, and that is all. A poll
  message is settled at least once.
\<close>

lemma forged_result_rejected:
  assumes "in_body im = Inr (DelegatedResultMsg m)"
    and "signature_valid E (sv_resolver sv) (details_signature m) (details m) = Inr False"
  shows "ResolverResultsAgent E routes sv im = nack E False"
  using assms
  by (intro ext) (auto simp: ResolverResultsAgent_def safe_deserialize_body_def or_nack_def catch_app bnd_app)

lemma forged_timeout_rejected:
  assumes "in_body im = Inr (DelegatedMsg m)"
    and "signature_valid E (sv_resolver sv) (details_signature m) (details m) = Inr False"
  shows "ResolverTimeoutAgent E sv im = nack E False"
  using assms
  by (intro ext) (auto simp: ResolverTimeoutAgent_def safe_deserialize_body_def or_nack_def catch_app bnd_app)

lemma ends_does: "emits (\<lambda>_. True) m \<Longrightarrow> does m Q \<Longrightarrow> ends m (\<lambda>r ev. \<forall>x. r = Inr x \<longrightarrow> Q x ev)"
  by (fastforce simp: ends_def dest: doesD emitsD)

lemma emits_poll: "emits (\<lambda>_. True) (execute_poll_scan_workflow E (configured_poll E mx sc) im)"
proof -
  have finished: "emits (\<lambda>_. True) (scan_finished E (configured_poll E mx sc) m ins)" for m ins
    by (rule emits_mono [OF scan_finished_unsettled]) simp
  show ?thesis
    unfolding execute_poll_scan_workflow_def poll_body_def poll_inspect_def finish_scan_def poll_finally_def
      handle_response_exception_def safe_deserialize_body_def requeue_poll_def is_expired_def ack_def nack_def
    by (intro emits_rules emits_load_scan_inspector finished TrueI)
qed

text \<open>Services whose polling notifies the pull request service and the push service, as they are configured.\<close>

definition polls_configured :: "env \<Rightarrow> services dict \<Rightarrow> bool" where
  "polls_configured E cfg \<longleftrightarrow> (\<forall>(mk, sv)\<in>set cfg. \<exists>mx sc. sv_poll sv = configured_poll E mx sc)"

lemma retrieved_poll:
  "polls_configured E cfg \<Longrightarrow> retrieve_services_by_moniker cfg mk = Inr sv \<Longrightarrow> \<exists>mx sc. sv_poll sv = configured_poll E mx sc"
  by (auto simp: polls_configured_def retrieve_services_by_moniker_def dgetE_def split: option.splits dest!: map_of_SomeD)

lemma poll_handler_settles:
  assumes "broker_ok E" and "settling_ok E" and "polls_configured E cfg"
  shows "does (process_poll E cfg im) (\<lambda>_ ev. 1 \<le> settled ev)"
  unfolding process_poll_def or_nack_def
proof (rule does_catch)
  let ?m = "bnd (lift (ebind (in_body im) to_await)) (\<lambda>sm.
      bnd (lift (retrieve_services_by_moniker cfg (moniker sm))) (\<lambda>sv. execute_poll_scan_workflow E (sv_poll sv) im))"
  have "does ?m (\<lambda>_ ev. settled ev = 1)"
    using poll_settles_once [OF assms(1)] by (intro does_lift_bnd) (auto dest!: retrieved_poll [OF assms(3)])
  moreover have "emits (\<lambda>_. True) ?m"
    using emits_poll by (intro emits_lift_bnd) (auto dest!: retrieved_poll [OF assms(3)])
  ultimately show "ends ?m (\<lambda>r ev. \<forall>x. r = Inr x \<longrightarrow> settled ev = 1)"
    by (rule ends_does [rotated])
qed (auto intro: does_mono [OF does_nack])

text \<open>Every queue that is consumed was declared by the setup.\<close>

lemma consumed_declared:
  "t \<in> set (agent_tasks E cfg routes sv) \<Longrightarrow>
     \<exists>dlx. DeclareQueue (task_queue t) dlx \<in> set (scan_declarations @ resolver_declarations E (sv_resolver sv))"
  by (auto simp: agent_tasks_def scan_declarations_def resolver_declarations_def)

lemma feedback_queues_consumed:
  "set (pr_queue st @ push_queue st) \<subseteq> insert QUEUE_SCAN_WAIT (set (map task_queue (agent_tasks E cfg routes sv)))"
  by (cases st) (simp_all add: pr_queue_def push_queue_def agent_tasks_def)

end
