(* ===== verification/Broker.thy ===== *)
theory Broker
  imports Agents
begin

text \<open>
  The workflow agent and the broker together. The messages of scans wait in the queues that
  \<open>rabbit_config.py\<close> declares; a step is a publication by another process, the expiration of a
  message (it is dead-lettered, with the header \<open>x-death\<close> that \<open>scan_polling_service.py\<close> reads the
  delay from), or the delivery of a message to a handler that \<open>workflow_agent.py\<close> subscribed to its
  queue. What the handlers publish is routed back into the queues. The invariant counts the
  messages of a scan: it is reported at most as often as its workflow was started. The run of a
  scan that ends after any number of polls shows that it is reported.
\<close>


section \<open>Messages in queues\<close>

record queued =
  q_name :: string
  q_msg :: incoming
  q_expiration :: "int option"

fun enqueued :: "event \<Rightarrow> queued list" where
  "enqueued (MqPublish ex key m expiration hs) =
     map (\<lambda>q. \<lparr> q_name = q, q_msg = \<lparr> in_body = Inr m, in_headers = map (\<lambda>(k, v). (k, JInt v)) hs, routing_key = key \<rparr>,
       q_expiration = expiration \<rparr>) (delivered scan_declarations ex key)"
| "enqueued _ = []"

text \<open>The first entry of \<open>x-death\<close> is about the queue the message expired in.\<close>

definition x_death :: "queued \<Rightarrow> int \<Rightarrow> json" where
  "x_death q t = JArr [JObj [(''reason'', JStr ''expired''), (''queue'', JStr (q_name q)),
     (''original-expiration'', JStr (dec t))]]"

definition expired_to :: "queued \<Rightarrow> int \<Rightarrow> queued list" where
  "expired_to q t =
     map (\<lambda>q'. \<lparr> q_name = q', q_msg = (q_msg q)\<lparr> in_headers := (''x-death'', x_death q t) # in_headers (q_msg q) \<rparr>,
       q_expiration = None \<rparr>) (dead_lettered scan_declarations (q_name q) (routing_key (q_msg q)))"

text \<open>
  \<open>started\<close> is what other processes published, \<open>sent\<close> what the agent did; the replies the agent gets
  depend on its trace, \<open>seen\<close>.
\<close>

record broker =
  pool :: "queued list"
  started :: "event list"
  sent :: "event list"
  seen :: "event list"
  memory :: mem

definition broker0 :: "event list \<Rightarrow> mem \<Rightarrow> broker" where
  "broker0 tr s = \<lparr> pool = [], started = [], sent = [], seen = tr, memory = s \<rparr>"

text \<open>A delivery that is rejected with \<open>requeue\<close>, or never settled, stays with the broker.\<close>

definition kept :: "queued \<Rightarrow> event list \<Rightarrow> queued list" where
  "kept q ev = (if Nack True \<in> set ev \<or> settled ev = 0 then [q] else [])"

inductive broker_step :: "env \<Rightarrow> services dict \<Rightarrow> scm_routes \<Rightarrow> broker \<Rightarrow> broker \<Rightarrow> bool"
  for E :: env and cfg :: "services dict" and routes :: scm_routes
where
  publish: "broker_step E cfg routes b
     (b\<lparr> pool := pool b @ concat (map enqueued evs), started := started b @ evs \<rparr>)"
| expire: "pool b = ps @ q # qs \<Longrightarrow> q_expiration q = Some t \<Longrightarrow>
     broker_step E cfg routes b (b\<lparr> pool := ps @ expired_to q t @ qs \<rparr>)"
| consume: "pool b = ps @ q # qs \<Longrightarrow> dget cfg mk = Some sv \<Longrightarrow> t \<in> set (agent_tasks E cfg routes sv) \<Longrightarrow>
     task_queue t = q_name q \<Longrightarrow> task_handler t (q_msg q) (seen b, memory b) = (r, seen b @ ev, s) \<Longrightarrow>
     broker_step E cfg routes b
       (b\<lparr> pool := ps @ kept q ev @ qs @ concat (map enqueued ev), sent := sent b @ ev, seen := seen b @ ev, memory := s \<rparr>)"

abbreviation reachable :: "env \<Rightarrow> services dict \<Rightarrow> scm_routes \<Rightarrow> broker \<Rightarrow> broker \<Rightarrow> bool" where
  "reachable E cfg routes \<equiv> (broker_step E cfg routes)\<^sup>*\<^sup>*"


section \<open>Routing gives one copy\<close>

lemma when_matches_le: "length (when_matches pat key q) \<le> 1"
  by (simp add: when_matches_def)

lemma topic_match_words:
  "topic_match (p # ps) ws \<Longrightarrow> p \<noteq> ''#'' \<Longrightarrow> \<exists>w ws'. ws = w # ws' \<and> (p = ''*'' \<or> p = w) \<and> topic_match ps ws'"
  by (cases ws) auto

text \<open>The patterns behind an exchange exclude each other: they differ in the words for the workflow and the state.\<close>

definition poll_bound :: "string \<Rightarrow> string \<Rightarrow> string list" where
  "poll_bound key q = when_matches [''cx'', ''*'', ''await'', ''*'', ''*''] key q"

definition legacy_bound :: "string \<Rightarrow> string \<Rightarrow> string list" where
  "legacy_bound key q = when_matches [''cx'', ''pr'', ''await'', ''*'', ''*''] key q"

definition pr_bound :: "string \<Rightarrow> string \<Rightarrow> string \<Rightarrow> string list" where
  "pr_bound st key q = when_matches [''cx'', ''pr'', st, ''pull-request'', ''*''] key q"

definition sarif_bound :: "string \<Rightarrow> string list" where
  "sarif_bound key = when_matches [''cx'', ''push'', ''feedback'', ''push-gen-sarif'', ''*''] key QUEUE_SARIF_GEN"

lemma delivered_anywhere:
  "delivered scan_declarations ex key =
     (if ex = EXCHANGE_SCAN_INPUT then delivered scan_declarations EXCHANGE_SCAN_INPUT key
      else if ex = EXCHANGE_SCAN_INPUT_LEGACY then
        legacy_bound key QUEUE_SCAN_WAIT_LEGACY @ pr_bound ''feedback'' key QUEUE_FEEDBACK_PR
        @ pr_bound ''failed'' key QUEUE_FAILURE_PR @ pr_bound ''annotate'' key QUEUE_ANNOTATE_PR
        @ pr_bound ''prescan'' key QUEUE_PRESCAN_ANNOTATE_PR
      else if ex = EXCHANGE_SCAN_WAIT then poll_bound key QUEUE_SCAN_WAIT
      else if ex = EXCHANGE_SCAN_WAIT_LEGACY then legacy_bound key QUEUE_SCAN_WAIT_LEGACY
      else if ex = EXCHANGE_SCAN_POLLING then poll_bound key QUEUE_SCAN_POLLING
      else if ex = EXCHANGE_SCAN_POLLING_LEGACY then legacy_bound key QUEUE_SCAN_POLLING_LEGACY
      else if ex = EXCHANGE_SCAN_FEEDBACK then
        pr_bound ''feedback'' key QUEUE_FEEDBACK_PR @ pr_bound ''failed'' key QUEUE_FAILURE_PR
      else if ex = EXCHANGE_SARIF_WORK then sarif_bound key
      else if ex = EXCHANGE_SCAN_ANNOTATE then pr_bound ''annotate'' key QUEUE_ANNOTATE_PR
      else if ex = EXCHANGE_PRESCAN_ANNOTATE then pr_bound ''prescan'' key QUEUE_PRESCAN_ANNOTATE_PR
      else [])"
  by (simp add: routing_defs routekeys when_matches_def poll_bound_def legacy_bound_def pr_bound_def sarif_bound_def)

lemmas bound_defs = poll_bound_def legacy_bound_def pr_bound_def sarif_bound_def when_matches_def

lemma scan_input_one: "length (delivered scan_declarations EXCHANGE_SCAN_INPUT key) \<le> 1"
  unfolding delivered_scan_input when_matches_def by (auto dest!: topic_match_words)

lemma pr_bound_one:
  "length (legacy_bound key q1 @ pr_bound ''feedback'' key q2 @ pr_bound ''failed'' key q3 @ pr_bound ''annotate'' key q4
     @ pr_bound ''prescan'' key q5) \<le> 1"
  unfolding bound_defs by (auto dest!: topic_match_words)

lemma if_length: "length a \<le> n \<Longrightarrow> length b \<le> n \<Longrightarrow> length (if c then a else b) \<le> n"
  by simp

lemma delivered_one: "length (delivered scan_declarations ex key) \<le> 1"
proof -
  have fb: "length (pr_bound ''feedback'' key q2 @ pr_bound ''failed'' key q3) \<le> 1" for q2 q3
    using pr_bound_one [of key "[]" q2 q3 "[]" "[]"] by simp
  have single: "length (poll_bound key q) \<le> 1" "length (legacy_bound key q) \<le> 1" "length (pr_bound st key q) \<le> 1"
    "length (sarif_bound key) \<le> 1" for q st
    by (simp_all add: bound_defs)
  show ?thesis
    unfolding delivered_anywhere [of ex] by (intro if_length scan_input_one pr_bound_one fb single) simp
qed

definition scan_queues :: "string set" where
  "scan_queues = {QUEUE_SCAN_WAIT, QUEUE_SCAN_WAIT_LEGACY, QUEUE_SCAN_POLLING, QUEUE_SCAN_POLLING_LEGACY, QUEUE_FEEDBACK_PR,
     QUEUE_FAILURE_PR, QUEUE_SARIF_GEN, QUEUE_ANNOTATE_PR, QUEUE_PRESCAN_ANNOTATE_PR}"

lemma delivered_queues: "set (delivered scan_declarations ex key) \<subseteq> scan_queues"
  unfolding delivered_anywhere [of ex] delivered_scan_input bound_defs scan_queues_def by auto

lemma dead_lettered_anywhere:
  "dead_lettered scan_declarations q key =
     (if q = QUEUE_SCAN_WAIT then delivered scan_declarations EXCHANGE_SCAN_POLLING key
      else if q = QUEUE_SCAN_WAIT_LEGACY then delivered scan_declarations EXCHANGE_SCAN_POLLING_LEGACY key else [])"
proof -
  have "concat (map (dead_letter_exchange q) scan_declarations) =
    (if q = QUEUE_SCAN_WAIT then [EXCHANGE_SCAN_POLLING]
     else if q = QUEUE_SCAN_WAIT_LEGACY then [EXCHANGE_SCAN_POLLING_LEGACY] else [])"
    by (simp add: scan_declarations_def QUEUE_SCAN_WAIT_def QUEUE_SCAN_WAIT_LEGACY_def)
  then show ?thesis by (simp add: dead_lettered_def)
qed

lemma dead_lettered_one: "length (dead_lettered scan_declarations q key) \<le> 1"
  and dead_lettered_queues: "set (dead_lettered scan_declarations q key) \<subseteq> scan_queues"
  using delivered_one delivered_queues [of _ key] by (auto simp: dead_lettered_anywhere split: if_splits)


section \<open>Counting the messages of a scan\<close>

text \<open>The messages about a scan are counted for its identifier and workflow.\<close>

type_synonym scan_key = "string \<times> ScanWorkflow"

fun about_await :: "scan_key \<Rightarrow> msg \<Rightarrow> bool" where
  "about_await k (AwaitMsg m) = ((scanid m, workflow m) = k)"
| "about_await k _ = False"

fun about_feedback :: "scan_key \<Rightarrow> msg \<Rightarrow> bool" where
  "about_feedback k (FeedbackMsg m) = ((scanid m, workflow m) = k)"
| "about_feedback k _ = False"

fun starts_flow :: "scan_key \<Rightarrow> event \<Rightarrow> bool" where
  "starts_flow k (MqPublish ex key m expiration hs) = about_await k m"
| "starts_flow k _ = False"

fun reports_flow :: "scan_key \<Rightarrow> event \<Rightarrow> bool" where
  "reports_flow k (MqPublish ex key m expiration hs) = about_feedback k m"
| "reports_flow k _ = False"

definition awaited :: "scan_key \<Rightarrow> incoming \<Rightarrow> bool" where
  "awaited k im = (case in_body im of Inr m \<Rightarrow> about_await k m | Inl _ \<Rightarrow> False)"

definition awaiting :: "scan_key \<Rightarrow> broker \<Rightarrow> nat" where
  "awaiting k b = length (filter (\<lambda>q. awaited k (q_msg q)) (pool b))"

definition started_count :: "scan_key \<Rightarrow> broker \<Rightarrow> nat" where
  "started_count k b = length (filter (starts_flow k) (started b))"

definition reported_count :: "scan_key \<Rightarrow> broker \<Rightarrow> nat" where
  "reported_count k b = length (filter (reports_flow k) (sent b))"

lemma enqueued_awaited: "length (filter (\<lambda>q. awaited k (q_msg q)) (enqueued e)) \<le> of_bool (starts_flow k e)"
  using delivered_one by (cases e) (auto simp: awaited_def filter_map comp_def intro: le_trans [OF length_filter_le])

lemma enqueued_all:
  "length (filter (\<lambda>q. awaited k (q_msg q)) (concat (map enqueued ev))) \<le> length (filter (starts_flow k) ev)"
proof (induction ev)
  case (Cons e ev)
  then show ?case using enqueued_awaited [of k e] by (cases "starts_flow k e") simp_all
qed simp

lemma expired_awaited: "length (filter (\<lambda>q'. awaited k (q_msg q')) (expired_to q t)) \<le> of_bool (awaited k (q_msg q))"
  using dead_lettered_one by (auto simp: expired_to_def awaited_def filter_map comp_def)

text \<open>
  The contract of a handler: each await message it takes is worth one message about its scan,
  another await message or a feedback message, unless it stays with the broker.
\<close>

definition tally :: "scan_key \<Rightarrow> event list \<Rightarrow> nat" where
  "tally k ev = length (filter (starts_flow k) ev) + length (filter (reports_flow k) ev)"

definition conserves :: "scan_key \<Rightarrow> incoming \<Rightarrow> event list \<Rightarrow> bool" where
  "conserves k im ev \<longleftrightarrow>
     tally k ev + of_bool (awaited k im \<and> (Nack True \<in> set ev \<or> settled ev = 0)) \<le> of_bool (awaited k im)"

lemma tally_simps [simp]:
  "tally k [] = 0" "tally k (e # ev) = of_bool (starts_flow k e) + of_bool (reports_flow k e) + tally k ev"
  "tally k (ev @ ev') = tally k ev + tally k ev'"
  by (simp_all add: tally_def)

lemma conserves_silent: "list_all (\<lambda>e. \<not> publishes e) ev \<Longrightarrow> conserves k im ev"
proof -
  have "\<not> starts_flow k e \<and> \<not> reports_flow k e" if "\<not> publishes e" for e
    using that by (cases e) (simp_all add: publishes_def)
  moreover assume "list_all (\<lambda>e. \<not> publishes e) ev"
  ultimately have "tally k ev = 0" by (auto simp: tally_def list_all_iff filter_empty_conv)
  then show "conserves k im ev" by (simp add: conserves_def)
qed


section \<open>What the handlers publish\<close>

lemma silent_http: "emits http_or_sleep m \<Longrightarrow> emits (\<lambda>e. \<not> publishes e) m"
  by (erule emits_mono) (auto simp: http_or_sleep_def publishes_def split: event.splits)

lemma publishes_simps:
  "\<not> publishes (CxApi f a)" "\<not> publishes (CxPages f a)" "\<not> publishes (Http h u a)" "\<not> publishes (Sleep t)" "\<not> publishes MqClient"
  "\<not> publishes MqChannel" "\<not> publishes (MqExchange x)" "\<not> publishes (MqPublishRaw x k b hs)" "\<not> publishes MqClose"
  "\<not> publishes Ack" "\<not> publishes (Nack b')"
  by (simp_all add: publishes_def)

lemma silent_settling: "emits (\<lambda>e. \<not> publishes e) (ack E)" "emits (\<lambda>e. \<not> publishes e) (nack E b)"
  unfolding ack_def nack_def by (auto intro!: emits_rules simp: publishes_simps)

lemma silent_or_nack: "emits (\<lambda>e. \<not> publishes e) m \<Longrightarrow> emits (\<lambda>e. \<not> publishes e) (or_nack E m)"
  unfolding or_nack_def by (rule emits_catch) (auto intro: silent_settling)

lemma silent_ack_if: "emits (\<lambda>e. \<not> publishes e) m \<Longrightarrow> emits (\<lambda>e. \<not> publishes e) (ack_if E m)"
  unfolding ack_if_def by (intro emits_bnd emits_if silent_settling)

context pr_decorator
begin

lemma pr_feedback_silent: "emits (\<lambda>e. \<not> publishes e) (process_pr_feedback E svc m cx scm)"
  unfolding process_pr_feedback_def do_pr_feedback_def
  by (auto intro!: emits_rules silent_http [OF success] silent_http [OF failure] silent_http [OF unrecoverable]
      simp: publishes_simps split: if_splits)

end

lemma decorating_silent:
  assumes "decorating sv"
  shows "emits (\<lambda>e. \<not> publishes e) (process_prescan_pr_notice E svc m1 (sv_scm sv))"
    and "emits (\<lambda>e. \<not> publishes e) (process_pr_notice E svc m2 cx (sv_scm sv))"
    and "emits (\<lambda>e. \<not> publishes e) (process_pr_feedback E svc m3 cx (sv_scm sv))"
  using assms pr_decorator.prescan_notice pr_decorator.pr_notice pr_decorator.pr_feedback_silent
  unfolding decorating_def by (blast intro: silent_http)+

lemma pr_handlers_silent:
  assumes "monikers_decorate cfg"
  shows "emits (\<lambda>e. \<not> publishes e) (process_prescan_pr_annotate E cfg im)"
    and "emits (\<lambda>e. \<not> publishes e) (process_pr_annotate E cfg im)"
    and "emits (\<lambda>e. \<not> publishes e) (agent_pr_feedback E cfg im)"
    and "emits (\<lambda>e. \<not> publishes e) (process_pr_feedback_error E cfg im)"
  unfolding process_prescan_pr_annotate_def process_pr_annotate_def agent_pr_feedback_def process_pr_feedback_error_def
  by (intro silent_or_nack emits_lift_bnd silent_ack_if decorating_silent, erule retrieved_decorating [OF assms])+

lemma silent_post_tries: "emits (\<lambda>e. \<not> publishes e) (post_tries E url delay args once n)"
  by (induction n arbitrary: once) (auto intro!: emits_rules simp: publishes_simps)

lemma silent_deliver: "emits (\<lambda>e. \<not> publishes e) (deliver E m hdrs ag)"
  by (cases ag) (auto simp: amqp_publish_message_def http_post_def intro!: emits_rules silent_post_tries simp: publishes_simps)

lemma sarif_silent: "emits (\<lambda>e. \<not> publishes e) (process_gen_sarif E cfg im)"
proof -
  have work: "emits (\<lambda>e. \<not> publishes e) (do_sarif_generation E svc m det)" for svc m det
    unfolding do_sarif_generation_def wait_all_def
    by (auto intro!: emits_rules silent_deliver simp: publishes_simps Let_def)
  show ?thesis
    unfolding process_gen_sarif_def execute_sarif_generation_def safe_deserialize_body_def
    by (intro silent_or_nack emits_lift_bnd emits_rules work silent_settling) (auto intro: silent_settling split: if_splits)
qed


section \<open>Polling\<close>

lemma ends_mq_up: "mq_up E \<Longrightarrow> ends (mq E e) (\<lambda>r ev. r = Inr True \<and> ev = [e])"
  by (simp add: mq_def mq_up_def ends_call)

lemma ends_ack_up: "mq_up E \<Longrightarrow> ends (ack E) (\<lambda>r ev. r = Inr () \<and> ev = [Ack])"
  unfolding ack_def by (rule ends_bnd [OF ends_mq_up]) (auto intro!: ends_ret)

lemma ends_nack_up: "mq_up E \<Longrightarrow> ends (nack E b) (\<lambda>r ev. r = Inr () \<and> ev = [Nack b])"
  unfolding nack_def by (rule ends_bnd [OF ends_mq_up]) (auto intro!: ends_ret)

lemma one_feedback_tally:
  assumes "one_feedback m err fb"
  shows "tally k fb = of_bool ((scanid m, workflow m) = k)" and "Nack True \<notin> set fb" and "settled fb = 0"
  using assms by (auto simp: one_feedback_def feedback_message_def settles_def)

text \<open>The feedback of a scan is published once, or an exception came before it.\<close>

definition fed_back :: "scan_key \<Rightarrow> scan_await_message \<Rightarrow> exc + unit \<Rightarrow> event list \<Rightarrow> bool" where
  "fed_back k m r ev \<longleftrightarrow> r \<noteq> Inl Diverges \<and> Nack True \<notin> set ev
     \<and> tally k ev = (case r of Inl _ \<Rightarrow> 0 | Inr _ \<Rightarrow> of_bool ((scanid m, workflow m) = k))"

lemma ends_runs:
  assumes "\<And>tr s. \<exists>ev. m (tr, s) = (Inr (), tr @ ev, s) \<and> P ev" and "\<And>ev. P ev \<Longrightarrow> R (Inr ()) ev"
  shows "ends m R"
  unfolding ends_def using assms by (metis Pair_inject)

lemma ends_all_up:
  assumes "mq_up E"
  shows "ends (all_completed (configured_poll E mx sc) m) (fed_back k m)"
    and "ends (all_failed (configured_poll E mx sc) m err) (fed_back k m)"
  by (rule ends_runs [OF all_completed_one [OF assms]], simp add: fed_back_def one_feedback_tally)
    (rule ends_runs [OF all_failed_one [OF assms]], simp add: fed_back_def one_feedback_tally)

lemma fed_back_after:
  "ends m (fed_back k a) \<Longrightarrow> tally k ev = 0 \<Longrightarrow> Nack True \<notin> set ev \<Longrightarrow> ends m (\<lambda>r ev2. fed_back k a r (ev @ ev2))"
  by (erule ends_mono) (auto simp: fed_back_def)

lemma ends_break_build:
  "ends (break_build E pid sid) (\<lambda>r ev. r \<noteq> Inl Diverges \<and> tally k ev = 0 \<and> Nack True \<notin> set ev)"
  by (simp add: break_build_def ends_call)

lemma ends_scan_finished:
  assumes "mq_up E"
  shows "ends (scan_finished E (configured_poll E mx sc) m ins) (fed_back k m)"
proof -
  let ?Q = "\<lambda>r ev. r \<noteq> Inl Diverges \<and> tally k ev = 0 \<and> Nack True \<notin> set ev"
  have judged: "ends (if successful ins then bnd (break_build E (ins_project_id ins) (ins_scan_id ins)) (\<lambda>b. ret (\<not> b)) else ret False) ?Q"
    by (auto intro!: ends_ret ends_bnd [OF ends_break_build])
  have verdict: "ends (bnd (break_build E (ins_project_id ins) (ins_scan_id ins)) (\<lambda>b.
       if b then all_failed (configured_poll E mx sc) m ''Policy violation''
       else all_failed (configured_poll E mx sc) m (state_msg ins))) (fed_back k m)"
    by (rule ends_bnd [OF ends_break_build [of _ _ _ k]]) (auto simp: fed_back_def [of k m "Inl _"] intro!: fed_back_after ends_all_up [OF assms])
  show ?thesis
    unfolding scan_finished_def
    by (rule ends_bnd [OF judged]) (auto simp: fed_back_def [of k m "Inl _"] intro!: fed_back_after verdict ends_all_up [OF assms])
qed

text \<open>The state after the body: nothing is published as long as the message is to be requeued.\<close>

definition poll_tally :: "scan_key \<Rightarrow> scan_await_message \<Rightarrow> exc option \<times> bool \<times> bool \<Rightarrow> event list \<Rightarrow> bool" where
  "poll_tally k m st ev \<longleftrightarrow> (case st of (pending, requeue, chan) \<Rightarrow> chan \<and> pending \<noteq> Some Diverges \<and> Nack True \<notin> set ev
     \<and> (if requeue then tally k ev = 0 else tally k ev \<le> of_bool ((scanid m, workflow m) = k) \<and> 1 \<le> settled ev))"

lemma poll_tally_simps [simp]:
  "poll_tally k m (p, True, c) ev \<longleftrightarrow> c \<and> p \<noteq> Some Diverges \<and> Nack True \<notin> set ev \<and> tally k ev = 0"
  "poll_tally k m (p, False, c) ev \<longleftrightarrow> c \<and> p \<noteq> Some Diverges \<and> Nack True \<notin> set ev
     \<and> tally k ev \<le> of_bool ((scanid m, workflow m) = k) \<and> 1 \<le> settled ev"
  by (auto simp: poll_tally_def)

abbreviation poll_result :: "scan_key \<Rightarrow> scan_await_message \<Rightarrow> exc + exc option \<times> bool \<times> bool \<Rightarrow> event list \<Rightarrow> bool" where
  "poll_result k m r ev \<equiv> (case r of Inl _ \<Rightarrow> False | Inr st \<Rightarrow> poll_tally k m st ev)"

lemma poll_result_after:
  assumes "ends x (poll_result k m)" and "tally k ev = 0" and "Nack True \<notin> set ev"
  shows "ends x (\<lambda>r ev2. poll_result k m r (ev @ ev2))"
  using assms(1) by (rule ends_mono) (use assms(2,3) in \<open>auto simp: poll_tally_def split: sum.splits\<close>)

lemma ends_final_ack:
  assumes "mq_up E"
  shows "ends (bnd (attempt (ack E)) (\<lambda>a. case a of Inl e \<Rightarrow> ret (Some e, False, c) | Inr _ \<Rightarrow> ret (None, False, c)))
     (\<lambda>r ev. r = Inr (None, False, c) \<and> ev = [Ack])"
proof (rule ends_bnd)
  show "ends (attempt (ack E)) (\<lambda>r ev. r = Inr (Inr ()) \<and> ev = [Ack])"
    by (rule ends_attempt, rule ends_mono [OF ends_ack_up [OF assms]]) simp
qed (auto intro!: ends_ret)


lemma ends_finish_scan:
  assumes "mq_up E"
  shows "ends (finish_scan E (configured_poll E mx sc) m ins) (poll_result k m)"
  unfolding finish_scan_def
proof (rule ends_bnd)
  show "ends (attempt (scan_finished E (configured_poll E mx sc) m ins)) (\<lambda>r ev. case r of Inl _ \<Rightarrow> False | Inr q \<Rightarrow> fed_back k m q ev)"
    by (rule ends_attempt, rule ends_mono [OF ends_scan_finished [OF assms, of mx sc m ins k]]) (auto simp: fed_back_def)
next
  fix q ev assume "case Inr q :: exc + (exc + unit) of Inl _ \<Rightarrow> False | Inr q \<Rightarrow> fed_back k m q ev"
  then show "ends (case q of Inl e \<Rightarrow> ret (None, True, True)
       | Inr _ \<Rightarrow> bnd (attempt (ack E)) (\<lambda>a. case a of Inl e \<Rightarrow> ret (Some e, False, True) | Inr _ \<Rightarrow> ret (None, False, True)))
     (\<lambda>r ev2. poll_result k m r (ev @ ev2))"
    by (cases q) (auto simp: fed_back_def settles_def intro!: ends_ret ends_mono [OF ends_final_ack [OF assms]])
qed auto

lemma ends_poll_inspect:
  assumes "mq_up E"
  shows "ends (poll_inspect E (configured_poll E mx sc) m) (poll_result k m)"
  unfolding poll_inspect_def
proof (rule ends_bnd)
  let ?Q = "\<lambda>l ev. l \<noteq> Inl Diverges \<and> tally k ev = 0 \<and> Nack True \<notin> set ev"
  show "ends (attempt (load_scan_inspector E (scanid m))) (\<lambda>r ev. case r of Inl _ \<Rightarrow> False | Inr l \<Rightarrow> ?Q l ev)"
    by (rule ends_attempt) (simp add: load_scan_inspector_def ends_call)
  fix l ev assume "case Inr l :: exc + (exc + inspector) of Inl _ \<Rightarrow> False | Inr l \<Rightarrow> ?Q l ev"
  then show "ends (case l of Inl e \<Rightarrow> ret (Some e, True, True)
       | Inr ins \<Rightarrow> if executing ins then ret (None, True, True) else finish_scan E (configured_poll E mx sc) m ins)
     (\<lambda>r ev2. poll_result k m r (ev @ ev2))"
    by (cases l) (auto intro!: ends_ret poll_result_after ends_finish_scan [OF assms])
qed auto

lemma ends_poll_body:
  assumes "mq_up E"
  shows "ends (poll_body E (configured_poll E mx sc) m) (poll_result k m)"
  unfolding poll_body_def
proof (rule ends_bnd)
  have "ends (bnd (mq E MqClient) (\<lambda>_. mq E MqChannel)) (\<lambda>r ev. r = Inr True \<and> ev = [MqClient, MqChannel])"
    by (rule ends_bnd [OF ends_mq_up [OF assms]]) (auto intro!: ends_mono [OF ends_mq_up [OF assms]])
  then show "ends (attempt (bnd (mq E MqClient) (\<lambda>_. mq E MqChannel))) (\<lambda>r ev. r = Inr (Inr True) \<and> ev = [MqClient, MqChannel])"
    by (intro ends_attempt) (erule ends_mono, simp)
qed (auto intro!: poll_result_after [of _ _ _ "[MqClient, MqChannel]", simplified] ends_poll_inspect [OF assms])

lemma ends_handle_response:
  assumes "mq_up E" and "poll_tally k m st ev"
  shows "ends (handle_response_exception E st) (\<lambda>r ev2. poll_result k m r (ev @ ev2))"
proof -
  obtain p rq c where st: "st = (p, rq, c)" by (cases st)
  show ?thesis
    using assms(2) unfolding st
    by (cases rq) (auto simp: handle_response_exception_def settles_def
        intro!: ends_ret ends_mono [OF ends_final_ack [OF assms(1)]])
qed

text \<open>A poll that raises is rejected by the handler around it.\<close>

definition polled :: "scan_key \<Rightarrow> scan_await_message \<Rightarrow> exc + unit \<Rightarrow> event list \<Rightarrow> bool" where
  "polled k m r ev \<longleftrightarrow> Nack True \<notin> set ev \<and> tally k ev \<le> of_bool ((scanid m, workflow m) = k)
     \<and> (case r of Inl e \<Rightarrow> e = Diverges \<longrightarrow> tally k ev = 0 | Inr _ \<Rightarrow> 1 \<le> settled ev)"

lemma ends_requeue:
  assumes "mq_up E"
  shows "ends (requeue_poll E svc im m True) (polled k m)"
  using assms unfolding requeue_poll_def ends_def ack_def mq_def mq_up_def polled_def
  by (cases "original_expiration im") (auto simp: bnd_app settles_def)

lemma ends_closing:
  assumes "mq_up E" and "p \<noteq> Some Diverges" and "polled k m (Inr ()) ev"
  shows "ends (bnd (bnd (mq E MqClose) (\<lambda>_. ret ())) (\<lambda>_. case p of None \<Rightarrow> ret () | Some e \<Rightarrow> raise e))
     (\<lambda>r ev2. polled k m r (ev @ ev2))"
  using assms unfolding ends_def mq_def mq_up_def polled_def
  by (cases p) (auto simp: bnd_app)

lemma ends_poll_finally:
  assumes "mq_up E" and "poll_tally k m st ev"
  shows "ends (poll_finally E svc im m st) (\<lambda>r ev2. polled k m r (ev @ ev2))"
proof -
  obtain p rq c where st: "st = (p, rq, c)" by (cases st)
  have c: c "p \<noteq> Some Diverges" using assms(2) by (auto simp: st poll_tally_def)
  have "ends (if rq then requeue_poll E svc im m True else ret ()) (\<lambda>r ev2. polled k m r (ev @ ev2))"
    using assms(2) unfolding st
    by (cases rq) (auto simp: polled_def split: sum.splits intro!: ends_ret ends_mono [OF ends_requeue [OF assms(1), of svc im m k]])
  then show ?thesis
    unfolding poll_finally_def st prod.case using c
    by (simp only: if_True) (rule ends_bnd, assumption, assumption, simp, drule ends_closing [OF assms(1) c(2)], simp)
qed

lemma ends_execute_poll:
  assumes "mq_up E" and "in_body im = Inr (AwaitMsg m)"
  shows "ends (execute_poll_scan_workflow E (configured_poll E mx sc) im) (polled k m)"
proof -
  let ?svc = "configured_poll E mx sc"
  have poll: "ends (bnd (poll_body E ?svc m) (\<lambda>st. bnd (handle_response_exception E st) (poll_finally E ?svc im m))) (polled k m)"
  proof (rule ends_bnd [OF ends_poll_body [OF assms(1), where k = k]], simp)
    fix st ev assume st: "poll_result k m (Inr st) ev"
    show "ends (bnd (handle_response_exception E st) (poll_finally E ?svc im m)) (\<lambda>r ev2. polled k m r (ev @ ev2))"
      by (rule ends_bnd [OF ends_handle_response [OF assms(1)]], use st in simp, simp)
        (simp, drule ends_poll_finally [OF assms(1)], simp)
  qed
  have acked: "ends (ack E) (polled k m)"
    by (rule ends_mono [OF ends_ack_up [OF assms(1)]]) (simp add: polled_def settles_def)
  have "ends (is_expired E (drop_by m)) (\<lambda>r ev. ev = [])"
    unfolding is_expired_def clock_def by (auto simp: ends_def bnd_app split: sum.splits)
  then have "ends (bnd (is_expired E (drop_by m)) (\<lambda>expired. if expired then ack E else
       bnd (poll_body E ?svc m) (\<lambda>st. bnd (handle_response_exception E st) (poll_finally E ?svc im m)))) (polled k m)"
  proof (rule ends_bnd)
    show "ends (if expired then ack E else
        bnd (poll_body E ?svc m) (\<lambda>st. bnd (handle_response_exception E st) (poll_finally E ?svc im m)))
      (\<lambda>r ev2. polled k m r (ev @ ev2))" if "ev = []" for expired ev
      using that poll acked by simp
  qed (simp add: polled_def)
  then show ?thesis by (simp add: execute_poll_scan_workflow_def safe_deserialize_body_def assms(2))
qed

text \<open>The handler of polls keeps the contract.\<close>

lemma to_await_Inr: "to_await b = Inr m \<longleftrightarrow> b = AwaitMsg m"
  by (cases b) auto

lemma poll_conserves:
  assumes "mq_up E" and "polls_configured E cfg"
  shows "ends (process_poll E cfg im) (\<lambda>_ ev. conserves k im ev)"
proof -
  let ?work = "bnd (lift (ebind (in_body im) to_await)) (\<lambda>sm.
      bnd (lift (retrieve_services_by_moniker cfg (moniker sm))) (\<lambda>sv. execute_poll_scan_workflow E (sv_poll sv) im))"
  let ?R = "\<lambda>r ev. Nack True \<notin> set ev \<and> tally k ev \<le> of_bool (awaited k im)
     \<and> (case r of Inl e \<Rightarrow> e = Diverges \<longrightarrow> tally k ev = 0 | Inr _ \<Rightarrow> 1 \<le> settled ev)"
  have "ends ?work ?R"
  proof (cases "ebind (in_body im) to_await")
    case (Inr m)
    then have body: "in_body im = Inr (AwaitMsg m)" by (auto simp: ebind_Inr_iff to_await_Inr)
    show ?thesis
    proof (cases "retrieve_services_by_moniker cfg (moniker m)")
      case Inr': (Inr sv)
      from retrieved_poll [OF assms(2) Inr'] obtain mx sc where svc: "sv_poll sv = configured_poll E mx sc" by blast
      show ?thesis
        unfolding Inr lift_simps bnd_ret Inr' svc
        by (rule ends_mono [OF ends_execute_poll [OF assms(1) body, of mx sc k]]) (simp add: polled_def awaited_def body)
    qed (simp add: Inr ends_raise)
  qed (simp add: ends_raise)
  then show ?thesis
    unfolding process_poll_def or_nack_def
    by (rule ends_catch) (auto simp: conserves_def settles_def intro!: ends_mono [OF ends_nack_up [OF assms(1)]])
qed


section \<open>A scan is reported at most as often as it was started\<close>

lemma scan_tasks_conserve:
  assumes "mq_up E" and "monikers_decorate cfg" and "polls_configured E cfg"
    and "t \<in> set (agent_tasks E cfg routes sv)" and "task_queue t \<in> scan_queues"
  shows "ends (task_handler t im) (\<lambda>_ ev. conserves k im ev)"
proof -
  have silent: "emits (\<lambda>e. \<not> publishes e) h \<Longrightarrow> ends h (\<lambda>_ ev. conserves k im ev)" for h :: "unit cio"
    by (erule ends_emits) (rule conserves_silent)
  have "QUEUE_RESOLVER_COMPLETE \<notin> scan_queues" "QUEUE_RESOLVER_TIMEOUT \<notin> scan_queues"
    by (simp_all add: scan_queues_def queue_names)
  with assms(4,5) have "task_handler t \<in> {process_gen_sarif E cfg, process_poll E cfg, process_prescan_pr_annotate E cfg,
      process_pr_annotate E cfg, agent_pr_feedback E cfg, process_pr_feedback_error E cfg}"
    by (auto simp: agent_tasks_def)
  then show ?thesis
    using poll_conserves [OF assms(1,3), of im k] silent [OF sarif_silent] silent [OF pr_handlers_silent(1) [OF assms(2)]]
      silent [OF pr_handlers_silent(2) [OF assms(2)]] silent [OF pr_handlers_silent(3) [OF assms(2)]]
      silent [OF pr_handlers_silent(4) [OF assms(2)]]
    by auto
qed

definition balanced :: "scan_key \<Rightarrow> broker \<Rightarrow> bool" where
  "balanced k b \<longleftrightarrow> (\<forall>q\<in>set (pool b). q_name q \<in> scan_queues) \<and> awaiting k b + reported_count k b \<le> started_count k b"

lemma enqueued_queues: "q \<in> set (concat (map enqueued ev)) \<Longrightarrow> q_name q \<in> scan_queues"
proof -
  have "q_name q \<in> scan_queues" if "q \<in> set (enqueued e)" for e
    using that by (cases e) (auto dest: subsetD [OF delivered_queues])
  then show "q \<in> set (concat (map enqueued ev)) \<Longrightarrow> q_name q \<in> scan_queues" by auto
qed

lemma balanced_publish:
  assumes "balanced k b"
  shows "balanced k (b\<lparr> pool := pool b @ concat (map enqueued evs), started := started b @ evs \<rparr>)"
  using assms enqueued_all [of k evs] enqueued_queues [of _ evs]
  by (auto simp: balanced_def awaiting_def reported_count_def started_count_def)

lemma balanced_expire:
  assumes "balanced k b" and "pool b = ps @ q # qs"
  shows "balanced k (b\<lparr> pool := ps @ expired_to q t @ qs \<rparr>)"
proof -
  have "q_name q' \<in> scan_queues" if "q' \<in> set (expired_to q t)" for q'
    using that by (auto simp: expired_to_def dest: subsetD [OF dead_lettered_queues])
  then show ?thesis
    using assms expired_awaited [of k q t]
    by (cases "awaited k (q_msg q)") (auto simp: balanced_def awaiting_def reported_count_def started_count_def)
qed

lemma balanced_consume:
  assumes "balanced k b" and "pool b = ps @ q # qs" and "conserves k (q_msg q) ev"
  shows "balanced k (b\<lparr> pool := ps @ kept q ev @ qs @ concat (map enqueued ev), sent := sent b @ ev, seen := tr, memory := s \<rparr>)"
  using assms enqueued_all [of k ev] enqueued_queues [of _ ev]
  by (cases "awaited k (q_msg q)")
    (auto simp: balanced_def awaiting_def reported_count_def started_count_def kept_def conserves_def tally_def split: if_splits)

lemma reports_bounded:
  assumes "mq_up E" and "monikers_decorate cfg" and "polls_configured E cfg"
    and "reachable E cfg routes (broker0 tr s) b"
  shows "balanced k b"
  using assms(4)
proof (induction rule: rtranclp_induct)
  case base
  show ?case by (simp add: balanced_def awaiting_def reported_count_def started_count_def broker0_def)
next
  case (step b b')
  from step.hyps(2) show ?case
  proof (cases rule: broker_step.cases)
    case (publish evs)
    then show ?thesis using balanced_publish [OF step.IH] by simp
  next
    case (expire ps q qs t)
    then show ?thesis using balanced_expire [OF step.IH] by simp
  next
    case (consume ps q qs mk sv t r ev s')
    have "task_queue t \<in> scan_queues" using step.IH consume by (auto simp: balanced_def)
    from endsD [OF scan_tasks_conserve [OF assms(1-3) consume(4) this, of "q_msg q" k] consume(6)]
    have "conserves k (q_msg q) ev" by auto
    with balanced_consume [OF step.IH consume(2)] show ?thesis using consume(1) by simp
  qed
qed


section \<open>A scan that ends is reported\<close>

definition await_topic :: "ScanWorkflow \<Rightarrow> string \<Rightarrow> string" where
  "await_topic flow = (case flow of PR \<Rightarrow> pr_topic AWAIT (str_ScanWorkflow PR)
     | PUSH \<Rightarrow> push_topic AWAIT (str_FeedbackWorkflow PUSH_GEN))"

definition feedback_queue :: "ScanWorkflow \<Rightarrow> bool \<Rightarrow> string" where
  "feedback_queue flow err = (case flow of PR \<Rightarrow> if err then QUEUE_FAILURE_PR else QUEUE_FEEDBACK_PR | PUSH \<Rightarrow> QUEUE_SARIF_GEN)"

lemma scan_routes:
  assumes "CHR ''.'' \<notin> set mk"
  shows "delivered scan_declarations EXCHANGE_SCAN_INPUT (await_topic flow mk) = [QUEUE_SCAN_WAIT]"
    and "dead_lettered scan_declarations QUEUE_SCAN_WAIT (await_topic flow mk) = [QUEUE_SCAN_POLLING]"
    and "delivered scan_declarations EXCHANGE_SCAN_INPUT (feedback_topic flow err mk) = [feedback_queue flow err]"
  using pr_delivered [OF assms] push_delivered [OF assms] awaited_polled [OF assms]
  by (cases flow; simp add: await_topic_def feedback_topic_def feedback_queue_def pr_queue_def push_queue_def)+

text \<open>A message of a scan that waits to be polled, and the number of polls in a trace.\<close>

definition waits_for :: "scan_await_message \<Rightarrow> queued \<Rightarrow> bool" where
  "waits_for m q \<longleftrightarrow> q_name q = QUEUE_SCAN_WAIT \<and> in_body (q_msg q) = Inr (AwaitMsg m)
     \<and> routing_key (q_msg q) = await_topic (workflow m) (moniker m) \<and> q_expiration q \<noteq> None"

definition polls :: "string \<Rightarrow> event list \<Rightarrow> nat" where
  "polls sid tr = length (filter (\<lambda>e. e = poll_call sid) tr)"

text \<open>The scan is found executing in its first \<open>n\<close> polls, ended afterwards, and the time limit is not reached by then.\<close>

definition ends_after :: "env \<Rightarrow> scan_await_message \<Rightarrow> nat \<Rightarrow> bool" where
  "ends_after E m n \<longleftrightarrow>
     (\<forall>tr. \<exists>ins. cx_inspector E tr (scanid m) = Inr ins \<and> (executing ins \<longleftrightarrow> polls (scanid m) tr < n))
     \<and> (\<exists>v. \<forall>tr pid sid. cx_break_build E tr pid sid = Inr v)
     \<and> (\<exists>d. fromisoformat E (drop_by m) = Inr d \<and> (\<forall>tr. polls (scanid m) tr \<le> n \<longrightarrow> now E tr < d))"

lemma polls_simps [simp]:
  "polls sid [] = 0" "polls sid (e # tr) = of_bool (e = poll_call sid) + polls sid tr" "polls sid (tr @ tr') = polls sid tr + polls sid tr'"
  by (simp_all add: polls_def)

lemma polls_none: "list_all (\<lambda>e. \<not> (\<exists>f a. e = CxApi f a)) ev \<Longrightarrow> polls sid ev = 0"
  by (auto simp: polls_def poll_call_def list_all_iff filter_empty_conv)

text \<open>Expiration brings the message to the queue of polls, with the delay it had.\<close>

lemma expire_step:
  assumes "waits_for m q" and "pool b = ps @ q # qs" and "CHR ''.'' \<notin> set (moniker m)"
  obtains im t where "broker_step E cfg routes b (b\<lparr> pool := ps @ \<lparr> q_name = QUEUE_SCAN_POLLING, q_msg = im, q_expiration = None \<rparr> # qs \<rparr>)"
    and "in_body im = Inr (AwaitMsg m)" and "routing_key im = await_topic (workflow m) (moniker m)" and "original_expiration im = Inr t"
proof -
  obtain t where t: "q_expiration q = Some t" using assms(1) by (auto simp: waits_for_def)
  let ?im = "(q_msg q)\<lparr> in_headers := (''x-death'', x_death q t) # in_headers (q_msg q) \<rparr>"
  have "expired_to q t = [\<lparr> q_name = QUEUE_SCAN_POLLING, q_msg = ?im, q_expiration = None \<rparr>]"
    using assms(1) scan_routes(2) [OF assms(3)] by (simp add: expired_to_def waits_for_def)
  moreover have "original_expiration ?im = Inr t"
    using py_int_dec by (simp add: original_expiration_def x_death_def dgetE_def)
  ultimately show thesis
    using assms(1) broker_step.expire [where E = E and cfg = cfg and routes = routes, OF assms(2) t]
    by (intro that [of ?im t]) (simp_all add: waits_for_def)
qed

lemma poll_step:
  assumes "pool b = ps @ \<lparr> q_name = QUEUE_SCAN_POLLING, q_msg = im, q_expiration = x \<rparr> # qs" and "in_body im = Inr (AwaitMsg m)"
    and "dget cfg (moniker m) = Some sv"
    and "execute_poll_scan_workflow E (sv_poll sv) im (seen b, memory b) = (Inr (), seen b @ ev, s)"
    and "Nack True \<notin> set ev" and "settled ev = 1"
  shows "broker_step E cfg routes b
    (b\<lparr> pool := ps @ qs @ concat (map enqueued ev), sent := sent b @ ev, seen := seen b @ ev, memory := s \<rparr>)"
proof -
  let ?t = "\<lparr> task_queue = QUEUE_SCAN_POLLING, task_handler = process_poll E cfg \<rparr>"
  have "process_poll E cfg im (seen b, memory b) = (Inr (), seen b @ ev, s)"
    using assms(2-4) by (simp add: process_poll_def or_nack_def catch_app retrieve_services_by_moniker_def dgetE_def)
  then have "broker_step E cfg routes b
      (b\<lparr> pool := ps @ kept \<lparr> q_name = QUEUE_SCAN_POLLING, q_msg = im, q_expiration = x \<rparr> ev @ qs @ concat (map enqueued ev),
          sent := sent b @ ev, seen := seen b @ ev, memory := s \<rparr>)"
    by (intro broker_step.consume [OF assms(1,3), of ?t]) (simp_all add: agent_tasks_def)
  then show ?thesis using assms(5,6) by (simp add: kept_def)
qed

text \<open>What a poll is told.\<close>

lemma inspector_reply:
  "ends_after E m n \<Longrightarrow> \<exists>ins. cx_inspector E (tr @ [MqClient, MqChannel]) (scanid m) = Inr ins
     \<and> (executing ins \<longleftrightarrow> polls (scanid m) tr < n)"
  unfolding ends_after_def by (auto dest!: spec [of _ "tr @ [MqClient, MqChannel]"] simp: poll_call_def)

lemma deadline:
  "ends_after E m n \<Longrightarrow> \<exists>d. fromisoformat E (drop_by m) = Inr d \<and> (polls (scanid m) tr \<le> n \<longrightarrow> now E tr < d)"
  unfolding ends_after_def by blast

text \<open>What one round leaves: the message of the scan, or its feedback, at the end of the pool.\<close>

lemma running_round:
  assumes "mq_up E" and "dget cfg (moniker m) = Some sv" and "CHR ''.'' \<notin> set (moniker m)" and "ends_after E m n"
    and "pool b = ps @ q # qs" and "waits_for m q" and "polls (scanid m) (seen b) < n"
  obtains b' q' where "reachable E cfg routes b b'" and "pool b' = ps @ qs @ [q']" and "waits_for m q'"
    and "polls (scanid m) (seen b') = Suc (polls (scanid m) (seen b))" and "started b' = started b"
    and "reported_count k b' = reported_count k b"
proof -
  obtain im t where im: "broker_step E cfg routes b (b\<lparr> pool := ps @ \<lparr> q_name = QUEUE_SCAN_POLLING, q_msg = im, q_expiration = None \<rparr> # qs \<rparr>)"
      (is "broker_step _ _ _ _ ?b1")
    "in_body im = Inr (AwaitMsg m)" "routing_key im = await_topic (workflow m) (moniker m)" "original_expiration im = Inr t"
    using expire_step [OF assms(6,5,3), of E cfg routes] by blast
  obtain d where d: "fromisoformat E (drop_by m) = Inr d" "now E (seen b) < d"
    using deadline [OF assms(4)] assms(7) by (meson less_imp_le)
  obtain ins where ins: "cx_inspector E (seen b @ [MqClient, MqChannel]) (scanid m) = Inr ins" "executing ins"
    using inspector_reply [OF assms(4)] assms(7) by blast
  let ?x = "backoff_of (sv_poll sv) t"
  let ?ev = "[MqClient, MqChannel, poll_call (scanid m), MqExchange EXCHANGE_SCAN_INPUT,
       MqPublish EXCHANGE_SCAN_INPUT (routing_key im) (AwaitMsg m) (Some ?x) [], Ack, MqClose]"
  let ?q' = "\<lparr> q_name = QUEUE_SCAN_WAIT, q_msg = \<lparr> in_body = Inr (AwaitMsg m), in_headers = [], routing_key = routing_key im \<rparr>,
       q_expiration = Some ?x \<rparr>"
  have "execute_poll_scan_workflow E (sv_poll sv) im (seen ?b1, memory ?b1) = (Inr (), seen ?b1 @ ?ev, memory b)"
    using poll_executing [OF assms(1) im(2) d ins im(4)] by simp
  then have "broker_step E cfg routes ?b1
      (?b1\<lparr> pool := ps @ qs @ concat (map enqueued ?ev), sent := sent ?b1 @ ?ev, seen := seen ?b1 @ ?ev, memory := memory b \<rparr>)"
    by (intro poll_step [OF _ im(2) assms(2)]) (simp_all add: settles_def poll_call_def)
  moreover have "concat (map enqueued ?ev) = [?q']"
    using scan_routes(1) [OF assms(3)] by (simp add: im(3) poll_call_def)
  ultimately have "broker_step E cfg routes ?b1 (?b1\<lparr> pool := ps @ qs @ [?q'], sent := sent ?b1 @ ?ev, seen := seen ?b1 @ ?ev, memory := memory b \<rparr>)"
    by simp
  with im(1) show thesis
    by (intro that [of "?b1\<lparr> pool := ps @ qs @ [?q'], sent := sent ?b1 @ ?ev, seen := seen ?b1 @ ?ev, memory := memory b \<rparr>" ?q'])
      (auto simp: waits_for_def im(3) reported_count_def poll_call_def)
qed

lemma one_feedback_published:
  assumes "one_feedback m err fb" and "CHR ''.'' \<notin> set (moniker m)"
  obtains fm where "feedback_message m err fm"
    and "concat (map enqueued fb) = [\<lparr> q_name = feedback_queue (workflow m) (err \<noteq> None),
       q_msg = \<lparr> in_body = Inr (FeedbackMsg fm), in_headers = [], routing_key = feedback_topic (workflow m) (err \<noteq> None) (moniker m) \<rparr>,
       q_expiration = None \<rparr>]"
  using assms(1) scan_routes(3) [OF assms(2)] by (auto simp: one_feedback_def)

lemma quiet_events:
  assumes "list_all (\<lambda>e. \<not> mq_call e \<and> \<not> settles e) ev"
  shows "concat (map enqueued ev) = []" and "settled ev = 0" and "Nack True \<notin> set ev" and "filter (reports_flow k) ev = []"
proof -
  have "enqueued e = [] \<and> \<not> reports_flow k e \<and> e \<noteq> Nack True" if "\<not> mq_call e \<and> \<not> settles e" for e
    using that by (cases e) (simp_all add: mq_call_def settles_def)
  with assms show "concat (map enqueued ev) = []" "settled ev = 0" "Nack True \<notin> set ev" "filter (reports_flow k) ev = []"
    by (auto simp: list_all_iff filter_empty_conv)
qed

lemma ended_round:
  assumes "mq_up E" and "dget cfg (moniker m) = Some sv" and "sv_poll sv = configured_poll E mx sc"
    and "CHR ''.'' \<notin> set (moniker m)" and "ends_after E m n" and "pool b = ps @ q # qs" and "waits_for m q"
    and "polls (scanid m) (seen b) = n"
  obtains b' err fm where "reachable E cfg routes b b'" and "feedback_message m err fm"
    and "pool b' = ps @ qs @ [\<lparr> q_name = feedback_queue (workflow m) (err \<noteq> None),
       q_msg = \<lparr> in_body = Inr (FeedbackMsg fm), in_headers = [], routing_key = feedback_topic (workflow m) (err \<noteq> None) (moniker m) \<rparr>,
       q_expiration = None \<rparr>]"
    and "started b' = started b" and "reported_count (scanid m, workflow m) b' = Suc (reported_count (scanid m, workflow m) b)"
proof -
  obtain im t where im: "broker_step E cfg routes b (b\<lparr> pool := ps @ \<lparr> q_name = QUEUE_SCAN_POLLING, q_msg = im, q_expiration = None \<rparr> # qs \<rparr>)"
      (is "broker_step _ _ _ _ ?b1")
    "in_body im = Inr (AwaitMsg m)"
    using expire_step [OF assms(7,6,4), of E cfg routes] by blast
  obtain d where d: "fromisoformat E (drop_by m) = Inr d" "now E (seen b) < d"
    using deadline [OF assms(5), of "seen b"] assms(8) by auto
  obtain ins where ins: "cx_inspector E (seen b @ [MqClient, MqChannel]) (scanid m) = Inr ins" "\<not> executing ins"
    using inspector_reply [OF assms(5), of "seen b"] assms(8) by auto
  obtain v where "cx_break_build E tr' pid sid = Inr v" for tr' pid sid using assms(5) unfolding ends_after_def by blast
  from poll_finished [OF assms(1) im(2) d ins this, of mx sc "memory b"] obtain pre fb where run:
    "execute_poll_scan_workflow E (sv_poll sv) im (seen ?b1, memory ?b1) =
      (Inr (), seen ?b1 @ ([MqClient, MqChannel, poll_call (scanid m)] @ pre @ fb @ [Ack, MqClose]), memory b)" (is "_ = (_, _ @ ?ev, _)")
    and pre: "list_all (\<lambda>e. \<not> mq_call e \<and> \<not> settles e) pre" and fb: "one_feedback m (scan_verdict ins v) fb"
    unfolding assms(3) by auto
  obtain fm where fm: "feedback_message m (scan_verdict ins v) fm" "concat (map enqueued fb) =
      [\<lparr> q_name = feedback_queue (workflow m) (scan_verdict ins v \<noteq> None),
       q_msg = \<lparr> in_body = Inr (FeedbackMsg fm), in_headers = [],
         routing_key = feedback_topic (workflow m) (scan_verdict ins v \<noteq> None) (moniker m) \<rparr>, q_expiration = None \<rparr>]"
    using one_feedback_published [OF fb assms(4)] by blast
  have "broker_step E cfg routes ?b1
      (?b1\<lparr> pool := ps @ qs @ concat (map enqueued ?ev), sent := sent ?b1 @ ?ev, seen := seen ?b1 @ ?ev, memory := memory b \<rparr>)" (is "broker_step _ _ _ _ ?b2")
    using quiet_events [OF pre] one_feedback_tally [OF fb]
    by (intro poll_step [OF _ im(2) assms(2) run]) (simp_all add: settles_def poll_call_def)
  with im(1) have reach: "reachable E cfg routes b ?b2" by simp
  have one: "length (filter (reports_flow (scanid m, workflow m)) fb) = 1"
    using fb by (auto simp: one_feedback_def feedback_message_def)
  show thesis
    by (rule that [OF reach fm(1)]) (simp_all add: fm(2) poll_call_def reported_count_def quiet_events [OF pre] one)
qed

text \<open>From any state in which a message of the scan waits, a run of the broker and the agent reports it.\<close>

definition reported_from :: "broker \<Rightarrow> queued list \<Rightarrow> scan_await_message \<Rightarrow> broker \<Rightarrow> bool" where
  "reported_from b rest m b' \<longleftrightarrow> started b' = started b
     \<and> reported_count (scanid m, workflow m) b' = Suc (reported_count (scanid m, workflow m) b)
     \<and> (\<exists>err fm. feedback_message m err fm \<and> pool b' = rest @ [\<lparr> q_name = feedback_queue (workflow m) (err \<noteq> None),
          q_msg = \<lparr> in_body = Inr (FeedbackMsg fm), in_headers = [], routing_key = feedback_topic (workflow m) (err \<noteq> None) (moniker m) \<rparr>,
          q_expiration = None \<rparr>])"

lemma ended_scan_reported:
  assumes "mq_up E" and "dget cfg (moniker m) = Some sv" and "sv_poll sv = configured_poll E mx sc"
    and "CHR ''.'' \<notin> set (moniker m)" and "ends_after E m n"
    and "pool b = ps @ q # qs" and "waits_for m q" and "polls (scanid m) (seen b) \<le> n"
  shows "\<exists>b'. reachable E cfg routes b b' \<and> reported_from b (ps @ qs) m b'"
  using assms(6-8)
proof (induction "n - polls (scanid m) (seen b)" arbitrary: b ps q qs)
  case 0
  then have "polls (scanid m) (seen b) = n" by simp
  from ended_round [OF assms(1-5) 0(2,3) this, of routes] show ?case
    unfolding reported_from_def append_assoc by metis
next
  case (Suc j)
  then have "polls (scanid m) (seen b) < n" by simp
  from running_round [OF assms(1,2,4,5) Suc(3,4) this, of routes "(scanid m, workflow m)"]
  obtain b1 q' where b1: "reachable E cfg routes b b1" "pool b1 = (ps @ qs) @ q' # []" "waits_for m q'"
    "polls (scanid m) (seen b1) = Suc (polls (scanid m) (seen b))" "started b1 = started b"
    "reported_count (scanid m, workflow m) b1 = reported_count (scanid m, workflow m) b" by auto
  from Suc(1) [OF _ b1(2,3)] Suc(2,5) b1(4) obtain b' where
    "reachable E cfg routes b1 b'" "reported_from b1 ((ps @ qs) @ []) m b'" by fastforce
  with b1 show ?case by (auto simp: reported_from_def intro!: exI [of _ b'])
qed

end
