(* ===== verification/Integrations.thy ===== *)
theory Integrations
  imports OrchBase
begin

text \<open>
  The code the repository gives to those who integrate with it: the receivers of SARIF reports
  (\<open>examples/hmac\<close>), which check the signature of a delivery, and the scripts that name projects
  (\<open>manual/quickstart_configs/project_naming\<close>), which take the place of the parameter
  \<open>naming_coro\<close>. The lemmas compose them with the service: what it delivers is accepted by a receiver
  with the same secret, and the events of one repository get one name.
\<close>


section \<open>Receivers of reports\<close>

text \<open>\<open>hmac.new\<close> raises \<open>ValueError\<close> for a digest it does not know. The secret is a constant of the examples.\<close>

definition signature_matches :: "env \<Rightarrow> string \<Rightarrow> string dict \<Rightarrow> string \<Rightarrow> exc + bool" where
  "signature_matches E secret hdrs data =
     ebind (dgetE hdrs ''x-cx-signature'') (\<lambda>sig.
     ebind (dgetE hdrs ''x-cx-signature-alg'') (\<lambda>alg.
     if alg \<notin> set (hash_algorithms E) then Inl ValueError else Inr (hmac_hex E alg secret data = sig)))"

text \<open>The status of the answer; a header that is missing is an exception, which Flask answers.\<close>

definition validate_hmac_signature :: "env \<Rightarrow> string \<Rightarrow> string dict \<Rightarrow> string \<Rightarrow> exc + int" where
  "validate_hmac_signature E secret hdrs data =
     ebind (signature_matches E secret hdrs data) (\<lambda>good. Inr (if good then 204 else 403))"

text \<open>The \<open>finally\<close> clause acknowledges also what the handler has rejected.\<close>

definition receive_sarif_log :: "env \<Rightarrow> string \<Rightarrow> string dict \<Rightarrow> string \<Rightarrow> unit cio" where
  "receive_sarif_log E secret hdrs data =
     bnd (attempt (catch (bnd (lift (signature_matches E secret hdrs data)) (\<lambda>_. ret ())) (\<lambda>e. Some (nack E False)))) (\<lambda>r.
     bnd (ack E) (\<lambda>_. lift r))"


section \<open>Scripts that name projects\<close>

text \<open>\<open>len\<close> and slices need a string.\<close>

fun prefix_of_six :: "json \<Rightarrow> exc + string" where
  "prefix_of_six (JStr s) = Inr (if length s < 6 then s else take 6 s)"
| "prefix_of_six _ = Inl TypeError"

text \<open>The value at a key, if the dictionary has it.\<close>

definition if_key :: "json dict \<Rightarrow> string \<Rightarrow> (json \<Rightarrow> exc + 'a option) \<Rightarrow> exc + 'a option" where
  "if_key d k f = (case dget d k of None \<Rightarrow> Inr None | Some v \<Rightarrow> f v)"

definition not_null :: "json \<Rightarrow> json option" where
  "not_null v = (if v = JNull then None else Some v)"

definition gh_event_project_name :: "env \<Rightarrow> event_context \<Rightarrow> exc + string option" where
  "gh_event_project_name E ctx =
     ebind (as_dict (message ctx)) (\<lambda>d.
     ebind (if_key d ''repository'' (\<lambda>r. ebind (jget r ''name'') (\<lambda>n. Inr (not_null n)))) (\<lambda>repo_name.
     ebind (if_key d ''organization'' (\<lambda>o'. ebind (jget o' ''login'') (\<lambda>l. ebind (prefix_of_six l) (\<lambda>s. Inr (Some s))))) (\<lambda>org_name.
     Inr (case (org_name, repo_name) of (Some o', Some r) \<Rightarrow> Some (o' @ ''_'' @ pstr E r) | _ \<Rightarrow> None))))"

definition bbdc_repo_dict :: "json dict \<Rightarrow> exc + json option" where
  "bbdc_repo_dict d =
     (case dget d ''repository'' of
        Some r \<Rightarrow> Inr (not_null r)
      | None \<Rightarrow> if_key d ''pullRequest'' (\<lambda>p. ebind (jget p ''toRef'') (\<lambda>t. ebind (jget t ''repository'') (\<lambda>r. Inr (not_null r)))))"

definition bbdc_event_project_name :: "env \<Rightarrow> event_context \<Rightarrow> exc + string option" where
  "bbdc_event_project_name E ctx =
     ebind (as_dict (message ctx)) (\<lambda>d.
     ebind (bbdc_repo_dict d) (\<lambda>repo.
     case repo of
       None \<Rightarrow> Inr None
     | Some r \<Rightarrow>
         ebind (jget r ''slug'') (\<lambda>slug. ebind (as_dict r) (\<lambda>rd.
         if_key rd ''project'' (\<lambda>p. ebind (jget p ''key'') (\<lambda>key. Inr (Some (pstr E key @ ''_'' @ pstr E slug))))))))"

definition adoe_webhook_names :: "env \<Rightarrow> scm_service \<Rightarrow> event_context \<Rightarrow> (json \<times> json \<times> json) option cio" where
  "adoe_webhook_names E scm ctx =
     bnd (lift (ebind (jget (message ctx) ''resource'') (\<lambda>r. jget r ''repository''))) (\<lambda>repo.
     bnd (lift (jget repo ''name'')) (\<lambda>repo_name.
     bnd (lift (ebind (jget repo ''project'') (\<lambda>p. jget p ''name''))) (\<lambda>project_name.
     bnd (lift (ebind (jget (message ctx) ''resourceContainers'') (\<lambda>c. ebind (jget c ''collection'') (\<lambda>c. jget c ''id'')))) (\<lambda>cid.
     bnd (scm_exec scm (Some ctx) ''GET'' (''/_apis/projectcollections/'' @ pstr E cid) no_args) (\<lambda>resp.
     if \<not> ok resp then ret None
     else bnd (lift (jget (body resp) ''name'')) (\<lambda>name. ret (Some (name, project_name, repo_name))))))))"

definition adoe_event_project_name :: "env \<Rightarrow> scm_service \<Rightarrow> event_context \<Rightarrow> string option cio" where
  "adoe_event_project_name E scm ctx =
     bnd (lift (as_dict (message ctx))) (\<lambda>d.
     bnd (if dget d ''resource'' \<noteq> None then adoe_webhook_names E scm ctx
          else bnd (lift (dgetE d ''collection_name'')) (\<lambda>c. bnd (lift (dgetE d ''repo_name'')) (\<lambda>r.
               bnd (lift (dgetE d ''project_name'')) (\<lambda>p. ret (Some (c, p, r)))))) (\<lambda>names.
     case names of
       None \<Rightarrow> ret None
     | Some (collection, project, repo) \<Rightarrow>
         bnd (lift (prefix_of_six collection)) (\<lambda>c. ret (Some (c @ ''_'' @ pstr E project @ ''_'' @ pstr E repo)))))"

text \<open>\<open>"".join(c for c in component if c.isupper())\<close>, for the letters of ASCII.\<close>

definition capitals :: "string \<Rightarrow> string" where
  "capitals = filter (\<lambda>c. 65 \<le> (of_char c :: nat) \<and> (of_char c :: nat) \<le> 90)"

definition gl_revised :: "string \<Rightarrow> string \<Rightarrow> string" where
  "gl_revised full_name project_name = join ''/'' (map capitals (butlast (split_on CHR ''/'' full_name)) @ [project_name])"

definition gl_event_project_name :: "env \<Rightarrow> scm_service \<Rightarrow> event_context \<Rightarrow> string option cio" where
  "gl_event_project_name E scm ctx =
     bnd (lift (as_dict (message ctx))) (\<lambda>d.
     case dget d ''project'' of
       None \<Rightarrow> ret None
     | Some p \<Rightarrow>
         bnd (lift (jget p ''name'')) (\<lambda>name.
         bnd (lift (jget p ''id'')) (\<lambda>pid.
         bnd (scm_exec scm None ''GET'' (''/projects/'' @ pstr E pid) no_args) (\<lambda>resp.
         if \<not> ok resp then ret None
         else bnd (lift (ebind (jget (body resp) ''name_with_namespace'') as_str)) (\<lambda>full_name.
              case name of JStr n \<Rightarrow> ret (Some (gl_revised full_name n)) | _ \<Rightarrow> raise TypeError)))))"


section \<open>Properties\<close>

text \<open>What is packaged for a subscriber verifies with the secret of the subscription.\<close>

lemma packaged_signature:
  assumes "package_message E secret m = Inr (packed, hdrs)"
    and "''x-cx-signature'' \<notin> set (dkeys extra)" and "''x-cx-signature-alg'' \<notin> set (dkeys extra)"
  shows "signature_matches E secret (dmerge hdrs extra) packed = Inr True"
  using assms
  by (auto simp: package_message_def gen_signature_headers_def gen_signature_header_def gen_signature_hash_def Let_def ebind_Inr_iff
      signature_matches_def dgetE_def dget_dmerge_notin split: if_splits)

text \<open>A delivery: the body and the headers of what a request or a message carries.\<close>

fun delivery :: "event \<Rightarrow> (string \<times> string dict) option" where
  "delivery (MqPublishRaw ex key data hdrs) = Some (data, hdrs)"
| "delivery (Http meth url (JObj [(d, JStr data), (h, JObj hdrs), proxies, ver])) =
     Some (data, map (\<lambda>(k, v). (k, case v of JStr s \<Rightarrow> s | _ \<Rightarrow> [])) hdrs)"
| "delivery _ = None"

definition delivery_accepted :: "env \<Rightarrow> string \<Rightarrow> event \<Rightarrow> bool" where
  "delivery_accepted E secret e \<longleftrightarrow> (\<forall>data hdrs. delivery e = Some (data, hdrs) \<longrightarrow>
     validate_hmac_signature E secret hdrs data = Inr 204 \<and> receive_sarif_log E secret hdrs data = ack E)"

fun agent_secret :: "delivery_agent \<Rightarrow> string" where
  "agent_secret (AmqpDeliveryAgent mk secret ex pre suf) = secret"
| "agent_secret (HttpDeliveryAgent secret url retries delay proxies ver) = secret"

lemma receive_acks: "signature_matches E secret hdrs data = Inr b \<Longrightarrow> receive_sarif_log E secret hdrs data = ack E"
  by (intro ext) (auto simp: receive_sarif_log_def io_simps split: prod.splits sum.splits)

lemma matching_accepted:
  "delivery e = Some (data, hdrs) \<Longrightarrow> signature_matches E secret hdrs data = Inr True \<Longrightarrow> delivery_accepted E secret e"
  by (simp add: delivery_accepted_def validate_hmac_signature_def receive_acks)

lemma accepted_other: "delivery e = None \<Longrightarrow> delivery_accepted E secret e"
  by (simp add: delivery_accepted_def)

lemma strings_back: "map (\<lambda>(k, v). (k, case v of JStr s \<Rightarrow> s | _ \<Rightarrow> [])) (map (\<lambda>(k, v). (k, JStr v)) hdrs) = hdrs"
  by (induction hdrs) auto

lemma post_tries_accepted:
  "delivery_accepted E secret (Http ''POST'' url (JObj args)) \<Longrightarrow> emits (delivery_accepted E secret) (post_tries E url delay args once n)"
  by (induction n arbitrary: once) (auto intro!: emits_rules accepted_other)

lemma deliveries_accepted:
  assumes "''x-cx-signature'' \<notin> set (dkeys extra)" and "''x-cx-signature-alg'' \<notin> set (dkeys extra)"
  shows "emits (delivery_accepted E (agent_secret ag)) (deliver E m extra ag)"
proof (cases "package_message E (agent_secret ag) m")
  case (Inl e)
  then show ?thesis by (cases ag) (simp_all add: emits_raise)
next
  case (Inr p)
  obtain packed hdrs where p: "p = (packed, hdrs)" by (cases p)
  have ok: "signature_matches E (agent_secret ag) (dmerge hdrs extra) packed = Inr True"
    using packaged_signature [OF _ assms] Inr p by simp
  show ?thesis
  proof (cases ag)
    case (AmqpDeliveryAgent mk secret ex pre suf)
    have "delivery_accepted E (agent_secret ag) (MqPublishRaw ex key packed (dmerge hdrs extra))" for key
      using ok by (intro matching_accepted) simp_all
    with AmqpDeliveryAgent Inr p show ?thesis
      by (auto simp: amqp_publish_message_def accepted_other intro!: emits_rules)
  next
    case (HttpDeliveryAgent secret url retries delay proxies ver)
    with Inr p ok show ?thesis
      by (auto simp: http_post_def strings_back simp del: map_map intro!: emits_rules post_tries_accepted intro: matching_accepted)
  qed
qed

lemma reports_accepted: "emits (delivery_accepted E (agent_secret ag)) (deliver E m (sarif_headers E fm det) ag)"
  by (rule deliveries_accepted) (simp_all add: sarif_headers_def)

text \<open>A message without a signature is rejected and then acknowledged: it is settled twice.\<close>

lemma unsigned_settled_twice:
  assumes "mq_up E" and "dget hdrs ''x-cx-signature'' = None"
  shows "receive_sarif_log E secret hdrs data (tr, s) = (Inr (), tr @ [Nack False, Ack], s)"
  using assms by (simp add: receive_sarif_log_def signature_matches_def dgetE_def io_simps nack_def ack_def mq_def mq_up_def)

text \<open>The push and pull request events of a repository get the same name.\<close>

lemma bbdc_same_name:
  assumes "message push = JObj ((''repository'', r) # d1)"
    and "message pr = JObj [(''pullRequest'', JObj ((''toRef'', JObj ((''repository'', r) # d3)) # d4))]"
  shows "bbdc_event_project_name E push = bbdc_event_project_name E pr"
  using assms by (simp add: bbdc_event_project_name_def bbdc_repo_dict_def if_key_def)

text \<open>A script as the naming of a service: the name it gives, or the default.\<close>

lemma gh_script_name:
  assumes "message ctx = JObj d" and "dget d ''repository'' = Some (JObj r)" and "dget r ''name'' = Some (JStr name)"
    and "dget d ''organization'' = Some (JObj o')" and "dget o' ''login'' = Some (JStr login)"
  shows "get_project_name \<lparr> naming_coro = Some (\<lambda>tr. gh_event_project_name E) \<rparr> def_name ctx (tr, s) =
    (Inr ((if length login < 6 then login else take 6 login) @ ''_'' @ name), tr @ [NamingScript ctx], s)"
  using assms
  by (simp add: get_project_name_def gh_event_project_name_def if_key_def not_null_def pstr_def io_simps)

lemma gh_script_default:
  assumes "message ctx = JObj d" and "dget d ''organization'' = None"
  shows "fst (get_project_name \<lparr> naming_coro = Some (\<lambda>tr. gh_event_project_name E) \<rparr> def_name ctx (tr, s)) = Inr def_name"
  using assms
  by (cases "if_key d ''repository'' (\<lambda>r. ebind (jget r ''name'') (\<lambda>n. Inr (not_null n)))")
    (simp_all add: get_project_name_def gh_event_project_name_def if_key_def io_simps)

end
