(* ===== verification/ConfigReader.thy ===== *)
theory ConfigReader
  imports Topology
begin

text \<open>
  \<open>config/__init__.py\<close>: reading values, secrets and connection settings from the dictionaries of the
  YAML file, and the client of \<open>workflows/base_service.py\<close> that uses the broker settings. A YAML value
  is a \<open>json\<close>. Values that go straight into a typed argument are read at the type they must have:
  where Python would only fail when such a value is used, the model raises \<open>TypeError\<close> when it is read.
\<close>


section \<open>The process at start\<close>

text \<open>
  What the process sees when it reads its configuration: the files, the modules, and what the SDK
  makes of its own arguments.
\<close>

datatype endpoint = Region string | Custom json

datatype credentials = ApiKey string | OAuth string string

record cx_client =
  cc_tenant :: json
  cc_iam :: endpoint
  cc_api :: endpoint
  cc_credentials :: credentials
  cc_timeout :: json
  cc_retries :: json
  cc_retry_delay :: json
  cc_proxy :: json
  cc_ssl_verify :: json

record startup =
  st_file :: "string \<Rightarrow> string option"
    \<comment> \<open>the contents of a regular file\<close>
  st_exists :: "string \<Rightarrow> bool"
  st_isdir :: "string \<Rightarrow> bool"
  st_keyfile :: "string \<Rightarrow> string"
    \<comment> \<open>the temporary copy of a key file\<close>
  st_cpu_count :: nat
  st_uuid :: string
  st_regex_valid :: "string \<Rightarrow> bool"
  st_module :: "string \<Rightarrow> exc + (trace \<Rightarrow> event_context \<Rightarrow> exc + string option)"
    \<comment> \<open>\<open>import_module(name).event_project_name_factory\<close>\<close>
  st_ssh_key :: "string \<Rightarrow> exc + string"
    \<comment> \<open>\<open>load_ssh_public_key\<close>\<close>
  st_private_key :: "string \<Rightarrow> exc + string"
    \<comment> \<open>\<open>AsymmetricSignatureSignerVerifier.from_private_key\<close>\<close>
  st_auth_regions :: "string list"
  st_api_regions :: "string list"
  st_display_endpoint :: "cx_client \<Rightarrow> string"
  st_sarif_opts :: "json dict"
    \<comment> \<open>the default report options of the SARIF package\<close>

definition get_workers_count :: "env \<Rightarrow> startup \<Rightarrow> exc + int" where
  "get_workers_count E S =
     (case dget (os_environ E) ''CXONEFLOW_WORKERS'' of
        None \<Rightarrow> Inr (int (st_cpu_count S div 2))
      | Some n \<Rightarrow> ebind (py_int (JStr n)) (\<lambda>i. Inr (min (int (st_cpu_count S) - 1) i)))"

definition get_config_path :: "env \<Rightarrow> string" where
  "get_config_path E = (case dget (os_environ E) ''CONFIG_YAML_PATH'' of Some p \<Rightarrow> p | None \<Rightarrow> ''./config.yaml'')"


section \<open>Dictionaries\<close>

definition missing_key_path :: "string \<Rightarrow> exc" where
  "missing_key_path p = ConfigurationException (''Missing key at path: '' @ p)"

text \<open>The list of key paths is rendered by \<open>repr\<close>.\<close>

definition key_paths :: "env \<Rightarrow> string \<Rightarrow> string list \<Rightarrow> string" where
  "key_paths E p ks = repr E (JArr (map (\<lambda>k. JStr (p @ ''/'' @ k)) ks))"

definition missing_keys :: "env \<Rightarrow> string \<Rightarrow> string list \<Rightarrow> exc" where
  "missing_keys E p ks = ConfigurationException (''One or more of these elements are missing: '' @ key_paths E p ks)"

definition missing_at_least_one :: "env \<Rightarrow> string \<Rightarrow> string list \<Rightarrow> exc" where
  "missing_at_least_one E p ks = ConfigurationException (''At least one of these elements is required: '' @ key_paths E p ks)"

definition mutually_exclusive :: "env \<Rightarrow> string \<Rightarrow> string list \<Rightarrow> exc" where
  "mutually_exclusive E p ks = ConfigurationException (''Only one should be defined: '' @ key_paths E p ks)"

definition value_or_fail :: "string \<Rightarrow> string \<Rightarrow> json \<Rightarrow> exc + json" where
  "value_or_fail path key c =
     ebind (as_dict c) (\<lambda>d. case dget d key of None \<Rightarrow> Inl (missing_key_path (path @ ''/'' @ key)) | Some v \<Rightarrow> Inr v)"

definition value_or_default :: "string \<Rightarrow> json \<Rightarrow> json \<Rightarrow> exc + json" where
  "value_or_default key c dflt =
     (if c = JNull then Inr dflt
      else ebind (as_dict c) (\<lambda>d. Inr (case dget d key of None \<Rightarrow> dflt | Some v \<Rightarrow> v)))"

text \<open>
  The variant with a deprecated key. A deprecated key is found and reported, and then the default is
  returned: only the branch of the desired key returns a value of the dictionary.
\<close>

definition value_or_default_deprecated :: "string \<Rightarrow> string \<Rightarrow> json \<Rightarrow> json \<Rightarrow> exc + json" where
  "value_or_default_deprecated key deprecated c dflt =
     (if c = JNull then Inr dflt
      else ebind (as_dict c) (\<lambda>d.
        if deprecated \<in> set (dkeys d) then Inr dflt
        else Inr (case dget d key of None \<Rightarrow> dflt | Some v \<Rightarrow> v)))"

text \<open>\<open>f(a, b, **value)\<close>: a mapping that names none of the other parameters.\<close>

definition as_kwargs :: "string list \<Rightarrow> json \<Rightarrow> exc + json" where
  "as_kwargs positional v =
     ebind (as_mapping v) (\<lambda>d. if list_ex (\<lambda>k. k \<in> set (dkeys d)) positional then Inl TypeError else Inr v)"

definition opt_str :: "json \<Rightarrow> exc + string option" where
  "opt_str v = (if v = JNull then Inr None else ebind (as_arg v) (\<lambda>s. Inr (Some s)))"


section \<open>Secrets\<close>

definition is_space :: "char \<Rightarrow> bool" where
  "is_space c \<longleftrightarrow> (of_char c :: nat) \<in> {9, 10, 11, 12, 13, 28, 29, 30, 31, 32}"

definition strip_ws :: "string \<Rightarrow> string" where
  "strip_ws s = rev (dropWhile is_space (rev (dropWhile is_space s)))"

text \<open>\<open>Path(root) / Path(name)\<close>: an absolute name stands for itself.\<close>

definition path_join :: "string \<Rightarrow> string \<Rightarrow> string" where
  "path_join root name =
     (if name \<noteq> [] \<and> hd name = CHR ''/'' then name else rstrip CHR ''/'' root @ ''/'' @ name)"

definition file_contents_or_default :: "startup \<Rightarrow> string \<Rightarrow> json \<Rightarrow> string \<Rightarrow> json \<Rightarrow> exc + json" where
  "file_contents_or_default S root c key dflt =
     ebind (as_dict c) (\<lambda>d.
     case dget d key of
       None \<Rightarrow> Inr dflt
     | Some v \<Rightarrow> ebind (as_arg v) (\<lambda>name.
         Inr (case st_file S (path_join root name) of None \<Rightarrow> dflt | Some txt \<Rightarrow> JStr (strip_ws txt))))"

text \<open>\<open>SecretRegistry.register\<close> returns its argument; what it remembers for the log is not modelled.\<close>

definition secret_or_default :: "startup \<Rightarrow> string \<Rightarrow> json \<Rightarrow> string \<Rightarrow> json \<Rightarrow> exc + json" where
  "secret_or_default S root c key dflt = file_contents_or_default S root c key dflt"

definition secret_or_fail :: "startup \<Rightarrow> string \<Rightarrow> string \<Rightarrow> string \<Rightarrow> json \<Rightarrow> exc + string" where
  "secret_or_fail S root path key c =
     ebind (secret_or_default S root c key JNull) (\<lambda>v.
     if v = JNull then Inl (ConfigurationException (''Could not load secret defined at: '' @ path @ ''/'' @ key)) else as_arg v)"


section \<open>Connections\<close>

definition get_default_ssl_verify_value :: "env \<Rightarrow> startup \<Rightarrow> json" where
  "get_default_ssl_verify_value E S =
     (case dget (os_environ E) ''REQUESTS_CA_BUNDLE'' of
        Some p \<Rightarrow> JStr p
      | None \<Rightarrow>
          if st_exists S ''/etc/pki/tls/certs/ca-bundle.crt'' then JStr ''/etc/pki/tls/certs/ca-bundle.crt''
          else if st_exists S ''/etc/ssl/certs/ca-certificates.crt'' then JStr ''/etc/ssl/certs/ca-certificates.crt''
          else JBool False)"

record amqp_settings =
  amqp_url :: json
  amqp_user :: json
  amqp_password :: json
  amqp_ssl_verify :: json

definition default_amqp_url :: string where
  "default_amqp_url = ''amqp://localhost:5672''"

definition default_amqp :: amqp_settings where
  "default_amqp = \<lparr> amqp_url = JStr default_amqp_url, amqp_user = JNull, amqp_password = JNull, amqp_ssl_verify = JBool True \<rparr>"

text \<open>The URL itself serves as the default of the file that may hold it.\<close>

definition load_amqp_settings :: "env \<Rightarrow> startup \<Rightarrow> string \<Rightarrow> string \<Rightarrow> json \<Rightarrow> exc + amqp_settings" where
  "load_amqp_settings E S root path c =
     ebind (value_or_default ''amqp'' c JNull) (\<lambda>a.
     if a = JNull then Inr default_amqp
     else
       ebind (value_or_fail path ''amqp-url'' a) (\<lambda>plain.
       ebind (secret_or_default S root a ''amqp-url'' plain) (\<lambda>url.
       ebind (secret_or_default S root a ''amqp-user'' JNull) (\<lambda>user.
       ebind (secret_or_default S root a ''amqp-password'' JNull) (\<lambda>pwd.
       ebind (value_or_default ''ssl-verify'' a (get_default_ssl_verify_value E S)) (\<lambda>verify'.
       Inr \<lparr> amqp_url = url, amqp_user = user, amqp_password = pwd, amqp_ssl_verify = verify' \<rparr>))))))"

text \<open>
  \<open>AMQPClient\<close>: how the certificate of the broker is checked. Without a context the client library
  checks against the default certificates of an \<open>amqps\<close> connection.
\<close>

datatype ssl_context = NoCertificateCheck | CaFile string | CaPath string

definition use_ssl :: "env \<Rightarrow> amqp_settings \<Rightarrow> bool" where
  "use_ssl E a = (case amqp_url a of JStr u \<Rightarrow> fst (url_parse E u) = ''amqps'' | _ \<Rightarrow> False)"

definition amqp_ssl_context :: "env \<Rightarrow> startup \<Rightarrow> amqp_settings \<Rightarrow> ssl_context option" where
  "amqp_ssl_context E S a =
     (case amqp_ssl_verify a of
        JBool check \<Rightarrow> if \<not> check \<and> use_ssl E a then Some NoCertificateCheck else None
      | JStr p \<Rightarrow>
          if use_ssl E a then
            (if st_file S p \<noteq> None then Some (CaFile p) else if st_isdir S p then Some (CaPath p) else None)
          else None
      | _ \<Rightarrow> None)"

definition endpoint_of :: "string list \<Rightarrow> json \<Rightarrow> exc + endpoint" where
  "endpoint_of regions v =
     (case v of
        JStr s \<Rightarrow> Inr (if s \<in> set regions then Region s else Custom v)
      | JArr _ \<Rightarrow> Inl TypeError
      | JObj _ \<Rightarrow> Inl TypeError
      | _ \<Rightarrow> Inr (Custom v))"

definition cx_client_with :: "env \<Rightarrow> startup \<Rightarrow> json \<Rightarrow> endpoint \<Rightarrow> endpoint \<Rightarrow> json \<Rightarrow> credentials \<Rightarrow> exc + cx_client" where
  "cx_client_with E S tenant iam api c creds =
     ebind (value_or_default ''timeout-seconds'' c (JInt 60)) (\<lambda>timeout.
     ebind (value_or_default ''retries'' c (JInt 3)) (\<lambda>retries.
     ebind (value_or_default ''retry-delay'' c (JInt 30)) (\<lambda>delay.
     ebind (value_or_default ''proxies'' c JNull) (\<lambda>proxy.
     ebind (value_or_default ''ssl-verify'' c (get_default_ssl_verify_value E S)) (\<lambda>verify'.
     Inr \<lparr> cc_tenant = tenant, cc_iam = iam, cc_api = api, cc_credentials = creds, cc_timeout = timeout,
           cc_retries = retries, cc_retry_delay = delay, cc_proxy = proxy, cc_ssl_verify = verify' \<rparr>)))))"

definition cxone_client_factory :: "env \<Rightarrow> startup \<Rightarrow> string \<Rightarrow> string \<Rightarrow> json \<Rightarrow> exc + cx_client" where
  "cxone_client_factory E S root path c =
     ebind (as_dict c) (\<lambda>d.
     if \<not> list_all (\<lambda>k. k \<in> set (dkeys d)) [''tenant'', ''iam-endpoint'', ''api-endpoint'']
     then Inl (missing_keys E path [''tenant'', ''iam-endpoint'', ''api-endpoint''])
     else if length (filter (\<lambda>k. k \<in> set (dkeys d)) [''api-key'', ''oauth'']) \<noteq> 1
     then Inl (mutually_exclusive E path [''api-key'', ''oauth''])
     else
       ebind (value_or_fail path ''tenant'' c) (\<lambda>tenant.
       ebind (ebind (value_or_fail path ''iam-endpoint'' c) (endpoint_of (st_auth_regions S))) (\<lambda>iam.
       ebind (ebind (value_or_fail path ''api-endpoint'' c) (endpoint_of (st_api_regions S))) (\<lambda>api.
       if ''api-key'' \<in> set (dkeys d) then
         ebind (secret_or_fail S root path ''api-key'' c) (\<lambda>key. cx_client_with E S tenant iam api c (ApiKey key))
       else
         ebind (value_or_fail path ''oauth'' c) (\<lambda>oauth.
         ebind (secret_or_fail S root (path @ ''/oauth'') ''client-id'' oauth) (\<lambda>cid.
         ebind (secret_or_fail S root (path @ ''/oauth'') ''client-secret'' oauth) (\<lambda>sec.
         cx_client_with E S tenant iam api c (OAuth cid sec))))))))"


section \<open>Properties\<close>

text \<open>A value under a deprecated key is never used.\<close>

lemma deprecated_value_ignored:
  assumes "dget d deprecated = Some v"
  shows "value_or_default_deprecated key deprecated (JObj d) dflt = Inr dflt"
proof -
  have "deprecated \<in> set (dkeys d)" using assms by (force dest: map_of_SomeD)
  then show ?thesis by (simp add: value_or_default_deprecated_def)
qed

text \<open>With one processor there is no worker, whatever the environment asks for.\<close>

lemma no_workers_on_one_cpu:
  assumes "st_cpu_count S = 1" and "get_workers_count E S = Inr n"
  shows "n \<le> 0"
  using assms by (auto simp: get_workers_count_def ebind_Inr_iff split: option.splits)

text \<open>The certificate of the broker goes unchecked only if the configuration says so.\<close>

lemma broker_certificate_checked:
  assumes "amqp_ssl_context E S a = Some NoCertificateCheck"
  shows "amqp_ssl_verify a = JBool False"
  using assms by (auto simp: amqp_ssl_context_def split: json.splits if_splits)

text \<open>A client has the credentials of exactly one of the two kinds, and they come from files.\<close>

lemma client_credentials:
  assumes "cxone_client_factory E S root path (JObj d) = Inr cl"
  shows "case cc_credentials cl of
      ApiKey key \<Rightarrow> dget d ''oauth'' = None \<and> secret_or_fail S root path ''api-key'' (JObj d) = Inr key
    | OAuth cid sec \<Rightarrow> dget d ''api-key'' = None"
  using assms
  by (auto simp: cxone_client_factory_def cx_client_with_def ebind_Inr_iff map_of_eq_None_iff split: if_splits)

end
