(* ===== verification/Signatures.thy ===== *)
theory Signatures
  imports PyBase
begin

text \<open>
  \<open>api_utils/signatures.py\<close>: the signatures of the requests for delegated scans. A key is read from its
  PEM form, and its kind selects the scheme; the library that reads keys, signs and verifies is the
  parameter \<open>pem_lib\<close>. The lemmas show that the two ends of a key pair fit together, and which keys
  are refused.
\<close>


section \<open>Keys and schemes\<close>

datatype asym_key = EcKey string | RsaKey string | OtherAsymKey string

datatype asym_scheme = ECDSA_SHA3_512 | RSA_PSS_SHA3_512

record pem_lib =
  load_pem_public_key :: "string \<Rightarrow> exc + asym_key"
  load_pem_private_key :: "string \<Rightarrow> exc + asym_key"
  public_key_of :: "asym_key \<Rightarrow> string"
    \<comment> \<open>\<open>private_key.public_key()\<close>\<close>
  key_sign :: "asym_scheme \<Rightarrow> asym_key \<Rightarrow> string \<Rightarrow> string"
  key_verify :: "asym_scheme \<Rightarrow> string \<Rightarrow> string \<Rightarrow> string \<Rightarrow> exc + unit"

record asym_verifier =
  v_public_key :: string
  v_scheme :: asym_scheme

record asym_signer = asym_verifier +
  s_private_key :: asym_key

definition verifier_from_public_key :: "pem_lib \<Rightarrow> string \<Rightarrow> exc + asym_verifier" where
  "verifier_from_public_key L pem =
     ebind (load_pem_public_key L pem) (\<lambda>key.
     case key of
       EcKey k \<Rightarrow> Inr \<lparr> v_public_key = k, v_scheme = ECDSA_SHA3_512 \<rparr>
     | RsaKey k \<Rightarrow> Inr \<lparr> v_public_key = k, v_scheme = RSA_PSS_SHA3_512 \<rparr>
     | OtherAsymKey k \<Rightarrow> Inl TypeError)"

definition signer_from_private_key :: "pem_lib \<Rightarrow> string \<Rightarrow> exc + asym_signer" where
  "signer_from_private_key L pem =
     ebind (load_pem_private_key L pem) (\<lambda>key.
     case key of
       EcKey k \<Rightarrow> Inr \<lparr> v_public_key = public_key_of L key, v_scheme = ECDSA_SHA3_512, s_private_key = key \<rparr>
     | RsaKey k \<Rightarrow> Inr \<lparr> v_public_key = public_key_of L key, v_scheme = RSA_PSS_SHA3_512, s_private_key = key \<rparr>
     | OtherAsymKey k \<Rightarrow> Inl TypeError)"

definition asym_verify :: "pem_lib \<Rightarrow> 'a asym_verifier_scheme \<Rightarrow> string \<Rightarrow> string \<Rightarrow> exc + unit" where
  "asym_verify L v sig data = key_verify L (v_scheme v) (v_public_key v) sig data"

definition asym_sign :: "pem_lib \<Rightarrow> asym_signer \<Rightarrow> string \<Rightarrow> string" where
  "asym_sign L s data = key_sign L (v_scheme s) (s_private_key s) data"


section \<open>Properties\<close>

text \<open>What the library promises: a signature verifies with the public key of the key that made it.\<close>

definition signs_soundly :: "pem_lib \<Rightarrow> bool" where
  "signs_soundly L \<longleftrightarrow> (\<forall>sc key data. key_verify L sc (public_key_of L key) (key_sign L sc key data) data = Inr ())"

text \<open>The two halves of a pair, as PEM texts: they load as keys of the same kind that belong together.\<close>

definition pem_pair :: "pem_lib \<Rightarrow> string \<Rightarrow> string \<Rightarrow> bool" where
  "pem_pair L priv pub \<longleftrightarrow> (\<exists>key. load_pem_private_key L priv = Inr key \<and>
     load_pem_public_key L pub = Inr (case key of EcKey _ \<Rightarrow> EcKey (public_key_of L key) | RsaKey _ \<Rightarrow> RsaKey (public_key_of L key)
       | OtherAsymKey _ \<Rightarrow> OtherAsymKey (public_key_of L key)))"

lemma signer_fields:
  assumes "signer_from_private_key L priv = Inr s" and "load_pem_private_key L priv = Inr key"
  shows "s_private_key s = key" and "v_public_key s = public_key_of L key" and "\<nexists>k. key = OtherAsymKey k"
    and "v_scheme s = (case key of EcKey _ \<Rightarrow> ECDSA_SHA3_512 | _ \<Rightarrow> RSA_PSS_SHA3_512)"
  using assms by (cases key; auto simp: signer_from_private_key_def)+

lemma signer_verifies_itself:
  assumes "signs_soundly L" and "signer_from_private_key L priv = Inr s"
  shows "asym_verify L s (asym_sign L s data) data = Inr ()"
proof -
  obtain key where "load_pem_private_key L priv = Inr key"
    using assms(2) by (auto simp: signer_from_private_key_def ebind_Inr_iff)
  from signer_fields [OF assms(2) this] assms(1) show ?thesis by (simp add: asym_verify_def asym_sign_def signs_soundly_def)
qed

lemma pair_verifies:
  assumes "signs_soundly L" and "pem_pair L priv pub" and "signer_from_private_key L priv = Inr s"
  shows "\<exists>v. verifier_from_public_key L pub = Inr v \<and> asym_verify L v (asym_sign L s data) data = Inr ()"
proof -
  obtain key where key: "load_pem_private_key L priv = Inr key"
    using assms(3) by (auto simp: signer_from_private_key_def ebind_Inr_iff)
  from signer_fields [OF assms(3) this] key assms(1,2) show ?thesis
    by (cases key) (auto simp: pem_pair_def verifier_from_public_key_def asym_verify_def asym_sign_def signs_soundly_def)
qed

end
