(* ===== verification/ResolverAgent.thy ===== *)
theory ResolverAgent
  imports Topology Signatures
begin

text \<open>
  The scan agent: \<open>agent/__init__.py\<close> (command line options) and \<open>agent/resolver\<close> (options, execution
  contexts, runners and \<open>runner_agent.py\<close>). An agent takes a signed request from the queue of its tag,
  clones the repository into a working directory, runs the SCA resolver there, submits the scan and
  publishes the result. The lemmas show that a request with a wrong signature starts nothing, that
  the working directory is removed, which options reach the resolver, and how a request is answered.
\<close>


section \<open>Command line options\<close>

text \<open>
  \<open>_compile\<close>. The processor of an option stays in force for the options after it, because the
  variable is set once before the loop.
\<close>

fun compile_opts :: "(string \<Rightarrow> bool) \<Rightarrow> (string \<Rightarrow> string) dict \<Rightarrow> (string \<Rightarrow> string) \<Rightarrow> json dict \<Rightarrow> string list" where
  "compile_opts valid procs proc [] = []"
| "compile_opts valid procs proc ((k, v) # opts) =
     (let proc' = (case dget procs k of Some p \<Rightarrow> p | None \<Rightarrow> proc);
          rest = compile_opts valid procs proc' opts
      in if k = [] \<or> \<not> valid k then rest
         else case v of
             JNull \<Rightarrow> (if length k = 1 then ''-'' @ k else ''--'' @ k) # rest
           | JStr s \<Rightarrow> (if length k = 1 then ''-'' @ k else ''--'' @ k) # proc' s # rest
           | _ \<Rightarrow> rest)"

definition forbidden_opts :: "string list" where
  "forbidden_opts =
     [''logs-path'', ''a'', ''account'', ''containers-result-path'', ''resolver-result-path'', ''project-name'',
      ''authentication-server-url'', ''p'', ''password'', ''sso-provider'', ''sca-app-url'', ''s'', ''scan-path'',
      ''server-url'', ''u'', ''username'', ''project-tags'', ''scan-tags'', ''bypass-exitcode'', ''no-upload-manifest'',
      ''help'', ''manifests-path'', ''t'', ''project-teams'', ''q'', ''quiet'', ''save-evidence-path'', ''severity-threshold'',
      ''report-content'', ''report-extension'', ''report-path'', ''report-type'', ''sast-result-path'', ''cxpassword'',
      ''cxuser'', ''cxprojectid'', ''cxprojectname'', ''cxserver'']"

text \<open>A \<open>ResolverOpts\<close> object: the dictionary of the configuration, which may be missing.\<close>

type_synonym resolver_opts = "json dict option"

definition as_args :: "resolver_opts \<Rightarrow> (string \<Rightarrow> string) dict \<Rightarrow> string list" where
  "as_args opts procs = (case opts of None \<Rightarrow> [] | Some d \<Rightarrow> compile_opts (\<lambda>k. k \<notin> set forbidden_opts) procs id d)"

definition has_one_of :: "resolver_opts \<Rightarrow> string list \<Rightarrow> bool" where
  "has_one_of opts ks = (case opts of None \<Rightarrow> False | Some d \<Rightarrow> list_ex (\<lambda>k. k \<in> set (dkeys d)) ks)"


section \<open>Runners\<close>

text \<open>The working path is normalised by the constructors: it ends with one slash.\<close>

datatype resolver_runner =
    ResolverShellRunner "string option" resolver_opts "string option" "string option"
  | ResolverToolkitRunner "string option" resolver_opts string
  | ResolverTwoStageRunner "string option" resolver_opts resolver_runner bool string string string bool
  | NoResolverRunner

definition norm_workpath :: "string option \<Rightarrow> string option" where
  "norm_workpath w = map_option (\<lambda>p. rstrip CHR ''/'' p @ ''/'') w"

fun runner_workpath :: "resolver_runner \<Rightarrow> string option" where
  "runner_workpath (ResolverShellRunner w _ _ _) = norm_workpath w"
| "runner_workpath (ResolverToolkitRunner w _ _) = norm_workpath w"
| "runner_workpath (ResolverTwoStageRunner w _ _ _ _ _ _ _) = norm_workpath w"
| "runner_workpath NoResolverRunner = None"

record completed_process =
  cp_returncode :: int
  cp_stdout :: "string option"

text \<open>\<open>execute_cmd\<close>: the error output goes to the output.\<close>

definition execute_cmd :: "env \<Rightarrow> string list \<Rightarrow> string option \<Rightarrow> completed_process cio" where
  "execute_cmd E args home =
     (case home of
        None \<Rightarrow> raise TypeError
      | Some h \<Rightarrow>
          bnd (call (RunProc args None [(''HOME'', h)]) (\<lambda>tr. run_proc E tr args None)) (\<lambda>r.
          if returncode r \<noteq> 0 then raise (CalledProcessError (returncode r) [] (stdout r))
          else ret \<lparr> cp_returncode = 0, cp_stdout = Some (stdout r) \<rparr>))"

text \<open>\<open>except CalledProcessError\<close>: the failed process counts as completed.\<close>

definition completed :: "completed_process cio \<Rightarrow> completed_process cio" where
  "completed m = catch m (\<lambda>e. case e of
      CalledProcessError code err out \<Rightarrow> Some (ret \<lparr> cp_returncode = code, cp_stdout = Some out \<rparr>)
    | _ \<Rightarrow> None)"

text \<open>
  The constructor of the toolkit runner builds the container and learns its tag. The check for the
  commands can not fail: nothing is a file that does not exist.
\<close>

definition get_build_container_tag :: "env \<Rightarrow> string option \<Rightarrow> string \<Rightarrow> string \<Rightarrow> bool \<Rightarrow> bool \<Rightarrow> string cio" where
  "get_build_container_tag E workpath toolkit_path src_tag uid gid =
     (let tk = rstrip CHR ''/'' toolkit_path @ ''/'' in
      bnd (execute_cmd E ([tk @ ''autobuild.sh'', ''-t'', src_tag, ''-d'', tk]
             @ (if uid then [''-u''] else []) @ (if gid then [''-g''] else [])) (norm_workpath workpath)) (\<lambda>r.
      bnd (lift (utf8_decode E (case cp_stdout r of Some s \<Rightarrow> s | None \<Rightarrow> []))) (\<lambda>s.
      ret (rstrip (CHR 10) s))))"


section \<open>The execution context\<close>

definition clone_path :: "string \<Rightarrow> string" where "clone_path root = rstrip CHR ''/'' root @ ''/'' @ ''clone''"
definition resolver_loc :: "string \<Rightarrow> string" where "resolver_loc root = rstrip CHR ''/'' root @ ''/'' @ ''resolver''"
definition container_loc :: "string \<Rightarrow> string" where "container_loc root = rstrip CHR ''/'' root @ ''/'' @ ''container''"
definition result_resolver_out_file_path :: "string \<Rightarrow> string" where
  "result_resolver_out_file_path root = resolver_loc root @ ''/'' @ ''resolver.json''"
definition result_container_out_file_path :: "string \<Rightarrow> string" where
  "result_container_out_file_path root = container_loc root @ ''/'' @ ''container.json''"

text \<open>\<open>__aenter__\<close>: a temporary directory that is not deleted by itself, with three directories in it.\<close>

definition aenter_dirs :: "env \<Rightarrow> string \<Rightarrow> unit cio" where
  "aenter_dirs E root =
     bnd (fs E (Chmod root)) (\<lambda>_.
     bnd (fs E (Mkdir (clone_path root))) (\<lambda>_. bnd (fs E (Chmod (clone_path root))) (\<lambda>_.
     bnd (fs E (Mkdir (resolver_loc root))) (\<lambda>_. bnd (fs E (Chmod (resolver_loc root))) (\<lambda>_.
     bnd (fs E (Mkdir (container_loc root))) (\<lambda>_. fs E (Chmod (container_loc root))))))))"

definition aenter :: "env \<Rightarrow> resolver_runner \<Rightarrow> string cio" where
  "aenter E r =
     bnd (reading (\<lambda>tr. mkdtemp E tr (case runner_workpath r of Some p \<Rightarrow> p | None \<Rightarrow> []))) (\<lambda>root.
     bnd (fs E (MkTemp root)) (\<lambda>_.
     bnd (aenter_dirs E root) (\<lambda>_. ret root)))"

fun is_two_stage :: "resolver_runner \<Rightarrow> bool" where
  "is_two_stage (ResolverTwoStageRunner _ _ _ _ _ _ _ _) = True"
| "is_two_stage _ = False"

text \<open>
  \<open>__aexit__\<close> removes the directory. The one of the two stage context returns \<open>self\<close>: an exception
  in the block is suppressed.
\<close>

definition leave :: "env \<Rightarrow> resolver_runner \<Rightarrow> string \<Rightarrow> exc + unit \<Rightarrow> unit cio" where
  "leave E r root res =
     bnd (fs E (RmTemp root)) (\<lambda>_. if is_two_stage r then ret () else lift res)"

definition in_context :: "env \<Rightarrow> resolver_runner \<Rightarrow> string \<Rightarrow> unit cio \<Rightarrow> unit cio" where
  "in_context E r root m = bnd (attempt m) (leave E r root)"


section \<open>Running the resolver\<close>

definition shell_exec_cmd :: "env \<Rightarrow> string option \<Rightarrow> string option \<Rightarrow> string option \<Rightarrow> string list cio" where
  "shell_exec_cmd E home path runas =
     bnd (reading (\<lambda>tr.
       case path of
         Some p \<Rightarrow> if path_exists E tr p \<and> path_isfile E tr p then Some [p]
                   else if path_exists E tr ''ScaResolver'' then Some [''ScaResolver''] else None
       | None \<Rightarrow> if path_exists E tr ''ScaResolver'' then Some [''ScaResolver''] else None)) (\<lambda>cmd.
     case cmd of
       None \<Rightarrow> raise TypeError
     | Some c \<Rightarrow> ret ((case runas of
           Some u \<Rightarrow> [''sudo'', ''-u'', u, ''HOME='' @ (case home of Some h \<Rightarrow> h | None \<Rightarrow> ''None'')]
         | None \<Rightarrow> []) @ c))"

definition docker_cmd :: "string list" where
  "docker_cmd = [''docker'', ''run'', ''-t'', ''--rm'']"

definition toolkit_exec_cmd :: "string \<Rightarrow> string \<Rightarrow> string list" where
  "toolkit_exec_cmd root tag =
     docker_cmd @ [''-v'', clone_path root @ '':/sandbox/input:ro'', ''-v'', root @ '':/sandbox/output'', tag]"

fun get_resolver_exec_cmd :: "env \<Rightarrow> resolver_runner \<Rightarrow> string \<Rightarrow> string list cio" where
  "get_resolver_exec_cmd E (ResolverShellRunner w opts path runas) root = shell_exec_cmd E (norm_workpath w) path runas"
| "get_resolver_exec_cmd E (ResolverToolkitRunner w opts tag) root = ret (toolkit_exec_cmd root tag)"
| "get_resolver_exec_cmd E NoResolverRunner root = ret []"
| "get_resolver_exec_cmd E (ResolverTwoStageRunner w opts r b tag sh scr ag) root =
     raise (NotImplementedError ''_get_resolver_exec_cmd'')"

text \<open>No command is ever \<open>None\<close>: where there is none, asking for it raises.\<close>

fun can_execute :: "env \<Rightarrow> resolver_runner \<Rightarrow> string \<Rightarrow> bool cio" where
  "can_execute E (ResolverTwoStageRunner w opts r b tag sh scr ag) root = can_execute E r root"
| "can_execute E r root = bnd (get_resolver_exec_cmd E r root) (\<lambda>_. ret True)"

text \<open>The paths as the resolver sees them, and the arguments after the command.\<close>

record exec_paths =
  ep_clone :: string
  ep_container :: string
  ep_resolver :: string

definition host_paths :: "string \<Rightarrow> exec_paths" where
  "host_paths root = \<lparr> ep_clone = clone_path root, ep_container = result_container_out_file_path root,
     ep_resolver = result_resolver_out_file_path root \<rparr>"

definition toolkit_paths :: exec_paths where
  "toolkit_paths = \<lparr> ep_clone = ''/sandbox/input_sandbox'', ep_container = ''/sandbox/output/'' @ ''container'' @ ''/'' @ ''container.json'',
     ep_resolver = ''/sandbox/output/'' @ ''resolver'' @ ''/'' @ ''resolver.json'' \<rparr>"

definition exec_opts :: "env \<Rightarrow> resolver_opts \<Rightarrow> exec_paths \<Rightarrow> json \<Rightarrow> json \<Rightarrow> exc + string list" where
  "exec_opts E opts ps name exclusions =
     (let merge = (\<lambda>x. x @ '','' @ pstr E exclusions) in
      ebind (if has_one_of opts [''excludes'', ''e''] then Inr [] else ebind (as_arg exclusions) (\<lambda>x. Inr [''--excludes'', x])) (\<lambda>excl.
      ebind (as_arg name) (\<lambda>n.
      Inr ([''offline''] @ as_args opts [(''e'', merge), (''excludes'', merge)] @ excl
        @ [''--logs-path'', ''/sandbox/scalogs'', ''--scan-path'', ep_clone ps, ''--containers-result-path'', ep_container ps,
           ''--resolver-result-path'', ep_resolver ps, ''--project-name'', n]))))"

definition base_execute_resolver :: "env \<Rightarrow> resolver_runner \<Rightarrow> resolver_opts \<Rightarrow> exec_paths \<Rightarrow> string \<Rightarrow> json \<Rightarrow> json \<Rightarrow>
    completed_process cio" where
  "base_execute_resolver E r opts ps root name exclusions =
     bnd (get_resolver_exec_cmd E r root) (\<lambda>cmd.
     completed
       (bnd (lift (exec_opts E opts ps name exclusions)) (\<lambda>args.
        execute_cmd E (cmd @ args) (runner_workpath r))))"

text \<open>\<open>__recurse_chmod\<close>: the paths whose mode is set, in order; a directory comes twice.\<close>

fun chmod_entry :: "string \<Rightarrow> fs_tree \<Rightarrow> string list" where
  "chmod_entry path (File n) = [path @ ''/'' @ n]"
| "chmod_entry path (Other n) = [path @ ''/'' @ n]"
| "chmod_entry path (Dir n ts) =
     [path @ ''/'' @ n, path @ ''/'' @ n] @ concat (map (chmod_entry (path @ ''/'' @ n)) ts)"

definition chmod_paths :: "string \<Rightarrow> fs_tree list \<Rightarrow> string list" where
  "chmod_paths path ts = path # concat (map (chmod_entry path) ts)"

definition recurse_chmod :: "env \<Rightarrow> string \<Rightarrow> unit cio" where
  "recurse_chmod E path =
     bnd (reading (\<lambda>tr. dir_tree E tr path)) (\<lambda>ts.
     bnd (mapM (\<lambda>p. fs E (Chmod p)) (chmod_paths path ts)) (\<lambda>_. ret ()))"

definition is_cancelled :: "exc \<Rightarrow> bool" where
  "is_cancelled e \<longleftrightarrow> e = LibBaseException ''CancelledError''"

text \<open>
  A stage of the two stage context: what it raises ends the whole without an error, with the exit
  code known so far and no log.
\<close>

definition stage :: "completed_process cio \<Rightarrow> int \<Rightarrow> (completed_process \<Rightarrow> completed_process cio) \<Rightarrow> completed_process cio" where
  "stage m code k =
     bnd (attempt m) (\<lambda>r.
     case r of
       Inr c \<Rightarrow> k c
     | Inl e \<Rightarrow> if is_cancelled e then raise e else ret \<lparr> cp_returncode = code, cp_stdout = Some [] \<rparr>)"

definition first_failure :: "int \<Rightarrow> completed_process \<Rightarrow> int" where
  "first_failure code c = (if code = 0 then cp_returncode c else code)"

definition joined_log :: "completed_process \<Rightarrow> completed_process \<Rightarrow> string" where
  "joined_log resolver shell =
     (case cp_stdout resolver of Some s \<Rightarrow> s | None \<Rightarrow> []) @ (case cp_stdout shell of Some s \<Rightarrow> s | None \<Rightarrow> [])"

definition prescan_cmd :: "env \<Rightarrow> bool \<Rightarrow> string \<Rightarrow> string \<Rightarrow> string \<Rightarrow> string \<Rightarrow> string list" where
  "prescan_cmd E as_agent root sh tag script =
     docker_cmd @ (if as_agent then [''-u'', uid_gid E] else [])
     @ [''-v'', clone_path root @ '':/code'', ''-w'', ''/code'', ''--entrypoint'', sh, tag, ''-c'', script]"

definition two_stages :: "env \<Rightarrow> completed_process cio \<Rightarrow> completed_process cio \<Rightarrow> bool \<Rightarrow> completed_process cio" where
  "two_stages E resolver script before =
     (if before then
        stage (completed resolver) 0 (\<lambda>rr.
        stage (completed script) (cp_returncode rr) (\<lambda>sr.
        ret \<lparr> cp_returncode = first_failure (first_failure (cp_returncode rr) sr) rr, cp_stdout = Some (joined_log rr sr) \<rparr>))
      else
        stage (completed script) 0 (\<lambda>sr.
        stage (completed resolver) (cp_returncode sr) (\<lambda>rr.
        ret \<lparr> cp_returncode = first_failure (cp_returncode sr) rr, cp_stdout = Some (joined_log rr sr) \<rparr>)))"

fun execute_resolver :: "env \<Rightarrow> resolver_runner \<Rightarrow> string \<Rightarrow> json \<Rightarrow> json \<Rightarrow> completed_process cio" where
  "execute_resolver E (ResolverShellRunner w opts path runas) root name exclusions =
     bnd (if runas \<noteq> None then recurse_chmod E (clone_path root) else ret ()) (\<lambda>_.
     base_execute_resolver E (ResolverShellRunner w opts path runas) opts (host_paths root) root name exclusions)"
| "execute_resolver E (ResolverToolkitRunner w opts tag) root name exclusions =
     base_execute_resolver E (ResolverToolkitRunner w opts tag) opts toolkit_paths root name exclusions"
| "execute_resolver E NoResolverRunner root name exclusions = ret \<lparr> cp_returncode = 0, cp_stdout = None \<rparr>"
| "execute_resolver E (ResolverTwoStageRunner w opts r before tag sh script as_agent) root name exclusions =
     two_stages E (execute_resolver E r root name exclusions)
       (execute_cmd E (prescan_cmd E as_agent root sh tag script) (Some ''/code'')) before"


section \<open>The agent\<close>

text \<open>\<open>pickle.loads\<close> with the check of the class: another object is \<open>None\<close>.\<close>

record unpickler =
  unpickle_scm :: "string \<Rightarrow> exc + scm_service option"
  unpickle_cxone :: "string \<Rightarrow> exc + cxone_service option"
  ag_pem :: pem_lib

definition of_type :: "exc + 'a option \<Rightarrow> exc + 'a" where
  "of_type r = ebind r (\<lambda>x. case x of None \<Rightarrow> Inl ResolverAgentException | Some y \<Rightarrow> Inr y)"

record runner_agent =
  ra_tag :: string
  ra_public_key :: string
  ra_runner :: resolver_runner

definition agent_route_key :: "runner_agent \<Rightarrow> string" where
  "agent_route_key a = ROUTEKEY_RESOLVER_RESULT_STUB @ ''.'' @ ra_tag a"

definition result_msg :: "env \<Rightarrow> delegated_scan_message \<Rightarrow> ScanStates \<Rightarrow> int option \<Rightarrow> string option \<Rightarrow> string option \<Rightarrow>
    delegated_scan_result_message cio" where
  "result_msg E m st code sid log =
     bnd (stamp E) (\<lambda>ts.
     ret \<lparr> timestamp = ts, correlation_id = process_uuid E, moniker = moniker m, state = st, workflow = workflow m,
           details = details m, details_signature = details_signature m, resolver_exit_code = code, scan_id = sid, logs = log \<rparr>)"

definition agent_workflow :: "runner_agent \<Rightarrow> delegated_scan_message \<Rightarrow> resolver_workflow" where
  "agent_workflow a m = from_public_key (capture_logs m) (ra_public_key a)"

definition send_result :: "env \<Rightarrow> runner_agent \<Rightarrow> delegated_scan_message \<Rightarrow> delegated_scan_result_message cio \<Rightarrow> unit cio" where
  "send_result E a m mk =
     bnd mk (\<lambda>res. bnd (mq E MqClient) (\<lambda>_.
     bnd (deliver_delegated_scan_outcome E (agent_workflow a m) (agent_route_key a) res EXCHANGE_RESOLVER_SCAN) (\<lambda>_. ret ())))"

definition send_failure_response :: "env \<Rightarrow> runner_agent \<Rightarrow> delegated_scan_message \<Rightarrow> int option \<Rightarrow> string option \<Rightarrow> unit cio" where
  "send_failure_response E a m code log = send_result E a m (result_msg E m FAILURE code None log)"

definition copy_result :: "env \<Rightarrow> string \<Rightarrow> string \<Rightarrow> unit cio" where
  "copy_result E src dest =
     bnd (reading (\<lambda>tr. path_exists E tr src \<and> path_isfile E tr src)) (\<lambda>there.
     if there then fs E (CopyFile src dest) else ret ())"

definition scan_clone :: "env \<Rightarrow> runner_agent \<Rightarrow> delegated_scan_message \<Rightarrow> cxone_service \<Rightarrow> repo_config \<Rightarrow> cloner \<Rightarrow> string \<Rightarrow> string \<Rightarrow>
    unit cio" where
  "scan_clone E a m cx prc cl root repo =
     bnd (reset_head E cl repo (ds_commit_hash (details m))) (\<lambda>_.
     bnd (execute_resolver E (ra_runner a) root (prc_name prc) (file_filters (details m))) (\<lambda>res.
     bnd (copy_result E (result_resolver_out_file_path root) (repo @ ''/.cxsca-results.json'')) (\<lambda>_.
     bnd (copy_result E (result_container_out_file_path root) (repo @ ''/.cxsca-container-results.json'')) (\<lambda>_.
     let code = cp_returncode res in
     bnd (exec_local_scan E cx repo (scan_branch (details m)) prc
            (dmerge (scan_tags (details m)) [(''resolver'', JStr (if code = 0 then ''success'' else ''failure''))])) (\<lambda>(ins, _).
     send_result E a m
       (result_msg E m (if code = 0 then DONE else FAILURE) (Some code) (Some (ins_scan_id ins)) (cp_stdout res)))))))"

definition process_request :: "env \<Rightarrow> unpickler \<Rightarrow> runner_agent \<Rightarrow> delegated_scan_message \<Rightarrow> string \<Rightarrow> unit cio" where
  "process_request E U a m root =
     (let d = details m in
      bnd (lift (of_type (unpickle_scm U (pickled_scm_service d)))) (\<lambda>scm.
      bnd (lift (of_type (unpickle_cxone U (pickled_cxone_service d)))) (\<lambda>cx.
      bnd (load_project_config_by_id E (project_id d)) (\<lambda>prc.
      bnd (lift (as_arg (ds_clone_url d))) (\<lambda>url.
      bnd (clone E (scm_cloner scm) url (Some (ds_event_context d)) False (rstrip CHR ''/'' (clone_path root) @ ''/'') False) (\<lambda>wk.
      with_clone E wk
        (bnd (loc wk) (\<lambda>dest. scan_clone E a m cx prc (scm_cloner scm) root (rstrip CHR ''/'' dest)))))))))"

text \<open>The block of the request; a wrong signature is only logged.\<close>

definition agent_block :: "env \<Rightarrow> unpickler \<Rightarrow> runner_agent \<Rightarrow> delegated_scan_message \<Rightarrow> string \<Rightarrow> unit cio" where
  "agent_block E U a m root =
     bnd (lift (verifier_from_public_key (ag_pem U) (ra_public_key a))) (\<lambda>_.
     bnd (lift (validate_signature E (agent_workflow a m) (details_signature m) (details m))) (\<lambda>valid.
     if \<not> valid then ret ()
     else
       bnd (can_execute E (ra_runner a) root) (\<lambda>can.
       if \<not> can then send_failure_response E a m None None
       else process_request E U a m root)))"

text \<open>
  The handlers of the outer block. Before the context was entered and the key was read the variable
  \<open>workflow\<close> is not bound: the handler raises, and the message is not settled.
\<close>

definition agent_failed :: "env \<Rightarrow> runner_agent \<Rightarrow> delegated_scan_message \<Rightarrow> exc \<Rightarrow> unit cio" where
  "agent_failed E a m e =
     bnd (case e of
         CalledProcessError code err out \<Rightarrow> send_failure_response E a m (Some code) (Some out)
       | _ \<Rightarrow> send_failure_response E a m None None) (\<lambda>_.
     nack E False)"

definition ResolverRunnerAgent :: "env \<Rightarrow> unpickler \<Rightarrow> runner_agent \<Rightarrow> incoming \<Rightarrow> unit cio" where
  "ResolverRunnerAgent E U a im =
     bnd (safe_deserialize_body E to_delegated im) (\<lambda>m.
     bnd (attempt (aenter E (ra_runner a))) (\<lambda>entered.
     case entered of
       Inl e \<Rightarrow> raise (LibException ''UnboundLocalError'')
     | Inr root \<Rightarrow>
         bnd (attempt (in_context E (ra_runner a) root (agent_block E U a m root))) (\<lambda>res.
         case res of
           Inr _ \<Rightarrow> ack E
         | Inl e \<Rightarrow>
             if isl (verifier_from_public_key (ag_pem U) (ra_public_key a)) then raise (LibException ''UnboundLocalError'')
             else agent_failed E a m e)))"



section \<open>Properties\<close>

text \<open>
  The options that reach the resolver are options of the configuration, and none of the forbidden
  ones is among them.
\<close>

fun rendered :: "string \<times> string option \<Rightarrow> string list" where
  "rendered (k, v) = (if length k = 1 then ''-'' @ k else ''--'' @ k) # (case v of None \<Rightarrow> [] | Some s \<Rightarrow> [s])"

lemma compile_opts_rendered:
  "\<exists>ps. compile_opts valid procs proc d = concat (map rendered ps)
     \<and> (\<forall>(k, v)\<in>set ps. k \<in> set (dkeys d) \<and> valid k \<and> k \<noteq> [])"
proof (induction d arbitrary: proc)
  case (Cons kv d)
  obtain k v where kv: "kv = (k, v)" by (cases kv)
  let ?p = "case dget procs k of Some p \<Rightarrow> p | None \<Rightarrow> proc"
  obtain ps where ps: "compile_opts valid procs ?p d = concat (map rendered ps)"
    "\<forall>(k, v)\<in>set ps. k \<in> set (dkeys d) \<and> valid k \<and> k \<noteq> []" using Cons.IH by blast
  show ?case
  proof (cases "k = [] \<or> \<not> valid k \<or> v \<noteq> JNull \<and> (\<forall>s. v \<noteq> JStr s)")
    case True
    then have "compile_opts valid procs proc (kv # d) = concat (map rendered ps)"
      using ps(1) by (auto simp: kv Let_def split: json.splits)
    then show ?thesis using ps(2) by (intro exI [of _ ps]) auto
  next
    case False
    let ?ps = "(k, case v of JStr s \<Rightarrow> Some (?p s) | _ \<Rightarrow> None) # ps"
    have "compile_opts valid procs proc (kv # d) = concat (map rendered ?ps)"
      using ps(1) False by (auto simp: kv Let_def split: json.splits)
    then show ?thesis using ps(2) False by (intro exI [of _ ?ps]) (auto simp: kv)
  qed
qed (auto intro: exI [of _ "[]"])

lemma as_args_allowed:
  "\<exists>ps. as_args opts procs = concat (map rendered ps) \<and> (\<forall>(k, v)\<in>set ps. k \<notin> set forbidden_opts)"
proof (cases opts)
  case (Some d)
  obtain ps where "compile_opts (\<lambda>k. k \<notin> set forbidden_opts) procs id d = concat (map rendered ps)"
    "\<forall>(k, v)\<in>set ps. k \<in> set (dkeys d) \<and> k \<notin> set forbidden_opts \<and> k \<noteq> []"
    using compile_opts_rendered by blast
  then show ?thesis by (intro exI [of _ ps]) (auto simp: as_args_def Some)
qed (auto simp: as_args_def intro: exI [of _ "[]"])

text \<open>The merged exclusions also end up in the value of a later option.\<close>

lemma exclusions_leak:
  "as_args (Some [(''excludes'', JStr a), (''config-path'', JStr b)]) [(''excludes'', f)] =
     [''--excludes'', f a, ''--config-path'', f b]"
  by (simp add: as_args_def forbidden_opts_def)

text \<open>Once a context was entered, leaving it removes the directory, whatever the block did.\<close>

lemma in_context_removes:
  assumes "m w = (r, tr', s')" and "r \<noteq> Inl Diverges"
  shows "in_context E rn root m w =
    (if \<not> fs_reply E tr' (RmTemp root) then Inl (LibException ''OSError'') else if is_two_stage rn then Inr () else r,
     tr' @ [RmTemp root], s')"
  using assms by (simp add: in_context_def leave_def attempt_def bnd_def fs_def)

text \<open>
  The two stage runner: an exception in the block is lost, the message is acknowledged and nobody
  is told; a script that cannot be started counts as a success.
\<close>

lemma two_stage_failure_unanswered:
  assumes "is_two_stage (ra_runner a)" and "in_body im = Inr (DelegatedMsg m)"
    and "aenter E (ra_runner a) w = (Inr root, w1)" and "agent_block E U a m root w1 = (Inl e, tr, s)" and "e \<noteq> Diverges"
    and "fs_reply E tr (RmTemp root)"
  shows "ResolverRunnerAgent E U a im w = ack E (tr @ [RmTemp root], s)"
  using assms in_context_removes [where m = "agent_block E U a m root" and w = w1 and r = "Inl e" and rn = "ra_runner a" and E = E]
  by (simp add: ResolverRunnerAgent_def safe_deserialize_body_def io_simps)

lemma script_failure_hidden:
  assumes "script w = (Inl e, w')" and "e \<noteq> Diverges" and "\<not> is_called_process_error e" and "\<not> is_cancelled e"
  shows "two_stages E resolver script False w = (Inr \<lparr> cp_returncode = 0, cp_stdout = Some [] \<rparr>, w')"
proof -
  have "completed script w = (Inl e, w')"
    using assms by (cases e; simp add: completed_def catch_app is_called_process_error_def)
  then show ?thesis using assms by (simp add: two_stages_def stage_def bnd_app attempt_app)
qed


text \<open>A request with a wrong signature: nothing of it is used, the agent cleans up and acknowledges.\<close>

definition housekeeping :: "event \<Rightarrow> bool" where
  "housekeeping e = (case e of MkTemp _ \<Rightarrow> True | Chmod _ \<Rightarrow> True | Mkdir _ \<Rightarrow> True | RmTemp _ \<Rightarrow> True | Ack \<Rightarrow> True | _ \<Rightarrow> False)"

lemma housekeeping_simps:
  "housekeeping (MkTemp d)" "housekeeping (Chmod d)" "housekeeping (Mkdir d)" "housekeeping (RmTemp d)" "housekeeping Ack"
  by (simp_all add: housekeeping_def)

lemma emits_aenter:
  assumes "\<And>d. P (MkTemp d)" "\<And>d. P (Chmod d)" "\<And>d. P (Mkdir d)"
  shows "emits P (aenter E r)"
  unfolding aenter_def aenter_dirs_def by (intro emits_rules assms)

lemma emits_in_context:
  assumes "P (RmTemp root)" and "emits P m"
  shows "emits P (in_context E r root m)"
  unfolding in_context_def leave_def by (intro emits_rules assms)

lemma forged_request_ignored:
  assumes "in_body im = Inr (DelegatedMsg m)" and "cleans E"
    and "validate_signature E (agent_workflow a m) (details_signature m) (details m) = Inr False"
  shows "emits housekeeping (ResolverRunnerAgent E U a im)"
proof -
  let ?key = "verifier_from_public_key (ag_pem U) (ra_public_key a)"
  let ?after = "\<lambda>res. case res of Inr _ \<Rightarrow> ack E | Inl e \<Rightarrow> if isl ?key then raise (LibException ''UnboundLocalError'') else agent_failed E a m e"
  have block: "agent_block E U a m root = bnd (lift ?key) (\<lambda>_. ret ())" for root by (simp add: agent_block_def assms(3))
  have after: "emits housekeeping (bnd (attempt (in_context E (ra_runner a) root (agent_block E U a m root))) ?after)" for root
  proof (cases ?key)
    case (Inl e)
    then show ?thesis
      unfolding block ack_def
      by (simp, intro emits_rules emits_in_context housekeeping_simps) simp
  next
    case (Inr v)
    have ok: "in_context E (ra_runner a) root (ret ()) = bnd (call (RmTemp root) (\<lambda>_. Inr ())) ret"
      using assms(2) by (auto simp: in_context_def leave_def fs_def cleans_def lift_def fun_eq_iff bnd_app)
    have "bnd (attempt (in_context E (ra_runner a) root (ret ()))) ?after = bnd (call (RmTemp root) (\<lambda>_. Inr ())) (\<lambda>_. ack E)"
      unfolding ok by (auto simp: fun_eq_iff io_simps)
    then show ?thesis unfolding block Inr by (simp add: ack_def) (intro emits_rules housekeeping_simps)
  qed
  show ?thesis
    unfolding ResolverRunnerAgent_def safe_deserialize_body_def
    by (simp add: assms(1)) (intro emits_rules emits_aenter housekeeping_simps after)
qed

text \<open>
  The work on a request settles and publishes nothing but its result; when it raises, the result was
  not sent.
\<close>

abbreviation works :: "'a cio \<Rightarrow> bool" where
  "works m \<equiv> emits (\<lambda>e. \<not> settles e \<and> \<not> publishes e) m"

abbreviation published :: "event list \<Rightarrow> nat" where
  "published ev \<equiv> length (filter publishes ev)"

definition unanswered :: "event list \<Rightarrow> bool" where
  "unanswered ev \<longleftrightarrow> settled ev = 0 \<and> published ev = 0"

definition answering :: "'a cio \<Rightarrow> bool" where
  "answering m \<longleftrightarrow> ends m (\<lambda>r ev. case r of Inl e \<Rightarrow> e = Diverges \<or> unanswered ev | Inr _ \<Rightarrow> settled ev = 0 \<and> published ev = 1)"

lemma works_unanswered: "works m \<Longrightarrow> ends m (\<lambda>r ev. unanswered ev)"
  by (erule ends_emits) (auto simp: unanswered_def list_all_iff filter_empty_conv)

lemma answering_after:
  assumes "answering m" and "unanswered ev"
  shows "ends m (\<lambda>r ev2. case r of Inl e \<Rightarrow> e = Diverges \<or> unanswered (ev @ ev2)
    | Inr _ \<Rightarrow> settled (ev @ ev2) = 0 \<and> published (ev @ ev2) = 1)"
  using assms(1) unfolding answering_def
  by (rule ends_mono) (use assms(2) in \<open>auto simp: unanswered_def split: sum.splits\<close>)

lemma answering_works: "works m \<Longrightarrow> (\<And>x. answering (k x)) \<Longrightarrow> answering (bnd m k)"
  unfolding answering_def [of "bnd m k"]
  by (rule ends_bnd [OF works_unanswered]) (auto intro: answering_after)

lemma answering_lift: "(\<And>x. r = Inr x \<Longrightarrow> answering (k x)) \<Longrightarrow> answering (bnd (lift r) k)"
  by (cases r) (auto simp: answering_def unanswered_def intro: ends_rules)

lemma answering_then:
  assumes "answering m" and "\<And>r. ends (f r) (\<lambda>r' ev. r' = r \<and> unanswered ev)"
  shows "answering (bnd (attempt m) f)"
  unfolding answering_def
proof (rule ends_bnd)
  show "ends (attempt m) (\<lambda>r ev. case r of Inl e \<Rightarrow> e = Diverges
      | Inr (Inl e) \<Rightarrow> unanswered ev | Inr (Inr _) \<Rightarrow> settled ev = 0 \<and> published ev = 1)"
    by (rule ends_attempt, rule ends_mono [OF assms(1) [unfolded answering_def]]) (auto split: sum.splits)
next
  fix r ev
  assume "case (Inr r :: exc + (exc + 'a)) of Inl e \<Rightarrow> e = Diverges
      | Inr (Inl e) \<Rightarrow> unanswered ev | Inr (Inr _) \<Rightarrow> settled ev = 0 \<and> published ev = 1"
  then show "ends (f r) (\<lambda>r' ev2. case r' of Inl e \<Rightarrow> e = Diverges \<or> unanswered (ev @ ev2)
      | Inr _ \<Rightarrow> settled (ev @ ev2) = 0 \<and> published (ev @ ev2) = 1)"
    by (intro ends_mono [OF assms(2)]) (auto simp: unanswered_def split: sum.splits)
qed auto


text \<open>With the broker up, a result is published once.\<close>

lemma send_result_run:
  assumes "mq_up E" and "mk (tr, s) = (Inr x, tr, s)"
  shows "send_result E a m mk (tr, s) = (Inr (), tr @ [MqClient, MqChannel, MqExchange EXCHANGE_RESOLVER_SCAN,
      MqPublish EXCHANGE_RESOLVER_SCAN (agent_route_key a) (DelegatedResultMsg x) None [], MqClose], s)"
  using assms
  by (simp add: send_result_def agent_workflow_def from_public_key_def publish_def mq_def bnd_def attempt_def mq_up_def)

lemma ends_send_result:
  assumes "mq_up E" and "\<And>w. \<exists>x. mk w = (Inr x, w)"
  shows "ends (send_result E a m mk) (\<lambda>r ev. r = Inr () \<and> settled ev = 0 \<and> published ev = 1)"
  unfolding ends_def
proof (intro allI impI)
  fix tr s r tr' s' assume run: "send_result E a m mk (tr, s) = (r, tr', s')"
  obtain x where "mk (tr, s) = (Inr x, tr, s)" using assms(2) by blast
  from send_result_run [where mk = mk, OF assms(1) this, of a m] run
  show "\<exists>ev. tr' = tr @ ev \<and> r = Inr () \<and> settled ev = 0 \<and> published ev = 1"
    by (auto simp: settles_def publishes_def)
qed

lemma answering_send_result:
  assumes "mq_up E" and "\<And>w. \<exists>x. mk w = (Inr x, w)"
  shows "answering (send_result E a m mk)"
  unfolding answering_def by (rule ends_mono [OF ends_send_result [where mk = mk, OF assms]]) auto

lemma result_msg_Inr: "\<exists>x. result_msg E m st code sid log w = (Inr x, w)"
  by (cases w) (simp add: result_msg_def stamp_def clock_def bnd_def)

lemma ends_failure_response:
  "mq_up E \<Longrightarrow> ends (send_failure_response E a m code log) (\<lambda>r ev. r = Inr () \<and> settled ev = 0 \<and> published ev = 1)"
  unfolding send_failure_response_def by (rule ends_send_result) (auto intro: result_msg_Inr)

lemma answering_failure: "mq_up E \<Longrightarrow> answering (send_failure_response E a m code log)"
  unfolding send_failure_response_def by (rule answering_send_result) (auto intro: result_msg_Inr)

text \<open>What an agent does for a scan, apart from its answer, reaches neither the queue nor the delivery.\<close>

lemma work_events:
  "\<not> settles (RunProc c d v)" "\<not> settles (MkTemp p)" "\<not> settles (RmTemp p)" "\<not> settles (WriteZip z)" "\<not> settles (Mkdir p)"
  "\<not> settles (Chmod p)" "\<not> settles (CopyFile p q)" "\<not> settles (CxApi f x)" "\<not> settles (Http h u x)"
  "\<not> publishes (RunProc c d v)" "\<not> publishes (MkTemp p)" "\<not> publishes (RmTemp p)" "\<not> publishes (WriteZip z)"
  "\<not> publishes (Mkdir p)" "\<not> publishes (Chmod p)" "\<not> publishes (CopyFile p q)" "\<not> publishes (CxApi f x)"
  "\<not> publishes (Http h u x)"
  by (simp_all add: settles_def publishes_def)

lemma emits_execute_cmd:
  assumes "\<And>c d v. P (RunProc c d v)"
  shows "emits P (execute_cmd E args home)"
  unfolding execute_cmd_def by (intro emits_rules assms)

lemma emits_completed_process: "emits P m \<Longrightarrow> emits P (completed m)"
  unfolding completed_def by (rule emits_catch) (auto split: exc.splits intro: emits_rules)

lemma emits_shell_exec_cmd [emits_rules]: "emits P (shell_exec_cmd E home path runas)"
  unfolding shell_exec_cmd_def by (intro emits_rules)

lemma emits_get_resolver_exec_cmd: "emits P (get_resolver_exec_cmd E r root)"
  by (cases r) (simp_all add: emits_rules)

lemma emits_can_execute: "emits P (can_execute E r root)"
  by (induction E r root rule: can_execute.induct) (auto intro!: emits_rules emits_get_resolver_exec_cmd)

lemma emits_stage: "emits P m \<Longrightarrow> (\<And>c. emits P (k c)) \<Longrightarrow> emits P (stage m code k)"
  unfolding stage_def by (intro emits_rules)

lemma emits_execute_resolver:
  assumes "\<And>c d v. P (RunProc c d v)" and "\<And>p. P (Chmod p)"
  shows "emits P (execute_resolver E r root name excl)"
  by (induction E r root name excl rule: execute_resolver.induct)
    (auto simp: base_execute_resolver_def recurse_chmod_def two_stages_def
      intro!: emits_rules emits_completed_process emits_execute_cmd emits_get_resolver_exec_cmd emits_stage assms)

lemma works_exec_local_scan: "works (exec_local_scan E cx path branch prc tags)"
  unfolding exec_local_scan_def by (intro emits_rules conjI work_events)

lemma answering_scan_clone:
  assumes "mq_up E"
  shows "answering (scan_clone E a m cx prc cl root repo)"
  unfolding scan_clone_def Let_def copy_result_def case_prod_beta
  by (intro answering_works emits_rules emits_execute_resolver works_exec_local_scan answering_send_result
      conjI work_events assms result_msg_Inr)

lemma answering_with_clone: "answering m \<Longrightarrow> \<not> temp_dir wk \<Longrightarrow> answering (with_clone E wk m)"
  unfolding with_clone_def
  by (erule answering_then) (simp add: ends_def aexit_def lift_def bnd_app unanswered_def)

lemma answering_in_context:
  "answering m \<Longrightarrow> cleans E \<Longrightarrow> \<not> is_two_stage r \<Longrightarrow> answering (in_context E r root m)"
  unfolding in_context_def
  by (erule answering_then)
    (simp add: leave_def fs_def cleans_def ends_def lift_def bnd_app unanswered_def settles_def publishes_def)


lemma answering_clone:
  assumes "\<And>wk gstub fixed dest. clone_thread wk = do_clone E (running_env E c) gstub fixed dest \<Longrightarrow> temp_dir wk = b \<Longrightarrow>
      answering (k wk)"
  shows "answering (bnd (clone E c url ctx f root b) k)"
  unfolding answering_def
proof (rule ends_bnd)
  have "works (clone E c url ctx f root b)" by (intro emits_rules conjI work_events)
  then show "ends (clone E c url ctx f root b) (\<lambda>r ev. unanswered ev \<and> (\<forall>wk. r = Inr wk \<longrightarrow> temp_dir wk = b \<and>
      (\<exists>gstub fixed. clone_thread wk = do_clone E (running_env E c) gstub fixed (clone_dest wk))))"
    unfolding ends_def using clone_worker_of endsD [OF works_unanswered] by metis
qed (auto intro: answering_after assms)

lemma answering_process_request:
  assumes "mq_up E"
  shows "answering (process_request E U a m root)"
proof -
  have scan: "answering (with_clone E wk (bnd (loc wk) (\<lambda>dest. scan_clone E a m cx prc c root (rstrip CHR ''/'' dest))))"
    if "clone_thread wk = do_clone E (running_env E c) gstub fixed dest" "temp_dir wk = False" for wk cx prc c gstub fixed dest
    using that
    by (intro answering_with_clone answering_works answering_scan_clone assms emits_loc conjI work_events) simp_all
  show ?thesis
    unfolding process_request_def Let_def load_project_config_by_id_def
    by (rule answering_lift, rule answering_lift, rule answering_works, intro emits_rules conjI work_events,
        rule answering_lift, rule answering_clone, erule scan, assumption)
qed

lemma answering_block:
  assumes "mq_up E" and "validate_signature E (agent_workflow a m) (details_signature m) (details m) = Inr True"
  shows "answering (agent_block E U a m root)"
proof -
  have "answering (bnd (can_execute E (ra_runner a) root) (\<lambda>can. if \<not> can then send_failure_response E a m None None
      else process_request E U a m root))"
    using answering_failure [OF assms(1)] answering_process_request [OF assms(1)]
    by (intro answering_works emits_can_execute) simp
  then show ?thesis unfolding agent_block_def by (intro answering_lift) (simp add: assms(2))
qed

lemma ends_settle_up:
  assumes "mq_up E" and "settles e"
  shows "ends (bnd (mq E e) (\<lambda>_. ret ())) (\<lambda>r ev. r = Inr () \<and> settled ev = 1 \<and> published ev = 0)"
  using assms by (auto simp: ends_def mq_def mq_up_def bnd_app settles_def publishes_def split: event.splits)

lemma ends_agent_failed:
  assumes "mq_up E"
  shows "ends (agent_failed E a m e) (\<lambda>r ev. r = Inr () \<and> settled ev = 1 \<and> published ev = 1)"
proof -
  let ?f = "case e of CalledProcessError code err out \<Rightarrow> send_failure_response E a m (Some code) (Some out)
      | _ \<Rightarrow> send_failure_response E a m None None"
  have "ends ?f (\<lambda>r ev. r = Inr () \<and> settled ev = 0 \<and> published ev = 1)"
    by (cases e; simp only: exc.case; rule ends_failure_response [OF assms])
  then show ?thesis unfolding agent_failed_def nack_def
    by (rule ends_bnd) (auto simp: settles_def intro!: ends_mono [OF ends_settle_up [OF assms]])
qed

text \<open>
  The agent on a request with a valid signature: the result or the failure is published once and the
  delivery is settled once, or the working directory could not be made or the key not be read, and
  neither happens.
\<close>

definition request_outcome :: "exc + unit \<Rightarrow> event list \<Rightarrow> bool" where
  "request_outcome r ev \<longleftrightarrow> r = Inl Diverges \<or> r = Inr () \<and> settled ev = 1 \<and> published ev = 1
     \<or> r = Inl (LibException ''UnboundLocalError'') \<and> unanswered ev"

lemma request_answered:
  assumes "mq_up E" and "\<not> is_two_stage (ra_runner a)" and "in_body im = Inr (DelegatedMsg m)" and "cleans E"
    and "validate_signature E (agent_workflow a m) (details_signature m) (details m) = Inr True"
  shows "ends (ResolverRunnerAgent E U a im) request_outcome"
proof -
  let ?run = "\<lambda>root. in_context E (ra_runner a) root (agent_block E U a m root)"
  have run: "ends (attempt (?run root)) (\<lambda>r ev. case r of Inl e \<Rightarrow> e = Diverges
      | Inr (Inl e) \<Rightarrow> unanswered ev | Inr (Inr _) \<Rightarrow> settled ev = 0 \<and> published ev = 1)" for root
    by (rule ends_attempt, rule ends_mono
        [OF answering_in_context [OF answering_block [OF assms(1,5)] assms(4,2), unfolded answering_def]])
      (auto split: sum.splits)
  let ?key = "verifier_from_public_key (ag_pem U) (ra_public_key a)"
  have unbound: "ends (raise (LibException ''UnboundLocalError'')) (\<lambda>r ev2. request_outcome r (ev @ ev2))"
    and failed: "ends (agent_failed E a m e) (\<lambda>r ev2. request_outcome r (ev @ ev2))" if "unanswered ev" for e ev
    using that
    by (auto simp: request_outcome_def unanswered_def intro!: ends_raise ends_mono [OF ends_agent_failed [OF assms(1)]])
  have finish: "ends (bnd (attempt (?run root)) (\<lambda>res. case res of Inr _ \<Rightarrow> ack E
        | Inl e \<Rightarrow> if isl ?key then raise (LibException ''UnboundLocalError'') else agent_failed E a m e)) request_outcome" for root
  proof (rule ends_bnd [OF run])
    show "case Inl e of Inl e \<Rightarrow> e = Diverges | Inr (Inl e) \<Rightarrow> unanswered ev | Inr (Inr _) \<Rightarrow> settled ev = 0 \<and> published ev = 1 \<Longrightarrow>
        request_outcome (Inl e) ev" for e ev by (simp add: request_outcome_def)
  qed (auto simp: ack_def settles_def request_outcome_def [of "Inr ()"] split: sum.splits
      intro: failed unbound ends_mono [OF ends_settle_up [OF assms(1)]])
  have enter: "ends (attempt (aenter E (ra_runner a))) (\<lambda>r ev. unanswered ev \<and> (\<forall>e. r = Inl e \<longrightarrow> e = Diverges))"
  proof (rule ends_attempt, rule ends_mono [OF works_unanswered])
    show "works (aenter E (ra_runner a))" by (intro emits_aenter conjI work_events)
  qed simp
  show ?thesis
    unfolding ResolverRunnerAgent_def safe_deserialize_body_def assms(3)
    by (simp, rule ends_bnd [OF enter])
      (auto simp: request_outcome_def unanswered_def split: sum.splits intro!: ends_rules ends_mono [OF finish])
qed

text \<open>
  A directory that cannot be removed turns an answered request into a failure: the result was sent
  in the block, the handler sends another message and rejects the delivery.
\<close>

lemma unremoved_directory_failure:
  assumes "in_body im = Inr (DelegatedMsg m)" and "aenter E (ra_runner a) w = (Inr root, w1)"
    and "agent_block E U a m root w1 = (r, tr, s)" and "r \<noteq> Inl Diverges" and "\<not> fs_reply E tr (RmTemp root)"
    and "verifier_from_public_key (ag_pem U) (ra_public_key a) = Inr v"
  shows "ResolverRunnerAgent E U a im w = agent_failed E a m (LibException ''OSError'') (tr @ [RmTemp root], s)"
  using assms in_context_removes [where m = "agent_block E U a m root" and w = w1 and rn = "ra_runner a" and E = E]
  by (simp add: ResolverRunnerAgent_def safe_deserialize_body_def io_simps)

end
