(* ===== verification/AgentConfig.thy ===== *)
theory AgentConfig
  imports ConfigReader ResolverAgent Agents
begin

text \<open>
  The start of the scan agent: \<open>config/resolver/__init__.py\<close>, which makes one agent per serviced tag
  from the YAML document, and \<open>cx_scan_agent.py\<close>, which subscribes each to the queue of its tag. The
  runner of the toolkit builds its container when it is made, so the factories are programs. The
  lemmas show which runner a tag gets, that the keys marked as deprecated are without effect, and
  that a started agent listens on the queue the requests for its tag are delivered to.
\<close>


section \<open>Runners\<close>

definition ResolverOpts :: "json \<Rightarrow> exc + resolver_opts" where
  "ResolverOpts v = (if v = JNull then Inr None else ebind (as_dict v) (\<lambda>d. Inr (Some d)))"

definition shell_runner :: "string option \<Rightarrow> resolver_opts \<Rightarrow> json \<Rightarrow> json \<Rightarrow> exc + resolver_runner" where
  "shell_runner w opts resolver_path c =
     ebind (opt_str resolver_path) (\<lambda>p.
     ebind (ebind (value_or_default ''resolver-run-as'' c JNull) opt_str) (\<lambda>runas.
     Inr (ResolverShellRunner w opts p runas)))"

definition toolkit_runner :: "env \<Rightarrow> string option \<Rightarrow> resolver_opts \<Rightarrow> string \<Rightarrow> json \<Rightarrow> resolver_runner cio" where
  "toolkit_runner E w opts path cc =
     (let p = path @ ''/run-resolver-with-container'' in
      bnd (lift (ebind (value_or_fail p ''supply-chain-toolkit-path'' cc) as_arg)) (\<lambda>tk.
      bnd (lift (ebind (value_or_fail p ''container-image-tag'' cc) as_arg)) (\<lambda>tag.
      bnd (lift (value_or_default ''use-running-uid'' cc (JBool True))) (\<lambda>uid.
      bnd (lift (value_or_default ''use-running-gid'' cc (JBool True))) (\<lambda>gid.
      bnd (get_build_container_tag E w tk tag (truthy uid) (truthy gid)) (\<lambda>built.
      ret (ResolverToolkitRunner w opts built)))))))"

definition two_stage_runner :: "string option \<Rightarrow> resolver_opts \<Rightarrow> string \<Rightarrow> json \<Rightarrow> resolver_runner \<Rightarrow> exc + resolver_runner" where
  "two_stage_runner w opts path pre r =
     ebind (value_or_default ''resolver-before-script'' pre (JBool False)) (\<lambda>before.
     ebind (ebind (value_or_fail (path @ ''/pre-scan'') ''container-image-tag'' pre) as_arg) (\<lambda>tag.
     ebind (ebind (value_or_default ''shell'' pre (JStr ''/bin/sh'')) as_arg) (\<lambda>sh.
     ebind (ebind (value_or_fail (path @ ''/pre-scan'') ''script'' pre) as_arg) (\<lambda>script.
     ebind (value_or_default ''run-as-agent'' pre (JBool True)) (\<lambda>as_agent.
     Inr (ResolverTwoStageRunner w opts r (truthy before) tag sh script (truthy as_agent)))))))"

definition runner_keys :: "string list" where
  "runner_keys = [''disable-resolver'', ''run-resolver-with-container'', ''resolver-path'']"

definition base_runner :: "env \<Rightarrow> string option \<Rightarrow> resolver_opts \<Rightarrow> string \<Rightarrow> json \<Rightarrow> json \<Rightarrow> json \<Rightarrow> json \<Rightarrow> resolver_runner cio" where
  "base_runner E w opts path c container disable resolver_path =
     (if truthy disable then ret NoResolverRunner
      else if resolver_path \<noteq> JNull then lift (shell_runner w opts resolver_path c)
      else if container \<noteq> JNull then toolkit_runner E w opts path container
      else raise (missing_at_least_one E path runner_keys))"

definition resolver_runner_factory :: "env \<Rightarrow> string \<Rightarrow> json \<Rightarrow> resolver_runner cio" where
  "resolver_runner_factory E path c =
     bnd (lift (ebind (value_or_default ''resolver-opts'' c JNull) ResolverOpts)) (\<lambda>opts.
     bnd (lift (ebind (value_or_default_deprecated ''scan-agent-work-path'' ''resolver-work-path'' c (JStr ''/tmp'')) opt_str)) (\<lambda>w.
     bnd (lift (value_or_default_deprecated ''run-resolver-with-container'' ''run-with-container'' c JNull)) (\<lambda>container.
     bnd (lift (value_or_default ''disable-resolver'' c (JBool False))) (\<lambda>disable.
     bnd (lift (value_or_default ''resolver-path'' c JNull)) (\<lambda>resolver_path.
     bnd (base_runner E w opts path c container disable resolver_path) (\<lambda>r.
     bnd (lift (value_or_default ''pre-scan'' c JNull)) (\<lambda>pre.
     if pre = JNull then ret r else lift (two_stage_runner w opts path pre r))))))))"


section \<open>Agents\<close>

record tag_agent = runner_agent +
  ta_amqp :: amqp_settings

definition agent_factory :: "env \<Rightarrow> startup \<Rightarrow> string \<Rightarrow> string \<Rightarrow> string \<Rightarrow> json \<Rightarrow> tag_agent cio" where
  "agent_factory E S root path tag c =
     bnd (lift (secret_or_fail S root path ''public-key'' c)) (\<lambda>key.
     bnd (resolver_runner_factory E path c) (\<lambda>r.
     bnd (lift (ebind (as_kwargs [''config_path''] c) (load_amqp_settings E S root path))) (\<lambda>amqp.
     ret \<lparr> ra_tag = tag, ra_public_key = key, ra_runner = r, ta_amqp = amqp \<rparr>)))"

text \<open>Something else than a mapping fails at the first subscript, unless there is nothing to iterate over.\<close>

definition agents_bootstrap :: "env \<Rightarrow> startup \<Rightarrow> json \<Rightarrow> tag_agent list cio" where
  "agents_bootstrap E S yaml =
     bnd (lift (ebind (value_or_fail [] ''secret-root-path'' yaml) as_arg)) (\<lambda>root.
     bnd (lift (value_or_fail [] ''serviced-tags'' yaml)) (\<lambda>tags.
     if tags = JNull then ret []
     else
       bnd (lift (py_iter tags)) (\<lambda>items.
       if items = [] then ret []
       else
         bnd (lift (as_mapping tags)) (\<lambda>d.
         mapM (\<lambda>(tag, c). agent_factory E S root (''serviced-tags/'' @ tag) tag c) d))))"

definition spawn_scan_agents :: "env \<Rightarrow> tag_agent list \<Rightarrow> unit cio" where
  "spawn_scan_agents E agents =
     bnd (mapM (\<lambda>a. bnd (mq E MqClient) (\<lambda>_. mq_agent E (make_queuename_for_tag E (ra_tag a)) 1)) agents) (\<lambda>_. ret ())"

text \<open>
  The program. The two exceptions it reports come from the configuration: what is raised in the task
  group arrives as an exception group, which neither of its clauses names.
\<close>

definition cx_scan_agent :: "env \<Rightarrow> startup \<Rightarrow> json \<Rightarrow> unit cio" where
  "cx_scan_agent E S yaml =
     bnd (catch (bnd (agents_bootstrap E S yaml) (\<lambda>agents. ret (Some agents))) (\<lambda>e. case e of
         CalledProcessError code err out \<Rightarrow> Some (ret None)
       | ConfigurationException m \<Rightarrow> Some (ret None)
       | _ \<Rightarrow> None)) (\<lambda>r.
     case r of None \<Rightarrow> ret () | Some agents \<Rightarrow> spawn_scan_agents E agents)"


section \<open>Properties\<close>

text \<open>
  The container configuration under its deprecated key: with nothing else to choose from the agent
  does not start.
\<close>

lemma deprecated_container_rejected:
  assumes "dget d ''run-with-container'' = Some v"
    and "\<forall>k\<in>{''disable-resolver'', ''resolver-path'', ''resolver-opts'', ''scan-agent-work-path'', ''resolver-work-path''}. dget d k = None"
  shows "resolver_runner_factory E path (JObj d) w = (Inl (missing_at_least_one E path runner_keys), w)"
proof -
  have dflt: "value_or_default k (JObj d) x = Inr x" if "dget d k = None" for k x
    using that by (simp add: value_or_default_def)
  have container: "value_or_default_deprecated ''run-resolver-with-container'' ''run-with-container'' (JObj d) JNull = Inr JNull"
    by (rule deprecated_value_ignored [OF assms(1)])
  have path: "value_or_default_deprecated ''scan-agent-work-path'' ''resolver-work-path'' (JObj d) (JStr ''/tmp'') = Inr (JStr ''/tmp'')"
    using assms(2) by (simp add: value_or_default_deprecated_def)
  show ?thesis
    using assms(2) by (simp add: resolver_runner_factory_def dflt container path ResolverOpts_def opt_str_def base_runner_def)
qed

text \<open>A runner has two stages just when the configuration has a script to run.\<close>

lemma shell_runner_one_stage: "shell_runner w opts rp c = Inr r \<Longrightarrow> \<not> is_two_stage r"
  by (auto simp: shell_runner_def ebind_Inr_iff)

lemma yields_base_runner: "yields (\<lambda>r. \<not> is_two_stage r) (base_runner E w opts path c container disable rp)"
  unfolding base_runner_def toolkit_runner_def Let_def
  by (intro yields_rules) (auto simp: yields_def dest: shell_runner_one_stage [OF sym])

lemma two_stage_configured:
  assumes "resolver_runner_factory E path (JObj d) (tr, s) = (Inr r, w)"
  shows "is_two_stage r \<longleftrightarrow> dget d ''pre-scan'' \<notin> {None, Some JNull}"
  using assms
  by (auto simp: resolver_runner_factory_def bnd_Inr_iff value_or_default_def two_stage_runner_def ebind_Inr_iff
      split: if_splits option.splits dest!: yieldsD [OF yields_base_runner])

text \<open>One agent per serviced tag, in the order of the document, each with the key of the document.\<close>

lemma agent_factory_tag: "agent_factory E S root path tag c (tr, s) = (Inr a, w) \<Longrightarrow> ra_tag a = tag"
  by (auto simp: agent_factory_def bnd_Inr_iff)

lemma mapM_tags:
  "mapM (\<lambda>(tag, c). agent_factory E S root (p tag) tag c) d (tr, s) = (Inr agents, w) \<Longrightarrow> map ra_tag agents = map fst d"
proof (induction d arbitrary: tr s agents w)
  case (Cons x d)
  then show ?case by (cases x) (auto simp: bnd_Inr_iff dest!: agent_factory_tag)
qed simp

lemma agents_of_tags:
  assumes "agents_bootstrap E S (JObj y) (tr, s) = (Inr agents, w)" and "dget y ''serviced-tags'' = Some (JObj d)"
  shows "map ra_tag agents = dkeys d"
  using assms
  by (auto simp: agents_bootstrap_def value_or_fail_def bnd_Inr_iff split: if_splits
      dest: mapM_tags [where p = "\<lambda>tag. ''serviced-tags/'' @ tag", simplified])

text \<open>The queues a trace subscribes to, and that the agents subscribe to those of their tags.\<close>

fun consumed_by :: "event \<Rightarrow> string list" where
  "consumed_by (MqConsume q n) = [q]"
| "consumed_by _ = []"

definition consumed :: "event list \<Rightarrow> string list" where
  "consumed ev = concat (map consumed_by ev)"

lemma consumed_simps [simp]:
  "consumed [] = []" "consumed (e # ev) = consumed_by e @ consumed ev" "consumed (a @ b) = consumed a @ consumed b"
  by (simp_all add: consumed_def)

lemma does_subscribe: "does (bnd (mq E MqClient) (\<lambda>_. mq_agent E q n)) (\<lambda>_ ev. consumed ev = [q])"
  by (auto simp: does_def mq_agent_def mq_def bnd_Inr_iff)

lemma does_spawn_mapM:
  "does (mapM (\<lambda>a. bnd (mq E MqClient) (\<lambda>_. mq_agent E (f a) 1)) agents) (\<lambda>_ ev. consumed ev = map f agents)"
proof (induction agents)
  case (Cons a agents)
  show ?case
    unfolding mapM.simps
    by (rule does_bnd [OF does_subscribe], rule does_bnd [OF Cons.IH], rule does_ret) simp
qed (simp add: does_ret)

lemma scan_agents_subscribed:
  "does (spawn_scan_agents E agents) (\<lambda>_ ev. consumed ev = map (\<lambda>a. make_queuename_for_tag E (ra_tag a)) agents)"
  unfolding spawn_scan_agents_def by (rule does_bnd [OF does_spawn_mapM]) (simp add: does_ret)

end
