(* ===== verification/ScmConfig.thy ===== *)
theory ScmConfig
  imports ConfigReader ScmServices
begin

text \<open>
  \<open>config/server/scmservice_factories.py\<close> and the cloner and authentication factories of
  \<open>config/server/__init__.py\<close>: from the connection section of one service to its SCM service, with the
  API session and the cloner. The lemmas show that a service that is built has a strong shared secret
  and keeps the contract of the decorators, whatever SCM and options were configured.
\<close>


section \<open>Shared secrets\<close>

record password_policy =
  pp_length :: nat
  pp_uppercase :: nat
  pp_numbers :: nat
  pp_special :: nat

definition is_upper :: "char \<Rightarrow> bool" where
  "is_upper c \<longleftrightarrow> (of_char c :: nat) \<in> {65..90}"

definition is_punctuation :: "char \<Rightarrow> bool" where
  "is_punctuation c \<longleftrightarrow> (of_char c :: nat) \<in> {33..47} \<union> {58..64} \<union> {91..96} \<union> {123..126}"

definition policy_test :: "password_policy \<Rightarrow> string \<Rightarrow> bool" where
  "policy_test p pw \<longleftrightarrow>
     pp_length p \<le> length pw \<and> pp_uppercase p \<le> length (filter is_upper pw)
     \<and> pp_numbers p \<le> length (filter is_digit pw) \<and> pp_special p \<le> length (filter is_punctuation pw)"

definition shared_secret_policy :: password_policy where
  "shared_secret_policy = \<lparr> pp_length = 20, pp_uppercase = 3, pp_numbers = 3, pp_special = 2 \<rparr>"


section \<open>Properties of a repository configuration\<close>

record repo_props =
  rp_repo :: json
  rp_path :: string
  rp_connection :: json
  rp_secret :: string
  rp_clone_auth :: json
  rp_clone_path :: string

definition connection_path :: "repo_props \<Rightarrow> string" where
  "connection_path p = rp_path p @ ''/connection''"

definition RepoConfigProps :: "startup \<Rightarrow> string \<Rightarrow> json \<Rightarrow> string \<Rightarrow> exc + repo_props" where
  "RepoConfigProps S root repo path =
     ebind (value_or_fail path ''connection'' repo) (\<lambda>con.
     ebind (value_or_fail (path @ ''/connection'') ''api-auth'' con) (\<lambda>api_auth.
     ebind (secret_or_fail S root (path @ ''/connection'') ''shared-secret'' con) (\<lambda>secret.
     if \<not> policy_test shared_secret_policy secret
     then Inl (ConfigurationException (path @ ''/connection/shared-secret fails some complexity requirements.''))
     else
       ebind (value_or_default ''clone-auth'' con JNull) (\<lambda>clone_auth.
       Inr \<lparr> rp_repo = repo, rp_path = path, rp_connection = con, rp_secret = secret,
             rp_clone_auth = (if clone_auth = JNull then api_auth else clone_auth),
             rp_clone_path = path @ (if clone_auth = JNull then ''/connection/api-auth'' else ''/connection/clone-auth'') \<rparr>))))"

definition service_moniker :: "repo_props \<Rightarrow> exc + string" where
  "service_moniker p = ebind (value_or_fail (rp_path p) ''service-name'' (rp_repo p)) as_arg"

definition api_base_url :: "repo_props \<Rightarrow> exc + string" where
  "api_base_url p = ebind (value_or_fail (connection_path p) ''base-url'' (rp_connection p)) as_str"

definition api_url :: "repo_props \<Rightarrow> exc + string" where
  "api_url p =
     ebind (api_base_url p) (\<lambda>base.
     ebind (ebind (value_or_default ''api-url-suffix'' (rp_connection p) JNull) opt_str) (\<lambda>suff.
     Inr (form_api_endpoint base suff)))"

definition props_display_url :: "repo_props \<Rightarrow> exc + string" where
  "props_display_url p =
     ebind (api_base_url p) (\<lambda>base.
     ebind (value_or_default ''base-display-url'' (rp_connection p) (JStr base)) as_arg)"

text \<open>A path of certificates is reduced to the fact that there is one.\<close>

definition props_ssl_verify :: "env \<Rightarrow> startup \<Rightarrow> repo_props \<Rightarrow> exc + bool" where
  "props_ssl_verify E S p =
     ebind (value_or_default ''ssl-verify'' (rp_connection p) (get_default_ssl_verify_value E S)) (\<lambda>v. Inr (truthy v))"

definition ssl_no_verify_git :: "env \<Rightarrow> startup \<Rightarrow> repo_props \<Rightarrow> exc + bool" where
  "ssl_no_verify_git E S p = ebind (props_ssl_verify E S p) (\<lambda>b. Inr (\<not> b))"


section \<open>Credentials\<close>

definition has_value :: "json dict \<Rightarrow> string \<Rightarrow> bool" where
  "has_value d k \<longleftrightarrow> (case dget d k of None \<Rightarrow> False | Some v \<Rightarrow> v \<noteq> JNull)"

definition has_basic_auth :: "json dict \<Rightarrow> bool" where
  "has_basic_auth d \<longleftrightarrow> has_value d ''username'' \<and> has_value d ''password''"

definition has_token_auth :: "json dict \<Rightarrow> bool" where
  "has_token_auth d \<longleftrightarrow> has_value d ''token''"

definition has_ssh_auth :: "json dict \<Rightarrow> bool" where
  "has_ssh_auth d \<longleftrightarrow> has_value d ''ssh''"

definition basic_credentials :: "startup \<Rightarrow> string \<Rightarrow> string \<Rightarrow> json \<Rightarrow> exc + string \<times> string" where
  "basic_credentials S root path c =
     ebind (secret_or_fail S root path ''username'' c) (\<lambda>u.
     ebind (secret_or_fail S root path ''password'' c) (\<lambda>p. Inr (u, p)))"

definition sp_credentials :: "startup \<Rightarrow> string \<Rightarrow> string \<Rightarrow> json \<Rightarrow> exc + auth_factory" where
  "sp_credentials S root path c =
     ebind (secret_or_fail S root path ''sp-tenant-id'' c) (\<lambda>tenant.
     ebind (secret_or_fail S root path ''sp-client-id'' c) (\<lambda>cid.
     ebind (secret_or_fail S root path ''sp-client-secret'' c) (\<lambda>sec.
     Inr (ADOSPClientSecretAuthFactory tenant cid sec))))"

text \<open>The key file must exist: its contents are copied.\<close>

definition ssh_cloner :: "env \<Rightarrow> startup \<Rightarrow> string \<Rightarrow> string \<Rightarrow> json dict \<Rightarrow> exc + cloner" where
  "ssh_cloner E S root path d =
     ebind (ebind (value_or_fail path ''ssh'' (JObj d)) as_arg) (\<lambda>name.
     ebind (case dget d ''ssh-port'' of None \<Rightarrow> Inr None | Some v \<Rightarrow>
              if v = JNull then Inr None else ebind (as_int v) (\<lambda>i. Inr (Some i))) (\<lambda>port.
     case st_file S (path_join root name) of
       None \<Rightarrow> Inl (LibException ''FileNotFoundError'')
     | Some txt \<Rightarrow> Inr (using_ssh_auth E (st_keyfile S (path_join root name)) port)))"

text \<open>
  The five cloner factories try the kinds of credentials in the same order. They differ in how a
  user name and a token are passed to git, and in the last resort.
\<close>

definition cloner_by_auth :: "env \<Rightarrow> startup \<Rightarrow> string \<Rightarrow> string \<Rightarrow> bool \<Rightarrow> (string \<Rightarrow> cloner) \<Rightarrow>
    (json dict \<Rightarrow> exc + cloner option) \<Rightarrow> bool \<Rightarrow> json \<Rightarrow> exc + cloner option" where
  "cloner_by_auth E S root path in_header by_token otherwise no_verify c =
     ebind (as_dict c) (\<lambda>d.
     if has_basic_auth d then
       ebind (basic_credentials S root path c) (\<lambda>(u, p). Inr (Some (using_basic_auth E u p no_verify in_header)))
     else if has_token_auth d then
       ebind (secret_or_fail S root path ''token'' c) (\<lambda>t. Inr (Some (by_token t)))
     else if has_ssh_auth d then ebind (ssh_cloner E S root path d) (\<lambda>cl. Inr (Some cl))
     else otherwise d)"

definition bbdc_cloner_factory :: "env \<Rightarrow> startup \<Rightarrow> string \<Rightarrow> api_session \<Rightarrow> string \<Rightarrow> bool \<Rightarrow> json \<Rightarrow> exc + cloner option" where
  "bbdc_cloner_factory E S root ses path no_verify c =
     cloner_by_auth E S root path True (\<lambda>t. using_token_auth t no_verify) (\<lambda>d. Inr None) no_verify c"

definition bbc_cloner_factory :: "env \<Rightarrow> startup \<Rightarrow> string \<Rightarrow> api_session \<Rightarrow> string \<Rightarrow> bool \<Rightarrow> json \<Rightarrow> exc + cloner option" where
  "bbc_cloner_factory E S root ses path no_verify c =
     cloner_by_auth E S root path False (\<lambda>t. using_basic_auth E ''x-token-auth'' t no_verify False) (\<lambda>d. Inr None) no_verify c"

definition adoe_cloner_factory :: "env \<Rightarrow> startup \<Rightarrow> string \<Rightarrow> api_session \<Rightarrow> string \<Rightarrow> bool \<Rightarrow> json \<Rightarrow> exc + cloner option" where
  "adoe_cloner_factory E S root ses path no_verify c =
     cloner_by_auth E S root path True (\<lambda>t. using_basic_auth E [] t no_verify True)
       (\<lambda>d. if has_value d ''sp-tenant-id'' \<and> has_value d ''sp-client-secret'' then
              ebind (sp_credentials S root path c) (\<lambda>f. Inr (Some (using_ado_sp_client_secret_auth f no_verify)))
            else Inr None) no_verify c"

definition gh_cloner_factory :: "env \<Rightarrow> startup \<Rightarrow> string \<Rightarrow> api_session \<Rightarrow> string \<Rightarrow> bool \<Rightarrow> json \<Rightarrow> exc + cloner option" where
  "gh_cloner_factory E S root ses path no_verify c =
     cloner_by_auth E S root path True (\<lambda>t. using_basic_auth E ''git'' t no_verify False)
       (\<lambda>d. if ''app-private-key'' \<in> set (dkeys d) then
              ebind (secret_or_fail S root path ''app-private-key'' c) (\<lambda>k.
              Inr (Some (using_github_app_auth (GithubAppAuthFactory k (api_endpoint ses)) no_verify)))
            else Inr None) no_verify c"

definition gl_cloner_factory :: "env \<Rightarrow> startup \<Rightarrow> string \<Rightarrow> api_session \<Rightarrow> string \<Rightarrow> bool \<Rightarrow> json \<Rightarrow> exc + cloner option" where
  "gl_cloner_factory E S root ses path no_verify c =
     cloner_by_auth E S root path True (\<lambda>t. using_basic_auth E ''git'' t no_verify False) (\<lambda>d. Inr None) no_verify c"

definition auth_basic :: "string \<Rightarrow> string \<Rightarrow> auth_factory" where
  "auth_basic u p = StaticAuthFactory (BasicAuth u p)"

definition auth_bearer :: "string \<Rightarrow> auth_factory" where
  "auth_bearer t = StaticAuthFactory (BearerAuth (JStr t))"

definition adoe_api_auth_factory :: "startup \<Rightarrow> string \<Rightarrow> string \<Rightarrow> string \<Rightarrow> json \<Rightarrow> exc + auth_factory" where
  "adoe_api_auth_factory S root url path c =
     ebind (as_dict c) (\<lambda>d.
     if has_token_auth d then ebind (secret_or_fail S root path ''token'' c) (\<lambda>t. Inr (auth_basic [] t))
     else if has_basic_auth d then ebind (basic_credentials S root path c) (\<lambda>(u, p). Inr (auth_basic u p))
     else if has_value d ''sp-tenant-id'' then
       (if has_value d ''sp-client-secret'' then sp_credentials S root path c
        else Inl (ConfigurationException (''Service principal at '' @ path @ '' requires sp-client-secret.'')))
     else Inr NoAuthFactory)"

definition common_api_auth_factory :: "startup \<Rightarrow> string \<Rightarrow> string \<Rightarrow> string \<Rightarrow> json \<Rightarrow> exc + auth_factory" where
  "common_api_auth_factory S root url path c =
     ebind (as_dict c) (\<lambda>d.
     if has_token_auth d then ebind (secret_or_fail S root path ''token'' c) (\<lambda>t. Inr (auth_bearer t))
     else if has_basic_auth d then ebind (basic_credentials S root path c) (\<lambda>(u, p). Inr (auth_basic u p))
     else Inr NoAuthFactory)"

definition github_api_auth_factory :: "startup \<Rightarrow> string \<Rightarrow> string \<Rightarrow> string \<Rightarrow> json \<Rightarrow> exc + auth_factory" where
  "github_api_auth_factory S root url path c =
     ebind (common_api_auth_factory S root url path c) (\<lambda>common.
     ebind (as_dict c) (\<lambda>d.
     if common = NoAuthFactory \<and> has_value d ''app-private-key'' then
       ebind (secret_or_fail S root path ''app-private-key'' c) (\<lambda>k. Inr (GithubAppAuthFactory k url))
     else Inr common))"


section \<open>Sessions, cloners and services\<close>

definition APISession_factory :: "env \<Rightarrow> startup \<Rightarrow> (string \<Rightarrow> string \<Rightarrow> json \<Rightarrow> exc + auth_factory) \<Rightarrow> repo_props \<Rightarrow>
    exc + api_session" where
  "APISession_factory E S auth_fac p =
     ebind (api_url p) (\<lambda>url.
     ebind (value_or_fail (connection_path p) ''api-auth'' (rp_connection p)) (\<lambda>api_auth.
     ebind (auth_fac url (connection_path p) api_auth) (\<lambda>auth.
     ebind (ebind (value_or_default ''timeout-seconds'' (rp_connection p) (JInt 60)) as_int) (\<lambda>timeout.
     ebind (ebind (value_or_default ''retries'' (rp_connection p) (JInt 3)) as_int) (\<lambda>retries.
     ebind (value_or_default ''proxies'' (rp_connection p) JNull) (\<lambda>proxies.
     ebind (props_ssl_verify E S p) (\<lambda>verify'.
     Inr \<lparr> api_endpoint = url, ses_auth = auth, ses_timeout = timeout, ses_retries = retries,
           ses_proxies = proxies, ses_verify = JBool verify' \<rparr>)))))))"

text \<open>The factory gets the root of the secrets in place of the path of the section.\<close>

definition Cloner_factory :: "string \<Rightarrow> (string \<Rightarrow> bool \<Rightarrow> json \<Rightarrow> exc + cloner option) \<Rightarrow> json \<Rightarrow> string \<Rightarrow> bool \<Rightarrow> exc + cloner" where
  "Cloner_factory root scm_cloner_factory clone_auth path no_verify =
     ebind (scm_cloner_factory root no_verify clone_auth) (\<lambda>cl.
     case cl of
       None \<Rightarrow> Inl (ConfigurationException (path @ '' SCM clone authorization configuration is invalid!''))
     | Some x \<Rightarrow> Inr x)"

type_synonym cloner_maker = "api_session \<Rightarrow> string \<Rightarrow> bool \<Rightarrow> json \<Rightarrow> exc + cloner option"
type_synonym auth_maker = "string \<Rightarrow> string \<Rightarrow> json \<Rightarrow> exc + auth_factory"

definition scm_base :: "env \<Rightarrow> startup \<Rightarrow> string \<Rightarrow> cloner_maker \<Rightarrow> repo_props \<Rightarrow> api_session \<Rightarrow> exc + scm_service" where
  "scm_base E S root cloners p ses =
     ebind (props_display_url p) (\<lambda>url.
     ebind (service_moniker p) (\<lambda>mk.
     ebind (ssl_no_verify_git E S p) (\<lambda>no_verify.
     ebind (Cloner_factory root (cloners ses) (rp_clone_auth p) (rp_clone_path p) no_verify) (\<lambda>cl.
     Inr (SCMService E url mk ses (rp_secret p) cl)))))"

definition get_pr_config_dict :: "json \<Rightarrow> exc + json" where
  "get_pr_config_dict repo =
     ebind (value_or_default ''feedback'' repo JNull) (\<lambda>fb.
     if fb \<noteq> JNull then value_or_default ''pull-request'' fb JNull else Inr JNull)"

definition use_policies :: "json \<Rightarrow> exc + bool" where
  "use_policies repo =
     ebind (get_pr_config_dict repo) (\<lambda>pr.
     if pr \<noteq> JNull then ebind (value_or_default ''use-policies'' pr (JBool False)) (\<lambda>v. Inr (truthy v)) else Inr False)"

text \<open>The name of the check, from the options of the SCM.\<close>

definition custom_check_name :: "json \<Rightarrow> string \<Rightarrow> exc + string option" where
  "custom_check_name repo opts_key =
     ebind (get_pr_config_dict repo) (\<lambda>pr.
     if pr = JNull then Inr None
     else
       ebind (value_or_default opts_key pr JNull) (\<lambda>opts.
       if opts = JNull then Inr None else ebind (value_or_default ''check-name'' opts JNull) opt_str))"

definition gh_factory :: "env \<Rightarrow> startup \<Rightarrow> string \<Rightarrow> cloner_maker \<Rightarrow> auth_maker \<Rightarrow> json \<Rightarrow> string \<Rightarrow> exc + scm_service" where
  "gh_factory E S root cloners auths repo path =
     ebind (RepoConfigProps S root repo path) (\<lambda>p.
     ebind (APISession_factory E S auths p) (\<lambda>ses.
     ebind (use_policies repo) (\<lambda>pol.
     if \<not> pol then ebind (scm_base E S root cloners p ses) (\<lambda>scm. Inr (GHServiceBasic E scm))
     else
       ebind (custom_check_name repo ''gh-pr-opts'') (\<lambda>name.
       ebind (ebind (value_or_fail path ''api-auth'' (rp_connection p)) as_dict) (\<lambda>api_auth.
       ebind (scm_base E S root cloners p ses) (\<lambda>scm.
       Inr (if ''app-private-key'' \<in> set (dkeys api_auth) then GHServiceChecks E name scm
            else GHServiceCommitStatus E name scm)))))))"

definition bbdc_factory :: "env \<Rightarrow> startup \<Rightarrow> string \<Rightarrow> cloner_maker \<Rightarrow> auth_maker \<Rightarrow> json \<Rightarrow> string \<Rightarrow> exc + scm_service" where
  "bbdc_factory E S root cloners auths repo path =
     ebind (RepoConfigProps S root repo path) (\<lambda>p.
     ebind (APISession_factory E S auths p) (\<lambda>ses.
     ebind (scm_base E S root cloners p ses) (\<lambda>scm. Inr (BBDCService E scm))))"

definition bbc_factory :: "env \<Rightarrow> startup \<Rightarrow> (string \<Rightarrow> exc + string) \<Rightarrow> string \<Rightarrow> cloner_maker \<Rightarrow> auth_maker \<Rightarrow> json \<Rightarrow> string \<Rightarrow>
    exc + scm_service" where
  "bbc_factory E S links root cloners auths repo path =
     ebind (RepoConfigProps S root repo path) (\<lambda>p.
     ebind (APISession_factory E S auths p) (\<lambda>ses.
     ebind (use_policies repo) (\<lambda>pol.
     if \<not> pol then ebind (scm_base E S root cloners p ses) (\<lambda>scm. Inr (BBCServiceBasic E scm))
     else
       ebind (custom_check_name repo ''bb-pr-opts'') (\<lambda>name.
       ebind (scm_base E S root cloners p ses) (\<lambda>scm. Inr (BBCServiceChecks E links name scm))))))"

definition gl_factory :: "env \<Rightarrow> startup \<Rightarrow> string \<Rightarrow> cloner_maker \<Rightarrow> auth_maker \<Rightarrow> json \<Rightarrow> string \<Rightarrow> exc + scm_service" where
  "gl_factory E S root cloners auths repo path =
     ebind (RepoConfigProps S root repo path) (\<lambda>p.
     ebind (APISession_factory E S auths p) (\<lambda>ses.
     ebind (scm_base E S root cloners p ses) (\<lambda>scm. Inr (GLService E scm))))"

definition adoe_factory :: "env \<Rightarrow> startup \<Rightarrow> string \<Rightarrow> cloner_maker \<Rightarrow> auth_maker \<Rightarrow> json \<Rightarrow> string \<Rightarrow> exc + scm_service" where
  "adoe_factory E S root cloners auths repo path =
     ebind (RepoConfigProps S root repo path) (\<lambda>p.
     ebind (APISession_factory E S auths p) (\<lambda>ses.
     ebind (use_policies repo) (\<lambda>pol.
     if \<not> pol then ebind (scm_base E S root cloners p ses) (\<lambda>scm. Inr (ADOEServiceBasic E scm))
     else
       ebind (get_pr_config_dict repo) (\<lambda>pr.
       ebind (value_or_fail path ''adoe-pr-opts'' pr) (\<lambda>opts.
       ebind (ebind (value_or_fail (path @ ''/adoe-pr-opts'') ''check-name'' opts) as_arg) (\<lambda>name.
       ebind (ebind (value_or_default ''check-genre'' opts JNull) opt_str) (\<lambda>genre.
       ebind (scm_base E S root cloners p ses) (\<lambda>scm.
       Inr (ADOEServiceChecks E \<lparr> chk_name = name, chk_genre = genre \<rparr> scm)))))))))"

text \<open>The table of the factories; the keys are those of the configuration.\<close>

definition scm_keys :: "string list" where
  "scm_keys = [''bbdc'', ''adoe'', ''gh'', ''gl'', ''bbc'']"

definition scm_service_of :: "env \<Rightarrow> startup \<Rightarrow> (string \<Rightarrow> exc + string) \<Rightarrow> string \<Rightarrow> string \<Rightarrow> json \<Rightarrow> string \<Rightarrow> exc + scm_service" where
  "scm_service_of E S links root scm repo path =
     (if scm = ''bbdc'' then bbdc_factory E S root (bbdc_cloner_factory E S root) (common_api_auth_factory S root) repo path
      else if scm = ''adoe'' then adoe_factory E S root (adoe_cloner_factory E S root) (adoe_api_auth_factory S root) repo path
      else if scm = ''gh'' then gh_factory E S root (gh_cloner_factory E S root) (github_api_auth_factory S root) repo path
      else if scm = ''gl'' then gl_factory E S root (gl_cloner_factory E S root) (common_api_auth_factory S root) repo path
      else if scm = ''bbc'' then bbc_factory E S links root (bbc_cloner_factory E S root) (common_api_auth_factory S root) repo path
      else Inl (KeyError scm))"


section \<open>Properties\<close>

text \<open>
  What the rest of the program relies on: the service decorates with nothing but HTTP requests, has
  the moniker of its section and a shared secret that passed the policy.
\<close>

definition well_built :: "scm_service \<Rightarrow> bool" where
  "well_built scm \<longleftrightarrow> http_scm scm \<and> pr_decorator scm \<and> policy_test shared_secret_policy (shared_secret scm)"

text \<open>The services of \<open>scm_services\<close> keep the fields of the base class they extend.\<close>

lemma service_fields:
  "shared_secret (GHServiceBasic E scm) = shared_secret scm" "scm_moniker (GHServiceBasic E scm) = scm_moniker scm"
  "shared_secret (GHServiceCommitStatus E n scm) = shared_secret scm" "scm_moniker (GHServiceCommitStatus E n scm) = scm_moniker scm"
  "shared_secret (GHServiceChecks E n scm) = shared_secret scm" "scm_moniker (GHServiceChecks E n scm) = scm_moniker scm"
  "shared_secret (BBDCService E scm) = shared_secret scm" "scm_moniker (BBDCService E scm) = scm_moniker scm"
  "shared_secret (BBCServiceBasic E scm) = shared_secret scm" "scm_moniker (BBCServiceBasic E scm) = scm_moniker scm"
  "shared_secret (BBCServiceChecks E l n scm) = shared_secret scm" "scm_moniker (BBCServiceChecks E l n scm) = scm_moniker scm"
  "shared_secret (GLService E scm) = shared_secret scm" "scm_moniker (GLService E scm) = scm_moniker scm"
  "shared_secret (ADOEServiceBasic E scm) = shared_secret scm" "scm_moniker (ADOEServiceBasic E scm) = scm_moniker scm"
  "shared_secret (ADOEServiceChecks E k scm) = shared_secret scm" "scm_moniker (ADOEServiceChecks E k scm) = scm_moniker scm"
  by (simp_all add: GHServiceBasic_def GHServiceCommitStatus_def GHServiceChecks_def BBDCService_def BBCServiceBasic_def
      BBCServiceChecks_def GLService_def ADOEServiceBasic_def ADOEServiceChecks_def Let_def)

lemma service_http:
  "http_scm scm \<Longrightarrow> http_scm (GHServiceBasic E scm)" "http_scm scm \<Longrightarrow> http_scm (GHServiceCommitStatus E n scm)"
  "http_scm scm \<Longrightarrow> http_scm (GHServiceChecks E n scm)" "http_scm scm \<Longrightarrow> http_scm (BBDCService E scm)"
  "http_scm scm \<Longrightarrow> http_scm (BBCServiceBasic E scm)" "http_scm scm \<Longrightarrow> http_scm (BBCServiceChecks E l n scm)"
  "http_scm scm \<Longrightarrow> http_scm (GLService E scm)" "http_scm scm \<Longrightarrow> http_scm (ADOEServiceBasic E scm)"
  "http_scm scm \<Longrightarrow> http_scm (ADOEServiceChecks E k scm)"
  by (simp_all add: http_scm_def GHServiceBasic_def GHServiceCommitStatus_def GHServiceChecks_def BBDCService_def
      BBCServiceBasic_def BBCServiceChecks_def GLService_def ADOEServiceBasic_def ADOEServiceChecks_def Let_def)

lemmas services_decorate = decorator_GHServiceBasic decorator_GHServiceCommitStatus decorator_GHServiceChecks
  decorator_GLService decorator_BBDCService decorator_BBCServiceBasic decorator_BBCServiceChecks
  decorator_ADOEServiceBasic decorator_ADOEServiceChecks

lemma props_secret:
  "RepoConfigProps S root repo path = Inr p \<Longrightarrow>
     policy_test shared_secret_policy (rp_secret p) \<and> rp_repo p = repo \<and> rp_path p = path"
  by (auto simp: RepoConfigProps_def ebind_Inr_iff split: if_splits)

lemma well_built_base:
  assumes "RepoConfigProps S root repo path = Inr p" and "scm_base E S root cloners p ses = Inr scm"
  shows "well_built scm" and "service_moniker p = Inr (scm_moniker scm)"
  using assms props_secret [OF assms(1)]
  by (auto simp: scm_base_def ebind_Inr_iff well_built_def on_session) (simp_all add: SCMService_def)

lemma well_built_services:
  assumes "well_built scm"
  shows "well_built (GHServiceBasic E scm)" "well_built (GHServiceCommitStatus E n scm)" "well_built (GHServiceChecks E n scm)"
    "well_built (BBDCService E scm)" "well_built (BBCServiceBasic E scm)" "well_built (BBCServiceChecks E l n scm)"
    "well_built (GLService E scm)" "well_built (ADOEServiceBasic E scm)" "well_built (ADOEServiceChecks E k scm)"
  using assms unfolding well_built_def by (simp_all add: service_fields service_http services_decorate)

text \<open>The classes a factory may choose for a base service.\<close>

definition extends_base :: "env \<Rightarrow> scm_service \<Rightarrow> scm_service \<Rightarrow> bool" where
  "extends_base E base scm \<longleftrightarrow>
     scm \<in> {GHServiceBasic E base, BBDCService E base, BBCServiceBasic E base, GLService E base, ADOEServiceBasic E base}
     \<or> (\<exists>n. scm = GHServiceCommitStatus E n base) \<or> (\<exists>n. scm = GHServiceChecks E n base)
     \<or> (\<exists>l n. scm = BBCServiceChecks E l n base) \<or> (\<exists>k. scm = ADOEServiceChecks E k base)"

lemma factory_extends:
  assumes "scm_service_of E S links root key repo path = Inr scm"
  shows "\<exists>p cloners ses base. RepoConfigProps S root repo path = Inr p
    \<and> scm_base E S root cloners p ses = Inr base \<and> extends_base E base scm"
  using assms unfolding scm_service_of_def extends_base_def
  by (auto simp: gh_factory_def bbdc_factory_def bbc_factory_def gl_factory_def adoe_factory_def ebind_Inr_iff
      split: if_splits) blast+

lemma extends_well_built:
  assumes "extends_base E base scm" and "well_built base"
  shows "well_built scm" and "scm_moniker scm = scm_moniker base"
  using assms well_built_services [OF assms(2)] unfolding extends_base_def by (auto simp: service_fields)

lemma scm_service_built:
  assumes "scm_service_of E S links root key repo path = Inr scm"
  shows "well_built scm" and "ebind (value_or_fail path ''service-name'' repo) as_arg = Inr (scm_moniker scm)"
proof -
  obtain p cloners ses base where p: "RepoConfigProps S root repo path = Inr p"
    and base: "scm_base E S root cloners p ses = Inr base" and ext: "extends_base E base scm"
    using factory_extends [OF assms] by blast
  note built = well_built_base [OF p base]
  show "well_built scm" using extends_well_built(1) [OF ext built(1)] .
  show "ebind (value_or_fail path ''service-name'' repo) as_arg = Inr (scm_moniker scm)"
    using built(2) props_secret [OF p] extends_well_built(2) [OF ext built(1)] by (simp add: service_moniker_def)
qed

end
