(* ===== verification/Conformance.thy ===== *)
theory Conformance
  imports AgentConfig ScmConfig
begin

text \<open>
  The unit tests of the repository (\<open>tests\<close>), evaluated on the model: each lemma has the name of the
  test class or method whose assertions it states.
\<close>


section \<open>\<open>password_strength_test.py\<close>\<close>

definition no_policy :: password_policy where
  "no_policy = \<lparr> pp_length = 0, pp_uppercase = 0, pp_numbers = 0, pp_special = 0 \<rparr>"

lemmas policy_eval = policy_test_def shared_secret_policy_def no_policy_def is_upper_def is_digit_def is_punctuation_def

lemma combo_orders:
  "\<not> policy_test shared_secret_policy (''ABC'' @ ''321'' @ ''!('' @ replicate 11 CHR ''a'')"
  "policy_test shared_secret_policy (replicate 12 CHR ''a'' @ ''ABC'' @ ''321'' @ ''!('')"
  "policy_test shared_secret_policy (''ABC'' @ replicate 12 CHR ''a'' @ ''321'' @ ''!('')"
  "policy_test shared_secret_policy (''ABC'' @ ''321'' @ replicate 12 CHR ''a'' @ ''!('')"
  "policy_test shared_secret_policy (''!('' @ ''ABC'' @ ''321'' @ replicate 12 CHR ''a'')"
  by (simp_all add: policy_eval)

lemma single_rules:
  "\<not> policy_test (no_policy\<lparr> pp_length := 20 \<rparr>) (replicate 19 CHR ''a'')"
  "policy_test (no_policy\<lparr> pp_length := 20 \<rparr>) (replicate 20 CHR ''a'')"
  "policy_test (no_policy\<lparr> pp_length := 20 \<rparr>) (replicate 22 CHR ''a'')"
  "\<not> policy_test (no_policy\<lparr> pp_uppercase := 3 \<rparr>) (''aa'' @ ''AB'')"
  "policy_test (no_policy\<lparr> pp_uppercase := 3 \<rparr>) (replicate 20 CHR ''a'' @ ''BBB'')"
  "policy_test (no_policy\<lparr> pp_uppercase := 3 \<rparr>) (replicate 20 CHR ''a'' @ ''BBBBB'')"
  "\<not> policy_test (no_policy\<lparr> pp_numbers := 3 \<rparr>) (''2'' @ ''aa'' @ ''1'')"
  "policy_test (no_policy\<lparr> pp_numbers := 3 \<rparr>) (''1'' @ replicate 20 CHR ''a'' @ ''09'')"
  "policy_test (no_policy\<lparr> pp_numbers := 3 \<rparr>) (replicate 20 CHR ''a'' @ ''0123456789'')"
  "\<not> policy_test (no_policy\<lparr> pp_special := 3 \<rparr>) (''2'' @ ''aa'' @ ''1'')"
  by (simp_all add: policy_eval)


section \<open>\<open>payload_signatures_test.py\<close>\<close>

lemma header_uses_hash_func:
  "''sha256'' \<in> set av \<Longrightarrow> gen_signature_header E av secret p = Inr (alg, h) \<Longrightarrow>
     gen_signature_hash E av ''sha256'' secret p = Inr h"
  by (auto simp: gen_signature_header_def gen_signature_hash_def)


section \<open>\<open>pr_details_test.py\<close>\<close>

definition test_row :: "ResultSeverity \<Rightarrow> string list \<Rightarrow> (string \<times> string) list \<Rightarrow> detail_row" where
  "test_row sev order kw = \<lparr> row_severity = sev, output_order = order, field_data = map (\<lambda>(k, v). (k, JStr v)) kw \<rparr>"

definition test_rows :: "(detail_row \<Rightarrow> string) \<Rightarrow> detail_row list \<Rightarrow> exc + string" where
  "test_rows key rs =
     ebind (emapM (\<lambda>(k, r). row_str r) (fold (\<lambda>r acc. sorted_add (key r, r) acc) rs [])) (\<lambda>ls. Inr (join [CHR 10] ls))"

lemma row_order:
  "row_str (test_row CRITICAL [''foo'', ''bar''] [(''foo'', ''1''), (''bar'', ''2'')]) = Inr ''| 1 | 2 |''"
  "row_str (test_row CRITICAL [''foo'', ''bar''] [(''bar'', ''2''), (''foo'', ''1'')]) = Inr ''| 1 | 2 |''"
  "row_str (test_row CRITICAL [''foo'', ''bar''] [(''bar'', ''2'')]) = Inl (KeyError ''foo'')"
  by (simp_all add: row_str_def test_row_def dgetE_def)

lemma sort_by_severity:
  "test_rows severity_rank_key
     [test_row INFO [''foo''] [(''foo'', ''0'')], test_row LOW [''foo''] [(''foo'', ''1'')], test_row MEDIUM [''foo''] [(''foo'', ''2'')],
      test_row HIGH [''foo''] [(''foo'', ''3'')], test_row CRITICAL [''foo''] [(''foo'', ''4'')]] =
   Inr (join [CHR 10] [''| 4 |'', ''| 3 |'', ''| 2 |'', ''| 1 |'', ''| 0 |''])"
  by (simp add: test_rows_def test_row_def row_str_def dgetE_def severity_rank_key_def pad3_rank less_char_def)

lemma sort_by_composite_key:
  "test_rows (\<lambda>r. severity_rank_key r @ projr (row_field r ''foo''))
     [test_row CRITICAL [''foo'', ''bar''] [(''foo'', ''2''), (''bar'', ''a'')], test_row CRITICAL [''foo'', ''bar''] [(''foo'', ''1''), (''bar'', ''b'')],
      test_row CRITICAL [''foo'', ''bar''] [(''foo'', ''0''), (''bar'', ''c'')]] =
   Inr (join [CHR 10] [''| 0 | c |'', ''| 1 | b |'', ''| 2 | a |''])"
  by (simp add: test_rows_def test_row_def row_str_def row_field_def dgetE_def severity_rank_key_def pad3_rank less_char_def)


section \<open>\<open>agent_tool_test.py\<close>\<close>

abbreviation plain_opts :: "(string \<Rightarrow> string) dict \<Rightarrow> json dict \<Rightarrow> string list" where
  "plain_opts procs d \<equiv> compile_opts (\<lambda>_. True) procs id d"

lemma option_dashes:
  "plain_opts [] [(''e'', JNull)] = [''-e'']" "plain_opts [] [(''foo'', JNull)] = [''--foo'']"
  "plain_opts [] [(''f'', JStr ''bar'')] = [''-f'', ''bar'']" "plain_opts [] [(''foo'', JStr ''bar'')] = [''--foo'', ''bar'']"
  by simp_all

lemma options_skipped:
  "plain_opts [] [(''f'', JArr [JStr ''bar''])] = []" "plain_opts [] [(''foo'', JArr [JStr ''bar''])] = []"
  "plain_opts [] [([], JStr ''bar'')] = []"
  by simp_all

definition merge_foo :: "(string \<Rightarrow> string) dict" where
  "merge_foo = [(''excludes'', \<lambda>x. ''foo,'' @ x), (''e'', \<lambda>x. ''foo,'' @ x)]"

lemma options_merged:
  "plain_opts merge_foo [(''e'', JStr ''bar'')] = [''-e'', ''foo,bar'']"
  "plain_opts merge_foo [(''excludes'', JStr ''bar'')] = [''--excludes'', ''foo,bar'']"
  "plain_opts merge_foo [(''foo-opt'', JStr ''bar'')] = [''--foo-opt'', ''bar'']"
  by (simp_all add: merge_foo_def)

end
