(* ===== verification/Kickoff.thy ===== *)
theory Kickoff
  imports OrchCommon
begin

text \<open>
  The first scan of a repository on request: \<open>cxoneflow_kickoff_api\<close> (messages, status codes, the
  client), \<open>kickoff_services\<close>, \<open>orchestration/kickoff\<close>, the dispatch of kickoffs and the endpoint
  \<open>__kickoff_impl\<close> of \<open>wsgi.py\<close>.

  The lemmas show that a request without a valid token changes nothing, that the number of scans
  running is respected, which status a request ends with, and how the client backs off.
\<close>


section \<open>Status codes and messages\<close>

datatype ko_status = SCAN_STARTED | SCAN_EXISTS | BAD_REQUEST | NOT_AUTHORIZED | NO_ROUTE | TOO_MANY_SCANS | SERVER_ERROR

fun status_value :: "ko_status \<Rightarrow> int" where
  "status_value SCAN_STARTED = 201"
| "status_value SCAN_EXISTS = 299"
| "status_value BAD_REQUEST = 400"
| "status_value NOT_AUTHORIZED = 401"
| "status_value NO_ROUTE = 403"
| "status_value TOO_MANY_SCANS = 429"
| "status_value SERVER_ERROR = 500"

text \<open>\<open>KickoffStatusCodes(n)\<close>: every other number is a server error.\<close>

definition KickoffStatusCodes :: "int \<Rightarrow> ko_status" where
  "KickoffStatusCodes n =
     (if n = 201 then SCAN_STARTED else if n = 299 then SCAN_EXISTS else if n = 400 then BAD_REQUEST
      else if n = 401 then NOT_AUTHORIZED else if n = 403 then NO_ROUTE else if n = 429 then TOO_MANY_SCANS
      else SERVER_ERROR)"

lemma KickoffStatusCodes_value [simp]: "KickoffStatusCodes (status_value s) = s"
  by (cases s) (simp_all add: KickoffStatusCodes_def)

record executing_scan =
  es_project_name :: json
  es_project_id :: json
  es_scan_id :: json
  es_scan_branch :: json

record ko_response =
  running_scans :: "executing_scan list"
  started_scan :: "executing_scan option"

definition ExecutingScan_to_dict :: "executing_scan \<Rightarrow> json" where
  "ExecutingScan_to_dict s =
     JObj [(''project_name'', es_project_name s), (''project_id'', es_project_id s),
           (''scan_id'', es_scan_id s), (''scan_branch'', es_scan_branch s)]"

definition ExecutingScan_from_dict :: "json \<Rightarrow> exc + executing_scan" where
  "ExecutingScan_from_dict j =
     ebind (jget j ''project_name'') (\<lambda>n. ebind (jget j ''project_id'') (\<lambda>p.
     ebind (jget j ''scan_id'') (\<lambda>s. ebind (jget j ''scan_branch'') (\<lambda>b.
     Inr \<lparr> es_project_name = n, es_project_id = p, es_scan_id = s, es_scan_branch = b \<rparr>))))"

definition KickoffResponseMsg_to_dict :: "ko_response \<Rightarrow> json" where
  "KickoffResponseMsg_to_dict r =
     JObj [(''running_scans'', JArr (map ExecutingScan_to_dict (running_scans r))),
           (''started_scan'', case started_scan r of None \<Rightarrow> JNull | Some s \<Rightarrow> ExecutingScan_to_dict s)]"

definition KickoffResponseMsg_from_dict :: "json \<Rightarrow> exc + ko_response" where
  "KickoffResponseMsg_from_dict j =
     ebind (jget j ''running_scans'') (\<lambda>rs. ebind (as_list rs) (\<lambda>rs.
     ebind (emapM ExecutingScan_from_dict rs) (\<lambda>rs.
     ebind (as_dict j) (\<lambda>d.
     case dget d ''started_scan'' of
       None \<Rightarrow> Inr \<lparr> running_scans = rs, started_scan = None \<rparr>
     | Some v \<Rightarrow>
         if v = JNull then Inr \<lparr> running_scans = rs, started_scan = None \<rparr>
         else ebind (ExecutingScan_from_dict v) (\<lambda>s. Inr \<lparr> running_scans = rs, started_scan = Some s \<rparr>)))))"

text \<open>The messages of the SCMs: common fields and those that name the repository.\<close>

datatype ko_repo =
    GithubKickoff json json
  | AdoKickoff json json json
  | GitlabKickoff json
  | BitbucketDCKickoff json json json
  | BitbucketCloudKickoff json json json json

record ko_msg =
  ko_clone_urls :: json
  ko_branch_name :: json
  ko_sha :: json
  ko_repo :: ko_repo

text \<open>\<open>KickoffMsg(**message)\<close>: every required field is there, and no other but the optional ones.\<close>

definition ko_kwargs :: "string list \<Rightarrow> string list \<Rightarrow> json \<Rightarrow> exc + (string \<Rightarrow> json)" where
  "ko_kwargs required optional m =
     (case m of
        JObj d \<Rightarrow>
          if set required \<subseteq> set (dkeys d) \<and> set (dkeys d) \<subseteq> set required \<union> set optional
          then Inr (\<lambda>k. the (dget d k)) else Inl TypeError
      | _ \<Rightarrow> Inl TypeError)"

definition ko_common :: "string list" where
  "ko_common = [''clone_urls'', ''branch_name'', ''sha'']"

definition ko_msg_of :: "(string \<Rightarrow> json) \<Rightarrow> ko_repo \<Rightarrow> ko_msg" where
  "ko_msg_of kw repo =
     \<lparr> ko_clone_urls = kw ''clone_urls'', ko_branch_name = kw ''branch_name'', ko_sha = kw ''sha'', ko_repo = repo \<rparr>"

definition GithubKickoffMsg :: "json \<Rightarrow> exc + ko_msg" where
  "GithubKickoffMsg m =
     ebind (ko_kwargs (ko_common @ [''repo_organization_name'', ''repo_name'']) [''install_id'', ''app_id''] m) (\<lambda>kw.
     Inr (ko_msg_of kw (GithubKickoff (kw ''repo_organization_name'') (kw ''repo_name''))))"

definition AdoKickoffMsg :: "json \<Rightarrow> exc + ko_msg" where
  "AdoKickoffMsg m =
     ebind (ko_kwargs (ko_common @ [''collection_name'', ''project_name'', ''repo_name'']) [] m) (\<lambda>kw.
     Inr (ko_msg_of kw (AdoKickoff (kw ''collection_name'') (kw ''project_name'') (kw ''repo_name''))))"

definition GitlabKickoffMsg :: "json \<Rightarrow> exc + ko_msg" where
  "GitlabKickoffMsg m =
     ebind (ko_kwargs (ko_common @ [''repo_path_with_namespace'']) [] m) (\<lambda>kw.
     Inr (ko_msg_of kw (GitlabKickoff (kw ''repo_path_with_namespace''))))"

definition BitbucketDCKickoffMsg :: "json \<Rightarrow> exc + ko_msg" where
  "BitbucketDCKickoffMsg m =
     ebind (ko_kwargs (ko_common @ [''repo_name'', ''project_key'', ''project_name'']) [] m) (\<lambda>kw.
     Inr (ko_msg_of kw (BitbucketDCKickoff (kw ''repo_name'') (kw ''project_key'') (kw ''project_name''))))"

definition BitbucketCloudKickoffMsg :: "json \<Rightarrow> exc + ko_msg" where
  "BitbucketCloudKickoffMsg m =
     ebind (ko_kwargs (ko_common @ [''repo_name'', ''project_key'', ''project_name'', ''workspace_name'']) [] m) (\<lambda>kw.
     Inr (ko_msg_of kw (BitbucketCloudKickoff (kw ''repo_name'') (kw ''project_key'') (kw ''project_name'') (kw ''workspace_name''))))"

fun get_signature_alg :: "key_class \<Rightarrow> exc + string" where
  "get_signature_alg EllipticCurveKey = Inr ''ES256''"
| "get_signature_alg RSAKey = Inr ''RS256''"
| "get_signature_alg Ed25519Key = Inr ''EdDSA''"
| "get_signature_alg OtherKey = Inl KickoffClientException"


section \<open>The kickoff service\<close>

definition ko_tag_key :: string where
  "ko_tag_key = ''kickoff''"

fun max_concurrent_scans :: "kickoff_service \<Rightarrow> exc + int" where
  "max_concurrent_scans (KickoffService key mk n) = Inr n"
| "max_concurrent_scans DummyKickoffService = Inl (AttributeError ''__max_scans'')"

fun scan_tag_dict :: "kickoff_service \<Rightarrow> exc + json dict" where
  "scan_tag_dict (KickoffService key mk n) = Inr [(ko_tag_key, JStr mk)]"
| "scan_tag_dict DummyKickoffService = Inl (AttributeError ''__moniker'')"

text \<open>The checks of a decoded token: it must not be \<open>None\<close>, and not have expired.\<close>

definition jwt_live :: "env \<Rightarrow> string \<Rightarrow> string \<Rightarrow> bool cio" where
  "jwt_live E key token =
     bnd (lift (ebind (get_signature_alg (key_class_of E key)) (jwt_decode E token key))) (\<lambda>payload.
     if payload = JNull then ret False
     else bnd (clock E) (\<lambda>t. bnd (lift (ebind (jget payload ''exp'') as_int)) (\<lambda>x. ret (t < x))))"

fun validate_jwt :: "env \<Rightarrow> kickoff_service \<Rightarrow> string option \<Rightarrow> bool cio" where
  "validate_jwt E DummyKickoffService token = ret False"
| "validate_jwt E (KickoffService key mk n) None = ret False"
| "validate_jwt E (KickoffService key mk n) (Some token) =
     catch (jwt_live E key token) (\<lambda>e. if is_Exception e then Some (ret False) else None)"

fun one_scan_exists_on_branch :: "env \<Rightarrow> kickoff_service \<Rightarrow> string \<Rightarrow> json \<Rightarrow> bool cio" where
  "one_scan_exists_on_branch E DummyKickoffService project branch = raise (AttributeError ''__client'')"
| "one_scan_exists_on_branch E (KickoffService key mk n) project branch =
     bnd (cxapi E ''retrieve_list_of_scans''
            (JObj [(''branch'', branch), (''project_names'', JStr project), (''limit'', JInt 1),
                   (''statuses'', JArr [JStr ''Running'', JStr ''Queued'', JStr ''Completed''])])) (\<lambda>r.
     bnd (lift (ebind (json_on_ok r) as_dict)) (\<lambda>d.
     case dget d ''scans'' of
       None \<Rightarrow> ret False
     | Some s \<Rightarrow> bnd (lift (as_list s)) (\<lambda>l. ret (l \<noteq> []))))"

text \<open>One page item as an executing scan; an item may itself be an error of the SDK.\<close>

definition ko_scan_of :: "(json \<Rightarrow> exc + json) \<Rightarrow> exc + json \<Rightarrow> exc + executing_scan" where
  "ko_scan_of name item =
     ebind item (\<lambda>scan. ebind (name scan) (\<lambda>n. ebind (jget scan ''projectId'') (\<lambda>p. ebind (jget scan ''id'') (\<lambda>i.
     ebind (jget scan ''branch'') (\<lambda>b.
     Inr \<lparr> es_project_name = n, es_project_id = p, es_scan_id = i, es_scan_branch = b \<rparr>)))))"

fun get_completed_ko_scans_by_project :: "env \<Rightarrow> kickoff_service \<Rightarrow> string \<Rightarrow> executing_scan list cio" where
  "get_completed_ko_scans_by_project E DummyKickoffService project = raise TypeError"
| "get_completed_ko_scans_by_project E (KickoffService key mk n) project =
     bnd (cxpages E ''retrieve_list_of_scans''
            (JObj [(''project_names'', JStr project), (''tags_keys'', JStr ko_tag_key), (''tags_values'', JStr mk),
                   (''statuses'', JArr [JStr ''Running'', JStr ''Queued'', JStr ''Completed''])])) (\<lambda>items.
     lift (emapM (ko_scan_of (\<lambda>_. Inr (JStr project))) items))"

fun get_running_ko_scans :: "env \<Rightarrow> kickoff_service \<Rightarrow> executing_scan list cio" where
  "get_running_ko_scans E DummyKickoffService = raise TypeError"
| "get_running_ko_scans E (KickoffService key mk n) =
     bnd (cxpages E ''retrieve_list_of_scans''
            (JObj [(''tags_keys'', JStr ko_tag_key), (''tags_values'', JStr mk),
                   (''statuses'', JArr [JStr ''Running'', JStr ''Queued''])])) (\<lambda>items.
     lift (emapM (ko_scan_of (\<lambda>scan. jget scan ''projectName'')) items))"


section \<open>Kickoff orchestrators\<close>

definition normalize_http_clone_url :: "env \<Rightarrow> ko_repo \<Rightarrow> string \<Rightarrow> exc + string" where
  "normalize_http_clone_url E repo url =
     (case repo of BitbucketCloudKickoff _ _ _ _ \<Rightarrow> remove_auth_from_url E url | _ \<Rightarrow> Inr url)"

definition ko_add_clone_url :: "env \<Rightarrow> ko_repo \<Rightarrow> json \<Rightarrow> json dict \<Rightarrow> exc + json dict" where
  "ko_add_clone_url E repo j urls =
     ebind (as_arg j) (\<lambda>url.
     if startswith url ''http'' then ebind (normalize_http_clone_url E repo url) (\<lambda>u. Inr (dset ''http'' (JStr u) urls))
     else Inr (dset ''ssh'' (JStr url) urls))"

record kickoff =
  k_ctx :: event_context
  k_msg :: ko_msg
  k_clone_urls :: "json dict"
  k_route_urls :: "json list"

definition KickoffOrchestrator :: "env \<Rightarrow> ko_msg \<Rightarrow> event_context \<Rightarrow> exc + kickoff" where
  "KickoffOrchestrator E msg ctx =
     ebind (as_list (ko_clone_urls msg)) (\<lambda>urls.
     ebind (efoldM (ko_add_clone_url E (ko_repo msg)) urls []) (\<lambda>clones.
     Inr \<lparr> k_ctx = ctx, k_msg = msg, k_clone_urls = clones, k_route_urls = urls \<rparr>))"

definition ko_config_key :: "ko_repo \<Rightarrow> string" where
  "ko_config_key repo = (case repo of GithubKickoff _ _ \<Rightarrow> ''gh'' | AdoKickoff _ _ _ \<Rightarrow> ''adoe'' | GitlabKickoff _ \<Rightarrow> ''gl''
     | BitbucketDCKickoff _ _ _ \<Rightarrow> ''bbdc'' | BitbucketCloudKickoff _ _ _ _ \<Rightarrow> ''bbc'')"

definition ko_class :: "ko_repo \<Rightarrow> string" where
  "ko_class repo = (case repo of
       GithubKickoff _ _ \<Rightarrow> ''orchestration.kickoff.gh.GithubKickoffOrchestrator''
     | AdoKickoff _ _ _ \<Rightarrow> ''orchestration.kickoff.adoe.AzureDevOpsKickoffOrchestrator''
     | GitlabKickoff _ \<Rightarrow> ''orchestration.kickoff.gl.GitlabKickoffOrchestrator''
     | BitbucketDCKickoff _ _ _ \<Rightarrow> ''orchestration.kickoff.bitbucket.bbdc.BitBucketDataCenterKickoffOrchestrator''
     | BitbucketCloudKickoff _ _ _ _ \<Rightarrow> ''orchestration.kickoff.bitbucket.bbc.BitBucketCloudKickoffOrchestrator'')"

definition ko_repo_project_key :: "ko_repo \<Rightarrow> json" where
  "ko_repo_project_key repo = (case repo of GithubKickoff org name \<Rightarrow> name | AdoKickoff coll proj name \<Rightarrow> proj
     | GitlabKickoff path \<Rightarrow> path | BitbucketDCKickoff name key proj \<Rightarrow> key | BitbucketCloudKickoff name key proj ws \<Rightarrow> key)"

definition ko_repo_organization :: "ko_repo \<Rightarrow> exc + json" where
  "ko_repo_organization repo = (case repo of GithubKickoff org name \<Rightarrow> Inr org | AdoKickoff coll proj name \<Rightarrow> Inr coll
     | GitlabKickoff path \<Rightarrow> ebind (as_str path) (\<lambda>p. Inr (JStr (join ''/'' (butlast (split_on CHR ''/'' p)))))
     | BitbucketDCKickoff name key proj \<Rightarrow> Inr key | BitbucketCloudKickoff name key proj ws \<Rightarrow> Inr ws)"

definition ko_repo_slug :: "ko_repo \<Rightarrow> json" where
  "ko_repo_slug repo = (case repo of GithubKickoff org name \<Rightarrow> name | AdoKickoff coll proj name \<Rightarrow> name
     | GitlabKickoff path \<Rightarrow> path | BitbucketDCKickoff name key proj \<Rightarrow> name | BitbucketCloudKickoff name key proj ws \<Rightarrow> name)"

text \<open>The project name of GitLab is the path itself, whatever its type; the others are formatted.\<close>

definition ko_default_name :: "env \<Rightarrow> ko_repo \<Rightarrow> string" where
  "ko_default_name E repo = (case repo of
       GithubKickoff org name \<Rightarrow> gh_create_project_name E org name
     | AdoKickoff coll proj name \<Rightarrow> ado_create_project_name E coll proj name
     | GitlabKickoff path \<Rightarrow> gl_create_project_name (pstr E path)
     | BitbucketDCKickoff name key proj \<Rightarrow> bbdc_create_project_name E key proj name
     | BitbucketCloudKickoff name key proj ws \<Rightarrow> bbc_create_project_name E ws key proj name)"

definition ko_repo_clone_url :: "kickoff \<Rightarrow> cloner \<Rightarrow> exc + json" where
  "ko_repo_clone_url k c =
     url_for_cloner (k_clone_urls k) c"

text \<open>Only the branch of the request counts as protected; it is normalised there, and only there.\<close>

definition ko_orch :: "env \<Rightarrow> kickoff \<Rightarrow> orch" where
  "ko_orch E k = (let m = k_msg k; repo = ko_repo m in
     \<lparr> o_class = ko_class repo, o_config_key = ko_config_key repo, o_event_context = k_ctx k, o_delegated_scan = False,
       o_protected_branches = (\<lambda>_. bnd (lift (normalize_json_branch (ko_branch_name m))) (\<lambda>b. ret [b])),
       o_target_branch_and_hash = ret (ko_branch_name m, ko_sha m),
       o_source_branch_and_hash = ret (ko_branch_name m, ko_sha m),
       o_clone_url = ko_repo_clone_url k, o_default_project_name = ret (ko_default_name E repo),
       o_pr_id = Inl (NotImplementedError ''_pr_id''), o_pr_state = Inl (NotImplementedError ''_pr_state''),
       o_pr_status = Inl (NotImplementedError ''_pr_status''),
       o_repo_project_key = Inr (ko_repo_project_key repo), o_repo_organization = ko_repo_organization repo,
       o_repo_slug = Inr (ko_repo_slug repo) \<rparr>)"

definition get_auth_bearer_token :: "string dict \<Rightarrow> exc + string option" where
  "get_auth_bearer_token hdrs =
     (case dget hdrs ''Authorization'' of
        None \<Rightarrow> Inr None
      | Some h \<Rightarrow> (let content = split_on CHR '' '' h in
          if to_lower (hd content) = ''bearer'' then ebind (first (tl content)) (\<lambda>t. Inr (Some t)) else Inr None))"

definition valid_bearer_token :: "env \<Rightarrow> kickoff \<Rightarrow> kickoff_service \<Rightarrow> bool cio" where
  "valid_bearer_token E k svc =
     bnd (lift (get_auth_bearer_token (headers (k_ctx k)))) (\<lambda>t. validate_jwt E svc t)"

text \<open>The checks and the scan; a scan that was skipped or delegated has no inspector to report.\<close>

definition ko_scan :: "env \<Rightarrow> kickoff \<Rightarrow> services \<Rightarrow> executing_scan list \<Rightarrow> (bool \<times> executing_scan) cio" where
  "ko_scan E k sv running =
     bnd (get_project_name (sv_naming sv) (ko_default_name E (ko_repo (k_msg k))) (k_ctx k)) (\<lambda>project.
     bnd (one_scan_exists_on_branch E (sv_kickoff sv) project (ko_branch_name (k_msg k))) (\<lambda>exists.
     if exists then raise KickoffScanExistsException
     else
       bnd (lift (max_concurrent_scans (sv_kickoff sv))) (\<lambda>mx.
       if int (length running) \<ge> mx then raise TooManyRunningScansException
       else
         bnd (get_completed_ko_scans_by_project E (sv_kickoff sv) project) (\<lambda>completed.
         if completed \<noteq> [] then raise KickoffScanExistsException
         else
           bnd (lift (scan_tag_dict (sv_kickoff sv))) (\<lambda>tags.
           bnd (execute_push_scan_workflow E (ko_orch E k) sv tags) (\<lambda>(ins, action).
           case ins of
             None \<Rightarrow> raise (AttributeError ''project_id'')
           | Some i \<Rightarrow>
               ret (action = EXECUTING,
                    \<lparr> es_project_name = JStr project, es_project_id = JStr (ins_project_id i),
                      es_scan_id = JStr (ins_scan_id i), es_scan_branch = ko_branch_name (k_msg k) \<rparr>)))))))"

text \<open>
  \<open>execute\<close> with the attributes it leaves behind: the scans running before, and the scan started.
\<close>

definition ko_execute :: "env \<Rightarrow> kickoff \<Rightarrow> services \<Rightarrow> ((exc + bool) \<times> ko_response) cio" where
  "ko_execute E k sv =
     bnd (attempt (get_running_ko_scans E (sv_kickoff sv))) (\<lambda>r.
     case r of
       Inl e \<Rightarrow> ret (Inl e, \<lparr> running_scans = [], started_scan = None \<rparr>)
     | Inr running \<Rightarrow>
         bnd (attempt (ko_scan E k sv running)) (\<lambda>r2.
         case r2 of
           Inl e \<Rightarrow> ret (Inl e, \<lparr> running_scans = running, started_scan = None \<rparr>)
         | Inr (b, s) \<Rightarrow> ret (Inr b, \<lparr> running_scans = running, started_scan = Some s \<rparr>)))"

definition execute_kickoff :: "env \<Rightarrow> scm_routes \<Rightarrow> kickoff \<Rightarrow> ((exc + bool) \<times> ko_response) cio" where
  "execute_kickoff E cfg k =
     bnd (lift (ebind (retrieve_services_by_route E cfg (k_route_urls k) (ko_config_key (ko_repo (k_msg k)))) need)) (\<lambda>sv.
     bnd (valid_bearer_token E k (sv_kickoff sv)) (\<lambda>valid.
     if \<not> valid then raise NotAuthorizedException else ko_execute E k sv))"

text \<open>\<open>__kickoff_impl\<close>: the status and body of the answer; other exceptions go on to Flask.\<close>

definition kickoff_answer :: "(exc + bool) \<times> ko_response \<Rightarrow> exc + ko_status \<times> json option" where
  "kickoff_answer = (\<lambda>(outcome, left).
     let running = KickoffResponseMsg_to_dict (left\<lparr> started_scan := None \<rparr>) in
     case outcome of
       Inr started \<Rightarrow>
         if started then Inr (SCAN_STARTED, Some (KickoffResponseMsg_to_dict left)) else Inr (BAD_REQUEST, None)
     | Inl e \<Rightarrow>
         if e = KickoffScanExistsException then Inr (SCAN_EXISTS, Some running)
         else if e = TooManyRunningScansException then Inr (TOO_MANY_SCANS, Some running)
         else if e = RouteNotFoundException then Inr (NO_ROUTE, None)
         else if e = NotAuthorizedException then Inr (NOT_AUTHORIZED, None)
         else Inl e)"

definition kickoff_impl :: "env \<Rightarrow> scm_routes \<Rightarrow> kickoff \<Rightarrow> (ko_status \<times> json option) cio" where
  "kickoff_impl E cfg k =
     bnd (attempt (execute_kickoff E cfg k)) (\<lambda>r.
     lift (kickoff_answer (case r of Inl e \<Rightarrow> (Inl e, \<lparr> running_scans = [], started_scan = None \<rparr>) | Inr x \<Rightarrow> x)))"


section \<open>The client\<close>

text \<open>
  The client keeps its token and when it expires; its effects run over that state. Fields of the
  client that only travel with the request are part of the arguments of the call.
\<close>

type_synonym 'a kio = "(event, (string \<times> int) option, 'a) io"

record ko_client =
  kc_key :: string
  kc_url :: string
  kc_user_agent :: string
  kc_proxies :: json
  kc_ssl_verify :: json

definition jwt_timeout :: int where "jwt_timeout = 600"
definition jwt_jitter :: int where "jwt_jitter = 60"
definition sleep_seconds :: int where "sleep_seconds = 15"
definition sleep_max_seconds :: int where "sleep_max_seconds = 180"

definition ko_renew :: "env \<Rightarrow> ko_client \<Rightarrow> int \<Rightarrow> string kio" where
  "ko_renew E c t =
     bnd (lift (get_signature_alg (key_class_of E (kc_key c)))) (\<lambda>alg.
     let x = t + jwt_timeout;
         tok = jwt_encode_alg E (JObj [(''exp'', JInt x), (''alg'', JStr alg)]) (kc_key c) alg
     in bnd (modify (\<lambda>_. Some (tok, x))) (\<lambda>_. ret tok))"

definition get_jwt :: "env \<Rightarrow> ko_client \<Rightarrow> bool \<Rightarrow> string kio" where
  "get_jwt E c force =
     bnd (gets id) (\<lambda>cur. bnd (reading (now E)) (\<lambda>t.
     case (if force then None else cur) of
       Some (tok, x) \<Rightarrow> if t \<ge> x - jwt_jitter then ko_renew E c t else ret tok
     | None \<Rightarrow> ko_renew E c t))"

definition ko_post :: "env \<Rightarrow> ko_client \<Rightarrow> json \<Rightarrow> string \<Rightarrow> response kio" where
  "ko_post E c msg tok =
     (let a = JObj [(''json'', msg),
                    (''headers'', JObj [(''Authorization'', JStr (''Bearer '' @ tok)), (''User-Agent'', JStr (kc_user_agent c))]),
                    (''proxies'', kc_proxies c), (''verify'', kc_ssl_verify c)]
      in call (Http ''POST'' (kc_url c) a) (\<lambda>tr. http E tr ''POST'' (kc_url c) a))"

text \<open>\<open>__execute_request\<close>: one more try with a new token after a 401; the second answer is final.\<close>

definition execute_request :: "env \<Rightarrow> ko_client \<Rightarrow> json \<Rightarrow> response kio" where
  "execute_request E c msg =
     bnd (get_jwt E c False) (\<lambda>tok. bnd (ko_post E c msg tok) (\<lambda>resp.
     if status_code resp = 401 then bnd (get_jwt E c True) (\<lambda>tok2. ko_post E c msg tok2) else ret resp))"

definition ko_decode :: "response \<Rightarrow> exc + ko_response option" where
  "ko_decode resp =
     (if ok resp \<or> KickoffStatusCodes (status_code resp) \<in> {SCAN_EXISTS, TOO_MANY_SCANS}
      then ebind (KickoffResponseMsg_from_dict (body resp)) (\<lambda>m. Inr (Some m)) else Inr None)"

text \<open>
  The loop of \<open>kickoff_scan\<close>. The callback of the caller decides whether to go on waiting; it may
  keep state of its own, so it sees the calls made so far.
\<close>

fun kickoff_scan :: "env \<Rightarrow> ko_client \<Rightarrow> json \<Rightarrow> (trace \<Rightarrow> ko_status \<Rightarrow> ko_response option \<Rightarrow> int \<Rightarrow> bool) option \<Rightarrow>
    int \<Rightarrow> nat \<Rightarrow> (ko_status \<times> ko_response option) kio" where
  "kickoff_scan E c msg cb cur_delay 0 = raise Diverges"
| "kickoff_scan E c msg cb cur_delay (Suc n) =
     bnd (execute_request E c msg) (\<lambda>resp.
     let st = KickoffStatusCodes (status_code resp) in
     bnd (lift (ko_decode resp)) (\<lambda>m.
     if st \<in> {SCAN_STARTED, SCAN_EXISTS} then ret (st, m)
     else if st = TOO_MANY_SCANS then
       bnd (reading (\<lambda>tr. case cb of None \<Rightarrow> True | Some f \<Rightarrow> f tr st m cur_delay)) (\<lambda>go_on.
       if \<not> go_on then ret (st, m)
       else
         bnd (call (Sleep cur_delay) (\<lambda>_. Inr ())) (\<lambda>_.
         kickoff_scan E c msg cb (min sleep_max_seconds (cur_delay + sleep_seconds)) n))
     else raise KickoffClientException))"


section \<open>Properties\<close>

interpretation ko_template: scm_orchestrator "ko_orch E k" for E k
  by unfold_locales (auto simp: ko_orch_def Let_def intro!: emits_rules)

lemma ExecutingScan_round_trip [simp]: "ExecutingScan_from_dict (ExecutingScan_to_dict s) = Inr s"
  by (simp add: ExecutingScan_from_dict_def ExecutingScan_to_dict_def)

lemma ExecutingScan_not_null [simp]: "ExecutingScan_to_dict s \<noteq> JNull"
  by (simp add: ExecutingScan_to_dict_def)

lemma ExecutingScans_round_trip [simp]: "emapM ExecutingScan_from_dict (map ExecutingScan_to_dict xs) = Inr xs"
  by (induction xs) auto

lemma KickoffResponseMsg_round_trip: "KickoffResponseMsg_from_dict (KickoffResponseMsg_to_dict r) = Inr r"
  by (cases r, cases "started_scan r")
    (auto simp: KickoffResponseMsg_from_dict_def KickoffResponseMsg_to_dict_def)

lemma validate_jwt_pure: "\<exists>r. validate_jwt E svc t (tr, m) = (r, tr, m)"
  by (cases "(E, svc, t)" rule: validate_jwt.cases)
    (auto simp: jwt_live_def catch_app bnd_app clock_def split: sum.splits if_splits option.splits)

lemma valid_bearer_pure: "\<exists>r. valid_bearer_token E k svc (tr, m) = (r, tr, m)"
  using validate_jwt_pure by (auto simp: valid_bearer_token_def bnd_app split: sum.splits)

text \<open>Nothing happens without a route and a valid token for its services.\<close>

lemma kickoff_authorized:
  assumes "kickoff_impl E cfg k (tr, m) = (r, tr', m')" and "(tr', m') \<noteq> (tr, m)"
  shows "\<exists>sv. retrieve_services_by_route E cfg (k_route_urls k) (ko_config_key (ko_repo (k_msg k))) = Inr (Some sv)
    \<and> valid_bearer_token E k (sv_kickoff sv) (tr, m) = (Inr True, tr, m)"
proof (rule ccontr)
  assume no: "\<not> ?thesis"
  have "\<exists>e. execute_kickoff E cfg k (tr, m) = (Inl e, tr, m)"
  proof (cases "ebind (retrieve_services_by_route E cfg (k_route_urls k) (ko_config_key (ko_repo (k_msg k)))) need")
    case (Inl e)
    then show ?thesis by (simp add: execute_kickoff_def)
  next
    case (Inr sv)
    then have "retrieve_services_by_route E cfg (k_route_urls k) (ko_config_key (ko_repo (k_msg k))) = Inr (Some sv)"
      by (auto simp: ebind_Inr_iff need_def split: option.splits)
    with no have "valid_bearer_token E k (sv_kickoff sv) (tr, m) \<noteq> (Inr True, tr, m)" by blast
    moreover obtain r where "valid_bearer_token E k (sv_kickoff sv) (tr, m) = (r, tr, m)" using valid_bearer_pure by blast
    ultimately show ?thesis using Inr by (cases r) (auto simp: execute_kickoff_def bnd_app)
  qed
  then obtain e where "execute_kickoff E cfg k (tr, m) = (Inl e, tr, m)" by blast
  then have "\<exists>r. kickoff_impl E cfg k (tr, m) = (r, tr, m)"
    by (auto simp: kickoff_impl_def bnd_app attempt_app)
  with assms show False by auto
qed

lemma dummy_kickoff_refused:
  assumes "retrieve_services_by_route E cfg (k_route_urls k) (ko_config_key (ko_repo (k_msg k))) = Inr (Some sv)"
    and "sv_kickoff sv = DummyKickoffService" and "get_auth_bearer_token (headers (k_ctx k)) = Inr t"
  shows "kickoff_impl E cfg k (tr, m) = (Inr (NOT_AUTHORIZED, None), tr, m)"
  using assms
  by (simp add: kickoff_impl_def kickoff_answer_def execute_kickoff_def need_def valid_bearer_token_def bnd_app attempt_app)

text \<open>What a scan that was started tells about the checks before it.\<close>

lemma ko_before:
  assumes "emits (\<lambda>e. \<not> starts_scan e) m" and "\<And>x. does (k x) (\<lambda>r ev. R r (scans_in ev))"
  shows "does (bnd m k) (\<lambda>r ev. R r (scans_in ev))"
proof (rule does_bnd [OF does_emits [OF assms(1), of "\<lambda>_ ev. scans_in ev = 0"]])
  fix x ev assume "scans_in ev = 0"
  then show "does (k x) (\<lambda>r ev2. R r (scans_in (ev @ ev2)))" by (simp add: does_mono [OF assms(2)])
qed (rule no_scans)

lemma emits_naming_ko: "emits (\<lambda>e. \<not> starts_scan e) (get_project_name nm d ctx)"
  by (rule ko_template.emits_naming)

lemma emits_one_scan: "emits (\<lambda>e. \<not> starts_scan e) (one_scan_exists_on_branch E svc p b)"
  by (cases svc) (auto intro!: emits_rules simp: starts_scan_def)

lemma emits_completed: "emits (\<lambda>e. \<not> starts_scan e) (get_completed_ko_scans_by_project E svc p)"
  by (cases svc) (auto intro!: emits_rules simp: starts_scan_def)

lemma emits_running: "emits (\<lambda>e. \<not> starts_scan e) (get_running_ko_scans E svc)"
  by (cases svc) (auto intro!: emits_rules simp: starts_scan_def)

lemma ko_scan_one:
  assumes "http_scm (sv_scm sv)" and "sdk_raises_own E"
  shows "does (ko_scan E k sv running) (\<lambda>(b, s) ev. b \<and> scans_in ev = 1
     \<and> (\<exists>mx. max_concurrent_scans (sv_kickoff sv) = Inr mx \<and> int (length running) < mx))"
proof -
  let ?R = "\<lambda>(r :: bool \<times> executing_scan) n. fst r \<and> n = (1 :: nat)"
  have scan: "does (bnd (execute_push_scan_workflow E (ko_orch E k) sv tags) (\<lambda>(ins, action).
           case ins of
             None \<Rightarrow> raise (AttributeError ''project_id'')
           | Some i \<Rightarrow> ret (action = EXECUTING, f i))) (\<lambda>r ev. ?R r (scans_in ev))" for tags f
    by (rule does_bnd [OF ko_template.push_scan_accounted [OF assms]])
      (auto simp: accounted_def split: option.splits prod.splits intro!: does_raise does_ret)
  have rest: "does (bnd (get_completed_ko_scans_by_project E (sv_kickoff sv) project) (\<lambda>completed.
         if completed \<noteq> [] then raise KickoffScanExistsException
         else bnd (lift (scan_tag_dict (sv_kickoff sv))) (\<lambda>tags.
           bnd (execute_push_scan_workflow E (ko_orch E k) sv tags) (\<lambda>(ins, action).
           case ins of
             None \<Rightarrow> raise (AttributeError ''project_id'')
           | Some i \<Rightarrow> ret (action = EXECUTING, f i))))) (\<lambda>r ev. ?R r (scans_in ev))" for project f
    by (intro ko_before [where R = ?R] does_if does_raise emits_lift emits_completed scan)
  show ?thesis
  proof (cases "max_concurrent_scans (sv_kickoff sv)")
    case (Inl e)
    have "does (ko_scan E k sv running) (\<lambda>r ev. False)"
      unfolding ko_scan_def Inl
      by (auto simp: does_def bnd_Inr_iff split: if_splits)
    then show ?thesis by (rule does_mono) simp
  next
    case (Inr mx)
    let ?Q = "\<lambda>(r :: bool \<times> executing_scan) n. ?R r n \<and> int (length running) < mx"
    have "does (ko_scan E k sv running) (\<lambda>r ev. ?Q r (scans_in ev))"
      unfolding ko_scan_def Inr lift_simps bnd_ret
      by (rule ko_before [where R = ?Q, OF emits_naming_ko], rule ko_before [where R = ?Q, OF emits_one_scan],
          rule does_if, rule does_raise, rule does_if, rule does_raise, rule does_mono [OF rest], simp)
    then show ?thesis by (rule does_mono) (auto simp: Inr)
  qed
qed

lemma emits_ko_scan:
  assumes "http_scm (sv_scm sv)" and "sdk_raises_own E"
  shows "emits (\<lambda>_. True) (ko_scan E k sv running)"
  unfolding ko_scan_def
  by (intro emits_rules ko_template.emits_push_scan assms emits_mono [OF emits_naming_ko] emits_mono [OF emits_one_scan]
      emits_mono [OF emits_completed] TrueI)

lemma kickoff_answer_started:
  "kickoff_answer x = Inr (SCAN_STARTED, reply) \<longleftrightarrow>
     fst x = Inr True \<and> reply = Some (KickoffResponseMsg_to_dict (snd x))"
  by (auto simp: kickoff_answer_def Let_def split: prod.splits sum.splits if_splits)

text \<open>How the execution ends, with the services it ran on.\<close>

definition ko_outcome :: "services \<Rightarrow> (exc + bool) \<times> ko_response \<Rightarrow> nat \<Rightarrow> bool" where
  "ko_outcome sv r n = (case r of (outcome, left) \<Rightarrow> \<forall>b. outcome = Inr b \<longrightarrow>
     b \<and> n = 1 \<and> started_scan left \<noteq> None
     \<and> (\<exists>mx. max_concurrent_scans (sv_kickoff sv) = Inr mx \<and> int (length (running_scans left)) < mx))"

lemma none_outcome [simp]: "ko_outcome sv (Inl e, left) n"
  by (simp add: ko_outcome_def)

lemma ko_execute_outcome:
  assumes "http_scm (sv_scm sv)" and "sdk_raises_own E"
  shows "does (ko_execute E k sv) (\<lambda>r ev. ko_outcome sv r (scans_in ev))"
proof -
  have scan: "does (bnd (attempt (ko_scan E k sv running)) (\<lambda>r2.
         case r2 of
           Inl e \<Rightarrow> ret (Inl e, \<lparr> running_scans = running, started_scan = None \<rparr>)
         | Inr (b, s) \<Rightarrow> ret (Inr b, \<lparr> running_scans = running, started_scan = Some s \<rparr>)))
       (\<lambda>r ev. ko_outcome sv r (scans_in ev))" for running
  proof (rule does_bnd [OF does_attempt_ok [OF emits_ko_scan [OF assms] ko_scan_one [OF assms]]])
    fix r :: "exc + bool \<times> executing_scan" and ev
    assume ok: "\<forall>x. r = Inr x \<longrightarrow> (case x of (b, s) \<Rightarrow> \<lambda>ev. b \<and> scans_in ev = 1
       \<and> (\<exists>mx. max_concurrent_scans (sv_kickoff sv) = Inr mx \<and> int (length running) < mx)) ev"
    show "does (case r of
           Inl e \<Rightarrow> ret (Inl e, \<lparr> running_scans = running, started_scan = None \<rparr>)
         | Inr (b, s) \<Rightarrow> ret (Inr b, \<lparr> running_scans = running, started_scan = Some s \<rparr>))
       (\<lambda>r ev2. ko_outcome sv r (scans_in (ev @ ev2)))"
    proof (cases r)
      case (Inl e)
      then show ?thesis by (simp add: ko_outcome_def does_ret)
    next
      case (Inr x)
      then show ?thesis using ok by (cases x) (simp add: ko_outcome_def does_ret)
    qed
  qed
  show ?thesis
    unfolding ko_execute_def
    by (rule ko_before [where R = "ko_outcome sv"], intro emits_rules emits_running)
      (use scan in \<open>auto split: sum.splits intro!: does_ret simp: none_outcome\<close>)
qed

lemma at_most_attempt: "at_most n m \<Longrightarrow> at_most n (attempt m)"
  unfolding at_most_def by (rule ends_attempt) (erule ends_mono, simp)

lemma ko_execute_capped:
  assumes "http_scm (sv_scm sv)" and "sdk_raises_own E"
  shows "at_most 1 (ko_execute E k sv)"
proof -
  have push: "at_most 1 (bnd (execute_push_scan_workflow E (ko_orch E k) sv tags) (\<lambda>(ins, action).
      case ins of None \<Rightarrow> raise (AttributeError ''project_id'') | Some i \<Rightarrow> ret (f i action)))"
    for tags and f :: "inspector \<Rightarrow> ScanAction \<Rightarrow> bool \<times> executing_scan"
    by (rule at_most_after [OF ko_template.push_scan_capped [OF assms]]) (auto intro!: emits_rules split: option.splits)
  have "at_most 1 (ko_scan E k sv running)" for running
    unfolding ko_scan_def
    by (intro at_most_before [OF emits_naming_ko] at_most_before [OF emits_one_scan] at_most_before [OF emits_completed]
        at_most_before [OF emits_lift] at_most_if at_most_simple push)
  then have scan: "at_most 1 (bnd (attempt (ko_scan E k sv running)) (\<lambda>r2.
         case r2 of
           Inl e \<Rightarrow> ret (Inl e, \<lparr> running_scans = running, started_scan = None \<rparr>)
         | Inr (b, s) \<Rightarrow> ret (Inr b, \<lparr> running_scans = running, started_scan = Some s \<rparr>)))" for running
    by (intro at_most_after [OF at_most_attempt]) (auto intro!: emits_rules split: sum.splits)
  show ?thesis
    unfolding ko_execute_def
    by (rule at_most_before, intro emits_rules emits_running) (auto split: sum.splits intro!: at_most_simple scan [unfolded One_nat_def])
qed

lemma kickoff_capped:
  assumes scms: "\<And>rs e. dget cfg (ko_config_key (ko_repo (k_msg k))) = Some rs \<Longrightarrow> e \<in> set rs \<Longrightarrow> http_scm (sv_scm (route_services e))"
    and "sdk_raises_own E"
  shows "at_most 1 (kickoff_impl E cfg k)"
proof -
  have bearer: "emits (\<lambda>e. \<not> starts_scan e) (valid_bearer_token E k svc)" for svc
    using valid_bearer_pure [of E k svc] by (intro emitsI) (metis append_Nil2 fst_conv list.pred_inject(1) snd_conv)
  have "at_most 1 (execute_kickoff E cfg k)"
  proof (cases "retrieve_services_by_route E cfg (k_route_urls k) (ko_config_key (ko_repo (k_msg k)))")
    case (Inr svo)
    show ?thesis
    proof (cases svo)
      case (Some sv)
      then have "http_scm (sv_scm sv)" using retrieve_services_routed [of E cfg] Inr scms by blast
      then show ?thesis
        unfolding execute_kickoff_def Inr Some
        by (simp add: need_def del: One_nat_def)
          (intro at_most_before [OF bearer] at_most_if at_most_simple ko_execute_capped assms(2))
    qed (simp add: execute_kickoff_def need_def Inr at_most_simple)
  qed (simp add: execute_kickoff_def at_most_simple)
  then show ?thesis
    unfolding kickoff_impl_def by (intro at_most_after [OF at_most_attempt] emits_lift)
qed

lemma kickoff_started:
  assumes scms: "\<And>rs e. dget cfg (ko_config_key (ko_repo (k_msg k))) = Some rs \<Longrightarrow> e \<in> set rs \<Longrightarrow> http_scm (sv_scm (route_services e))"
    and "sdk_raises_own E"
    and run: "kickoff_impl E cfg k (tr, m) = (Inr (SCAN_STARTED, reply), tr', m')"
  shows "\<exists>ev sv mx left. tr' = tr @ ev \<and> scans_in ev = 1
    \<and> retrieve_services_by_route E cfg (k_route_urls k) (ko_config_key (ko_repo (k_msg k))) = Inr (Some sv)
    \<and> max_concurrent_scans (sv_kickoff sv) = Inr mx \<and> int (length (running_scans left)) < mx
    \<and> started_scan left \<noteq> None \<and> reply = Some (KickoffResponseMsg_to_dict left)"
proof -
  from run obtain r where att: "attempt (execute_kickoff E cfg k) (tr, m) = (Inr r, tr', m')"
    and ans: "kickoff_answer (case r of Inl e \<Rightarrow> (Inl e, \<lparr> running_scans = [], started_scan = None \<rparr>) | Inr x \<Rightarrow> x)
      = Inr (SCAN_STARTED, reply)"
    by (auto simp: kickoff_impl_def bnd_Inr_iff)
  from ans obtain left where r: "r = Inr (Inr True, left)" and reply: "reply = Some (KickoffResponseMsg_to_dict left)"
    by (cases r) (auto simp: kickoff_answer_started)
  from att r have ex: "execute_kickoff E cfg k (tr, m) = (Inr (Inr True, left), tr', m')"
    by (auto simp: attempt_app split: prod.splits if_splits)
  from ex obtain sv where sv: "retrieve_services_by_route E cfg (k_route_urls k) (ko_config_key (ko_repo (k_msg k))) = Inr (Some sv)"
    and "bnd (valid_bearer_token E k (sv_kickoff sv)) (\<lambda>valid.
       if \<not> valid then raise NotAuthorizedException else ko_execute E k sv) (tr, m) = (Inr (Inr True, left), tr', m')"
    by (auto simp: execute_kickoff_def bnd_Inr_iff ebind_Inr_iff need_def split: option.splits)
  then have run: "ko_execute E k sv (tr, m) = (Inr (Inr True, left), tr', m')"
    using valid_bearer_pure [of E k "sv_kickoff sv" tr m] by (auto simp: bnd_Inr_iff split: if_splits)
  have "http_scm (sv_scm sv)"
    using retrieve_services_routed [OF sv] scms by blast
  from doesD [OF ko_execute_outcome [OF this assms(2)] run] show ?thesis
    using sv reply by (auto simp: ko_outcome_def)
qed

text \<open>A branch that is not in its short form is refused only after the checks: no scan, no answer.\<close>

lemma normalized_or_unprotected:
  assumes "ko_branch_name (k_msg k) = JStr b" and "normalize_branch_name b \<noteq> b"
    and "sdk_raises_own E" and "http_scm (sv_scm sv)"
  shows "does (orchestrate_scan E (ko_orch E k) sv tags flow) (\<lambda>r ev. r = (None, SKIPPED))"
  using assms
  unfolding orchestrate_scan_def does_def
  by (auto simp: ko_orch_def Let_def bnd_Inr_iff normalize_json_branch_def split: if_splits)

text \<open>A token the client sends is good for more than the jitter.\<close>

lemma get_jwt_fresh:
  assumes "get_jwt E c force (tr, m) = (Inr tok, tr', m')"
  shows "tr' = tr \<and> (\<exists>x. m' = Some (tok, x) \<and> now E tr < x - jwt_jitter)"
  using assms
  by (auto simp: get_jwt_def ko_renew_def bnd_Inr_iff Let_def jwt_timeout_def jwt_jitter_def
      split: option.splits prod.splits if_splits)

text \<open>The delays of the loop grow by the step up to the maximum.\<close>

fun delays :: "int \<Rightarrow> nat \<Rightarrow> int list" where
  "delays d 0 = []"
| "delays d (Suc k) = d # delays (min sleep_max_seconds (d + sleep_seconds)) k"

fun sleeps :: "event list \<Rightarrow> int list" where
  "sleeps [] = []"
| "sleeps (Sleep d # ev) = d # sleeps ev"
| "sleeps (_ # ev) = sleeps ev"

lemma sleeps_append [simp]: "sleeps (a @ b) = sleeps a @ sleeps b"
  by (induction a rule: sleeps.induct) auto

lemma length_delays [simp]: "length (delays d k) = k"
  by (induction k arbitrary: d) auto

lemma delays_none [simp]: "\<exists>k. [] = delays d k"
  by (rule exI [of _ 0]) simp

lemma delays_nth:
  "i < k \<Longrightarrow> d \<le> sleep_max_seconds \<Longrightarrow> delays d k ! i = min sleep_max_seconds (d + sleep_seconds * int i)"
proof (induction k arbitrary: d i)
  case (Suc k)
  then show ?case by (cases i) (auto simp: sleep_max_seconds_def sleep_seconds_def min_def)
qed simp

lemma ends_request: "ends (execute_request E c msg) (\<lambda>r ev. sleeps ev = [] \<and> length ev \<le> 2)"
  unfolding ends_def execute_request_def get_jwt_def ko_renew_def ko_post_def Let_def
  by (auto simp: bnd_app split: sum.splits option.splits prod.splits if_splits)

lemma kickoff_scan_delays: "ends (kickoff_scan E c msg cb d n) (\<lambda>r ev. \<exists>k. sleeps ev = delays d k)"
proof (induction n arbitrary: d)
  case 0
  show ?case by (auto intro!: ends_raise exI [of _ 0])
next
  case (Suc n)
  have wait: "ends (bnd (reading (\<lambda>tr. case cb of None \<Rightarrow> True | Some f \<Rightarrow> f tr st m d)) (\<lambda>go_on.
       if \<not> go_on then ret (st, m)
       else bnd (call (Sleep d) (\<lambda>_. Inr ())) (\<lambda>_.
         kickoff_scan E c msg cb (min sleep_max_seconds (d + sleep_seconds)) n))) (\<lambda>r ev. \<exists>k. sleeps ev = delays d k)" for st m
  proof (rule ends_bnd [where Q = "\<lambda>_ ev. ev = []"])
    show "ends (reading (\<lambda>tr. case cb of None \<Rightarrow> True | Some f \<Rightarrow> f tr st m d)) (\<lambda>_ ev. ev = [])" by (simp add: ends_def)
    have "ends (bnd (call (Sleep d) (\<lambda>_. Inr ())) (\<lambda>_.
         kickoff_scan E c msg cb (min sleep_max_seconds (d + sleep_seconds)) n)) (\<lambda>r ev. \<exists>k. sleeps ev = delays d k)"
      by (rule ends_bnd [where Q = "\<lambda>r ev. ev = [Sleep d] \<and> r = Inr ()"])
        (auto simp: ends_def dest!: endsD [OF Suc.IH], metis delays.simps(2))
    then show "ends (if \<not> x then ret (st, m) else bnd (call (Sleep d) (\<lambda>_. Inr ())) (\<lambda>_.
         kickoff_scan E c msg cb (min sleep_max_seconds (d + sleep_seconds)) n))
        (\<lambda>r ev2. \<exists>k. sleeps (ev @ ev2) = delays d k)" if "ev = []" for x ev
      using that by (auto intro!: ends_ret exI [of _ 0])
  qed simp
  show ?case
    unfolding kickoff_scan.simps Let_def
  proof (rule ends_bnd [OF ends_request])
    fix e ev assume "sleeps ev = [] \<and> length ev \<le> 2"
    then show "\<exists>k. sleeps ev = delays d k" by (auto intro: exI [of _ 0])
  next
    fix resp :: response and ev assume q: "sleeps ev = [] \<and> length ev \<le> 2"
    let ?st = "KickoffStatusCodes (status_code resp)"
    show "ends (bnd (lift (ko_decode resp)) (\<lambda>m.
       if ?st \<in> {SCAN_STARTED, SCAN_EXISTS} then ret (?st, m)
       else if ?st = TOO_MANY_SCANS then
         bnd (reading (\<lambda>tr. case cb of None \<Rightarrow> True | Some f \<Rightarrow> f tr ?st m d)) (\<lambda>go_on.
         if \<not> go_on then ret (?st, m)
         else bnd (call (Sleep d) (\<lambda>_. Inr ())) (\<lambda>_.
           kickoff_scan E c msg cb (min sleep_max_seconds (d + sleep_seconds)) n))
       else raise KickoffClientException)) (\<lambda>r ev2. \<exists>k. sleeps (ev @ ev2) = delays d k)"
      using q wait
      by (cases "ko_decode resp") (auto intro!: ends_ret ends_raise exI [of _ 0])
  qed
qed

text \<open>
  The client stops: with a callback that gives up after at most \<open>k\<close> delays, fuel for one more
  request than that is enough.
\<close>

lemma ebind_no_div: "m \<noteq> Inl Diverges \<Longrightarrow> (\<And>x. k x \<noteq> Inl Diverges) \<Longrightarrow> ebind m k \<noteq> Inl Diverges"
  by (cases m) auto

lemma jget_no_div: "jget j k \<noteq> Inl Diverges"
  by (cases "(j, k)" rule: jget.cases) (auto split: option.splits)

lemma emapM_no_div: "(\<And>x. f x \<noteq> Inl Diverges) \<Longrightarrow> emapM f xs \<noteq> Inl Diverges"
  by (induction xs) (auto simp: ebind_Inl_iff)

lemma ExecutingScan_no_div: "ExecutingScan_from_dict j \<noteq> Inl Diverges"
  unfolding ExecutingScan_from_dict_def by (intro ebind_no_div jget_no_div) simp

lemma ko_decode_no_div: "ko_decode resp \<noteq> Inl Diverges"
proof -
  have "as_list j \<noteq> Inl Diverges" "as_dict j \<noteq> Inl Diverges" for j by (cases j; simp)+
  then have "KickoffResponseMsg_from_dict j \<noteq> Inl Diverges" for j
    unfolding KickoffResponseMsg_from_dict_def
    by (auto simp: ebind_Inl_iff jget_no_div emapM_no_div ExecutingScan_no_div split: option.splits if_splits)
  then show ?thesis by (auto simp: ko_decode_def ebind_Inl_iff)
qed

lemma request_no_div: "fst (execute_request E c msg w) \<noteq> Inl Diverges"
proof -
  have alg: "get_signature_alg k \<noteq> Inl Diverges" for k by (cases k) auto
  have post: "fst (ko_post E c msg tok w) \<noteq> Inl Diverges" for tok w
    by (cases w) (simp add: ko_post_def Let_def)
  have jwt: "get_jwt E c f w \<noteq> (Inl Diverges, w')" for f w w'
    using alg by (cases w) (auto simp: get_jwt_def ko_renew_def bnd_app Let_def split: option.splits sum.splits prod.splits)
  show ?thesis
    unfolding execute_request_def
  proof (rule bnd_no_div [OF jwt], rule bnd_no_div)
    fix tok w w' show "ko_post E c msg tok w \<noteq> (Inl Diverges, w')" using post [of tok w] by auto
  next
    fix resp w1
    have "fst (bnd (get_jwt E c True) (ko_post E c msg) w1) \<noteq> Inl Diverges"
      by (rule bnd_no_div [OF jwt post])
    then show "fst ((if status_code resp = 401 then bnd (get_jwt E c True) (\<lambda>tok2. ko_post E c msg tok2) else ret resp) w1)
       \<noteq> Inl Diverges" by (simp add: ret_def)
  qed
qed

definition gives_up :: "(trace \<Rightarrow> ko_status \<Rightarrow> ko_response option \<Rightarrow> int \<Rightarrow> bool) \<Rightarrow> nat \<Rightarrow> bool" where
  "gives_up f k \<longleftrightarrow> (\<forall>tr st m d. k \<le> length (sleeps tr) \<longrightarrow> \<not> f tr st m d)"

lemma kickoff_scan_ends:
  assumes "gives_up f k"
  shows "k \<le> length (sleeps tr) + n \<Longrightarrow> fst (kickoff_scan E c msg (Some f) d (Suc n) (tr, s)) \<noteq> Inl Diverges"
proof (induction n arbitrary: d tr s)
  case 0
  show ?case
    unfolding kickoff_scan.simps Let_def
  proof (rule bnd_no_div)
    fix resp w1 assume r: "execute_request E c msg (tr, s) = (Inr resp, w1)"
    obtain tr1 s1 where w1: "w1 = (tr1, s1)" by (cases w1)
    from endsD [OF ends_request r [unfolded w1]] have "length (sleeps tr1) = length (sleeps tr)" by auto
    then have stop: "\<not> f tr1 st m d" for st m using assms 0 by (simp add: gives_up_def)
    show "fst (bnd (lift (ko_decode resp)) (\<lambda>m.
        if KickoffStatusCodes (status_code resp) \<in> {SCAN_STARTED, SCAN_EXISTS} then ret (KickoffStatusCodes (status_code resp), m)
        else if KickoffStatusCodes (status_code resp) = TOO_MANY_SCANS then
          bnd (reading (\<lambda>tr. case Some f of None \<Rightarrow> True | Some f \<Rightarrow> f tr (KickoffStatusCodes (status_code resp)) m d)) (\<lambda>go_on.
          if \<not> go_on then ret (KickoffStatusCodes (status_code resp), m)
          else bnd (call (Sleep d) (\<lambda>_. Inr ())) (\<lambda>_.
            raise Diverges))
        else raise KickoffClientException) w1) \<noteq> Inl Diverges"
      using ko_decode_no_div [of resp] stop by (cases "ko_decode resp") (auto simp: w1 bnd_app)
  qed (metis request_no_div fst_conv)
next
  case (Suc n)
  show ?case
    unfolding kickoff_scan.simps(2) [of E c msg "Some f" d "Suc n"] Let_def
  proof (rule bnd_no_div)
    fix resp w1 assume r: "execute_request E c msg (tr, s) = (Inr resp, w1)"
    obtain tr1 s1 where w1: "w1 = (tr1, s1)" by (cases w1)
    from endsD [OF ends_request r [unfolded w1]] have len: "length (sleeps tr1) = length (sleeps tr)" by auto
    have go: "fst (kickoff_scan E c msg (Some f) d' (Suc n) (tr1 @ [Sleep d], s1)) \<noteq> Inl Diverges" for d'
      by (rule Suc.IH) (use Suc.prems len in simp)
    show "fst (bnd (lift (ko_decode resp)) (\<lambda>m.
        if KickoffStatusCodes (status_code resp) \<in> {SCAN_STARTED, SCAN_EXISTS} then ret (KickoffStatusCodes (status_code resp), m)
        else if KickoffStatusCodes (status_code resp) = TOO_MANY_SCANS then
          bnd (reading (\<lambda>tr. case Some f of None \<Rightarrow> True | Some f \<Rightarrow> f tr (KickoffStatusCodes (status_code resp)) m d)) (\<lambda>go_on.
          if \<not> go_on then ret (KickoffStatusCodes (status_code resp), m)
          else bnd (call (Sleep d) (\<lambda>_. Inr ())) (\<lambda>_.
            kickoff_scan E c msg (Some f) (min sleep_max_seconds (d + sleep_seconds)) (Suc n)))
        else raise KickoffClientException) w1) \<noteq> Inl Diverges"
      using ko_decode_no_div [of resp] go by (cases "ko_decode resp") (auto simp: w1 bnd_app simp del: kickoff_scan.simps)
  qed (metis request_no_div fst_conv)
qed


end
