(* ===== verification/ServerConfig.thy ===== *)
theory ServerConfig
  imports ScmConfig Agents Kickoff
begin

text \<open>
  \<open>CxOneFlowConfig\<close> of \<open>config/server/__init__.py\<close>: from the YAML document to the services by moniker
  and the routes of each SCM. The lemmas show that what \<open>bootstrap\<close> returns is well formed: it gives
  the properties of the services that the other theories take as hypotheses.
\<close>


section \<open>Feedback services\<close>

definition DEFAULT_MAX_POLL_INT_SECS :: int where "DEFAULT_MAX_POLL_INT_SECS = 600"
definition DEFAULT_POLL_INTERVAL_SECS :: int where "DEFAULT_POLL_INTERVAL_SECS = 60"
definition DEFAULT_POLL_BACKOFF_SCALAR :: int where "DEFAULT_POLL_BACKOFF_SCALAR = 2"
definition DEFAULT_SCAN_TIMEOUT_HOURS :: int where "DEFAULT_SCAN_TIMEOUT_HOURS = 48"
definition DEFAULT_SCAN_RETRIES :: int where "DEFAULT_SCAN_RETRIES = 3"
definition DEFAULT_SCAN_TIMEOUT :: int where "DEFAULT_SCAN_TIMEOUT = 10800"

text \<open>An enumeration is read from a list of values; a value it does not have is reported.\<close>

definition enum_list :: "(json \<Rightarrow> exc + 'a) \<Rightarrow> string \<Rightarrow> json \<Rightarrow> exc + 'a list" where
  "enum_list of_json path v =
     (case ebind (py_iter v) (emapM of_json) of
        Inl ValueError \<Rightarrow> Inl (ConfigurationException path)
      | r \<Rightarrow> r)"

definition no_kwargs :: "json \<Rightarrow> bool" where
  "no_kwargs kw \<longleftrightarrow> kw = JObj []"

definition disabled_pr_workflow :: pr_workflow where
  "disabled_pr_workflow = \<lparr> prw_excluded_severities = [], prw_excluded_states = [], prw_enabled = False,
     prw_interval = 60, prw_scan_timeout = 48 \<rparr>"

definition monitor_int :: "string \<Rightarrow> json \<Rightarrow> int \<Rightarrow> exc + int" where
  "monitor_int key monitor dflt = ebind (value_or_default key monitor (JInt dflt)) py_int"

definition pr_feedback_service_factory :: "env \<Rightarrow> startup \<Rightarrow> string \<Rightarrow> string \<Rightarrow> string \<Rightarrow> string \<Rightarrow> json \<Rightarrow>
    exc + pr_service \<times> amqp_settings" where
  "pr_feedback_service_factory E S root base_url path mk kw =
     (if no_kwargs kw then
        Inr (\<lparr> prs_moniker = mk, prs_server_base_url = base_url, prs_workflow = disabled_pr_workflow \<rparr>, default_amqp)
      else
        ebind (value_or_default ''pull-request'' kw (JObj [])) (\<lambda>pr.
        ebind (value_or_default ''scan-monitor'' kw (JObj [])) (\<lambda>monitor.
        ebind (value_or_default ''exclusions'' kw (JObj [])) (\<lambda>excl.
        ebind (ebind (value_or_default ''state'' excl (JArr [])) (enum_list ResultStates_of (path @ ''/exclusions/state''))) (\<lambda>states.
        ebind (ebind (value_or_default ''severity'' excl (JArr []))
          (enum_list ResultSeverity_of (path @ ''/exclusions/severity''))) (\<lambda>sevs.
        ebind (value_or_default ''enabled'' pr (JBool False)) (\<lambda>enabled.
        ebind (monitor_int ''poll-interval-seconds'' monitor DEFAULT_POLL_INTERVAL_SECS) (\<lambda>interval.
        ebind (monitor_int ''scan-timeout-hours'' monitor DEFAULT_SCAN_TIMEOUT_HOURS) (\<lambda>timeout.
        ebind (load_amqp_settings E S root path kw) (\<lambda>amqp.
        Inr (\<lparr> prs_moniker = mk, prs_server_base_url = base_url,
               prs_workflow = \<lparr> prw_excluded_severities = sevs, prw_excluded_states = states, prw_enabled = truthy enabled,
                                prw_interval = interval, prw_scan_timeout = timeout \<rparr> \<rparr>, amqp)))))))))))"

text \<open>
  \<open>__sarif_ReportOpts_factory\<close>: without options the defaults of the package. With options
  \<open>make_dataclass\<close> makes a class whose fields have the names of the keys, and no values.
\<close>

definition sarif_ReportOpts_factory :: "startup \<Rightarrow> json \<Rightarrow> exc + json" where
  "sarif_ReportOpts_factory S opts =
     (if opts = JNull then Inr (JObj (st_sarif_opts S))
      else ebind (as_mapping opts) (\<lambda>d. Inr (JArr (map JStr (dkeys (dmerge (st_sarif_opts S) d))))))"

definition disabled_push_service :: "string \<Rightarrow> push_service" where
  "disabled_push_service mk = \<lparr> pss_moniker = mk, pss_agents = [], pss_sarif_opts = JNull,
     pss_workflow = \<lparr> psw_enabled = False, psw_interval = 60, psw_scan_timeout = 48 \<rparr> \<rparr>"

definition amqp_agent :: "env \<Rightarrow> startup \<Rightarrow> string \<Rightarrow> string \<Rightarrow> string \<Rightarrow> json \<Rightarrow> exc + delivery_agent list" where
  "amqp_agent E S root path mk via =
     (if via = JNull then Inr []
      else ebind (as_dict via) (\<lambda>d.
        if ''amqp'' \<notin> set (dkeys d) then Inl (missing_key_path (path @ ''/via-amqp/amqp''))
        else
          ebind (ebind (value_or_fail (path @ ''/via-amqp'') ''exchange'' via) as_arg) (\<lambda>exchange.
          ebind (ebind (value_or_default ''topic-prefix'' via JNull) opt_str) (\<lambda>prefix.
          ebind (ebind (value_or_default ''topic-suffix'' via JNull) opt_str) (\<lambda>suffix.
          ebind (secret_or_fail S root (path @ ''/via-amqp'') ''shared-secret'' via) (\<lambda>secret.
          ebind (load_amqp_settings E S root path via) (\<lambda>_.
          Inr [AmqpDeliveryAgent mk secret exchange prefix suffix])))))))"

definition http_agent :: "startup \<Rightarrow> string \<Rightarrow> string \<Rightarrow> json \<Rightarrow> exc + delivery_agent" where
  "http_agent S root path c =
     ebind (secret_or_fail S root path ''shared-secret'' c) (\<lambda>secret.
     ebind (ebind (value_or_fail path ''endpoint-url'' c) as_arg) (\<lambda>url.
     ebind (ebind (value_or_default ''delivery-retries'' c (JInt 2)) as_int) (\<lambda>retries.
     ebind (ebind (value_or_default ''delivery-retry-delay-seconds'' c (JInt 60)) as_int) (\<lambda>delay.
     ebind (value_or_default ''proxies'' c JNull) (\<lambda>proxies.
     ebind (value_or_default ''ssl-verify'' c (JBool True)) (\<lambda>ssl_verify.
     Inr (HttpDeliveryAgent secret url retries delay proxies ssl_verify)))))))"

definition http_agents :: "startup \<Rightarrow> string \<Rightarrow> string \<Rightarrow> json \<Rightarrow> exc + delivery_agent list" where
  "http_agents S root path via =
     (case via of
        JNull \<Rightarrow> Inr []
      | JArr cs \<Rightarrow> emapM (\<lambda>(i, c). http_agent S root (path @ ''/via-http-post['' @ dec (int i) @ '']'') c) (enumerate 0 cs)
      | _ \<Rightarrow> Inl (ConfigurationException (''The value configured at '' @ path @ ''/via-http-post'' @ '' is invalid.'')))"

definition push_feedback_service_factory :: "env \<Rightarrow> startup \<Rightarrow> string \<Rightarrow> string \<Rightarrow> string \<Rightarrow> json \<Rightarrow>
    exc + push_service \<times> amqp_settings" where
  "push_feedback_service_factory E S root path mk kw =
     ebind (as_dict kw) (\<lambda>d.
     case dget d ''push'' of
       None \<Rightarrow> Inr (disabled_push_service mk, default_amqp)
     | Some push \<Rightarrow>
         ebind (value_or_default ''enabled'' push (JBool False)) (\<lambda>enabled.
         if \<not> truthy enabled then Inr (disabled_push_service mk, default_amqp)
         else
           ebind (value_or_default ''scan-monitor'' kw (JObj [])) (\<lambda>monitor.
           ebind (value_or_default ''sarif-opts'' push JNull) (\<lambda>opts.
           ebind (value_or_default ''via-amqp'' push JNull) (\<lambda>via_amqp.
           ebind (value_or_default ''via-http-post'' push JNull) (\<lambda>via_http.
           if via_amqp = JNull \<and> via_http = JNull then Inl (missing_at_least_one E path [''via-amqp'', ''via-http''])
           else
             ebind (amqp_agent E S root path mk via_amqp) (\<lambda>agents1.
             ebind (http_agents S root path via_http) (\<lambda>agents2.
             ebind (sarif_ReportOpts_factory S opts) (\<lambda>sarif.
             ebind (monitor_int ''poll-interval-seconds'' monitor DEFAULT_POLL_INTERVAL_SECS) (\<lambda>interval.
             ebind (monitor_int ''scan-timeout-hours'' monitor DEFAULT_SCAN_TIMEOUT_HOURS) (\<lambda>timeout.
             ebind (load_amqp_settings E S root path kw) (\<lambda>amqp.
             Inr (\<lparr> pss_moniker = mk, pss_agents = agents1 @ agents2, pss_sarif_opts = sarif,
                    pss_workflow = \<lparr> psw_enabled = truthy enabled, psw_interval = interval,
                                     psw_scan_timeout = timeout \<rparr> \<rparr>, amqp)))))))))))))"

definition polling_service_factory :: "env \<Rightarrow> startup \<Rightarrow> string \<Rightarrow> string \<Rightarrow> json \<Rightarrow> exc + poll_service \<times> amqp_settings" where
  "polling_service_factory E S root path kw =
     (if no_kwargs kw then
        Inr (configured_poll E DEFAULT_MAX_POLL_INT_SECS DEFAULT_POLL_BACKOFF_SCALAR, default_amqp)
      else
        ebind (value_or_default ''scan-monitor'' kw (JObj [])) (\<lambda>monitor.
        ebind (ebind (value_or_default ''poll-max-interval-seconds'' monitor (JInt DEFAULT_MAX_POLL_INT_SECS)) as_int) (\<lambda>mx.
        ebind (ebind (value_or_default ''poll-backoff-multiplier'' monitor (JInt DEFAULT_POLL_BACKOFF_SCALAR)) as_int) (\<lambda>scalar.
        ebind (load_amqp_settings E S root path kw) (\<lambda>amqp.
        Inr (configured_poll E mx scalar, amqp))))))"


section \<open>Delegated scans and kickoff\<close>

text \<open>The service without a configuration has no tag key; it is never asked for it.\<close>

definition resolver_service_factory :: "env \<Rightarrow> startup \<Rightarrow> string \<Rightarrow> string \<Rightarrow> string \<Rightarrow> json \<Rightarrow>
    exc + resolver_service \<times> amqp_settings" where
  "resolver_service_factory E S root path mk kw =
     (if no_kwargs kw then
        ebind (ResolverScanService mk DummyResolverScanningWorkflow None [] None) (\<lambda>svc. Inr (svc, default_amqp))
      else
        ebind (secret_or_fail S root path ''private-key'' kw) (\<lambda>key.
        ebind (value_or_default ''capture-resolver-logs'' kw (JBool False)) (\<lambda>capture.
        ebind (ebind (value_or_default ''default-agent-tag'' kw JNull) opt_str) (\<lambda>def_tag.
        ebind (ebind (value_or_default ''resolver-tag-key'' kw (JStr ''resolver'')) as_arg) (\<lambda>tag_key.
        ebind (ebind (ebind (value_or_default ''allowed-agent-tags'' kw (JArr [])) py_iter) (emapM as_arg)) (\<lambda>tags.
        let tag_list = list_set E tags in
        if (case def_tag of None \<Rightarrow> False | Some t \<Rightarrow> t \<notin> set tag_list)
        then Inl (missing_keys E (path @ ''/allowed-agent-tags'') [case def_tag of None \<Rightarrow> [] | Some t \<Rightarrow> t])
        else
          ebind (load_amqp_settings E S root path kw) (\<lambda>amqp.
          ebind (ebind (value_or_default ''scan-retries'' kw (JInt DEFAULT_SCAN_RETRIES)) as_int) (\<lambda>retries.
          ebind (ebind (value_or_default ''scan-timeout-seconds'' kw (JInt DEFAULT_SCAN_TIMEOUT)) as_int) (\<lambda>timeout.
          ebind (st_private_key S key) (\<lambda>signer.
          ebind (ResolverScanService mk (from_private_key (truthy capture) signer retries timeout) def_tag tag_key (Some tag_list)) (\<lambda>svc.
          Inr (svc, amqp))))))))))))"

definition kickoff_service_factory :: "env \<Rightarrow> startup \<Rightarrow> string \<Rightarrow> json \<Rightarrow> string \<Rightarrow> string \<Rightarrow> exc + kickoff_service" where
  "kickoff_service_factory E S root c path mk =
     (if c = JNull then Inr DummyKickoffService
      else
        ebind (ebind (value_or_default ''max-concurrent-scans'' c (JInt 3)) py_int) (\<lambda>n.
        ebind (secret_or_fail S root path ''ssh-public-key'' c) (\<lambda>txt.
        ebind (st_ssh_key S txt) (\<lambda>key.
        ebind (get_signature_alg (key_class_of E key)) (\<lambda>_.
        Inr (KickoffService key mk (max (min 10 n) 1)))))))"


section \<open>Naming and groups\<close>

definition setup_naming :: "startup \<Rightarrow> string \<Rightarrow> json \<Rightarrow> exc + naming \<times> bool" where
  "setup_naming S path c =
     (if c = JNull then Inr (\<lparr> naming_coro = None \<rparr>, False)
      else
        ebind (ebind (value_or_fail path ''module'' c) as_arg) (\<lambda>name.
        case st_module S name of
          Inl e \<Rightarrow>
            if e = LibException ''ModuleNotFoundError''
            then Inl (ConfigurationException (''Error loading module '' @ name @ '' at '' @ path @ ''.'')) else Inl e
        | Inr f \<Rightarrow> ebind (value_or_default ''update-name'' c (JBool False)) (\<lambda>u. Inr (\<lparr> naming_coro = Some f \<rparr>, truthy u))))"

definition group_rule :: "startup \<Rightarrow> string \<Rightarrow> nat \<times> json \<Rightarrow> route list \<Rightarrow> exc + route list" where
  "group_rule S path = (\<lambda>(i, assign) routes.
     let p = path @ ''/group-assignments['' @ dec (int i) @ '']'' in
     ebind (ebind (value_or_fail p ''repo-match'' assign) as_arg) (\<lambda>regex.
     ebind (ebind (ebind (value_or_fail p ''groups'' assign) py_iter) (emapM as_str)) (\<lambda>groups.
     if st_regex_valid S regex then Inr (add_assignment_rule routes regex groups) else Inl (LibException ''re.error''))))"

definition setup_grouping :: "startup \<Rightarrow> string \<Rightarrow> json \<Rightarrow> exc + route list \<times> bool" where
  "setup_grouping S path c =
     (if c = JNull then Inr ([], False)
      else
        ebind (value_or_default ''group-assignments'' c JNull) (\<lambda>dflt.
        ebind (value_or_default ''group-assigments'' c dflt) (\<lambda>assignments.
        if assignments = JNull then Inl (missing_key_path (path @ ''/group-assignments''))
        else
          ebind (value_or_default ''update-groups'' c (JBool False)) (\<lambda>u.
          ebind (py_iter assignments) (\<lambda>xs.
          ebind (efoldM (group_rule S path) (enumerate 0 xs) []) (\<lambda>routes.
          Inr (routes, truthy u)))))))"


section \<open>One service\<close>

text \<open>\<open>re.compile(pattern, re.IGNORECASE)\<close>: the flag is written into the pattern.\<close>

definition ignore_case :: "string \<Rightarrow> string" where
  "ignore_case pat = ''(?i)'' @ pat"

definition repo_matcher :: "env \<Rightarrow> startup \<Rightarrow> string \<Rightarrow> json \<Rightarrow> exc + string" where
  "repo_matcher E S path c =
     ebind (ebind (value_or_fail path ''repo-match'' c) as_arg) (\<lambda>pat.
     if \<not> st_regex_valid S (ignore_case pat) then Inl (LibException ''re.error'')
     else if re_search E (ignore_case pat) (st_uuid S)
     then Inl (ConfigurationException (''A wildcard route that matches an arbitrary value is not valid for '' @ path @ ''/repo-match''))
     else Inr (ignore_case pat))"

definition feedback_kwargs :: "string list \<Rightarrow> json \<Rightarrow> exc + json" where
  "feedback_kwargs params c = ebind (value_or_default ''feedback'' c (JObj [])) (as_kwargs params)"

definition tags_or_none :: "json \<Rightarrow> exc + json dict" where
  "tags_or_none v = (if v = JNull then Inr [] else as_mapping v)"

definition cxone_service_of :: "startup \<Rightarrow> string \<Rightarrow> cx_client \<Rightarrow> json \<Rightarrow> bool \<Rightarrow> bool \<Rightarrow> route list \<Rightarrow> exc + cxone_service" where
  "cxone_service_of S mk client scan_config rename update groups =
     ebind (ebind (value_or_default ''default-scan-engines'' scan_config (JObj [])) as_mapping) (\<lambda>engines.
     ebind (ebind (value_or_default ''default-scan-tags'' scan_config (JObj [])) tags_or_none) (\<lambda>scan_tags'.
     ebind (ebind (value_or_default ''default-project-tags'' scan_config (JObj [])) tags_or_none) (\<lambda>project_tags.
     Inr \<lparr> cx_moniker = mk, display_link = st_display_endpoint S client, default_engine_config = engines,
           default_scan_tags = scan_tags', default_project_tags = project_tags, rename_legacy = rename,
           update_groups = update, group_routes = groups \<rparr>)))"

definition setup_scm :: "env \<Rightarrow> startup \<Rightarrow> string \<Rightarrow> string \<Rightarrow> scm_service \<Rightarrow> json \<Rightarrow> string \<Rightarrow> exc + route_entry" where
  "setup_scm E S root base_url scm c path =
     ebind (repo_matcher E S path c) (\<lambda>pat.
     ebind (ebind (value_or_fail path ''service-name'' c) as_arg) (\<lambda>mk.
     ebind (ebind (ebind (value_or_fail path ''cxone'' c) (as_kwargs [''config_path'']))
       (cxone_client_factory E S root (path @ ''/cxone''))) (\<lambda>client.
     ebind (ebind (feedback_kwargs [''config_path'', ''moniker''] c)
       (pr_feedback_service_factory E S root base_url (path @ ''/feedback'') mk)) (\<lambda>(pr, _).
     ebind (ebind (feedback_kwargs [''config_path'', ''moniker''] c)
       (push_feedback_service_factory E S root (path @ ''/feedback'') mk)) (\<lambda>(push, _).
     ebind (ebind (feedback_kwargs [''config_path'', ''services''] c)
       (polling_service_factory E S root (path @ ''/feedback''))) (\<lambda>(poll, _).
     ebind (ebind (ebind (value_or_default_deprecated ''scan-agent'' ''resolver'' c (JObj []))
       (as_kwargs [''cxone_client'', ''config_path'', ''moniker''])) (resolver_service_factory E S root (path @ ''/scan-agent'') mk)) (\<lambda>(resolver, _).
     ebind (value_or_default ''scan-config'' c (JObj [])) (\<lambda>scan_config.
     ebind (ebind (value_or_default ''project-naming'' c JNull) (setup_naming S (path @ ''/project-naming''))) (\<lambda>(nm, rename).
     ebind (ebind (value_or_default ''project-groups'' c JNull) (setup_grouping S (path @ ''/project-groups''))) (\<lambda>(groups, update).
     ebind (cxone_service_of S mk client scan_config rename update groups) (\<lambda>cx.
     ebind (ebind (value_or_default ''kickoff'' c JNull) (\<lambda>k. kickoff_service_factory E S root k (path @ ''/kickoff'') mk)) (\<lambda>ko.
     Inr \<lparr> route_matcher = pat,
           route_services = \<lparr> sv_cxone = cx, sv_scm = scm, sv_pr = pr, sv_poll = poll, sv_push = push,
                              sv_resolver = resolver, sv_kickoff = ko, sv_naming = nm \<rparr> \<rparr>))))))))))))"


section \<open>Bootstrap\<close>

type_synonym server_config = "services dict \<times> scm_routes"

definition add_services :: "string \<Rightarrow> route_entry \<Rightarrow> server_config \<Rightarrow> exc + server_config" where
  "add_services scm e = (\<lambda>(cfg, routes).
     let mk = scm_moniker (sv_scm (route_services e)) in
     if mk \<in> set (dkeys cfg) then Inl (ConfigurationException (''Service '' @ mk @ '' is defined more than once.''))
     else Inr (dset mk (route_services e) cfg,
       dset scm ((case dget routes scm of None \<Rightarrow> [] | Some rs \<Rightarrow> rs) @ [e]) routes))"

definition bootstrap_repo :: "env \<Rightarrow> startup \<Rightarrow> (string \<Rightarrow> exc + string) \<Rightarrow> string \<Rightarrow> string \<Rightarrow> string \<Rightarrow> nat \<times> json \<Rightarrow>
    server_config \<Rightarrow> exc + server_config" where
  "bootstrap_repo E S links root base_url scm = (\<lambda>(i, repo) st.
     let path = ''/'' @ scm @ ''['' @ dec (int i) @ '']'' in
     ebind (scm_service_of E S links root scm repo path) (\<lambda>svc.
     ebind (setup_scm E S root base_url svc repo path) (\<lambda>e. add_services scm e st)))"

definition bootstrap_scm :: "env \<Rightarrow> startup \<Rightarrow> (string \<Rightarrow> exc + string) \<Rightarrow> string \<Rightarrow> string \<Rightarrow> json dict \<Rightarrow> string \<Rightarrow>
    server_config \<Rightarrow> exc + server_config" where
  "bootstrap_scm E S links root base_url yaml scm st =
     (case dget yaml scm of
        None \<Rightarrow> Inr st
      | Some v \<Rightarrow> ebind (py_iter v) (\<lambda>repos. efoldM (bootstrap_repo E S links root base_url scm) (enumerate 0 repos) st))"

definition bootstrap :: "env \<Rightarrow> startup \<Rightarrow> (string \<Rightarrow> exc + string) \<Rightarrow> json \<Rightarrow> exc + server_config" where
  "bootstrap E S links yaml =
     ebind (ebind (value_or_fail [] ''server-base-url'' yaml) as_arg) (\<lambda>base_url.
     ebind (ebind (value_or_fail [] ''secret-root-path'' yaml) as_arg) (\<lambda>root.
     ebind (value_or_default ''script-path'' yaml JNull) (\<lambda>_.
     ebind (as_dict yaml) (\<lambda>d.
     if \<not> list_ex (\<lambda>k. k \<in> set (dkeys d)) scm_keys then Inl (missing_at_least_one E ''/'' scm_keys)
     else efoldM (bootstrap_scm E S links root base_url d) scm_keys ([], [])))))"

text \<open>The display link of a service, as the configuration of the running process has it.\<close>

definition configured_link :: "services dict \<Rightarrow> string \<Rightarrow> exc + string" where
  "configured_link cfg mk = ebind (retrieve_services_by_moniker cfg mk) (\<lambda>sv. Inr (display_link (sv_cxone sv)))"

definition retrieve_scm_services :: "scm_routes \<Rightarrow> string \<Rightarrow> exc + scm_service list" where
  "retrieve_scm_services routes key = ebind (dgetE routes key) (\<lambda>rs. Inr (map (\<lambda>e. sv_scm (route_services e)) rs))"



section \<open>Properties\<close>

text \<open>What holds of one configured service, whatever the document says.\<close>

definition agrees_on_moniker :: "services \<Rightarrow> bool" where
  "agrees_on_moniker sv \<longleftrightarrow> (let mk = scm_moniker (sv_scm sv) in
     cx_moniker (sv_cxone sv) = mk \<and> prs_moniker (sv_pr sv) = mk \<and> pss_moniker (sv_push sv) = mk \<and> rs_moniker (sv_resolver sv) = mk)"

fun kickoff_bounded :: "string \<Rightarrow> kickoff_service \<Rightarrow> bool" where
  "kickoff_bounded mk DummyKickoffService = True"
| "kickoff_bounded mk (KickoffService key mk' n) \<longleftrightarrow> mk' = mk \<and> 1 \<le> n \<and> n \<le> 10"

definition default_tag_allowed :: "resolver_service \<Rightarrow> bool" where
  "default_tag_allowed svc \<longleftrightarrow> (case default_tag svc of None \<Rightarrow> True | Some t \<Rightarrow> t \<in> set (agent_tags svc))"

definition well_formed :: "env \<Rightarrow> services \<Rightarrow> bool" where
  "well_formed E sv \<longleftrightarrow> well_built (sv_scm sv) \<and> agrees_on_moniker sv
     \<and> kickoff_bounded (scm_moniker (sv_scm sv)) (sv_kickoff sv)
     \<and> valid_tags (sv_resolver sv) \<and> default_tag_allowed (sv_resolver sv)
     \<and> (\<exists>mx sc. sv_poll sv = configured_poll E mx sc)"

lemma pr_factory_moniker: "pr_feedback_service_factory E S root base path mk kw = Inr (svc, a) \<Longrightarrow> prs_moniker svc = mk"
  by (auto simp: pr_feedback_service_factory_def ebind_Inr_iff split: if_splits)

lemma push_factory_moniker: "push_feedback_service_factory E S root path mk kw = Inr (svc, a) \<Longrightarrow> pss_moniker svc = mk"
  by (auto simp: push_feedback_service_factory_def disabled_push_service_def ebind_Inr_iff split: if_splits option.splits)

lemma polling_factory_poll:
  "polling_service_factory E S root path kw = Inr (svc, a) \<Longrightarrow> \<exists>mx sc. svc = configured_poll E mx sc"
  by (auto simp: polling_service_factory_def ebind_Inr_iff split: if_splits)

lemma ResolverScanService_fields:
  "ResolverScanService mk w t k tags = Inr svc \<Longrightarrow>
     rs_moniker svc = mk \<and> default_tag svc = t \<and> allowed_agent_tags svc = tags"
  by (auto simp: ResolverScanService_def ebind_Inr_iff)

lemma resolver_factory_valid:
  assumes "resolver_service_factory E S root path mk kw = Inr (svc, a)"
  shows "rs_moniker svc = mk \<and> valid_tags svc \<and> default_tag_allowed svc"
proof -
  obtain w t k tags where svc: "ResolverScanService mk w t k tags = Inr svc"
    and tag: "t = None \<or> (\<exists>x ts. t = Some x \<and> tags = Some ts \<and> x \<in> set ts)"
    using assms
    by (auto simp: resolver_service_factory_def ebind_Inr_iff Let_def split: if_splits option.splits)
  show ?thesis
    using ResolverScanService_valid [OF svc] ResolverScanService_fields [OF svc] tag
    by (auto simp: default_tag_allowed_def agent_tags_def)
qed

lemma kickoff_factory_bounded: "kickoff_service_factory E S root c path mk = Inr svc \<Longrightarrow> kickoff_bounded mk svc"
  by (auto simp: kickoff_service_factory_def ebind_Inr_iff split: if_splits)

lemma cxone_moniker: "cxone_service_of S mk client sc r u g = Inr cx \<Longrightarrow> cx_moniker cx = mk"
  by (auto simp: cxone_service_of_def ebind_Inr_iff)

lemma setup_scm_well_formed:
  assumes "setup_scm E S root base scm c path = Inr e" and "well_built scm"
    and "ebind (value_or_fail path ''service-name'' c) as_arg = Inr (scm_moniker scm)"
  shows "well_formed E (route_services e) \<and> sv_scm (route_services e) = scm
    \<and> \<not> re_search E (route_matcher e) (st_uuid S)"
  using assms
  by (auto simp: setup_scm_def repo_matcher_def ebind_Inr_iff well_formed_def agrees_on_moniker_def Let_def split: if_splits prod.splits
      dest: pr_factory_moniker push_factory_moniker polling_factory_poll resolver_factory_valid kickoff_factory_bounded cxone_moniker)

text \<open>
  What holds of a configuration: no moniker is used twice, the routes and the services by moniker
  are the same services, and each is well formed.
\<close>

definition routed :: "scm_routes \<Rightarrow> route_entry \<Rightarrow> bool" where
  "routed routes e \<longleftrightarrow> (\<exists>key rs. dget routes key = Some rs \<and> e \<in> set rs)"

definition config_ok :: "env \<Rightarrow> startup \<Rightarrow> server_config \<Rightarrow> bool" where
  "config_ok E S = (\<lambda>(cfg, routes).
     distinct (dkeys cfg) \<and> distinct (dkeys routes) \<and> set (dkeys routes) \<subseteq> set scm_keys
     \<and> (\<forall>mk sv. dget cfg mk = Some sv \<longrightarrow> well_formed E sv \<and> scm_moniker (sv_scm sv) = mk
          \<and> (\<exists>e. routed routes e \<and> route_services e = sv))
     \<and> (\<forall>e. routed routes e \<longrightarrow> dget cfg (scm_moniker (sv_scm (route_services e))) = Some (route_services e)
          \<and> \<not> re_search E (route_matcher e) (st_uuid S)))"

lemma routed_add:
  "routed (dset scm ((case dget routes scm of None \<Rightarrow> [] | Some rs \<Rightarrow> rs) @ [e]) routes) x \<longleftrightarrow> x = e \<or> routed routes x"
proof (cases "dget routes scm")
  case None
  then show ?thesis by (auto simp: routed_def split: if_splits) (metis option.distinct(1))+
next
  case (Some rs)
  then show ?thesis by (auto simp: routed_def split: if_splits) (metis option.inject)+
qed

lemma add_services_ok:
  assumes "add_services scm e st = Inr st'" and "config_ok E S st" and "scm \<in> set scm_keys"
    and "well_formed E (route_services e)" and "\<not> re_search E (route_matcher e) (st_uuid S)"
  shows "config_ok E S st'"
proof -
  obtain cfg routes where st: "st = (cfg, routes)" by (cases st)
  let ?sv = "route_services e"
  let ?mk = "scm_moniker (sv_scm ?sv)"
  have new: "?mk \<notin> set (dkeys cfg)"
    and st': "st' = (dset ?mk ?sv cfg, dset scm ((case dget routes scm of None \<Rightarrow> [] | Some rs \<Rightarrow> rs) @ [e]) routes)"
    using assms(1) by (auto simp: add_services_def st Let_def split: if_splits)
  have "dget cfg ?mk = None" using new by (simp add: map_of_eq_None_iff)
  then have old: "scm_moniker (sv_scm (route_services x)) \<noteq> ?mk" if "routed routes x" for x
    using assms(2) that by (force simp: config_ok_def st)
  have keys: "distinct (dkeys (dset ?mk ?sv cfg))" "distinct (dkeys (dset scm rs routes))"
      "set (dkeys (dset scm rs routes)) \<subseteq> set scm_keys" for rs
    using assms(2,3) by (simp_all add: config_ok_def st set_dkeys_dset distinct_dkeys_dset del: list.set_map set_map)
  have known: "well_formed E sv \<and> scm_moniker (sv_scm sv) = mk \<and> (\<exists>x. routed routes x \<and> route_services x = sv)"
    if "dget cfg mk = Some sv" for mk sv using assms(2) that unfolding config_ok_def st by blast
  have "\<exists>x. (x = e \<or> routed routes x) \<and> route_services x = sv" if "dget (dset ?mk ?sv cfg) mk = Some sv" for mk sv
    using known [of mk sv] that by (cases "mk = ?mk") auto
  moreover have "well_formed E sv \<and> scm_moniker (sv_scm sv) = mk" if "dget (dset ?mk ?sv cfg) mk = Some sv" for mk sv
    using known [of mk sv] that assms(4) by (cases "mk = ?mk") auto
  moreover have "dget (dset ?mk ?sv cfg) (scm_moniker (sv_scm (route_services x))) = Some (route_services x)
      \<and> \<not> re_search E (route_matcher x) (st_uuid S)" if "x = e \<or> routed routes x" for x
    using that assms(2,5) old [of x] by (cases "x = e") (auto simp: config_ok_def st)
  ultimately show ?thesis using keys unfolding config_ok_def st' prod.case routed_add by blast
qed

lemma bootstrap_repo_ok:
  assumes "bootstrap_repo E S links root base scm x st = Inr st'" and "config_ok E S st" and "scm \<in> set scm_keys"
  shows "config_ok E S st'"
proof -
  obtain i repo where x: "x = (i, repo)" by (cases x)
  obtain svc e where svc: "scm_service_of E S links root scm repo (''/'' @ scm @ ''['' @ dec (int i) @ '']'') = Inr svc"
    and e: "setup_scm E S root base svc repo (''/'' @ scm @ ''['' @ dec (int i) @ '']'') = Inr e"
    and add: "add_services scm e st = Inr st'"
    using assms(1) by (auto simp: bootstrap_repo_def x Let_def ebind_Inr_iff)
  note wf = setup_scm_well_formed [OF e scm_service_built [OF svc]]
  show ?thesis using add_services_ok [OF add assms(2,3)] wf by blast
qed

lemma bootstrap_scm_ok:
  assumes "bootstrap_scm E S links root base yaml scm st = Inr st'" and "config_ok E S st" and "scm \<in> set scm_keys"
  shows "config_ok E S st'"
proof (cases "dget yaml scm")
  case None
  then show ?thesis using assms by (simp add: bootstrap_scm_def)
next
  case (Some v)
  then obtain repos where "efoldM (bootstrap_repo E S links root base scm) (enumerate 0 repos) st = Inr st'"
    using assms(1) by (auto simp: bootstrap_scm_def ebind_Inr_iff)
  then show ?thesis
    using assms(2) by (rule efoldM_inv) (use assms(3) in \<open>blast intro: bootstrap_repo_ok\<close>)
qed

lemma bootstrap_ok:
  assumes "bootstrap E S links yaml = Inr st"
  shows "config_ok E S st"
proof -
  obtain root base d where "efoldM (bootstrap_scm E S links root base d) scm_keys ([], []) = Inr st"
    using assms by (auto simp: bootstrap_def ebind_Inr_iff split: if_splits)
  then show ?thesis
  proof (rule efoldM_inv)
    show "config_ok E S ([], [])" by (simp add: config_ok_def routed_def)
  qed (rule bootstrap_scm_ok)
qed

text \<open>The hypotheses of the other theories, discharged for every configuration the program starts with.\<close>

lemma well_formed_decorates: "well_formed E sv \<Longrightarrow> decorating sv"
  by (simp add: well_formed_def well_built_def decorating_def)

lemma config_decorates:
  assumes "config_ok E S (cfg, routes)"
  shows "monikers_decorate cfg" and "routes_decorate routes"
proof -
  have services: "decorating sv" if "dget cfg mk = Some sv" for mk sv
    using assms that well_formed_decorates unfolding config_ok_def by blast
  show "monikers_decorate cfg"
    using services assms by (auto simp: monikers_decorate_def config_ok_def)
  have "decorating (route_services e)" if "(key, rs) \<in> set routes" "e \<in> set rs" for key rs e
  proof -
    have "routed routes e" using that assms by (auto simp: routed_def config_ok_def)
    then show ?thesis using assms services by (auto simp: config_ok_def)
  qed
  then show "routes_decorate routes" by (auto simp: routes_decorate_def)
qed

text \<open>The subscriptions of the workflow agent on such a configuration settle their messages.\<close>

lemma config_polls:
  assumes "config_ok E S (cfg, routes)"
  shows "polls_configured E cfg"
proof -
  have "\<exists>mx sc. sv_poll s = configured_poll E mx sc" if "(mk, s) \<in> set cfg" for mk s
  proof -
    have "dget cfg mk = Some s" using that assms by (simp add: config_ok_def)
    then show ?thesis using assms unfolding config_ok_def well_formed_def by blast
  qed
  then show ?thesis by (auto simp: polls_configured_def)
qed

lemma configured_tasks_settle:
  assumes "config_ok E S (cfg, routes)" and "settling_ok E" and "broker_ok E" and "t \<in> set (agent_tasks E cfg routes sv)"
  shows "if task_queue t \<in> {QUEUE_SCAN_POLLING, QUEUE_SCAN_POLLING_LEGACY}
    then does (task_handler t im) (\<lambda>_ ev. 1 \<le> settled ev)
    else ends (task_handler t im) (\<lambda>r ev. r = Inl Diverges \<or> settled ev = 1)"
proof -
  have once: "ends m settled_once \<Longrightarrow> ends m (\<lambda>r ev. r = Inl Diverges \<or> settled ev = 1)" for m :: "unit cio"
    by (erule ends_mono) (auto simp: settled_once_def)
  note decorate = config_decorates [OF assms(1)]
  note handlers = pr_handlers_settle [OF assms(2) decorate(1), THEN once] sarif_handler_settles [OF assms(2), THEN once]
    results_agent_settles [OF assms(2) decorate(2)] timeout_agent_settles [OF assms(2)]
    poll_handler_settles [OF assms(3,2) config_polls [OF assms(1)]]
  show ?thesis
    using assms(4) unfolding agent_tasks_def
    by (simp only: set_simps insert_iff empty_iff) (elim disjE FalseE; simp add: queue_names handlers del: One_nat_def)
qed

text \<open>A moniker the document uses twice stops the program.\<close>

lemma duplicate_moniker_rejected:
  assumes "scm_moniker (sv_scm (route_services e)) \<in> set (dkeys cfg)"
  shows "\<exists>msg. add_services scm e (cfg, routes) = Inl (ConfigurationException msg)"
  using assms by (auto simp: add_services_def Let_def)

text \<open>
  With the deprecated key of the scan agent section, delegated scanning is off, whatever the section
  says.
\<close>

lemma deprecated_resolver_ignored:
  assumes "setup_scm E S root base scm (JObj d) path = Inr e" and "dget d ''resolver'' = Some v"
  shows "skip (sv_resolver (route_services e))"
  using assms deprecated_value_ignored [OF assms(2)]
  by (auto simp: setup_scm_def ebind_Inr_iff as_kwargs_def resolver_service_factory_def no_kwargs_def ResolverScanService_def
      skip_def split: prod.splits)

end
