(* ===== verification/WebApi.thy ===== *)
theory WebApi
  imports ServerConfig
begin

text \<open>
  The endpoints of \<open>wsgi.py\<close>. A webhook endpoint makes the orchestrator of the event, hands it to the
  background loop and answers at once; a diagnostic event is answered by looking for a service whose
  shared secret made the signature. A kickoff endpoint waits for the outcome. What Flask does is in
  the request record: the parsed body, or the status it answers with when there is none. An
  exception that leaves an endpoint goes to Flask and is the result here. The lemmas compose the
  endpoints with the dispatcher and with the configuration the program starts with.
\<close>


section \<open>Requests and answers\<close>

record http_request =
  rq_json :: "int + json"
    \<comment> \<open>\<open>request.json\<close>, or the status of the error Flask raises\<close>
  rq_data :: string
  rq_headers :: "string dict"
  rq_content_type :: string

text \<open>An answer, with the orchestrator that was handed to \<open>TaskManager.in_background\<close>.\<close>

record web_answer =
  wa_status :: int
  wa_body :: "json option"
  wa_task :: "dispatchable option"

definition status :: "int \<Rightarrow> web_answer" where
  "status n = \<lparr> wa_status = n, wa_body = None, wa_task = None \<rparr>"

definition accepted :: "int \<Rightarrow> dispatchable \<Rightarrow> web_answer" where
  "accepted n d = \<lparr> wa_status = n, wa_body = None, wa_task = Some d \<rparr>"

text \<open>Every endpoint renders the body for its log message before anything else.\<close>

definition logged :: "http_request \<Rightarrow> exc + web_answer \<Rightarrow> exc + web_answer" where
  "logged rq r = (case rq_json rq of Inl n \<Rightarrow> Inr (status n) | Inr _ \<Rightarrow> r)"

definition or_400 :: "exc + web_answer \<Rightarrow> exc + web_answer" where
  "or_400 r = (case r of Inl e \<Rightarrow> if is_Exception e then Inr (status 400) else Inl e | Inr a \<Rightarrow> Inr a)"

definition event_context_of :: "env \<Rightarrow> http_request \<Rightarrow> exc + event_context" where
  "event_context_of E rq = EventContext (json_loads E) (rq_data rq) (rq_headers rq)"

definition filtered_context_of :: "env \<Rightarrow> string \<Rightarrow> http_request \<Rightarrow> exc + event_context" where
  "filtered_context_of E pat rq = HeaderFilteredEventContext (json_loads E) (re_match E pat) (rq_data rq) (rq_headers rq)"


section \<open>Webhooks\<close>

fun any_secret :: "dispatchable \<Rightarrow> scm_service list \<Rightarrow> exc + int" where
  "any_secret d [] = Inr 401"
| "any_secret d (scm # scms) =
     ebind (d_is_signature_valid d (shared_secret scm)) (\<lambda>valid. if valid then Inr 200 else any_secret d scms)"

definition diagnose :: "scm_routes \<Rightarrow> dispatchable \<Rightarrow> exc + web_answer" where
  "diagnose routes d =
     ebind (retrieve_scm_services routes (d_config_key d)) (\<lambda>scms.
     ebind (any_secret d scms) (\<lambda>n. Inr (status n)))"

definition accept_or_diagnose :: "scm_routes \<Rightarrow> int \<Rightarrow> dispatchable \<Rightarrow> exc + web_answer" where
  "accept_or_diagnose routes n d = (if \<not> d_is_diagnostic d then Inr (accepted n d) else diagnose routes d)"

definition bbc_webhook_endpoint :: "env \<Rightarrow> scm_routes \<Rightarrow> http_request \<Rightarrow> exc + web_answer" where
  "bbc_webhook_endpoint E routes rq = logged rq (or_400
     (ebind (event_context_of E rq) (\<lambda>ctx. ebind (BitBucketCloudOrchestrator E ctx) (\<lambda>b. Inr (accepted 204 (bc_dispatchable E b))))))"

definition bbdc_webhook_endpoint :: "env \<Rightarrow> scm_routes \<Rightarrow> http_request \<Rightarrow> exc + web_answer" where
  "bbdc_webhook_endpoint E routes rq = logged rq (or_400
     (ebind (event_context_of E rq) (\<lambda>ctx. ebind (BitBucketDataCenterOrchestrator E ctx) (\<lambda>b. Inr (accepted 204 (dc_dispatchable E b))))))"

definition github_webhook_endpoint :: "env \<Rightarrow> scm_routes \<Rightarrow> http_request \<Rightarrow> exc + web_answer" where
  "github_webhook_endpoint E routes rq = logged rq (or_400
     (ebind (filtered_context_of E ''User-Agent|X-(Git)?[H|h]ub'' rq) (\<lambda>ctx.
      ebind (GithubOrchestrator E ctx) (\<lambda>g. accept_or_diagnose routes 204 (gh_dispatchable E g)))))"

definition adoe_webhook_endpoint :: "env \<Rightarrow> scm_routes \<Rightarrow> http_request \<Rightarrow> exc + web_answer" where
  "adoe_webhook_endpoint E routes rq = logged rq (or_400
     (ebind (event_context_of E rq) (\<lambda>ctx.
      ebind (AzureDevOpsEnterpriseOrchestrator E ctx) (\<lambda>a. accept_or_diagnose routes 204 (ad_dispatchable E a)))))"

definition gitlab_webhook_endpoint :: "env \<Rightarrow> scm_routes \<Rightarrow> http_request \<Rightarrow> exc + web_answer" where
  "gitlab_webhook_endpoint E routes rq = logged rq (or_400
     (ebind (filtered_context_of E ''User-Agent|X-Gitlab|Idempotency-Key'' rq) (\<lambda>ctx.
      ebind (GitlabOrchestrator E ctx) (\<lambda>g. accept_or_diagnose routes 201 (gl_dispatchable E g)))))"

definition webhook_endpoints :: "env \<Rightarrow> (string \<times> (scm_routes \<Rightarrow> http_request \<Rightarrow> exc + web_answer)) list" where
  "webhook_endpoints E =
     [(''/bbc'', bbc_webhook_endpoint E), (''/bbdc'', bbdc_webhook_endpoint E), (''/gh'', github_webhook_endpoint E),
      (''/adoe'', adoe_webhook_endpoint E), (''/gl'', gitlab_webhook_endpoint E)]"


section \<open>Kickoff and the other endpoints\<close>

definition kickoff_web_answer :: "ko_status \<times> json option \<Rightarrow> web_answer" where
  "kickoff_web_answer = (\<lambda>(st, b). \<lparr> wa_status = status_value st, wa_body = b, wa_task = None \<rparr>)"

definition kickoff_endpoint :: "(json \<Rightarrow> exc + ko_msg) \<Rightarrow> env \<Rightarrow> scm_routes \<Rightarrow> http_request \<Rightarrow> web_answer cio" where
  "kickoff_endpoint mk E routes rq =
     (case rq_json rq of
        Inl n \<Rightarrow> ret (status n)
      | Inr _ \<Rightarrow>
          bnd (lift (event_context_of E rq)) (\<lambda>ec.
          bnd (lift (mk (message ec))) (\<lambda>m.
          bnd (lift (KickoffOrchestrator E m ec)) (\<lambda>k.
          bnd (kickoff_impl E routes k) (\<lambda>r. ret (kickoff_web_answer r))))))"

definition bbc_kickoff_endpoint :: "env \<Rightarrow> scm_routes \<Rightarrow> http_request \<Rightarrow> web_answer cio" where
  "bbc_kickoff_endpoint = kickoff_endpoint BitbucketCloudKickoffMsg"

definition bbdc_kickoff_endpoint :: "env \<Rightarrow> scm_routes \<Rightarrow> http_request \<Rightarrow> web_answer cio" where
  "bbdc_kickoff_endpoint = kickoff_endpoint BitbucketDCKickoffMsg"

definition github_kickoff_endpoint :: "env \<Rightarrow> scm_routes \<Rightarrow> http_request \<Rightarrow> web_answer cio" where
  "github_kickoff_endpoint = kickoff_endpoint GithubKickoffMsg"

definition adoe_kickoff_endpoint :: "env \<Rightarrow> scm_routes \<Rightarrow> http_request \<Rightarrow> web_answer cio" where
  "adoe_kickoff_endpoint = kickoff_endpoint AdoKickoffMsg"

definition gitlab_kickoff_endpoint :: "env \<Rightarrow> scm_routes \<Rightarrow> http_request \<Rightarrow> web_answer cio" where
  "gitlab_kickoff_endpoint = kickoff_endpoint GitlabKickoffMsg"

definition kickoff_endpoints :: "(string \<times> (env \<Rightarrow> scm_routes \<Rightarrow> http_request \<Rightarrow> web_answer cio)) list" where
  "kickoff_endpoints =
     [(''/bbc/kickoff'', bbc_kickoff_endpoint), (''/bbdc/kickoff'', bbdc_kickoff_endpoint),
      (''/gh/kickoff'', github_kickoff_endpoint), (''/adoe/kickoff'', adoe_kickoff_endpoint),
      (''/gl/kickoff'', gitlab_kickoff_endpoint)]"

definition ping :: "env \<Rightarrow> bool \<Rightarrow> http_request \<Rightarrow> web_answer" where
  "ping E is_get rq =
     (if \<not> is_get \<and> dget (os_environ E) ''ENABLE_DUMP'' \<noteq> None \<and> rq_content_type rq = ''application/json''
      then (case rq_json rq of Inl n \<Rightarrow> status n | Inr _ \<Rightarrow> status 200)
      else status 200)"

text \<open>
  A posted request: the endpoint of its path, or the handler of the missing pages. The background
  task runs on another thread; its result is only logged, and the answer does not wait for it.
\<close>

definition run_task :: "env \<Rightarrow> scm_routes \<Rightarrow> web_answer \<Rightarrow> web_answer cio" where
  "run_task E routes a =
     (case wa_task a of
        None \<Rightarrow> ret a
      | Some d \<Rightarrow> bnd (attempt (dispatch_execute E routes d)) (\<lambda>_. ret a))"

definition serve_post :: "env \<Rightarrow> scm_routes \<Rightarrow> string \<Rightarrow> http_request \<Rightarrow> web_answer cio" where
  "serve_post E routes path rq =
     (case map_of (webhook_endpoints E) path of
        Some h \<Rightarrow> bnd (lift (h routes rq)) (run_task E routes)
      | None \<Rightarrow>
          (case map_of kickoff_endpoints path of
             Some h \<Rightarrow> h E routes rq
           | None \<Rightarrow> if path = ''/ping'' then ret (ping E False rq) else ret (status 404)))"


section \<open>Properties\<close>

text \<open>A diagnostic event is confirmed only by a service whose secret made its signature, and refused only if none did.\<close>

lemma any_secret_200: "any_secret d scms = Inr n \<Longrightarrow> n = 200 \<Longrightarrow> \<exists>scm\<in>set scms. d_is_signature_valid d (shared_secret scm) = Inr True"
  by (induction scms) (auto simp: ebind_Inr_iff split: if_splits)

lemma any_secret_401: "any_secret d scms = Inr n \<Longrightarrow> n \<noteq> 200 \<Longrightarrow> n = 401 \<and> (\<forall>scm\<in>set scms. d_is_signature_valid d (shared_secret scm) = Inr False)"
  by (induction scms) (auto simp: ebind_Inr_iff split: if_splits)

lemma diagnose_answers:
  assumes "diagnose routes d = Inr a"
  shows "\<exists>scms. retrieve_scm_services routes (d_config_key d) = Inr scms \<and> wa_task a = None
    \<and> (wa_status a = 200 \<and> (\<exists>scm\<in>set scms. d_is_signature_valid d (shared_secret scm) = Inr True)
       \<or> wa_status a = 401 \<and> (\<forall>scm\<in>set scms. d_is_signature_valid d (shared_secret scm) = Inr False))"
proof -
  obtain scms n where scms: "retrieve_scm_services routes (d_config_key d) = Inr scms" and n: "any_secret d scms = Inr n"
    and a: "a = status n"
    using assms by (auto simp: diagnose_def ebind_Inr_iff)
  show ?thesis
    using scms a any_secret_200 [OF n] any_secret_401 [OF n] by (cases "n = 200") (auto simp: status_def)
qed

text \<open>
  The answers of the webhook endpoints: the orchestrator is handed over exactly with the status of an
  accepted event, and a request without an event is answered by Flask or with 400.
\<close>

definition webhook_answer :: "http_request \<Rightarrow> web_answer \<Rightarrow> bool" where
  "webhook_answer rq a \<longleftrightarrow>
     (case wa_task a of
        Some d \<Rightarrow> (d_is_diagnostic d \<longrightarrow> d_config_key d = ''bbdc'') \<and> wa_status a = (if d_config_key d = ''gl'' then 201 else 204) \<and> (\<exists>j. rq_json rq = Inr j)
      | None \<Rightarrow> rq_json rq = Inl (wa_status a) \<or> wa_status a \<in> {200, 400, 401})"

lemma logged_or_400:
  assumes "logged rq (or_400 r) = Inr a"
  shows "rq_json rq = Inl (wa_status a) \<and> wa_task a = None \<or> (\<exists>j. rq_json rq = Inr j) \<and> (a = status 400 \<or> r = Inr a)"
  using assms by (auto simp: logged_def or_400_def status_def split: sum.splits if_splits)

lemma accept_or_diagnose_task:
  assumes "accept_or_diagnose routes n d = Inr a"
  shows "a = accepted n d \<and> \<not> d_is_diagnostic d \<or> wa_task a = None \<and> wa_status a \<in> {200, 401}"
  using assms diagnose_answers by (auto simp: accept_or_diagnose_def split: if_splits)

lemma accept_or_diagnose_answer:
  assumes "logged rq (or_400 (ebind c (\<lambda>ctx. ebind (mk ctx) (\<lambda>x. accept_or_diagnose routes n (f x))))) = Inr a"
    and "\<And>x. n = (if d_config_key (f x) = ''gl'' then 201 else 204)"
  shows "webhook_answer rq a"
  using logged_or_400 [OF assms(1)] accept_or_diagnose_task assms(2)
  by (auto simp: webhook_answer_def ebind_Inr_iff status_def accepted_def) fastforce+

lemma webhook_answers:
  assumes "map_of (webhook_endpoints E) path = Some h" and "h routes rq = Inr a"
  shows "webhook_answer rq a"
proof -
  consider "h = bbc_webhook_endpoint E" | "h = bbdc_webhook_endpoint E" | "h = github_webhook_endpoint E"
    | "h = adoe_webhook_endpoint E" | "h = gitlab_webhook_endpoint E"
    using assms(1) by (auto simp: webhook_endpoints_def split: if_splits)
  then show ?thesis
  proof cases
    case 1
    then show ?thesis
      using logged_or_400 assms(2) unfolding bbc_webhook_endpoint_def
      by (fastforce simp: webhook_answer_def ebind_Inr_iff status_def accepted_def bc_dispatchable_def)
  next
    case 2
    then show ?thesis
      using logged_or_400 assms(2) unfolding bbdc_webhook_endpoint_def
      by (fastforce simp: webhook_answer_def ebind_Inr_iff status_def accepted_def dc_dispatchable_def)
  next
    case 3
    then show ?thesis
      using assms(2) unfolding github_webhook_endpoint_def
      by (auto intro: accept_or_diagnose_answer simp: gh_dispatchable_def)
  next
    case 4
    then show ?thesis
      using assms(2) unfolding adoe_webhook_endpoint_def
      by (auto intro: accept_or_diagnose_answer simp: ad_dispatchable_def)
  next
    case 5
    then show ?thesis
      using assms(2) unfolding gitlab_webhook_endpoint_def
      by (auto intro: accept_or_diagnose_answer simp: gl_dispatchable_def)
  qed
qed

text \<open>
  A webhook that does anything was signed with the secret of the service its URL is routed to, a
  kickoff that does anything carries a token for the key of that service.
\<close>

definition signed_webhook :: "env \<Rightarrow> scm_routes \<Rightarrow> string \<Rightarrow> http_request \<Rightarrow> services \<Rightarrow> bool" where
  "signed_webhook E routes path rq sv \<longleftrightarrow> (\<exists>h a d. map_of (webhook_endpoints E) path = Some h \<and> h routes rq = Inr a
     \<and> wa_task a = Some d \<and> dispatch_services E routes d = Inr (Some sv)
     \<and> d_is_signature_valid d (shared_secret (sv_scm sv)) = Inr True)"

definition kickoff_messages :: "(string \<times> (json \<Rightarrow> exc + ko_msg)) list" where
  "kickoff_messages =
     [(''/bbc/kickoff'', BitbucketCloudKickoffMsg), (''/bbdc/kickoff'', BitbucketDCKickoffMsg),
      (''/gh/kickoff'', GithubKickoffMsg), (''/adoe/kickoff'', AdoKickoffMsg), (''/gl/kickoff'', GitlabKickoffMsg)]"

definition kickoff_of :: "env \<Rightarrow> string \<Rightarrow> http_request \<Rightarrow> exc + kickoff" where
  "kickoff_of E path rq =
     (case map_of kickoff_messages path of
        None \<Rightarrow> Inl RouteNotFoundException
      | Some mk \<Rightarrow> ebind (event_context_of E rq) (\<lambda>ec. ebind (mk (message ec)) (\<lambda>m. KickoffOrchestrator E m ec)))"

definition token_kickoff :: "env \<Rightarrow> scm_routes \<Rightarrow> string \<Rightarrow> http_request \<Rightarrow> trace \<times> mem \<Rightarrow> services \<Rightarrow> bool" where
  "token_kickoff E routes path rq w sv \<longleftrightarrow> (\<exists>k. kickoff_of E path rq = Inr k
     \<and> retrieve_services_by_route E routes (k_route_urls k) (ko_config_key (ko_repo (k_msg k))) = Inr (Some sv)
     \<and> valid_bearer_token E k (sv_kickoff sv) w = (Inr True, w))"

lemma webhook_signed:
  assumes "bnd (lift (h routes rq)) (run_task E routes) (tr, m) = (r, tr', m')" and "(tr', m') \<noteq> (tr, m)"
    and "map_of (webhook_endpoints E) path = Some h"
  shows "\<exists>sv. signed_webhook E routes path rq sv"
proof -
  obtain a where a: "h routes rq = Inr a" and run: "run_task E routes a (tr, m) = (r, tr', m')"
    using assms by (cases "h routes rq") auto
  obtain d where d: "wa_task a = Some d"
    using run assms(2) by (auto simp: run_task_def split: option.splits)
  obtain q where "dispatch_execute E routes d (tr, m) = (q, tr', m')"
    using run d by (auto simp: run_task_def bnd_app attempt_app split: prod.splits if_splits)
  then show ?thesis
    using dispatch_execute_acts assms(2,3) a d unfolding signed_webhook_def by blast
qed

lemma kickoff_endpoint_token:
  assumes "kickoff_endpoint mk E routes rq (tr, m) = (r, tr', m')" and "(tr', m') \<noteq> (tr, m)"
    and "map_of kickoff_messages path = Some mk"
  shows "\<exists>sv. token_kickoff E routes path rq (tr, m) sv"
proof -
  obtain k where k: "kickoff_of E path rq = Inr k"
    and run: "bnd (kickoff_impl E routes k) (\<lambda>r. ret (kickoff_web_answer r)) (tr, m) = (r, tr', m')"
    using assms
    by (cases "event_context_of E rq")
      (auto simp: kickoff_endpoint_def kickoff_of_def bnd_app split: sum.splits)
  obtain q where "kickoff_impl E routes k (tr, m) = (q, tr', m')"
    using run by (auto simp: bnd_app split: prod.splits sum.splits)
  then show ?thesis
    using kickoff_authorized assms(2) k unfolding token_kickoff_def by blast
qed

lemma kickoff_endpoint_message:
  "map_of kickoff_endpoints path = Some h \<Longrightarrow> \<exists>mk. map_of kickoff_messages path = Some mk \<and> h = kickoff_endpoint mk"
  by (auto simp: kickoff_endpoints_def kickoff_messages_def bbc_kickoff_endpoint_def bbdc_kickoff_endpoint_def
      github_kickoff_endpoint_def adoe_kickoff_endpoint_def gitlab_kickoff_endpoint_def split: if_splits)

lemma post_acts:
  assumes "serve_post E routes path rq (tr, m) = (r, tr', m')" and "(tr', m') \<noteq> (tr, m)"
  shows "\<exists>sv. signed_webhook E routes path rq sv \<or> token_kickoff E routes path rq (tr, m) sv"
proof (cases "map_of (webhook_endpoints E) path")
  case (Some h)
  with assms(1) have "bnd (lift (h routes rq)) (run_task E routes) (tr, m) = (r, tr', m')" by (simp add: serve_post_def)
  with webhook_signed [OF this assms(2) Some] show ?thesis by blast
next
  case None
  then obtain h where h: "map_of kickoff_endpoints path = Some h"
    using assms by (cases "map_of kickoff_endpoints path") (auto simp: serve_post_def split: if_splits)
  then obtain mk where mk: "map_of kickoff_messages path = Some mk" and "h = kickoff_endpoint mk"
    using kickoff_endpoint_message by blast
  with None h assms(1) have "kickoff_endpoint mk E routes rq (tr, m) = (r, tr', m')" by (simp add: serve_post_def)
  with kickoff_endpoint_token [OF this assms(2) mk] show ?thesis by blast
qed

text \<open>
  On a configuration the program started with the service is one of the document: its secret passed
  the policy, and its kickoff, if there is one, is limited.
\<close>

lemma routed_services:
  assumes "retrieve_services_by_route E routes urls key = Inr (Some sv)"
  shows "\<exists>e. routed routes e \<and> route_services e = sv"
  using retrieve_services_routed [OF assms] unfolding routed_def by blast

lemma configured_service:
  assumes "config_ok E S (cfg, routes)" and "retrieve_services_by_route E routes urls key = Inr (Some sv)"
  shows "well_formed E sv" and "dget cfg (scm_moniker (sv_scm sv)) = Some sv"
proof -
  obtain e where e: "routed routes e" "route_services e = sv" using routed_services [OF assms(2)] by blast
  then show c: "dget cfg (scm_moniker (sv_scm sv)) = Some sv" using assms(1) unfolding config_ok_def by blast
  show "well_formed E sv" using assms(1) c unfolding config_ok_def by blast
qed

end
