(* ===== verification/TaskManager.thy ===== *)
theory TaskManager
  imports PyBase
begin

text \<open>
  \<open>task_management/__init__.py\<close>: the threads that hand coroutines to the background loop, the loop that
  completes them, and the lock and the list of monitored futures they share. Which thread moves next
  is up to the scheduler, so the component is a step relation, with one rule per action between two
  points where another thread can run. The lemmas show that \<open>wait_for_exit\<close> returns only when every task
  has ended, that a callback finds its future in the list, and that a task that ends too early stops
  the service: its callback runs in the thread that holds the lock, and waits for it.
\<close>


section \<open>State\<close>

type_synonym future = nat

text \<open>
  Where a thread is in \<open>in_background\<close>: outside, in the block of the lock, with the future of its
  coroutine, with the callback added to it, in the callback itself, and with the future appended.
\<close>

datatype web_pc = Outside | Entered | Submitted future | Watched future | CallsBack future | Leaving

text \<open>The thread of the loop: running tasks, waiting for the lock in a callback, and logging the result.\<close>

datatype loop_pc = Running | InCallback future | Logging future

datatype holder = Web nat | Loop

record tm =
  tm_lock :: "holder option"
  tm_monitored :: "future list"
  tm_web :: "nat \<Rightarrow> web_pc"
  tm_loop :: loop_pc
  tm_next :: future
  tm_ended :: "future set"
  tm_cancelled :: "future set"
  tm_watched :: "future set"
    \<comment> \<open>the futures that have the callback\<close>

definition tm_bootstrap :: tm where
  "tm_bootstrap = \<lparr> tm_lock = None, tm_monitored = [], tm_web = (\<lambda>_. Outside), tm_loop = Running, tm_next = 0,
     tm_ended = {}, tm_cancelled = {}, tm_watched = {} \<rparr>"

abbreviation web_at :: "nat \<Rightarrow> web_pc \<Rightarrow> tm \<Rightarrow> tm" where
  "web_at t p s \<equiv> s\<lparr> tm_web := (tm_web s)(t := p) \<rparr>"


section \<open>Steps\<close>

text \<open>
  \<open>add_done_callback\<close> calls the callback at once, in the calling thread, when the future is done. The
  callback of a cancelled future raises when it asks for the exception, before it removes anything.
\<close>

inductive tm_step :: "tm \<Rightarrow> tm \<Rightarrow> bool" where
  acquire: "tm_lock s = None \<Longrightarrow> tm_web s t = Outside \<Longrightarrow> tm_step s (web_at t Entered (s\<lparr> tm_lock := Some (Web t) \<rparr>))"
| submit: "tm_web s t = Entered \<Longrightarrow> tm_step s (web_at t (Submitted (tm_next s)) (s\<lparr> tm_next := Suc (tm_next s) \<rparr>))"
| watch: "tm_web s t = Submitted n \<Longrightarrow> n \<notin> tm_ended s \<Longrightarrow>
    tm_step s (web_at t (Watched n) (s\<lparr> tm_watched := insert n (tm_watched s) \<rparr>))"
| watch_ended: "tm_web s t = Submitted n \<Longrightarrow> n \<in> tm_ended s \<Longrightarrow> tm_step s (web_at t (CallsBack n) s)"
| web_callback: "tm_web s t = CallsBack n \<Longrightarrow> tm_lock s = None \<Longrightarrow>
    tm_step s (web_at t (Watched n) (s\<lparr> tm_monitored := remove1 n (tm_monitored s) \<rparr>))"
| append_future: "tm_web s t = Watched n \<Longrightarrow> tm_step s (web_at t Leaving (s\<lparr> tm_monitored := tm_monitored s @ [n] \<rparr>))"
| release: "tm_web s t = Leaving \<Longrightarrow> tm_step s (web_at t Outside (s\<lparr> tm_lock := None \<rparr>))"
| finish: "tm_loop s = Running \<Longrightarrow> n < tm_next s \<Longrightarrow> n \<notin> tm_ended s \<Longrightarrow>
    tm_step s (s\<lparr> tm_ended := insert n (tm_ended s), tm_cancelled := (if c then insert n (tm_cancelled s) else tm_cancelled s),
                 tm_loop := (if n \<in> tm_watched s then InCallback n else Running) \<rparr>)"
| loop_callback: "tm_loop s = InCallback n \<Longrightarrow> tm_lock s = None \<Longrightarrow>
    tm_step s (s\<lparr> tm_lock := Some Loop, tm_loop := Logging n \<rparr>)"
| log_result: "tm_loop s = Logging n \<Longrightarrow>
    tm_step s (s\<lparr> tm_lock := None, tm_loop := Running,
                 tm_monitored := (if n \<in> tm_cancelled s then tm_monitored s else remove1 n (tm_monitored s)) \<rparr>)"

abbreviation tm_reachable :: "tm \<Rightarrow> bool" where
  "tm_reachable \<equiv> tm_step\<^sup>*\<^sup>* tm_bootstrap"

text \<open>\<open>wait_for_exit\<close> looks at the list under the lock, and returns when it is empty.\<close>

definition wait_for_exit_returns :: "tm \<Rightarrow> bool" where
  "wait_for_exit_returns s \<longleftrightarrow> tm_lock s = None \<and> tm_monitored s = []"


section \<open>Invariants\<close>

text \<open>The lock is held by the one thread that is in its block.\<close>

definition logging :: "tm \<Rightarrow> bool" where
  "logging s = (case tm_loop s of Logging n \<Rightarrow> True | _ \<Rightarrow> False)"

definition lock_ok :: "tm \<Rightarrow> bool" where
  "lock_ok s = (case tm_lock s of
       None \<Rightarrow> (\<forall>t. tm_web s t = Outside) \<and> \<not> logging s
     | Some Loop \<Rightarrow> (\<forall>t. tm_web s t = Outside) \<and> logging s
     | Some (Web t) \<Rightarrow> tm_web s t \<noteq> Outside \<and> (\<forall>u. u \<noteq> t \<longrightarrow> tm_web s u = Outside) \<and> \<not> logging s)"

lemma lock_ok_web: "lock_ok s \<Longrightarrow> tm_web s t = p \<Longrightarrow> p \<noteq> Outside \<Longrightarrow> tm_lock s = Some (Web t)"
  by (auto simp: lock_ok_def split: option.splits holder.splits) metis

lemma lock_ok_loop: "lock_ok s \<Longrightarrow> tm_loop s = Logging n \<Longrightarrow> tm_lock s = Some Loop"
  by (auto simp: lock_ok_def logging_def split: option.splits holder.splits)

lemma lock_ok_step:
  assumes "tm_step s s'" and "lock_ok s"
  shows "lock_ok s'"
  using assms
proof (cases rule: tm_step.cases)
  case (acquire t)
  then show ?thesis using assms(2) by (simp add: lock_ok_def logging_def)
next
  case (finish n c)
  then show ?thesis using assms(2) by (simp add: lock_ok_def logging_def split: option.splits holder.splits)
next
  case (loop_callback n)
  then show ?thesis using assms(2) by (simp add: lock_ok_def logging_def)
next
  case (log_result n)
  then show ?thesis using assms(2) lock_ok_loop [OF assms(2)] by (simp add: lock_ok_def logging_def)
next
  case (web_callback t n)
  then show ?thesis using lock_ok_web [OF assms(2)] by fastforce
qed (use lock_ok_web [OF assms(2)] assms(2) in \<open>fastforce simp: lock_ok_def logging_def\<close>)+

definition watching :: "tm \<Rightarrow> future \<Rightarrow> bool" where
  "watching s n \<longleftrightarrow> (\<exists>t. tm_web s t = Watched n)"

definition submitted :: "tm \<Rightarrow> future \<Rightarrow> bool" where
  "submitted s n \<longleftrightarrow> (\<exists>t. tm_web s t = Submitted n \<or> tm_web s t = CallsBack n)"

text \<open>Every task made is either on its way to its callback or has it, and no future is entered twice.\<close>

definition futures_ok :: "tm \<Rightarrow> bool" where
  "futures_ok s \<longleftrightarrow> (\<forall>n. n < tm_next s \<longleftrightarrow> n \<in> tm_watched s \<or> submitted s n) \<and> (\<forall>n. submitted s n \<longrightarrow> n \<notin> tm_watched s)
     \<and> (\<forall>n. watching s n \<longrightarrow> n \<in> tm_watched s \<and> n \<notin> set (tm_monitored s)) \<and> distinct (tm_monitored s)
     \<and> set (tm_monitored s) \<subseteq> tm_watched s"

text \<open>What the list says about the tasks that have ended.\<close>

definition ending_ok :: "tm \<Rightarrow> bool" where
  "ending_ok s \<longleftrightarrow> (\<forall>n\<in>tm_watched s. n \<in> tm_ended s \<or> n \<in> set (tm_monitored s) \<or> watching s n)
     \<and> (\<forall>n. tm_loop s = InCallback n \<or> tm_loop s = Logging n \<longrightarrow>
          n \<in> tm_watched s \<inter> tm_ended s \<and> (n \<in> set (tm_monitored s) \<or> watching s n))
     \<and> (\<forall>n\<in>tm_watched s \<inter> tm_ended s. n \<in> set (tm_monitored s) \<or> watching s n \<longrightarrow>
          tm_loop s = InCallback n \<or> tm_loop s = Logging n \<or> n \<in> tm_cancelled s)"

text \<open>Only the thread that holds the lock has a future in its hands.\<close>

lemma in_hand_web:
  assumes "lock_ok s" and "tm_lock s = Some (Web t)"
  shows "watching s n \<longleftrightarrow> tm_web s t = Watched n" and "submitted s n \<longleftrightarrow> tm_web s t = Submitted n \<or> tm_web s t = CallsBack n"
proof -
  have "u = t" if "tm_web s u \<noteq> Outside" for u using assms that by (auto simp: lock_ok_def)
  then show "watching s n \<longleftrightarrow> tm_web s t = Watched n" and "submitted s n \<longleftrightarrow> tm_web s t = Submitted n \<or> tm_web s t = CallsBack n"
    unfolding watching_def submitted_def by (metis web_pc.distinct)+
qed

lemma in_hand_none:
  assumes "lock_ok s" and "tm_lock s = None \<or> tm_lock s = Some Loop"
  shows "\<not> watching s n" and "\<not> submitted s n"
  using assms by (auto simp: lock_ok_def watching_def submitted_def)

text \<open>A step of a thread in its block, seen from that thread.\<close>

lemma in_hand_step:
  assumes "lock_ok s" and "tm_web s t = p" and "p \<noteq> Outside"
  shows "watching s n \<longleftrightarrow> p = Watched n" and "submitted s n \<longleftrightarrow> p = Submitted n \<or> p = CallsBack n"
  using in_hand_web [OF assms(1) lock_ok_web [OF assms]] assms(2) by simp_all

definition tm_ok :: "tm \<Rightarrow> bool" where
  "tm_ok s \<longleftrightarrow> lock_ok s \<and> futures_ok s \<and> ending_ok s"

lemma tm_ok_web:
  assumes step: "tm_step s s'" and ok: "tm_ok s" and pc: "tm_web s t = p" "p \<noteq> Outside"
    and pc': "tm_web s' t = p'" "p' \<noteq> Outside"
  shows "watching s n \<longleftrightarrow> p = Watched n" and "submitted s n \<longleftrightarrow> p = Submitted n \<or> p = CallsBack n"
    and "watching s' n \<longleftrightarrow> p' = Watched n" and "submitted s' n \<longleftrightarrow> p' = Submitted n \<or> p' = CallsBack n"
proof -
  have l: "lock_ok s" and l': "lock_ok s'" using ok lock_ok_step [OF step] by (simp_all add: tm_ok_def)
  show "watching s n \<longleftrightarrow> p = Watched n" and "submitted s n \<longleftrightarrow> p = Submitted n \<or> p = CallsBack n"
    using in_hand_step [OF l pc] by blast+
  show "watching s' n \<longleftrightarrow> p' = Watched n" and "submitted s' n \<longleftrightarrow> p' = Submitted n \<or> p' = CallsBack n"
    using in_hand_step [OF l' pc'] by blast+
qed

lemma invariants_web_step:
  assumes step: "tm_step s s'" and ok: "tm_ok s" and pc: "tm_web s t = p" "p \<noteq> Outside"
    and pc': "tm_web s' t = p'" "p' \<noteq> Outside"
    and frame: "tm_loop s' = tm_loop s" "tm_ended s' = tm_ended s" "tm_cancelled s' = tm_cancelled s"
    and kind: "\<exists>n. p = Entered \<and> p' = Submitted (tm_next s) \<and> tm_next s' = Suc (tm_next s) \<and> tm_watched s' = tm_watched s
          \<and> tm_monitored s' = tm_monitored s
      \<or> p = Submitted n \<and> p' = Watched n \<and> n \<notin> tm_ended s \<and> tm_next s' = tm_next s \<and> tm_watched s' = insert n (tm_watched s)
          \<and> tm_monitored s' = tm_monitored s
      \<or> p = Submitted n \<and> p' = CallsBack n \<and> tm_next s' = tm_next s \<and> tm_watched s' = tm_watched s \<and> tm_monitored s' = tm_monitored s
      \<or> p = Watched n \<and> p' = Leaving \<and> tm_next s' = tm_next s \<and> tm_watched s' = tm_watched s \<and> tm_monitored s' = tm_monitored s @ [n]"
  shows "futures_ok s'" and "ending_ok s'"
proof -
  note hands = tm_ok_web [OF step ok pc pc']
  have f: "futures_ok s" and e: "ending_ok s" using ok by (simp_all add: tm_ok_def)
  show "futures_ok s'"
    using f kind unfolding futures_ok_def hands by (elim exE disjE) (auto simp: less_Suc_eq)
  show "ending_ok s'"
    using e kind f unfolding ending_ok_def futures_ok_def hands frame by (elim exE disjE) auto
qed

text \<open>Entering and leaving the block, and the steps of the loop, leave the hands of the threads as they are.\<close>

lemma in_hand_same:
  assumes "\<And>n. watching s' n = watching s n" and "\<And>n. submitted s' n = submitted s n"
    and "tm_next s' = tm_next s" and "tm_watched s' = tm_watched s"
    and "distinct (tm_monitored s')" and "set (tm_monitored s') \<subseteq> set (tm_monitored s)" and "futures_ok s"
  shows "futures_ok s'"
  using assms unfolding futures_ok_def by auto

lemma futures_ok_step:
  assumes step: "tm_step s s'" and ok: "tm_ok s"
  shows "futures_ok s'"
proof -
  have l: "lock_ok s" and l': "lock_ok s'" and f: "futures_ok s"
    using ok lock_ok_step [OF step] by (simp_all add: tm_ok_def)
  have d: "distinct (tm_monitored s)" using f by (simp add: futures_ok_def)
  from step show ?thesis
  proof (cases rule: tm_step.cases)
    case (acquire t)
    have "watching s' n = watching s n" "submitted s' n = submitted s n" for n
      using in_hand_none [OF l] in_hand_web [OF l', of t] acquire by simp_all
    then show ?thesis by (rule in_hand_same) (use acquire d f in simp_all)
  next
    case (release t)
    have "watching s' n = watching s n" "submitted s' n = submitted s n" for n
      using in_hand_none [OF l'] in_hand_step [OF l, of t Leaving] release by simp_all
    then show ?thesis by (rule in_hand_same) (use release d f in simp_all)
  next
    case (web_callback t n)
    then show ?thesis using lock_ok_web [OF l] by fastforce
  next
    case (log_result n)
    show ?thesis
      by (rule in_hand_same [OF _ _ _ _ _ _ f])
        (use log_result d in \<open>auto simp: watching_def submitted_def dest: set_remove1_subset [THEN subsetD]\<close>)
  qed (use invariants_web_step(1) [OF step ok] in_hand_same [OF _ _ _ _ _ _ f] d
      in \<open>auto simp: watching_def submitted_def\<close>)
qed

lemma ending_ok_step:
  assumes step: "tm_step s s'" and ok: "tm_ok s"
  shows "ending_ok s'"
proof -
  have l: "lock_ok s" and l': "lock_ok s'" and f: "futures_ok s" and e: "ending_ok s"
    using ok lock_ok_step [OF step] by (simp_all add: tm_ok_def)
  have d: "distinct (tm_monitored s)" using f by (simp add: futures_ok_def)
  from step show ?thesis
  proof (cases rule: tm_step.cases)
    case (acquire t)
    have w: "watching s' n = watching s n" for n
      using in_hand_none [OF l] in_hand_web [OF l', of t] acquire by simp
    show ?thesis using e acquire unfolding ending_ok_def w by simp
  next
    case (release t)
    have w: "watching s' n = watching s n" for n
      using in_hand_none [OF l'] in_hand_step [OF l, of t Leaving] release by simp
    show ?thesis using e release unfolding ending_ok_def w by simp
  next
    case (web_callback t n)
    then show ?thesis using lock_ok_web [OF l] by fastforce
  next
    case (finish n c)
    have w: "watching s' m = watching s m" for m using finish by (simp add: watching_def)
    show ?thesis using e finish unfolding ending_ok_def w by auto
  next
    case (loop_callback n)
    have w: "watching s' m = watching s m" for m using loop_callback by (simp add: watching_def)
    show ?thesis using e loop_callback unfolding ending_ok_def w by auto
  next
    case (log_result n)
    have w: "\<not> watching s m" "\<not> watching s' m" for m
      using in_hand_none(1) [OF l] in_hand_none(1) [OF l'] lock_ok_loop [OF l] log_result by simp_all
    then show ?thesis using e log_result(2) d unfolding ending_ok_def w by (auto simp: log_result(1))
  qed (use invariants_web_step(2) [OF step ok] in auto)
qed

lemma tm_reachable_ok: "tm_reachable s \<Longrightarrow> tm_ok s"
proof (induction rule: rtranclp_induct)
  case base
  show ?case
    by (simp add: tm_ok_def lock_ok_def logging_def futures_ok_def ending_ok_def watching_def submitted_def tm_bootstrap_def)
next
  case (step s s')
  then show ?case using lock_ok_step futures_ok_step ending_ok_step by (simp add: tm_ok_def)
qed


section \<open>Properties\<close>

text \<open>No task is lost: while one has not ended, the program waits for it.\<close>

lemma exit_means_ended:
  assumes "tm_reachable s" and "wait_for_exit_returns s" and "n < tm_next s"
  shows "n \<in> tm_ended s"
proof -
  have ok: "tm_ok s" by (rule tm_reachable_ok [OF assms(1)])
  then have none: "\<not> watching s n" "\<not> submitted s n"
    using in_hand_none assms(2) by (auto simp: tm_ok_def wait_for_exit_returns_def)
  then show ?thesis
    using ok assms(2,3) by (auto simp: tm_ok_def futures_ok_def ending_ok_def wait_for_exit_returns_def)
qed

text \<open>Conversely nothing holds the program up but a task, or one that was cancelled.\<close>

lemma ended_means_exit:
  assumes "tm_reachable s" and "tm_lock s = None" and "tm_loop s = Running" and "tm_cancelled s = {}"
    and "\<And>n. n < tm_next s \<Longrightarrow> n \<in> tm_ended s"
  shows "wait_for_exit_returns s"
proof -
  have ok: "futures_ok s" "ending_ok s" using tm_reachable_ok [OF assms(1)] by (simp_all add: tm_ok_def)
  have "n \<notin> set (tm_monitored s)" for n
  proof
    assume n: "n \<in> set (tm_monitored s)"
    with ok(1) have "n \<in> tm_watched s" "n < tm_next s" by (auto simp: futures_ok_def)
    with n assms ok(2) show False by (auto simp: ending_ok_def)
  qed
  then have "tm_monitored s = []" by (cases "tm_monitored s") auto
  then show ?thesis using assms(2) by (simp add: wait_for_exit_returns_def)
qed

text \<open>The removal in the callback always finds the future.\<close>

lemma removal_finds:
  assumes "tm_reachable s" and "tm_loop s = Logging n"
  shows "n \<in> set (tm_monitored s)"
proof -
  have ok: "lock_ok s" "ending_ok s" using tm_reachable_ok [OF assms(1)] by (simp_all add: tm_ok_def)
  then have "\<not> watching s n" using in_hand_none(1) lock_ok_loop assms(2) by blast
  then show ?thesis using ok(2) assms(2) by (auto simp: ending_ok_def)
qed

text \<open>
  A task that ends before its callback is added: the thread then waits for the lock it holds, for
  ever, and no thread can hand over another task.
\<close>

lemma self_lock_step:
  assumes "tm_step s s'" and "lock_ok s" and "tm_web s t = CallsBack n"
  shows "tm_web s' t = CallsBack n" and "tm_next s' = tm_next s" and "tm_monitored s' = tm_monitored s"
proof -
  have lock: "tm_lock s = Some (Web t)" using lock_ok_web assms(2,3) by blast
  then have others: "tm_web s u = Outside" if "u \<noteq> t" for u using assms(2) that by (simp add: lock_ok_def)
  have idle: "\<not> logging s" using assms(2) lock by (simp add: lock_ok_def)
  from assms(1) show "tm_web s' t = CallsBack n" "tm_next s' = tm_next s" "tm_monitored s' = tm_monitored s"
    by (cases rule: tm_step.cases; use lock others idle assms(3) in \<open>auto simp: logging_def\<close>;
        metis others assms(3) web_pc.distinct)+
qed

lemma self_lock_forever:
  assumes "tm_reachable s" and "tm_web s t = CallsBack n" and "tm_step\<^sup>*\<^sup>* s s'"
  shows "tm_web s' t = CallsBack n \<and> tm_next s' = tm_next s \<and> tm_lock s' = Some (Web t)"
  using assms(3)
proof (induction rule: rtranclp_induct)
  case base
  then show ?case using assms(1,2) tm_reachable_ok lock_ok_web by (fastforce simp: tm_ok_def)
next
  case (step u v)
  have "tm_reachable u" using assms(1) step.hyps(1) by simp
  then have u: "lock_ok u" using tm_reachable_ok by (simp add: tm_ok_def)
  with step self_lock_step [OF step.hyps(2) u] lock_ok_web [OF lock_ok_step [OF step.hyps(2) u]] show ?case by fastforce
qed

lemma self_lock_reachable: "\<exists>s. tm_reachable s \<and> tm_web s 0 = CallsBack 0"
proof -
  define a where "a = web_at 0 Entered (tm_bootstrap\<lparr> tm_lock := Some (Web 0) \<rparr>)"
  define b where "b = web_at 0 (Submitted (tm_next a)) (a\<lparr> tm_next := Suc (tm_next a) \<rparr>)"
  define c where "c = b\<lparr> tm_ended := insert 0 (tm_ended b), tm_cancelled := (if False then insert 0 (tm_cancelled b) else tm_cancelled b),
    tm_loop := (if 0 \<in> tm_watched b then InCallback 0 else Running) \<rparr>"
  define e where "e = web_at 0 (CallsBack 0) c"
  note defs = a_def b_def c_def e_def tm_bootstrap_def
  have "tm_step tm_bootstrap a" unfolding a_def by (rule tm_step.acquire) (simp_all add: tm_bootstrap_def)
  moreover have "tm_step a b" unfolding b_def by (rule tm_step.submit) (simp add: a_def)
  moreover have "tm_step b c" unfolding c_def by (rule tm_step.finish) (simp_all add: defs)
  moreover have "tm_step c e" unfolding e_def by (rule tm_step.watch_ended) (simp_all add: defs)
  ultimately have "tm_reachable e" by (meson converse_rtranclp_into_rtranclp rtranclp.rtrancl_refl)
  then show ?thesis by (auto simp: e_def)
qed

end
