(* ===== verification/LogRedaction.thy ===== *)
theory LogRedaction
  imports PyBase
begin

text \<open>
  \<open>cxoneflow_logging/__init__.py\<close>: the registry of secrets and the stream handler that hides them. The
  regular expressions are those of Python's \<open>re\<close>: \<open>re_escape\<close> and \<open>finditer\<close> are parameters, a match
  is the spans of its named groups, and what is assumed of \<open>finditer\<close> is that spans lie in the text.
  The set-up of the loggers is the dictionary that \<open>logging.config.dictConfig\<close> gets. The lemmas show that
  a message keeps its length, that exactly the matched characters are hidden, and that every handler
  of the root logger hides them.
\<close>


section \<open>The registry\<close>

type_synonym registry = "string list"

definition default_regex :: string where
  "default_regex = ''(?P<header>Auth.+:.*'' @ [CHR 0x5C] @ ''w+ )(?P<secret>.+?)(['' @ [CHR 0x5C, CHR 0x27, CHR 0x5C, CHR 0x22] @ '']|$)''"

definition compiled_regex :: "registry \<Rightarrow> string" where
  "compiled_regex secrets =
     (if secrets = [] then default_regex else default_regex @ ''|(?P<any>('' @ join ''|'' secrets @ ''))'')"

definition register :: "(string \<Rightarrow> string) \<Rightarrow> string option \<Rightarrow> registry \<Rightarrow> string option \<times> registry" where
  "register re_escape secret secrets =
     (secret, case secret of
        None \<Rightarrow> secrets
      | Some s \<Rightarrow> if s \<in> set secrets then secrets
                 else secrets @ [re_escape (filter (\<lambda>c. c \<noteq> CHR 10 \<and> c \<noteq> CHR 13) s)])"


section \<open>The handler\<close>

text \<open>The spans of the groups \<open>secret\<close> and \<open>any\<close>; a group without part in the match has the span from -1 to -1.\<close>

record redaction =
  grp_secret :: "(nat \<times> nat) option"
  grp_any :: "(nat \<times> nat) option"

definition spans :: "redaction \<Rightarrow> (nat \<times> nat) list" where
  "spans m = (case grp_secret m of None \<Rightarrow> [] | Some s \<Rightarrow> [s]) @ (case grp_any m of None \<Rightarrow> [] | Some s \<Rightarrow> [s])"

definition mask :: "nat \<times> nat \<Rightarrow> string \<Rightarrow> string" where
  "mask = (\<lambda>(i, j) msg. take i msg @ replicate (j - i) CHR ''*'' @ drop j msg)"

text \<open>The iterator runs over the message as it was formatted; the masks are put on one after the other.\<close>

definition format :: "(string \<Rightarrow> string \<Rightarrow> redaction list) \<Rightarrow> registry \<Rightarrow> string \<Rightarrow> string" where
  "format finditer secrets msg = fold mask (concat (map spans (finditer (compiled_regex secrets) msg))) msg"


section \<open>The set-up of the loggers\<close>

definition get_log_level :: "string dict \<Rightarrow> string" where
  "get_log_level environ = (case dget environ ''LOG_LEVEL'' of None \<Rightarrow> ''INFO'' | Some l \<Rightarrow> l)"

text \<open>\<open>config["loggers"]["root"]["level"] = ...\<close> on what was read from the file.\<close>

definition jset :: "json \<Rightarrow> string \<Rightarrow> json \<Rightarrow> exc + json" where
  "jset j k v = (case j of JObj d \<Rightarrow> Inr (JObj (dset k v d)) | _ \<Rightarrow> Inl TypeError)"

definition load_logging_config_dict :: "(string \<Rightarrow> exc + json) \<Rightarrow> string dict \<Rightarrow> string \<Rightarrow> exc + json" where
  "load_logging_config_dict load environ filename =
     ebind (load filename) (\<lambda>config.
     ebind (jget config ''loggers'') (\<lambda>loggers.
     ebind (jget loggers ''root'') (\<lambda>root.
     ebind (jset root ''level'' (JStr (get_log_level environ))) (\<lambda>root'.
     ebind (jset loggers ''root'' root') (\<lambda>loggers'.
     jset config ''loggers'' loggers')))))"

text \<open>The path of a log file is computed, but the handler for it is commented out.\<close>

definition dest_file_path :: "(string \<Rightarrow> bool) \<Rightarrow> int \<Rightarrow> string" where
  "dest_file_path exists pid =
     (if exists ''/var/log/cxoneflow'' then ''/var/log/cxoneflow/cxoneflow.'' @ dec pid @ ''.log''
      else ''cxoneflow.'' @ dec pid @ ''.log'')"

definition log_cfg :: "string dict \<Rightarrow> json" where
  "log_cfg environ = JObj
     [(''version'', JInt 1),
      (''handlers'', JObj
         [(''console'', JObj [(''class'', JStr ''cxoneflow_logging.RedactingStreamHandler''), (''formatter'', JStr ''default''),
            (''stream'', JStr ''ext://sys.stdout'')])]),
      (''formatters'', JObj
         [(''default'', JObj [(''format'', JStr ''[%(asctime)s][%(process)d][%(name)s][%(levelname)s] %(message)s''),
            (''datefmt'', JStr ''%Y-%m-%dT%H:%M:%S%z'')])]),
      (''loggers'', JObj [(''root'', JObj [(''handlers'', JArr [JStr ''console'']), (''level'', JStr (get_log_level environ))])])]"

text \<open>The classes of the handlers that the root logger names.\<close>

definition root_handler_classes :: "json \<Rightarrow> exc + json list" where
  "root_handler_classes cfg =
     ebind (ebind (jget cfg ''loggers'') (\<lambda>l. ebind (jget l ''root'') (\<lambda>r. ebind (jget r ''handlers'') as_list))) (\<lambda>hs.
     ebind (jget cfg ''handlers'') (\<lambda>defs.
     emapM (\<lambda>h. ebind (as_str h) (\<lambda>name. ebind (jget defs name) (\<lambda>d. jget d ''class''))) hs))"


section \<open>Properties\<close>

definition in_text :: "string \<Rightarrow> nat \<times> nat \<Rightarrow> bool" where
  "in_text msg = (\<lambda>(i, j). i \<le> j \<and> j \<le> length msg)"

definition covers :: "nat \<Rightarrow> nat \<times> nat \<Rightarrow> bool" where
  "covers k = (\<lambda>(i, j). i \<le> k \<and> k < j)"

lemma length_mask: "in_text msg sp \<Longrightarrow> length (mask sp msg) = length msg"
  by (cases sp) (simp add: mask_def in_text_def)

lemma nth_mask: "in_text msg sp \<Longrightarrow> k < length msg \<Longrightarrow> mask sp msg ! k = (if covers k sp then CHR ''*'' else msg ! k)"
  by (cases sp) (auto simp: mask_def in_text_def covers_def nth_append)

lemma masks:
  assumes "\<forall>sp\<in>set sps. in_text msg sp"
  shows "length (fold mask sps msg) = length msg
    \<and> (\<forall>k<length msg. fold mask sps msg ! k = (if \<exists>sp\<in>set sps. covers k sp then CHR ''*'' else msg ! k))"
  using assms
proof (induction sps arbitrary: msg)
  case (Cons sp sps)
  have sp: "in_text msg sp" using Cons.prems by simp
  have "\<forall>q\<in>set sps. in_text (mask sp msg) q" using Cons.prems length_mask [OF sp] by (simp add: in_text_def)
  from Cons.IH [OF this] show ?case by (auto simp: length_mask [OF sp] nth_mask [OF sp])
qed simp

lemma format_masks:
  assumes "\<forall>m\<in>set (finditer (compiled_regex secrets) msg). \<forall>sp\<in>set (spans m). in_text msg sp"
  shows "length (format finditer secrets msg) = length msg"
    and "k < length msg \<Longrightarrow> format finditer secrets msg ! k =
      (if \<exists>m\<in>set (finditer (compiled_regex secrets) msg). \<exists>sp\<in>set (spans m). covers k sp then CHR ''*'' else msg ! k)"
  using masks [of "concat (map spans (finditer (compiled_regex secrets) msg))" msg] assms by (auto simp: format_def)

lemma root_redacts: "root_handler_classes (log_cfg environ) = Inr [JStr ''cxoneflow_logging.RedactingStreamHandler'']"
  by (simp add: root_handler_classes_def log_cfg_def)

lemma jset_jget: "jset j k v = Inr j' \<Longrightarrow> jget j' k = Inr v"
  by (cases j) (auto simp: jset_def)

lemma loaded_level:
  assumes "load_logging_config_dict load environ filename = Inr cfg"
  shows "ebind (jget cfg ''loggers'') (\<lambda>l. ebind (jget l ''root'') (\<lambda>r. jget r ''level'')) = Inr (JStr (get_log_level environ))"
  using assms by (auto simp: load_logging_config_dict_def ebind_Inr_iff dest!: jset_jget)

text \<open>A secret that escaping changes is entered each time it is registered: the test looks for its plain form.\<close>

lemma register_again:
  assumes "s \<notin> set secrets" and "re_escape (filter (\<lambda>c. c \<noteq> CHR 10 \<and> c \<noteq> CHR 13) s) \<noteq> s"
  shows "length (snd (register re_escape (Some s) (snd (register re_escape (Some s) secrets)))) = length secrets + 2"
  using assms by (auto simp: register_def)

end
