(* ===== verification/Scenario.thy ===== *)
theory Scenario
  imports Broker Integrations Conformance AgentConfig WebApi TaskManager LogRedaction
begin

text \<open>
  A concrete outside world, on which the hypotheses of the properties can be checked and the
  model can be run: \<open>env0\<close> answers every external call, \<open>services0\<close> is one configured service, and
  the events are payloads an SCM sends. None of this models code of the program.
\<close>


section \<open>JSON paths\<close>

text \<open>
  The fragment of the query language that the payload queries use: dotted names, a bracket with
  an index, a list of names, or a star; an empty name also descends into lists.
\<close>

fun split_at :: "char \<Rightarrow> string \<Rightarrow> string \<times> string" where
  "split_at sep [] = ([], [])"
| "split_at sep (c # cs) = (if c = sep then ([], cs) else (case split_at sep cs of (a, b) \<Rightarrow> (c # a, b)))"

fun child :: "string \<Rightarrow> json \<Rightarrow> json list" where
  "child k (JObj d) = (case dget d k of Some v \<Rightarrow> [v] | None \<Rightarrow> [])"
| "child k _ = []"

fun elements_of :: "json \<Rightarrow> json list" where
  "elements_of (JArr xs) = xs"
| "elements_of _ = []"

definition bracket :: "string \<Rightarrow> json \<Rightarrow> json list" where
  "bracket s j =
     (if s = ''*'' then elements_of j
      else if s = ''0'' then take 1 (elements_of j)
      else concat (map (\<lambda>k. child k j) (split_on CHR '','' s)))"

fun path_step :: "string \<Rightarrow> json list \<Rightarrow> json list" where
  "path_step p js =
     (case split_at CHR ''['' p of (nm, br) \<Rightarrow>
        let js1 = (if nm = [] then (if br = [] then js @ concat (map elements_of js) else js)
                   else concat (map (child nm) js)) in
        if br = [] then js1 else concat (map (bracket (fst (split_at CHR '']'' br))) js1))"

definition find0 :: "string \<Rightarrow> json \<Rightarrow> json list" where
  "find0 q j = fold path_step (tl (split_on CHR ''.'' q)) [j]"


section \<open>The world\<close>

definition ok_response :: "json \<Rightarrow> response" where
  "ok_response j = \<lparr> status_code = 200, body = j, resp_headers = [] \<rparr>"

definition inspector0 :: inspector where
  "inspector0 = \<lparr> ins_project_id = ''p1'', ins_scan_id = ''s1'', executing = True, failed = False, successful = False,
     state_msg = ''Running'' \<rparr>"

fun cx_api0 :: "string \<Rightarrow> json \<Rightarrow> response" where
  "cx_api0 f a =
     (if f = ''retrieve_list_of_projects'' then ok_response (JObj [(''filteredTotalCount'', JInt 0)])
      else if f = ''create_a_project'' then ok_response (JObj [(''id'', JStr ''p1'')])
      else if f = ''ScanInvoker.scan_get_response'' then ok_response (JObj [(''id'', JStr ''s1'')])
      else if f = ''retrieve_report_status'' then ok_response (JObj [(''status'', JStr ''completed'')])
      else ok_response (JObj []))"

text \<open>Every HTTP request is answered with an empty list; the clock advances with the calls.\<close>

fun elapsed :: "trace \<Rightarrow> int" where
  "elapsed [] = 0"
| "elapsed (Sleep s # tr) = max s 0 + elapsed tr"
| "elapsed (_ # tr) = elapsed tr"

definition env0 :: env where
  "env0 = \<lparr> jp_find = find0, json_loads = (\<lambda>s. Inr (JStr s)), re_match = (\<lambda>p s. prefix p s),
     re_search = (\<lambda>p s. sublist p s), fnmatch = (\<lambda>s p. s = p \<or> p = ''*''), hmac_hex = (\<lambda>alg k p. k @ p),
     url_split = (\<lambda>u. (''https'', ''scm'', u, [], [])), url_unsplit = (\<lambda>(s, n, p, q, f). s @ '':'' @ n @ p),
     url_parse = (\<lambda>u. (''https'', ''scm'', u, [], [], [])), url_unparse = (\<lambda>(s, n, p, r, q, f). s @ '':'' @ n @ p),
     url_quote_plus = id, url_quote = id, url_quote_all = id, shlex_quote = id, b64encode = id, b64decode_utf8 = Inr, utf8_decode = Inr,
     clone_url_org = (\<lambda>_ _. Inr (JStr ''o'')), list_set = remdups,
     jwt_encode = (\<lambda>j k. k), jwt_encode_alg = (\<lambda>j k a. k @ a),
     jwt_decode = (\<lambda>t k a. if t = ''jwt'' then Inr (JObj [(''exp'', JInt 1000)]) else Inl (LibException ''InvalidTokenError'')),
     key_class_of = (\<lambda>_. RSAKey), url3_parse = (\<lambda>_. Inl ValueError), url3_str = (\<lambda>_. []),
     sign = (\<lambda>k d. k), verify = (\<lambda>k s d. if s = k then Inr () else Inl ValueError), repr = (\<lambda>_. ''{}''),
     isoformat = dec, fromisoformat = (\<lambda>s. py_int (JStr s)), filters_with_defaults = (\<lambda>f d. Inr d),
     compute_filters = (\<lambda>f e. Inr (JStr [])), exc_str = (\<lambda>_. ''error''), pickle = (\<lambda>_. []), version = ''1'',
     agent_name = ''CxOneFlow'', process_uuid = ''u'', uid_gid = ''1:1'', fuel = 30, now = elapsed,
     cx_api = (\<lambda>tr f a. Inr (cx_api0 f a)), cx_obj = (\<lambda>tr f a. Inr (JArr [])),
     cx_inspector = (\<lambda>tr s. Inr inspector0),
     cx_repo_config = (\<lambda>tr p. Inr \<lparr> prc_id = JStr ''p1'', prc_name = JStr ''r'', prc_tags = [], prc_json = JObj [] \<rparr>),
     cx_break_build = (\<lambda>tr p s. Inr False), cx_policy_violations = (\<lambda>tr p s. Inr None), gzip = id,
     json_dumps = (\<lambda>_. ''{}''), hash_algorithms = [''sha256''], cx_pages = (\<lambda>tr f a. []),
     scan_inspector_of = (\<lambda>j. Inr inspector0), http = (\<lambda>tr m u a. Inr (ok_response (JArr []))),
     run_proc = (\<lambda>tr c w. Inr \<lparr> returncode = 0, stderr = [], stdout = ''log'' \<rparr>), path_isfile = (\<lambda>tr p. False), path_exists = (\<lambda>tr p. False), fs_reply = (\<lambda>tr e. True),
     mkdtemp = (\<lambda>tr d. ''/tmp/x''), dir_tree = (\<lambda>tr d. [File ''a.py'']), zip_write = (\<lambda>tr es. Inr ()),
     os_environ = [], mq_reply = (\<lambda>tr e. Inr True) \<rparr>"

definition session0 :: api_session where
  "session0 = \<lparr> api_endpoint = ''https://scm'', ses_auth = StaticAuthFactory (BasicAuth ''u'' ''p''), ses_timeout = 60, ses_retries = 3,
     ses_proxies = JNull, ses_verify = JBool True \<rparr>"

definition scm0 :: scm_service where
  "scm0 = SCMService env0 ''https://scm'' ''svc'' session0 ''secret'' (using_token_auth ''t'' False)"

definition cxone0 :: cxone_service where
  "cxone0 = \<lparr> cx_moniker = ''svc'', display_link = ''https://cx'', default_engine_config = [], default_scan_tags = [],
     default_project_tags = [], rename_legacy = False, update_groups = False, group_routes = [] \<rparr>"

definition pr_workflow0 :: pr_workflow where
  "pr_workflow0 = \<lparr> prw_excluded_severities = [INFO], prw_excluded_states = [], prw_enabled = True, prw_interval = 90,
     prw_scan_timeout = 48 \<rparr>"

definition push_workflow0 :: push_workflow where
  "push_workflow0 = \<lparr> psw_enabled = False, psw_interval = 90, psw_scan_timeout = 48 \<rparr>"

definition services0 :: services where
  "services0 = \<lparr> sv_cxone = cxone0, sv_scm = scm0,
     sv_pr = \<lparr> prs_moniker = ''svc'', prs_server_base_url = ''https://flow'', prs_workflow = pr_workflow0 \<rparr>,
     sv_poll = configured_poll env0 600 2,
     sv_push = \<lparr> pss_moniker = ''svc'', pss_agents = [], pss_sarif_opts = JNull, pss_workflow = push_workflow0 \<rparr>,
     sv_resolver = \<lparr> rs_moniker = ''svc'', default_tag = None, project_tag_key = ''resolver'',
       rs_workflow = DummyResolverScanningWorkflow, allowed_agent_tags = None \<rparr>,
     sv_kickoff = KickoffService ''key'' ''svc'' 3, sv_naming = \<lparr> naming_coro = None \<rparr> \<rparr>"

definition routes0 :: scm_routes where
  "routes0 = map (\<lambda>k. (k, [\<lparr> route_matcher = ''https://scm'', route_services = services0 \<rparr>]))
     [''gh'', ''gl'', ''adoe'', ''bbdc'', ''bbc'']"


section \<open>Events\<close>

definition gh_push_ctx :: event_context where
  "gh_push_ctx =
     \<lparr> raw_event_payload = ''payload'',
       headers = [(''X-Github-Event'', ''push''), (''X-Hub-Signature-256'', ''sha256=secretpayload'')],
       message = JObj
         [(''ref'', JStr ''refs/heads/main''), (''after'', JStr ''c0ffee''),
          (''repository'', JObj
             [(''name'', JStr ''r''), (''owner'', JObj [(''name'', JStr ''o''), (''login'', JStr ''o'')]),
              (''default_branch'', JStr ''main''), (''clone_url'', JStr ''https://scm/o/r.git''),
              (''ssh_url'', JStr ''ssh://scm/o/r.git'')])] \<rparr>"

definition gh_push0 :: github where
  "gh_push0 = (case GithubOrchestrator env0 gh_push_ctx of Inr g \<Rightarrow> g)"

definition gl_push_ctx :: event_context where
  "gl_push_ctx =
     \<lparr> raw_event_payload = ''payload'', headers = [(''X-Gitlab-Token'', ''secret'')],
       message = JObj
         [(''object_kind'', JStr ''push''), (''ref'', JStr ''refs/heads/main''), (''after'', JStr ''c0ffee''),
          (''before'', JStr ''beef''), (''ref_protected'', JBool True),
          (''project'', JObj
             [(''path_with_namespace'', JStr ''g/r''), (''default_branch'', JStr ''main''),
              (''git_http_url'', JStr ''https://scm/g/r.git'')])] \<rparr>"

definition gl_push0 :: gitlab where
  "gl_push0 = (case GitlabOrchestrator env0 gl_push_ctx of Inr g \<Rightarrow> g)"

definition ado_push_ctx :: event_context where
  "ado_push_ctx =
     \<lparr> raw_event_payload = ''payload'', headers = [(''Authorization'', ''Basic user:secret'')],
       message = JObj
         [(''eventType'', JStr ''git.push''),
          (''resourceContainers'', JObj [(''collection'', JObj [(''baseUrl'', JStr ''https://scm/coll/'')])]),
          (''resource'', JObj
             [(''refUpdates'', JArr [JObj [(''name'', JStr ''refs/heads/main''), (''newObjectId'', JStr ''c0ffee'')]]),
              (''repository'', JObj
                 [(''id'', JStr ''7''), (''name'', JStr ''r''), (''project'', JObj [(''name'', JStr ''p'')]),
                  (''defaultBranch'', JStr ''refs/heads/main''), (''remoteUrl'', JStr ''https://scm/coll/p/_git/r'')])])] \<rparr>"

definition ado_push0 :: adoe where
  "ado_push0 = (case AzureDevOpsEnterpriseOrchestrator env0 ado_push_ctx of Inr a \<Rightarrow> a)"

definition bbdc_push_ctx :: event_context where
  "bbdc_push_ctx =
     \<lparr> raw_event_payload = ''payload'',
       headers = [(''X-Event-Key'', ''repo:refs_changed''), (''X-Hub-Signature'', ''sha256=secretpayload'')],
       message = JObj
         [(''changes'', JArr [JObj [(''type'', JStr ''UPDATE''), (''toHash'', JStr ''c0ffee''),
             (''ref'', JObj [(''displayId'', JStr ''main'')])]]),
          (''repository'', JObj
             [(''slug'', JStr ''r''), (''name'', JStr ''r''), (''project'', JObj [(''key'', JStr ''P''), (''name'', JStr ''p'')]),
              (''links'', JObj [(''clone'', JArr [JObj [(''name'', JStr ''http''), (''href'', JStr ''https://scm/P/r.git'')]])])])] \<rparr>"

definition bbdc_push0 :: bbdc where
  "bbdc_push0 = (case BitBucketDataCenterOrchestrator env0 bbdc_push_ctx of Inr b \<Rightarrow> b)"

definition ko0 :: kickoff where
  "ko0 = \<lparr> k_ctx = \<lparr> raw_event_payload = ''payload'', headers = [(''Authorization'', ''Bearer jwt'')], message = JNull \<rparr>,
     k_msg = \<lparr> ko_clone_urls = JArr [JStr ''https://scm/o/r.git''], ko_branch_name = JStr ''main'', ko_sha = JStr ''c0ffee'',
       ko_repo = GithubKickoff (JStr ''o'') (JStr ''r'') \<rparr>,
     k_clone_urls = [(''http'', JStr ''https://scm/o/r.git'')], k_route_urls = [JStr ''https://scm/o/r.git''] \<rparr>"

text \<open>A server that answers every request with the data of the repository and its branch model.\<close>

definition env_repo :: env where
  "env_repo = env0\<lparr> http := (\<lambda>tr m u a. Inr (ok_response (JObj
     [(''sshUrl'', JStr ''ssh://scm/coll/p/r''), (''value'', JArr []),
      (''development'', JObj [(''displayId'', JStr ''main'')])]))) \<rparr>"

definition services_repo :: services where
  "services_repo = services0\<lparr> sv_scm := SCMService env_repo ''https://scm'' ''svc'' session0 ''secret'' (using_token_auth ''t'' False) \<rparr>"

definition await0 :: scan_await_message where
  "await0 = \<lparr> timestamp = ''0'', correlation_id = ''u'', moniker = ''svc'', state = AWAIT, workflow = PR,
     workflow_details = [], scanid = ''s1'', projectid = ''p1'', drop_by = ''100'' \<rparr>"

definition incoming0 :: incoming where
  "incoming0 = \<lparr> in_body = Inr (AwaitMsg await0),
     in_headers = [(''x-death'', JArr [JObj [(''original-expiration'', JStr ''90000'')]])],
     routing_key = ''cx.pr.await.pull-request.svc'' \<rparr>"

text \<open>The same world, in which the scan has ended well.\<close>

definition env1 :: env where
  "env1 = env0\<lparr> cx_inspector := (\<lambda>tr s. Inr (inspector0\<lparr> executing := False, successful := True \<rparr>)) \<rparr>"

text \<open>A scan that ends after two polls, each ten seconds after the one before, and its message in the queue.\<close>

definition env_live :: env where
  "env_live = env0\<lparr> cx_inspector := (\<lambda>tr s. Inr (inspector0\<lparr> executing := polls s tr < 2, successful := True \<rparr>)),
     now := (\<lambda>tr. 10 * int (polls ''s1'' tr)) \<rparr>"

definition publish0 :: event where
  "publish0 = MqPublish EXCHANGE_SCAN_INPUT (await_topic PR ''svc'') (AwaitMsg await0) (Some 90000) []"

definition queued0 :: queued where
  "queued0 = \<lparr> q_name = QUEUE_SCAN_WAIT,
     q_msg = \<lparr> in_body = Inr (AwaitMsg await0), in_headers = [], routing_key = await_topic PR ''svc'' \<rparr>, q_expiration = Some 90000 \<rparr>"

definition broker_live :: "event list \<Rightarrow> broker" where
  "broker_live tr = (broker0 tr mem0)\<lparr> pool := [queued0], started := [publish0] \<rparr>"

definition delegated0 :: delegated_scan_message where
  "delegated0 = \<lparr> timestamp = ''0'', correlation_id = ''u'', moniker = ''svc'', state = EXECUTE, workflow = PUSH,
     details = \<lparr> ds_clone_url = JStr ''https://scm/o/r.git'', ds_commit_hash = JStr ''c0ffee'', scan_branch = JStr ''main'',
       scan_tags = [], file_filters = JStr [], project_id = JStr ''p1'', pickled_scm_service = [],
       pickled_cxone_service = [], ds_event_context = gh_push_ctx,
       orchestrator = ''orchestration.gh.GithubOrchestrator'', cxoneflow_version = ''1'' \<rparr>,
     details_signature = ''key'', capture_logs = False \<rparr>"

definition expired0 :: incoming where
  "expired0 = \<lparr> in_body = Inr (DelegatedMsg delegated0),
     in_headers = [(''x-death'', JArr [JObj [(''reason'', JStr ''expired'')]]), (retry_header_key, JInt 3)],
     routing_key = ''cx.res.exec.sca-resolver.run-scan.java.svc'' \<rparr>"

definition resolver0 :: resolver_service where
  "resolver0 = \<lparr> rs_moniker = ''svc'', default_tag = Some ''java'', project_tag_key = ''resolver'',
     rs_workflow = from_private_key False ''key'' 3 3600, allowed_agent_tags = Some [''java''] \<rparr>"

definition pr_details0 :: pr_details where
  "pr_details0 = \<lparr> clone_url = JStr ''https://scm/o/r.git'', repo_project = JStr ''r'', repo_slug = JStr ''r'',
     organization = JStr ''o'', source_branch = JStr ''dev'',
     det_event_context = \<lparr> raw_event_payload = ''payload'', headers = [], message = JStr ''payload'' \<rparr>,
     pr_id = JStr ''1'', target_branch = JStr ''main'', target_hash = JStr ''beef'', source_hash = JStr ''c0ffee'' \<rparr>"

definition vulnerability0 :: "string \<Rightarrow> json" where
  "vulnerability0 sev = JObj [(''state'', JStr ''To Verify''), (''severity'', JStr sev), (''sourceFileName'', JStr ''/a.py''),
     (''sourceLine'', JInt 7), (''resultViewerLink'', JStr ''https://cx/r'')]"

definition feedback0 :: feedback where
  "feedback0 = \<lparr> excluded_severities = [INFO], excluded_states = [], fb_display = ''https://cx'', fb_project = ''p1'',
     fb_scan = ''s1'',
     report = JObj [(''scanResults'', JObj [(''resultsList'', JArr [JObj
       [(''queryDescriptionLink'', JStr ''https://cx/q''), (''queryName'', JStr ''SQLi''),
        (''vulnerabilities'', JArr [vulnerability0 ''Low'', vulnerability0 ''High'', vulnerability0 ''Info''])]])])],
     permalink = (\<lambda>d f l. Inr ''https://scm/a.py''), fb_pr = pr_details0, policy_violations = None \<rparr>"

definition comment0 :: md_comment where
  "comment0 = (case MarkdownFeedback env0 feedback0 ''https://flow'' of Inr c \<Rightarrow> c)"

text \<open>Worlds with one reply changed: GitHub grants a token, GitHub lists a protected branch, git refuses.\<close>

definition env_token :: env where
  "env_token = env0\<lparr> http := (\<lambda>tr m u a. Inr (ok_response (JObj [(''token'', JStr ''tok''), (''expires_at'', JStr ''500'')]))) \<rparr>"

definition app_ctx :: event_context where
  "app_ctx = \<lparr> raw_event_payload = ''payload'', headers = [(app_id_header, ''7'')],
     message = JObj [(''installation'', JObj [(''id'', JInt 5)])] \<rparr>"

definition env_branches :: env where
  "env_branches = env0\<lparr> http := (\<lambda>tr m u a. Inr (ok_response (JArr [JObj [(''name'', JStr ''release'')]]))) \<rparr>"

definition scm_branches :: scm_service where
  "scm_branches = SCMService env_branches ''https://scm'' ''svc'' session0 ''secret'' (using_token_auth ''t'' False)"

definition gh_data0 :: gh_data where
  "gh_data0 = \<lparr> g_project_key = JStr ''r'', g_org = JStr ''o'', g_pr_id = JNull, g_target_branch = JStr ''main'',
     g_source_branch = JStr ''main'', g_target_hash = JStr ''c0ffee'', g_source_hash = JStr ''c0ffee'', g_is_draft = False,
     g_pr_state = JNull, g_pr_status = JNull \<rparr>"

definition env_refused :: env where
  "env_refused = env0\<lparr> run_proc := (\<lambda>tr c w. Inr \<lparr> returncode = 128, stderr = ''fatal: Invalid username or password'', stdout = [] \<rparr>) \<rparr>"

definition repo_config0 :: repo_config where
  "repo_config0 = \<lparr> prc_id = JStr ''p1'', prc_name = JStr ''r'', prc_tags = [], prc_json = JObj [] \<rparr>"

definition client0 :: ko_client where
  "client0 = \<lparr> kc_key = ''key'', kc_url = ''https://flow/gh/kickoff'', kc_user_agent = ''test'', kc_proxies = JNull,
     kc_ssl_verify = JBool True \<rparr>"

text \<open>The server is always busy.\<close>

definition env_busy :: env where
  "env_busy = env0\<lparr> http := (\<lambda>tr m u a. Inr \<lparr> status_code = 429,
     body = KickoffResponseMsg_to_dict \<lparr> running_scans = [], started_scan = None \<rparr>, resp_headers = [] \<rparr>) \<rparr>"

text \<open>Azure DevOps lists one policy and one branch; Bitbucket Cloud lists a comment this program wrote.\<close>

definition policy0 :: json where
  "policy0 = JObj [(''refName'', JStr ''refs/heads/rel''), (''repositoryId'', JStr ''7''), (''matchKind'', JStr ''Prefix'')]"

definition policy_reply :: json where
  "policy_reply = JObj [(''value'', JArr [JObj [(''name'', JStr ''refs/heads/rel/1''),
     (''settings'', JObj [(''scope'', JArr [policy0])])]])]"

definition env_policy :: env where
  "env_policy = env0\<lparr> http := (\<lambda>tr m u a. Inr (ok_response policy_reply)) \<rparr>"

definition scm_policy :: scm_service where
  "scm_policy = SCMService env_policy ''https://scm'' ''svc'' session0 ''secret'' (using_token_auth ''t'' False)"

definition written_comment :: json where
  "written_comment = JObj [(''id'', JInt 5), (''content'', JObj [(''raw'', JStr comment_identifier)])]"

definition env_comments :: env where
  "env_comments = env0\<lparr> http := (\<lambda>tr m u a. Inr (ok_response (JObj [(''values'', JArr [written_comment])]))) \<rparr>"

definition scm_comments :: scm_service where
  "scm_comments = SCMService env_comments ''https://scm'' ''svc'' session0 ''secret'' (using_token_auth ''t'' False)"


text \<open>A configuration document for one GitLab service, the files it names, and a kickoff request for a repository of it.\<close>

definition secret0 :: string where
  "secret0 = ''Aa1!Bb2!Cc3!longenough''"

definition startup0 :: startup where
  "startup0 = \<lparr> st_file = (\<lambda>p. Some (if p = ''/s/secret'' then secret0 else ''token'')), st_exists = (\<lambda>p. False),
     st_isdir = (\<lambda>p. False), st_keyfile = id, st_cpu_count = 4, st_uuid = ''uuid'', st_regex_valid = (\<lambda>r. True),
     st_module = (\<lambda>n. Inl (LibException ''ModuleNotFoundError'')), st_ssh_key = Inr, st_private_key = Inr,
     st_auth_regions = [''US''], st_api_regions = [''US''], st_display_endpoint = (\<lambda>c. ''https://cx''), st_sarif_opts = [] \<rparr>"

definition yaml0 :: json where
  "yaml0 = JObj
     [(''server-base-url'', JStr ''https://flow''), (''secret-root-path'', JStr ''/s''),
      (''gl'', JArr [JObj
         [(''service-name'', JStr ''svc''), (''repo-match'', JStr ''https://scm''),
          (''connection'', JObj [(''base-url'', JStr ''https://scm''), (''shared-secret'', JStr ''secret''),
             (''api-auth'', JObj [(''token'', JStr ''token'')])]),
          (''cxone'', JObj [(''tenant'', JStr ''t''), (''iam-endpoint'', JStr ''US''), (''api-endpoint'', JStr ''US''),
             (''api-key'', JStr ''key'')]),
          (''feedback'', JObj [(''pull-request'', JObj [(''enabled'', JBool True)])]),
          (''scan-agent'', JObj [(''private-key'', JStr ''key''), (''allowed-agent-tags'', JArr [JStr ''java'']),
             (''default-agent-tag'', JStr ''java'')]),
          (''kickoff'', JObj [(''ssh-public-key'', JStr ''key'')])]])]"

definition kickoff_body :: json where
  "kickoff_body = JObj [(''clone_urls'', JArr [JStr ''https://scm/g/r.git'']), (''branch_name'', JStr ''main''),
     (''sha'', JStr ''c0ffee''), (''repo_path_with_namespace'', JStr ''g/r'')]"

definition env_boot :: env where
  "env_boot = env0\<lparr> re_match := (\<lambda>p s. prefix ''(?i)'' p \<and> prefix (drop 4 p) s), json_loads := (\<lambda>s. Inr kickoff_body),
     cx_pages := (\<lambda>tr f a. [Inl ValueError]) \<rparr>"

definition booted :: "exc + server_config" where
  "booted = bootstrap env_boot startup0 (\<lambda>mk. Inr ''https://cx'') yaml0"

definition config0 :: server_config where
  "config0 = projr booted"

definition request0 :: http_request where
  "request0 = \<lparr> rq_json = Inr kickoff_body, rq_data = ''payload'', rq_headers = [(''Authorization'', ''Bearer jwt'')],
     rq_content_type = ''application/json'' \<rparr>"


text \<open>The scan agent of the tag, its document, and a request with the right and one with a wrong signature.\<close>

definition agent_yaml0 :: "json dict" where
  "agent_yaml0 = [(''secret-root-path'', JStr ''/s''),
     (''serviced-tags'', JObj [(''java'', JObj [(''public-key'', JStr ''key''), (''resolver-path'', JStr ''/opt/ScaResolver'')])])]"

definition runner0 :: runner_agent where
  "runner0 = \<lparr> ra_tag = ''java'', ra_public_key = ''key'',
     ra_runner = ResolverShellRunner (Some ''/tmp'') None (Some ''/opt/ScaResolver'') None \<rparr>"

definition pem0 :: pem_lib where
  "pem0 = \<lparr> load_pem_public_key = (\<lambda>p. Inr (EcKey p)), load_pem_private_key = (\<lambda>p. Inr (EcKey p)),
     public_key_of = (\<lambda>k. case k of EcKey p \<Rightarrow> p | RsaKey p \<Rightarrow> p | OtherAsymKey p \<Rightarrow> p), key_sign = (\<lambda>sc k d. d),
     key_verify = (\<lambda>sc k sig d. if sig = d then Inr () else Inl (LibException ''InvalidSignature'')) \<rparr>"

definition unpickler0 :: unpickler where
  "unpickler0 = \<lparr> unpickle_scm = (\<lambda>_. Inr (Some scm0)), unpickle_cxone = (\<lambda>_. Inr (Some cxone0)), ag_pem = pem0 \<rparr>"

definition delegated_in :: "string \<Rightarrow> incoming" where
  "delegated_in sig = \<lparr> in_body = Inr (DelegatedMsg (delegated0\<lparr> details_signature := sig \<rparr>)), in_headers = [],
     routing_key = ''cx.res.exec.sca-resolver.run-scan.java.svc'' \<rparr>"


section \<open>The hypotheses hold there\<close>

lemma config0_booted: "bootstrap env_boot startup0 (\<lambda>mk. Inr ''https://cx'') yaml0 = Inr config0"
proof -
  have "\<not> isl booted" by code_simp
  then have "booted = Inr config0" by (simp add: config0_def)
  then show ?thesis by (simp add: booted_def)
qed

lemma config0_pair: "bootstrap env_boot startup0 (\<lambda>mk. Inr ''https://cx'') yaml0 = Inr (fst config0, snd config0)"
  by (simp add: config0_booted)

lemma config0_service: "\<exists>sv. dget (fst config0) ''svc'' = Some sv"
proof -
  have "case booted of Inr st \<Rightarrow> ''svc'' \<in> fst ` set (fst st) | Inl e \<Rightarrow> False" by code_simp
  then have "''svc'' \<in> fst ` set (fst config0)"
    unfolding config0_booted [folded booted_def] by simp
  then show ?thesis by (metis map_of_eq_None_iff not_Some_eq)
qed

lemma env_boot_broker [simp]: "settling_ok env_boot" "broker_ok env_boot" "mq_up env_boot"
  by (auto simp: settling_ok_def broker_ok_def mq_up_def env_boot_def env0_def)

lemma agents0:
  "\<exists>agents w. agents_bootstrap env0 startup0 (JObj agent_yaml0) ([], mem0) = (Inr agents, w)
     \<and> fst (spawn_scan_agents env0 agents ([], mem0)) = Inr ()"
proof -
  have "case fst (agents_bootstrap env0 startup0 (JObj agent_yaml0) ([], mem0)) of
      Inl e \<Rightarrow> False | Inr agents \<Rightarrow> \<not> isl (fst (spawn_scan_agents env0 agents ([], mem0)))" by code_simp
  then obtain agents w where run: "agents_bootstrap env0 startup0 (JObj agent_yaml0) ([], mem0) = (Inr agents, w)"
    and spawn: "\<not> isl (fst (spawn_scan_agents env0 agents ([], mem0)))"
    by (cases "agents_bootstrap env0 startup0 (JObj agent_yaml0) ([], mem0)") (auto split: sum.splits)
  from spawn obtain u where "fst (spawn_scan_agents env0 agents ([], mem0)) = Inr u"
    by (cases "fst (spawn_scan_agents env0 agents ([], mem0))") auto
  with run show ?thesis by auto
qed

lemma request0_acts: "fst (snd (serve_post env_boot (snd config0) ''/gl/kickoff'' request0 ([], mem0))) \<noteq> []"
  by code_simp

lemma scm0_http [simp]: "http_scm scm0" "http_scm (sv_scm services0)"
  by (simp_all add: scm0_def services0_def http_scm_SCMService)

lemma routes0_http: "dget routes0 key = Some rs \<Longrightarrow> e \<in> set rs \<Longrightarrow> http_scm (sv_scm (route_services e))"
  by (auto simp: routes0_def split: if_splits)

lemma repo_http [simp]: "http_scm (sv_scm services_repo)"
  by (simp add: services_repo_def http_scm_SCMService)

lemma env0_sdk [simp]: "sdk_raises_own env0" "sdk_raises_own env_repo"
  by (simp_all add: sdk_raises_own_def env0_def env_repo_def)

lemma env0_mq [simp]: "mq_up env0" "mq_up env1" "broker_ok env0"
  by (simp_all add: mq_up_def broker_ok_def env0_def env1_def)

lemma env_live_scan: "mq_up env_live" "ends_after env_live await0 2" "waits_for await0 queued0"
proof -
  have "fromisoformat env_live (drop_by await0) = Inr 100" by code_simp
  then show "ends_after env_live await0 2"
    by (simp add: ends_after_def env_live_def env0_def) (auto simp: await0_def)
qed (simp_all add: mq_up_def env_live_def env0_def waits_for_def queued0_def await0_def)

text \<open>The state after the message was published: nothing else is in the queues.\<close>

lemma broker_live_reached: "reachable E cfg routes (broker0 tr mem0) (broker_live tr)"
proof -
  have "enqueued publish0 = [queued0]"
    using scan_routes(1) [of "''svc''" PR] by (simp add: publish0_def queued0_def)
  then have "broker_step E cfg routes (broker0 tr mem0) (broker_live tr)"
    using broker_step.publish [of E cfg routes "broker0 tr mem0" "[publish0]"] by (simp add: broker_live_def broker0_def)
  then show ?thesis by simp
qed

lemma env0_cleans: "cleans env0"
  by (simp add: cleans_def env0_def)

lemma elapsed_append [simp]: "elapsed (a @ b) = elapsed a + elapsed b"
  by (induction a rule: elapsed.induct) auto

lemma elapsed_nonneg: "0 \<le> elapsed a"
  by (induction a rule: elapsed.induct) auto

lemma env0_clock [simp]: "clock_runs env0"
  by (auto simp: clock_runs_def env0_def elapsed_nonneg)

lemma policy_served:
  "ado_serves (ad_policy_request env_policy a scm_policy) [policy_reply] (\<lambda>i. if i = 0 then None else Some [])"
  "ado_serves (ad_refs_request env_policy a scm_policy) [policy_reply] (\<lambda>i. if i = 0 then None else Some [])"
  by (auto simp: ado_serves_def ad_policy_request_def ad_refs_request_def scm_policy_def SCMService_def session0_def
      session_exec_def http_req_def env_policy_def ok_def ok_response_def continuation_def bnd_app numeral_3_eq_3 Let_def)

lemma comments_served: "bbc_lists scm_comments path [[written_comment]]"
  by (auto simp: bbc_lists_def scm_comments_def SCMService_def session0_def session_exec_def http_req_def
      env_comments_def ok_def ok_response_def bnd_app numeral_3_eq_3 Let_def)

lemma expired0_request: "expired_request resolver0 expired0 delegated0 3"
  by (simp add: expired_request_def expired0_def resolver0_def from_private_key_def death_expired_def retry_header_key_def)

end
