(* ===== verification/Spec2Isabelle.thy ===== *)
theory Spec2Isabelle
  imports Scenario
begin

text \<open>
  Verification of CxOneFlow, the service that connects source code management systems (SCMs) with
  Checkmarx One: it receives webhooks, scans the code they announce, watches the scans and reports
  the results to the pull requests and to subscribers. File names below are relative to \<open>src/\<close>.

  \<^bold>\<open>The program.\<close> Four processes share the code. The web server (\<open>wsgi.py\<close>) makes an orchestrator for each
  webhook and runs it in the background, or answers a kickoff request. An orchestrator
  (\<open>orchestration\<close>) checks the signature against the service that the configuration routes its URL to,
  decides from the branches whether the event is scanned, clones the repository, submits the scan
  and starts the workflow that watches it; or it delegates the scan to an agent. The workflow agent
  (\<open>workflow_agent.py\<close>) takes messages from the broker: it polls scans, and writes comments, checks and
  SARIF reports when they end. The scan agent (\<open>cx_scan_agent.py\<close>) takes signed requests, runs the SCA
  resolver on a clone, scans and answers. The setup (\<open>rabbit_config.py\<close>) declares the exchanges and
  queues between them.

  \<^bold>\<open>How it is modelled.\<close> \<open>PyBase\<close> has the values of Python and JSON, its exceptions (\<open>exc\<close>, with the
  difference between \<open>Exception\<close> and \<open>BaseException\<close> that the handlers of the program depend on) and the
  type \<open>io\<close> of effectful code: a function from the trace of external calls and the state of the process to
  a result or an exception, a longer trace and a new state. Code without effects is a function into a
  sum, with the exception on the left. \<open>World\<close> lists the external calls (\<open>event\<close>) and the environment that
  answers them (\<open>env\<close>): the SDK of Checkmarx One, HTTP, the broker, subprocesses, files, clocks,
  cryptography, regular expressions and JSON paths. Replies may depend on everything that was called
  before, and nothing is assumed of them but what a property names. Four predicates carry the proofs:
  \<open>emits P m\<close> (all calls of \<open>m\<close> satisfy \<open>P\<close>), \<open>yields\<close> (its results do), \<open>does\<close> (result and calls, when it returns)
  and \<open>ends\<close> (however it ends); each has its rules in a collection of the prelude.

  \<^bold>\<open>The theories.\<close>
  \<^item> \<open>Messages\<close>: \<open>workflows/messaging\<close> and \<open>workflows/enums.py\<close>, the records that travel through the queues,
    and the contexts of events (\<open>api_utils/auth_factories.py\<close>).
  \<^item> \<open>ApiUtils\<close>, \<open>Signatures\<close>, \<open>Cloner\<close>: \<open>api_utils\<close> and \<open>scm_services/cloner.py\<close>; token caches, sessions with
    retries, the page generator, signatures, git commands and their failures.
  \<^item> \<open>CxOneSvc\<close>: \<open>cxone_service\<close>; projects, groups with their cache, tags, scans, reports.
  \<^item> \<open>PrContent\<close>: \<open>workflows/pr_content.py\<close>; the text of a comment, its sections and its limit.
  \<^item> \<open>Workflows\<close>: \<open>workflows\<close>, the pull request and push services and the polling of scans; a locale states
    what the polling expects of a feedback service, and both services are instances.
  \<^item> \<open>Resolver\<close>: \<open>workflows/resolver_workflow.py\<close>, \<open>resolver_scan_service.py\<close>; the request for a delegated
    scan and its retries, with the step relation that the handler of timeouts refines.
  \<^item> \<open>ScmServices\<close>: \<open>scm_services\<close>; comments, statuses and checks of the five SCMs.
  \<^item> \<open>OrchBase\<close>, \<open>OrchCommon\<close>: \<open>orchestration/base.py\<close>, \<open>orchestration/__init__.py\<close>; the template of a scan,
    routes and dispatch. The locale \<open>scm_orchestrator\<close> states what the template needs of an SCM; \<open>GhOrch\<close>,
    \<open>GlOrch\<close>, \<open>AdoOrch\<close>, \<open>BbOrch\<close> (both editions of Bitbucket) and \<open>Kickoff\<close> interpret it.
  \<^item> \<open>Kickoff\<close>: \<open>orchestration/kickoff\<close>, \<open>kickoff_services\<close>, \<open>cxoneflow_kickoff_api\<close>; service and client.
  \<^item> \<open>Topology\<close>, \<open>Agents\<close>: \<open>rabbit_config.py\<close>, \<open>workflow_agent.py\<close>, \<open>agent/resolver/results_agent.py\<close> and
    \<open>timeout_agent.py\<close>; what is declared at the broker, where messages go, and who settles them.
  \<^item> \<open>Broker\<close>: the queues between the processes as a step relation; messages are published, expire, and are
    delivered to the handlers of \<open>Agents\<close>, whose publications are routed by the declarations of \<open>Topology\<close>.
  \<^item> \<open>ResolverAgent\<close>, \<open>AgentConfig\<close>: \<open>agent\<close>, \<open>config/resolver\<close>, \<open>cx_scan_agent.py\<close>; the scan agent.
  \<^item> \<open>ConfigReader\<close>, \<open>ScmConfig\<close>, \<open>ServerConfig\<close>: \<open>config\<close>; from the YAML document to the services and routes.
  \<^item> \<open>WebApi\<close>: \<open>wsgi.py\<close>. \<open>TaskManager\<close>: \<open>task_management\<close>, a step relation over the threads.
    \<open>LogRedaction\<close>: \<open>cxoneflow_logging\<close>.
  \<^item> \<open>Integrations\<close>: \<open>examples\<close> and the naming scripts of \<open>manual\<close>. \<open>Conformance\<close>: the assertions of \<open>tests\<close>.
  \<^item> \<open>Scenario\<close>: a concrete world, documents and events, on which the hypotheses of the properties are
    discharged and the model is run.

  \<^bold>\<open>What is shown.\<close> A posted request acts only on behalf of a configured service that its signature or
  token belongs to, and the configuration of a server that starts is well formed (C1, C6 to C10). However
  an event ends, it submits at most one scan, and what is reported is what was done (C2 to C5, C11). A
  message of the broker is settled once, reaches the queue of its handler, and leads to the right
  feedback; together with the broker, a scan is reported at most as often as it was started, and a scan
  that ends is reported (C12 to C17). Delegated scans are requested, served, answered and given up as the protocol of
  their retries says (C18 to C21). Background tasks are waited for, and one interleaving blocks (C22, C23).
  The remaining properties are about comments and their limit, the branches an SCM protects, clones, the
  groups and tags of projects, waiting and its end, serialisation and signatures. The proofs are in the
  theory of each component; the properties here compose them.

  \<^bold>\<open>Bounds and fuel.\<close> The loops without a bound of their own (pages, polling of reports, the retries of
  the kickoff client) take fuel from the environment; running out is the outcome \<open>Diverges\<close>, which no handler
  catches, and properties that say a loop ends show that the fuel named there is enough: 21 rounds for the
  timeout of a report, one page more than there are, one round more than the waits a callback allows.
  Integers are unbounded as in Python.

  \<^bold>\<open>Not modelled.\<close> The text of log messages, unless rendering it raises; the logging package;
  Flask, its static files and its error pages; the YAML parser and the constructor of the SDK client; the
  connection cache of the broker client; the locks of asyncio around the token caches, since a handler runs
  alone in the model; the abstract base classes whose methods only raise. \<open>asyncio.gather\<close> runs its parts in
  order. Values of the document that go into a typed argument are read at their type: the model raises
  where they are read, the program where they are used. Numbers of a document are integers.
\<close>


section \<open>Properties\<close>

text \<open>
  C1. On a configuration the program starts with, a posted request that has any effect, a call to
  the outside or a change of the state, belongs to a configured service: it is a webhook whose
  signature is valid under the shared secret of that service, which passed the complexity policy,
  or a kickoff whose bearer token is valid for the key of that service, whose number of concurrent
  scans is limited to ten.
\<close>

theorem post_authenticated:
  assumes "bootstrap E S links yaml = Inr (cfg, routes)"
    and "serve_post E routes path rq (tr, m) = (r, tr', m')" and "(tr', m') \<noteq> (tr, m)"
  shows "\<exists>sv. (signed_webhook E routes path rq sv \<or> token_kickoff E routes path rq (tr, m) sv)
    \<and> dget cfg (scm_moniker (sv_scm sv)) = Some sv \<and> policy_test shared_secret_policy (shared_secret (sv_scm sv))
    \<and> kickoff_bounded (scm_moniker (sv_scm sv)) (sv_kickoff sv)"
proof -
  obtain sv where sv: "signed_webhook E routes path rq sv \<or> token_kickoff E routes path rq (tr, m) sv"
    using post_acts [OF assms(2,3)] by blast
  then obtain urls key where "retrieve_services_by_route E routes urls key = Inr (Some sv)"
    by (auto simp: signed_webhook_def token_kickoff_def dispatch_services_def ebind_Inr_iff)
  from configured_service [OF bootstrap_ok [OF assms(1)] this] sv show ?thesis
    by (auto simp: well_formed_def well_built_def)
qed

theorem post_authenticated_witness:
  "\<exists>sv. policy_test shared_secret_policy (shared_secret (sv_scm sv)) \<and> dget (fst config0) (scm_moniker (sv_scm sv)) = Some sv"
proof -
  from run_effect [OF request0_acts, where s = mem0] obtain r tr m where
    run: "serve_post env_boot (snd config0) ''/gl/kickoff'' request0 ([], mem0) = (r, tr, m)" and eff: "(tr, m) \<noteq> ([], mem0)" by blast
  from post_authenticated [OF config0_pair run eff] show ?thesis by blast
qed

text \<open>
  C2. However the handling of a GitHub event ends, exceptions included, at most one scan was
  submitted; when it returns, a reported scan is accounted for: skipped with nothing but SCM
  requests sent, delegated with a message published and no scan, or executing with exactly one
  scan submitted; any other result means that nothing was started or published.
\<close>

theorem github_event_accounted:
  assumes "http_scm (sv_scm sv)" and "sdk_raises_own E"
  shows "ends (gh_execute E g sv) (\<lambda>r ev. scans_in ev \<le> 1 \<and> (\<forall>x. r = Inr x \<longrightarrow> handled x ev))"
  by (rule at_most_does [OF gh_execute_capped [OF assms] gh_execute_handled [OF assms]])

theorem github_event_accounted_witness:
  "\<exists>ev m. gh_execute env0 gh_push0 services0 ([], mem0) = (Inr (RScan (Some inspector0) EXECUTING), ev, m) \<and> scans_in ev = 1"
proof -
  have "fst (gh_execute env0 gh_push0 services0 ([], mem0)) = Inr (RScan (Some inspector0) EXECUTING)"
    by code_simp
  then obtain ev m where run: "gh_execute env0 gh_push0 services0 ([], mem0) = (Inr (RScan (Some inspector0) EXECUTING), ev, m)"
    by (blast dest: run_of)
  from endsD [OF github_event_accounted [OF scm0_http(2) env0_sdk(1)] run] show ?thesis
    using run by (simp add: handled_def accounted_def)
qed

text \<open>
  C3. The same for GitLab events, where a merge request that is skipped may be preceded by the
  search for earlier scans of its commit.
\<close>

theorem gitlab_event_accounted:
  assumes "http_scm (sv_scm sv)" and "sdk_raises_own E"
  shows "ends (gl_execute E g sv) (\<lambda>r ev. scans_in ev \<le> 1 \<and> (\<forall>x. r = Inr x \<longrightarrow> mr_accounted x ev))"
  by (rule at_most_does [OF gl_execute_capped [OF assms] gl_execute_handled [OF assms]])

theorem gitlab_event_accounted_witness:
  "\<exists>ev m. gl_execute env0 gl_push0 services0 ([], mem0) = (Inr (RScan (Some inspector0) EXECUTING), ev, m) \<and> scans_in ev = 1"
proof -
  have "fst (gl_execute env0 gl_push0 services0 ([], mem0)) = Inr (RScan (Some inspector0) EXECUTING)"
    by code_simp
  then obtain ev m where run: "gl_execute env0 gl_push0 services0 ([], mem0) = (Inr (RScan (Some inspector0) EXECUTING), ev, m)"
    by (blast dest: run_of)
  from endsD [OF gitlab_event_accounted [OF scm0_http(2) env0_sdk(1)] run] show ?thesis
    using run by (simp add: mr_accounted_def accounted_def)
qed

text \<open>
  C4. The same for Azure DevOps events: however the handling ends at most one scan was submitted,
  and a reported outcome is accounted for by what was sent.
\<close>

theorem azure_event_accounted:
  assumes "http_scm (sv_scm sv)" and "sdk_raises_own E"
  shows "ends (ad_execute E a sv) (\<lambda>r ev. scans_in ev \<le> 1 \<and> (\<forall>x. r = Inr x \<longrightarrow> mr_accounted x ev))"
  by (rule at_most_does [OF ad_execute_capped [OF assms] ad_execute_handled [OF assms]])

theorem azure_event_accounted_witness:
  "\<exists>ev m. ad_execute env_repo ado_push0 services_repo ([], mem0) = (Inr (RScan (Some inspector0) EXECUTING), ev, m) \<and> scans_in ev = 1"
proof -
  have "fst (ad_execute env_repo ado_push0 services_repo ([], mem0)) = Inr (RScan (Some inspector0) EXECUTING)"
    by code_simp
  then obtain ev m where run: "ad_execute env_repo ado_push0 services_repo ([], mem0) = (Inr (RScan (Some inspector0) EXECUTING), ev, m)"
    by (blast dest: run_of)
  from endsD [OF azure_event_accounted [OF repo_http env0_sdk(2)] run] show ?thesis
    using run by (simp add: mr_accounted_def accounted_def)
qed

text \<open>
  C5. The same for the events of both editions of Bitbucket, Data Center and Cloud.
\<close>

theorem bitbucket_event_accounted:
  assumes "http_scm (sv_scm sv)" and "sdk_raises_own E"
  shows "ends (dc_execute E b sv) (\<lambda>r ev. scans_in ev \<le> 1 \<and> (\<forall>x. r = Inr x \<longrightarrow> mr_accounted x ev))
    \<and> ends (bc_execute E c sv) (\<lambda>r ev. scans_in ev \<le> 1 \<and> (\<forall>x. r = Inr x \<longrightarrow> mr_accounted x ev))"
  by (intro conjI at_most_does dc_execute_capped dc_execute_handled bc_execute_capped bc_execute_handled assms)

theorem bitbucket_event_accounted_witness:
  "\<exists>ev m. dc_execute env_repo bbdc_push0 services_repo ([], mem0) = (Inr (RScan (Some inspector0) EXECUTING), ev, m) \<and> scans_in ev = 1"
proof -
  have "fst (dc_execute env_repo bbdc_push0 services_repo ([], mem0)) = Inr (RScan (Some inspector0) EXECUTING)"
    by code_simp
  then obtain ev m where run: "dc_execute env_repo bbdc_push0 services_repo ([], mem0) = (Inr (RScan (Some inspector0) EXECUTING), ev, m)"
    by (blast dest: run_of)
  from endsD [OF bitbucket_event_accounted [OF repo_http env0_sdk(2), THEN conjunct1] run] show ?thesis
    using run by (simp add: mr_accounted_def accounted_def)
qed

text \<open>
  C6. Whatever the configuration document says, a server that starts has a well-formed
  configuration: monikers are unique, every service has a secret that passed the policy, decorates
  pull requests, agrees with its parts on the moniker, has valid agent tags, a default tag among
  them and a bounded number of kickoff scans; the tables by moniker and by SCM hold the same
  services, and no route pattern matches an arbitrary value.
\<close>

theorem configuration_well_formed:
  assumes "bootstrap E S links yaml = Inr st"
  shows "config_ok E S st"
  by (rule bootstrap_ok [OF assms])

theorem configuration_well_formed_witness: "config_ok env_boot startup0 config0"
  by (rule configuration_well_formed [OF config0_booted])

text \<open>
  C7. A GitHub webhook that has any effect carries the HMAC of its payload under the shared secret
  of a configured service whose pattern matches one of the repository URLs of the payload.
\<close>

theorem github_event_authenticated:
  assumes "dispatch_execute E cfg (gh_dispatchable E g) (tr, m) = (r, tr', m')" and "(tr', m') \<noteq> (tr, m)"
  shows "\<exists>rs e u alg. dget cfg ''gh'' = Some rs \<and> e \<in> set rs \<and> JStr u \<in> set (gh_route_urls g)
    \<and> re_match E (route_matcher e) u
    \<and> dget (headers (gh_ctx g)) ''X-Hub-Signature-256'' =
        Some (alg @ ''='' @ hmac_hex E alg (shared_secret (sv_scm (route_services e))) (raw_event_payload (gh_ctx g)))"
  by (rule gh_dispatch_signed [OF assms])

theorem github_event_authenticated_witness:
  "\<exists>alg. dget (headers gh_push_ctx) ''X-Hub-Signature-256'' = Some (alg @ ''='' @ hmac_hex env0 alg ''secret'' ''payload'')"
proof -
  have "fst (snd (dispatch_execute env0 routes0 (gh_dispatchable env0 gh_push0) ([], mem0))) \<noteq> []" by code_simp
  from run_effect [OF this, where s = mem0] obtain r tr m where
    run: "dispatch_execute env0 routes0 (gh_dispatchable env0 gh_push0) ([], mem0) = (r, tr, m)" and eff: "(tr, m) \<noteq> ([], mem0)" by blast
  have ctx: "gh_ctx gh_push0 = gh_push_ctx" "raw_event_payload gh_push_ctx = ''payload''" by code_simp+
  from github_event_authenticated [OF run eff] show ?thesis
    by (auto simp: routes0_def services0_def scm0_def SCMService_def ctx)
qed

text \<open>
  C8. A GitLab webhook that has any effect carries the shared secret of a configured service in
  its token header; an Azure DevOps webhook that has any effect carries the shared secret of a
  configured service, whose pattern matches the remote URL of the payload, as the password of its
  basic authentication.
\<close>

theorem token_event_authenticated:
  "(dispatch_execute E cfg (gl_dispatchable E g) (tr, m) = (r, tr', m') \<and> (tr', m') \<noteq> (tr, m) \<longrightarrow>
     (\<exists>rs e. dget cfg ''gl'' = Some rs \<and> e \<in> set rs
        \<and> dget (headers (gl_ctx g)) ''X-Gitlab-Token'' = Some (shared_secret (sv_scm (route_services e)))))
   \<and> (dispatch_execute E cfg (ad_dispatchable E a) (tr, m) = (r, tr', m') \<and> (tr', m') \<noteq> (tr, m) \<longrightarrow>
     (\<exists>rs e u auth credentials. dget cfg ''adoe'' = Some rs \<and> e \<in> set rs \<and> JStr u \<in> set (ad_route_urls a)
        \<and> re_match E (route_matcher e) u \<and> dget (headers (ad_ctx a)) ''Authorization'' = Some auth
        \<and> b64decode_utf8 E (last (split_on CHR '' '' auth)) = Inr credentials
        \<and> last (split_on CHR '':'' credentials) = shared_secret (sv_scm (route_services e))))"
  using gl_dispatch_token ad_dispatch_secret by (intro conjI impI; elim conjE) blast+

theorem token_event_authenticated_witness:
  "dget (headers (gl_ctx gl_push0)) ''X-Gitlab-Token'' = Some ''secret''"
proof -
  have "fst (snd (dispatch_execute env0 routes0 (gl_dispatchable env0 gl_push0) ([], mem0))) \<noteq> []" by code_simp
  from run_effect [OF this, where s = mem0] obtain r tr m where
    "dispatch_execute env0 routes0 (gl_dispatchable env0 gl_push0) ([], mem0) = (r, tr, m)" "(tr, m) \<noteq> ([], mem0)" by blast
  then show ?thesis
    using token_event_authenticated [of env0 routes0 gl_push0 "[]" mem0 r tr m]
    by (auto simp: routes0_def services0_def scm0_def SCMService_def)
qed

text \<open>
  C9. A Bitbucket webhook that has any effect, of either edition, carries the HMAC of its payload
  under the shared secret of a configured service whose pattern matches one of the repository
  URLs.
\<close>

theorem bitbucket_event_authenticated:
  assumes "dispatch_execute E cfg d (tr, m) = (r, tr', m')" and "(tr', m') \<noteq> (tr, m)"
    and "d = dc_dispatchable E b \<and> ctx = dc_ctx b \<and> urls = dc_route_urls b
       \<or> d = bc_dispatchable E c \<and> ctx = bc_ctx c \<and> urls = bc_route_urls c"
  shows "\<exists>rs e u alg. dget cfg (d_config_key d) = Some rs \<and> e \<in> set rs \<and> JStr u \<in> set urls
    \<and> re_match E (route_matcher e) u
    \<and> dget (headers ctx) ''X-Hub-Signature'' =
        Some (alg @ ''='' @ hmac_hex E alg (shared_secret (sv_scm (route_services e))) (raw_event_payload ctx))"
  by (rule bb_dispatch_signed [OF assms])

theorem bitbucket_event_authenticated_witness:
  "\<exists>alg. dget (headers bbdc_push_ctx) ''X-Hub-Signature'' = Some (alg @ ''='' @ hmac_hex env0 alg ''secret'' ''payload'')"
proof -
  have "fst (snd (dispatch_execute env0 routes0 (dc_dispatchable env0 bbdc_push0) ([], mem0))) \<noteq> []" by code_simp
  from run_effect [OF this, where s = mem0] obtain r tr m where
    run: "dispatch_execute env0 routes0 (dc_dispatchable env0 bbdc_push0) ([], mem0) = (r, tr, m)" and eff: "(tr, m) \<noteq> ([], mem0)" by blast
  have ctx: "dc_ctx bbdc_push0 = bbdc_push_ctx" "raw_event_payload bbdc_push_ctx = ''payload''" by code_simp+
  from bitbucket_event_authenticated [OF run eff, where b = bbdc_push0 and ctx = "dc_ctx bbdc_push0" and urls = "dc_route_urls bbdc_push0"]
  show ?thesis by (auto simp: routes0_def services0_def scm0_def SCMService_def ctx dc_dispatchable_def)
qed





text \<open>
  C12. Every handler the workflow agent subscribes on a configuration the program starts with
  settles its message exactly once, exceptions included; the two polling handlers, when they
  return, settle it at least once.
\<close>

theorem agent_messages_settled:
  assumes "bootstrap E S links yaml = Inr (cfg, routes)" and "settling_ok E" and "broker_ok E"
    and "dget cfg mk = Some sv" and "t \<in> set (agent_tasks E cfg routes sv)"
  shows "if task_queue t \<in> {QUEUE_SCAN_POLLING, QUEUE_SCAN_POLLING_LEGACY}
    then does (task_handler t im) (\<lambda>_ ev. 1 \<le> settled ev)
    else ends (task_handler t im) (\<lambda>r ev. r = Inl Diverges \<or> settled ev = 1)"
  using configured_tasks_settle [OF bootstrap_ok [OF assms(1)] assms(2,3,5)] by blast

theorem agent_messages_settled_witness:
  "ends (process_gen_sarif env_boot (fst config0) incoming0) (\<lambda>r ev. r = Inl Diverges \<or> settled ev = 1)"
proof -
  obtain sv where sv: "dget (fst config0) ''svc'' = Some sv" using config0_service by blast
  let ?t = "\<lparr> task_queue = QUEUE_SARIF_GEN, task_handler = process_gen_sarif env_boot (fst config0) \<rparr>"
  have "?t \<in> set (agent_tasks env_boot (fst config0) (snd config0) sv)" by (simp add: agent_tasks_def)
  from agent_messages_settled [OF config0_pair env_boot_broker(1,2) sv this, of incoming0] show ?thesis
    by (simp add: queue_names)
qed





text \<open>
  C15. When the polling of a scan returns, its message was acknowledged or rejected exactly once,
  on every path through the nested exception handlers.
\<close>

theorem poll_message_settled_once:
  assumes "broker_ok E"
  shows "does (execute_poll_scan_workflow E (configured_poll E mx sc) im) (\<lambda>_ ev. settled ev = 1)"
  by (rule poll_settles_once [OF assms])

theorem poll_message_settled_once_witness:
  "\<exists>ev m. execute_poll_scan_workflow env0 (configured_poll env0 600 2) incoming0 ([], mem0) = (Inr (), ev, m) \<and> settled ev = 1"
proof -
  have "fst (execute_poll_scan_workflow env0 (configured_poll env0 600 2) incoming0 ([], mem0)) = Inr ()" by code_simp
  then obtain ev m where run: "execute_poll_scan_workflow env0 (configured_poll env0 600 2) incoming0 ([], mem0) = (Inr (), ev, m)"
    by (blast dest: run_of)
  from doesD [OF poll_message_settled_once [OF env0_mq(3)] run] run show ?thesis by auto
qed

text \<open>
  C16. One poll of a scan: found executing it is polled again, its message published with the
  expiration multiplied by the backoff and capped, and only then acknowledged; found ended it
  leads to exactly one feedback message, on the topic of the workflow that started the scan and
  with its identity and details, which is an error exactly if the scan failed or violates a policy
  that breaks the build, and then the poll message is acknowledged.
\<close>

theorem polled_scan_handled:
  assumes "mq_up E" and "in_body im = Inr (AwaitMsg m)"
    and "fromisoformat E (drop_by m) = Inr d" and "now E tr < d"
    and "cx_inspector E (tr @ [MqClient, MqChannel]) (scanid m) = Inr ins" and "original_expiration im = Inr orig"
    and "\<And>tr'. cx_break_build E tr' (ins_project_id ins) (ins_scan_id ins) = Inr b"
  shows "if executing ins then execute_poll_scan_workflow E (configured_poll E mx sc) im (tr, s) =
      (Inr (), tr @ [MqClient, MqChannel, poll_call (scanid m), MqExchange EXCHANGE_SCAN_INPUT,
         MqPublish EXCHANGE_SCAN_INPUT (routing_key im) (AwaitMsg m) (Some (backoff_of (configured_poll E mx sc) orig)) [],
         Ack, MqClose], s)
    else \<exists>pre fb. execute_poll_scan_workflow E (configured_poll E mx sc) im (tr, s) =
      (Inr (), tr @ [MqClient, MqChannel, poll_call (scanid m)] @ pre @ fb @ [Ack, MqClose], s)
      \<and> list_all (\<lambda>e. \<not> mq_call e \<and> \<not> settles e) pre \<and> one_feedback m (scan_verdict ins b) fb"
  using poll_executing [OF assms(1-5) _ assms(6)] poll_finished [OF assms(1-5) _ assms(7)] by simp

theorem polled_scan_handled_witness:
  "(\<exists>ev. execute_poll_scan_workflow env0 (configured_poll env0 600 2) incoming0 ([], mem0) = (Inr (), ev @
      [MqPublish EXCHANGE_SCAN_INPUT (routing_key incoming0) (AwaitMsg await0) (Some 180000) [], Ack, MqClose], mem0))
   \<and> (\<exists>pre fb. execute_poll_scan_workflow env1 (configured_poll env1 600 2) incoming0 ([], mem0) =
      (Inr (), [MqClient, MqChannel, poll_call ''s1''] @ pre @ fb @ [Ack, MqClose], mem0) \<and> one_feedback await0 None fb)"
proof -
  have d: "fromisoformat env0 (drop_by await0) = Inr 100" "fromisoformat env1 (drop_by await0) = Inr 100" by code_simp+
  have x: "original_expiration incoming0 = Inr 90000" by code_simp
  have b: "backoff_of (configured_poll env0 600 2) 90000 = 180000" by (simp add: backoff_of_def configured_poll_def)
  let ?ins = "inspector0\<lparr> executing := False, successful := True \<rparr>"
  from polled_scan_handled [OF env0_mq(1) _ d(1) _ _ x, of "[]" inspector0 False 600 2 mem0] b
  have "\<exists>ev. execute_poll_scan_workflow env0 (configured_poll env0 600 2) incoming0 ([], mem0) = (Inr (), ev @
      [MqPublish EXCHANGE_SCAN_INPUT (routing_key incoming0) (AwaitMsg await0) (Some 180000) [], Ack, MqClose], mem0)"
    by (simp add: incoming0_def env0_def inspector0_def)
  moreover from polled_scan_handled [OF env0_mq(2) _ d(2) _ _ x, of "[]" ?ins False 600 2 mem0]
  have "\<exists>pre fb. execute_poll_scan_workflow env1 (configured_poll env1 600 2) incoming0 ([], mem0) =
      (Inr (), [MqClient, MqChannel, poll_call ''s1''] @ pre @ fb @ [Ack, MqClose], mem0) \<and> one_feedback await0 None fb"
    by (auto simp: incoming0_def env1_def env0_def await0_def inspector0_def scan_verdict_def)
  ultimately show ?thesis by blast
qed













text \<open>
  C23. A task that ends before its callback is added blocks the service: a state is reachable in
  which a thread waits for the lock it holds, and from then on no task is ever handed over again.
\<close>

theorem background_self_lock:
  "\<exists>s t n. tm_reachable s \<and> tm_web s t = CallsBack n
     \<and> (\<forall>s'. tm_step\<^sup>*\<^sup>* s s' \<longrightarrow> tm_lock s' = Some (Web t) \<and> tm_next s' = tm_next s)"
  using self_lock_reachable self_lock_forever by blast

theorem background_self_lock_witness: "\<exists>s. tm_reachable s \<and> \<not> wait_for_exit_returns s"
proof -
  obtain s t n where "tm_reachable s" and "\<forall>s'. tm_step\<^sup>*\<^sup>* s s' \<longrightarrow> tm_lock s' = Some (Web t) \<and> tm_next s' = tm_next s"
    using background_self_lock by blast
  then show ?thesis unfolding wait_for_exit_returns_def by (metis option.distinct(1) rtranclp.rtrancl_refl)
qed

text \<open>
  C24. A pull request comment is never longer than the limit of the SCM, whatever the number of
  results.
\<close>

theorem comment_within_limit:
  assumes "get_content E c limit = Inr s"
  shows "int (length s) \<le> limit"
  by (rule get_content_length [OF assms])

theorem comment_within_limit_witness: "\<exists>s. get_content env0 comment0 300 = Inr s \<and> s \<noteq> [] \<and> int (length s) \<le> 300"
proof -
  have "case get_content env0 comment0 300 of Inr s \<Rightarrow> s \<noteq> [] | Inl _ \<Rightarrow> False" by code_simp
  then obtain s where "get_content env0 comment0 300 = Inr s" "s \<noteq> []" by (auto split: sum.splits)
  then show ?thesis using comment_within_limit by blast
qed

text \<open>
  C25. Composition of the comment writer and the decoration services: whatever part of a comment
  was cut off to fit the limit, GitHub, GitLab and both Bitbucket services recognise it later as
  their own.
\<close>

theorem comment_recognised:
  assumes "get_content E c limit = Inr s" and "int (length (overflow_link c)) + int (length comment_identifier) + 2 < limit"
  shows "gh_own_comment (JObj [(''id'', i), (''body'', JStr s)]) = Inr (Some i)
    \<and> gl_note_target E (JObj [(''id'', i), (''body'', JStr s)]) acc = Inr (Some (pstr E i))
    \<and> bbc_own_comment (JObj [(''id'', i), (''content'', JObj [(''raw'', JStr s)])]) = Inr (Some i)
    \<and> bbdc_own_comment (JObj [(''comment'', JObj [(''id'', JInt n), (''version'', JInt v), (''threadResolved'', JBool False),
           (''permittedOperations'', JObj [(''editable'', JBool True)]), (''text'', JStr s)])]) = Inr (Some (n, v))"
  by (intro conjI marked_recognised marked_content [OF assms])

theorem comment_recognised_witness:
  "\<exists>s. get_content env0 comment0 1000 = Inr s \<and> gh_own_comment (JObj [(''id'', JInt 5), (''body'', JStr s)]) = Inr (Some (JInt 5))"
proof -
  have "(case get_content env0 comment0 1000 of Inr s \<Rightarrow> True | Inl _ \<Rightarrow> False)"
    and room: "int (length (overflow_link comment0)) + int (length comment_identifier) + 2 < 1000" by code_simp+
  then obtain s where "get_content env0 comment0 1000 = Inr s" by (auto split: sum.splits)
  with comment_recognised [OF this room] show ?thesis by blast
qed



text \<open>
  C27. In the feedback comment of a report the rows of every section are ordered by severity, and
  no section of results has a row of an excluded severity.
\<close>

theorem feedback_rows_ordered:
  assumes "MarkdownFeedback E fb base = Inr c"
  shows "sorted (map (row_severity \<circ> snd) (rows_of c k))
    \<and> (k \<noteq> PolicyRows \<longrightarrow> set (map (row_severity \<circ> snd) (rows_of c k)) \<inter> set (excluded_severities fb) = {})"
  using good_feedback [OF assms] keyed_severities [of "rows_of c k"] by (auto simp: good_def)

theorem feedback_rows_ordered_witness:
  "sorted (map (row_severity \<circ> snd) (rows_of comment0 SastRows)) \<and> length (rows_of comment0 SastRows) = 2
   \<and> INFO \<notin> set (map (row_severity \<circ> snd) (rows_of comment0 SastRows))"
proof -
  have "case MarkdownFeedback env0 feedback0 ''https://flow'' of Inr _ \<Rightarrow> True | Inl _ \<Rightarrow> False" by code_simp
  then have c: "MarkdownFeedback env0 feedback0 ''https://flow'' = Inr comment0"
    by (auto simp: comment0_def split: sum.splits)
  have "length (rows_of comment0 SastRows) = 2" by code_simp
  then show ?thesis using feedback_rows_ordered [OF c, of SastRows] by (auto simp: feedback0_def)
qed

text \<open>
  C28. The protected branches GitHub lists on any number of pages are all collected, provided the
  pages are full except the last.
\<close>

theorem github_protected_branches:
  assumes "gh_lists_branches E scm ctx d pages" and "length pages \<le> fuel E" and "concat pages \<noteq> []"
  shows "\<exists>bs w'. gh_get_protected_branches E ctx d scm w = (Inr bs, w') \<and> set bs = set (concat pages)"
  by (rule gh_protected_branches_all [OF assms])

theorem github_protected_branches_witness:
  "\<exists>bs w'. gh_get_protected_branches env_branches gh_push_ctx gh_data0 scm_branches ([], mem0) = (Inr bs, w')
     \<and> set bs = {JStr ''release''}"
proof -
  have reply: "jp_find env_branches ''$.[*].name'' (JArr [JObj [(''name'', JStr ''release'')]]) = [JStr ''release'']"
    by code_simp
  have "gh_lists_branches env_branches scm_branches gh_push_ctx gh_data0 [[JStr ''release'']]"
    using reply
    by (auto simp: gh_lists_branches_def gh_api_page_max_def scm_branches_def SCMService_def session0_def session_exec_def
        http_req_def env_branches_def ok_def ok_response_def bnd_app numeral_3_eq_3 Let_def)
  from github_protected_branches [OF this, of "([], mem0)"] show ?thesis by (simp add: env_branches_def env0_def)
qed

text \<open>
  C29. The protected branches of an Azure DevOps repository contain, over any number of pages,
  every branch that a policy of the repository names, and every branch that starts with the name
  of a prefix policy.
\<close>

theorem azure_protected_branches:
  assumes "ado_serves (ad_policy_request E a scm) ppages ptok" and "ado_serves (ad_refs_request E a scm) rpages rtok"
    and "length ppages \<le> fuel E" and "length rpages \<le> fuel E"
    and "efoldM (policy_page E a) ppages ([], []) = Inr (bs, starts)" and "efoldM (refs_page E starts) rpages bs = Inr all"
    and "\<And>xs. set (list_set E xs) = set xs"
    and "j \<in> set ppages" and "p \<in> set (jp_find E ''$.value[*].settings.scope[*]'' j)" and "policy_on a p ref mkind"
  shows "\<exists>ps w'. ad_get_protected_branches E a scm w = (Inr ps, w') \<and> JStr (normalize_branch_name ref) \<in> set ps
    \<and> (mkind = ''Prefix'' \<longrightarrow> (\<forall>k\<in>set rpages. \<forall>v. JStr v \<in> set (jp_find E ''$.value[*].name'' k)
         \<longrightarrow> startswith (normalize_branch_name v) (normalize_branch_name ref) \<longrightarrow> JStr (normalize_branch_name v) \<in> set ps))"
  by (rule ad_policy_branches [OF assms])

theorem azure_protected_branches_witness:
  "\<exists>ps w'. ad_get_protected_branches env_policy ado_push0 scm_policy ([], mem0) = (Inr ps, w')
     \<and> JStr ''rel'' \<in> set ps \<and> JStr ''rel/1'' \<in> set ps"
proof -
  have find: "jp_find env_policy ''$.value[*].settings.scope[*]'' policy_reply = [policy0]"
    "jp_find env_policy ''$.value[*].name'' policy_reply = [JStr ''refs/heads/rel/1'']" by code_simp+
  have folds: "efoldM (policy_page env_policy ado_push0) [policy_reply] ([], []) = Inr ([''rel''], [''rel''])"
    "efoldM (refs_page env_policy [''rel'']) [policy_reply] [''rel''] = Inr [''rel'', ''rel/1'']" by code_simp+
  have on: "policy_on ado_push0 policy0 ''refs/heads/rel'' ''Prefix''"
    by (simp add: policy_on_def policy0_def ado_push0_def) code_simp
  have policy_env: "fuel env_policy = 30" "list_set env_policy = remdups" by (simp_all add: env_policy_def env0_def)
  have names: "normalize_branch_name ''refs/heads/rel'' = ''rel''" "normalize_branch_name ''refs/heads/rel/1'' = ''rel/1''"
    "startswith ''rel/1'' ''rel''" by code_simp+
  from azure_protected_branches [OF policy_served _ _ folds _ _ _ on, where w = "([], mem0)" and j = policy_reply] show ?thesis
    by (auto simp: find names policy_env)
qed

text \<open>
  C30. A clone that fails to authenticate is tried once more with new credentials; a second
  failure of the same kind makes the function return None instead of raising, every other outcome
  of the second try is the outcome of the function.
\<close>

theorem clone_retried_once:
  assumes "clone_try E cx scm url hash branch prc tags ctx False w = (Inl CloneAuthException, w1)"
  shows "exec_clone_scan E cx scm url hash branch prc tags ctx w =
    (case clone_try E cx scm url hash branch prc tags ctx True w1 of
       (Inr r, w2) \<Rightarrow> (Inr (Some r), w2)
     | (Inl e, w2) \<Rightarrow> if e = CloneAuthException then (Inr None, w2) else (Inl e, w2))"
  using assms
  by (auto simp: exec_clone_scan_def numeral_2_eq_2 bnd_app attempt_app ret_def raise_def split: sum.splits prod.splits)

theorem clone_retried_once_witness:
  "fst (exec_clone_scan env_refused cxone0 scm0 ''https://scm/o/r.git'' (JStr ''c0ffee'') (JStr ''main'') repo_config0 []
     gh_push_ctx ([], mem0)) = Inr None"
proof -
  let ?c = "clone_try env_refused cxone0 scm0 ''https://scm/o/r.git'' (JStr ''c0ffee'') (JStr ''main'') repo_config0 [] gh_push_ctx"
  have "case ?c False ([], mem0) of (r, w) \<Rightarrow> r = Inl CloneAuthException \<and> fst (?c True w) = Inl CloneAuthException"
    by code_simp
  then obtain w w2 where c: "?c False ([], mem0) = (Inl CloneAuthException, w)" "?c True w = (Inl CloneAuthException, w2)"
    by (cases "?c False ([], mem0)", cases "?c True (snd (?c False ([], mem0)))") auto
  from clone_retried_once [OF c(1)] c(2) show ?thesis by simp
qed



text \<open>
  C32. Resolving the groups of a repository never raises, sends nothing but group queries, and
  keeps the invariant of the cache: no path is both resolved and counted as failing, and every
  counter is positive.
\<close>

theorem group_resolution_total:
  assumes "mem_inv m"
  shows "\<exists>ids ev m'. resolve_groups E mk routes url (tr, m) = (Inr ids, tr @ ev, m') \<and> mem_inv m' \<and> list_all group_call ev"
  using tameD [OF tame_resolve_groups assms] by blast

theorem group_resolution_total_witness:
  "\<exists>ids ev m'. resolve_groups env0 ''svc'' [\<lparr> rt_regex = ''https'', rt_groups = [''a/b''] \<rparr>] ''https://scm'' ([], mem0)
     = (Inr ids, ev, m') \<and> mem_inv m'"
  using group_resolution_total [OF mem_inv_mem0, of env0 "''svc''" "[\<lparr> rt_regex = ''https'', rt_groups = [''a/b''] \<rparr>]"
    "''https://scm''" "[]"] by auto



text \<open>
  C34. Waiting for a report ends: with a clock that advances by the delay of each poll, 21 rounds
  are enough for the timeout of 600 seconds.
\<close>

theorem report_wait_ends:
  assumes "clock_runs E" and "21 \<le> fuel E"
  shows "fst (retrieve_report E pid sid w) \<noteq> Inl Diverges"
  by (rule retrieve_report_ends [OF assms])

theorem report_wait_ends_witness: "fst (retrieve_report env0 ''p1'' ''s1'' ([], mem0)) \<noteq> Inl Diverges"
  by (rule report_wait_ends [OF env0_clock]) (simp add: env0_def)

text \<open>
  C35. After a GitHub app token was obtained, any number of calls before its expiry return that
  token without a request.
\<close>

theorem github_token_reused:
  assumes "gh_get_token E pk url (Some ctx) f (tr, m) = (Inr t, tr', m')" and "gh_cached E ctx m' = Some (t', e)"
    and "now E tr' < e"
  shows "mapM (\<lambda>_. gh_get_token E pk url (Some ctx) False) xs (tr', m') = (Inr (map (\<lambda>_. t) xs), tr', m')"
  by (rule gh_tokens.reuse_many [OF assms])

theorem github_token_reused_witness:
  "\<exists>tr m. gh_get_token env_token ''pk'' ''https://scm'' (Some app_ctx) False ([], mem0) = (Inr (JStr ''tok''), tr, m)
     \<and> length tr = 1 \<and> mapM (\<lambda>_. gh_get_token env_token ''pk'' ''https://scm'' (Some app_ctx) False) [1, 2, 3 :: nat] (tr, m)
        = (Inr [JStr ''tok'', JStr ''tok'', JStr ''tok''], tr, m)"
proof -
  let ?g = "gh_get_token env_token ''pk'' ''https://scm'' (Some app_ctx) False"
  let ?e = "case ?g ([], mem0) of (r, tr, m) \<Rightarrow> r = Inr (JStr ''tok'') \<and> length tr = 1
      \<and> gh_cached env_token app_ctx m = Some (JStr ''tok'', 500) \<and> now env_token tr < 500"
  have "?e" by code_simp
  then obtain tr m where g: "?g ([], mem0) = (Inr (JStr ''tok''), tr, m)" "length tr = 1"
    and c: "gh_cached env_token app_ctx m = Some (JStr ''tok'', 500)" "now env_token tr < 500"
    by (cases "?g ([], mem0)") auto
  from github_token_reused [OF g(1) c, of "[1, 2, 3 :: nat]"] g show ?thesis by auto
qed

text \<open>
  C36. The retry loop of the kickoff client ends when its callback gives up after k waits.
\<close>

theorem kickoff_client_ends:
  assumes "gives_up f k" and "k \<le> length (sleeps tr) + n"
  shows "fst (kickoff_scan E c msg (Some f) d (Suc n) (tr, s)) \<noteq> Inl Diverges"
  by (rule kickoff_scan_ends [OF assms])

theorem kickoff_client_ends_witness:
  "fst (kickoff_scan env_busy client0 JNull (Some (\<lambda>tr st m d. length (sleeps tr) < 4)) 15 5 ([], None)) \<noteq> Inl Diverges"
proof -
  have "gives_up (\<lambda>tr st m d. length (sleeps tr) < 4) 4" by (simp add: gives_up_def)
  from kickoff_client_ends [OF this, of "[]" 4 env_busy client0 JNull 15 None] show ?thesis by (simp del: kickoff_scan.simps)
qed







text \<open>
  C40. A log message keeps its length, and exactly the characters of the matched groups are
  replaced by stars; every handler of the root logger is one that does this.
\<close>

theorem log_redacted:
  assumes "\<forall>m\<in>set (finditer (compiled_regex secrets) msg). \<forall>sp\<in>set (spans m). in_text msg sp"
  shows "length (format finditer secrets msg) = length msg
    \<and> (\<forall>k<length msg. format finditer secrets msg ! k =
         (if \<exists>m\<in>set (finditer (compiled_regex secrets) msg). \<exists>sp\<in>set (spans m). covers k sp then CHR ''*'' else msg ! k))
    \<and> root_handler_classes (log_cfg environ) = Inr [JStr ''cxoneflow_logging.RedactingStreamHandler'']"
  using format_masks [of finditer, OF assms] root_redacts by blast

theorem log_redacted_witness:
  "format (\<lambda>pat msg. [\<lparr> grp_secret = None, grp_any = Some (4, 7) \<rparr>]) [''abc''] ''key=abc;'' ! 5 = CHR ''*''"
proof -
  let ?f = "\<lambda>(pat :: string) (msg :: string). [\<lparr> grp_secret = None, grp_any = Some (4, 7) \<rparr>]"
  have "\<forall>m\<in>set (?f (compiled_regex [''abc'']) ''key=abc;''). \<forall>sp\<in>set (spans m). in_text ''key=abc;'' sp"
    by (simp add: spans_def in_text_def)
  from log_redacted [of ?f, OF this] show ?thesis by (simp add: spans_def covers_def)
qed


end
